(* ===== verification/Go_Prelude.thy ===== *)
theory Go_Prelude
  imports Main "HOL-Library.Word" "HOL-Library.State_Monad" "HOL-Library.Multiset" "HOL-Library.Sublist"
begin

text \<open>
  The shared ground of the development: Go's error values and the functions of the
  packages errors and strings that the sources call, the world a request runs in
  (database, clock, random source, application log, finished spans), the state monad
  the sources' effectful functions are written in, and the relation that compares two
  computations up to the spans they emit.
\<close>

named_theorems io_defs \<open>definitions of the primitive effects\<close>
named_theorems err_defs \<open>the sentinel errors of the program, unfolded\<close>
named_theorems span_sims \<open>rules that compare computations up to spans\<close>

section \<open>Errors\<close>

text \<open>
  A Go error is one of
  \<^item> \<open>ErrorsNew pkg msg\<close>: a package-level variable \<open>errors.New(msg)\<close> of package \<open>pkg\<close>;
    the pair stands for the pointer, so equality is Go's pointer equality;
  \<^item> \<open>PgError code msg\<close>: a \<open>*pgconn.PgError\<close> with its SQLSTATE;
  \<^item> \<open>LibError pkg msg\<close>: any other error value a library hands back;
  \<^item> \<open>Errorf prefix e\<close>: \<open>fmt.Errorf("prefix%w", e)\<close>;
  \<^item> \<open>ErrorfSuffix e suffix\<close>: \<open>fmt.Errorf("%wsuffix", e)\<close>;
  \<^item> \<open>Joined es\<close>: \<open>errors.Join\<close> of the non-nil errors \<open>es\<close>.
\<close>

datatype go_error =
    ErrorsNew string string
  | PgError string string
  | LibError string string
  | Errorf string go_error
  | ErrorfSuffix go_error string
  | Joined "go_error list"

type_synonym 'a result = "go_error + 'a"

text \<open>\<open>errors.Is\<close>: the error itself or one it wraps is the target.\<close>

fun errors_Is :: "go_error \<Rightarrow> go_error \<Rightarrow> bool" where
  "errors_Is (Errorf p e) t = (Errorf p e = t \<or> errors_Is e t)"
| "errors_Is (ErrorfSuffix e s) t = (ErrorfSuffix e s = t \<or> errors_Is e t)"
| "errors_Is (Joined es) t = (Joined es = t \<or> list_ex (\<lambda>e. errors_Is e t) es)"
| "errors_Is e t = (e = t)"

text \<open>\<open>errors.As(err, &pgErr)\<close>: the SQLSTATE of the first \<open>*pgconn.PgError\<close> in the chain.\<close>

fun errors_As_PgError :: "go_error \<Rightarrow> string option" where
  "errors_As_PgError (PgError code msg) = Some code"
| "errors_As_PgError (Errorf p e) = errors_As_PgError e"
| "errors_As_PgError (ErrorfSuffix e s) = errors_As_PgError e"
| "errors_As_PgError (Joined []) = None"
| "errors_As_PgError (Joined (e # es)) =
     (case errors_As_PgError e of
        Some c \<Rightarrow> Some c
      | None \<Rightarrow> errors_As_PgError (Joined es))"
| "errors_As_PgError _ = None"

text \<open>\<open>err.Error()\<close>.\<close>

fun error_text :: "go_error \<Rightarrow> string" where
  "error_text (ErrorsNew pkg msg) = msg"
| "error_text (PgError code msg) = msg @ '' (SQLSTATE '' @ code @ '')''"
| "error_text (LibError pkg msg) = msg"
| "error_text (Errorf p e) = p @ error_text e"
| "error_text (ErrorfSuffix e s) = error_text e @ s"
| "error_text (Joined []) = []"
| "error_text (Joined [e]) = error_text e"
| "error_text (Joined (e # es)) = error_text e @ CHR 0x0A # error_text (Joined es)"

lemma errors_Is_self [simp]: "errors_Is e e"
  by (cases e) auto

lemma errors_Is_wrap [simp]:
  "t \<noteq> Errorf p e \<Longrightarrow> errors_Is (Errorf p e) t = errors_Is e t"
  by simp

lemma errors_Is_trans: "errors_Is e t \<Longrightarrow> errors_Is t t' \<Longrightarrow> errors_Is e t'"
proof (induction e t rule: errors_Is.induct)
  case (3 es t)
  then show ?case by (fastforce simp: list_ex_iff)
qed auto

text \<open>
  A call that can also panic: \<open>Panics msg\<close> unwinds the stack of its callers up to a
  \<open>recover\<close>, if there is one.
\<close>

datatype 'a outcome = Returns 'a | Panics string

section \<open>Strings\<close>

text \<open>\<open>strings.Cut(s, sep)\<close> for a one-byte separator: the part before it and the part after it.\<close>

fun Cut :: "string \<Rightarrow> char \<Rightarrow> string \<times> string \<times> bool" where
  "Cut [] c = ([], [], False)"
| "Cut (x # xs) c =
     (if x = c then ([], xs, True)
      else case Cut xs c of (b, a, f) \<Rightarrow> (x # b, a, f))"

text \<open>\<open>strings.SplitN(s, sep, 2)\<close> for a one-byte separator.\<close>

definition SplitN2 :: "string \<Rightarrow> char \<Rightarrow> string list" where
  "SplitN2 s c = (case Cut s c of (b, a, found) \<Rightarrow> if found then [b, a] else [s])"

text \<open>\<open>strings.SplitSeq(s, sep)\<close> for a one-byte separator: every part, in order.\<close>

fun SplitSeq :: "string \<Rightarrow> char \<Rightarrow> string list" where
  "SplitSeq [] c = [[]]"
| "SplitSeq (x # xs) c =
     (if x = c then [] # SplitSeq xs c
      else case SplitSeq xs c of
             [] \<Rightarrow> [[x]]
           | p # ps \<Rightarrow> (x # p) # ps)"

text \<open>\<open>strings.TrimSpace\<close> and \<open>strings.ToLower\<close>, on ASCII.\<close>

definition is_space :: "char \<Rightarrow> bool" where
  "is_space c \<longleftrightarrow> c \<in> {CHR '' '', CHR 0x09, CHR 0x0A, CHR 0x0B, CHR 0x0C, CHR 0x0D}"

definition TrimSpace :: "string \<Rightarrow> string" where
  "TrimSpace s = rev (dropWhile is_space (rev (dropWhile is_space s)))"

definition lower :: "char \<Rightarrow> char" where
  "lower c = (let n = of_char c :: nat in if 65 \<le> n \<and> n \<le> 90 then char_of (n + 32) else c)"

definition ToLower :: "string \<Rightarrow> string" where
  "ToLower s = map lower s"

lemma Cut_eq:
  "Cut s c = (takeWhile (\<lambda>x. x \<noteq> c) s, drop 1 (dropWhile (\<lambda>x. x \<noteq> c) s), c \<in> set s)"
  by (induction s) auto

lemma Cut_found: "Cut s c = (b, a, True) \<longleftrightarrow> s = b @ c # a \<and> c \<notin> set b"
proof
  assume cut: "Cut s c = (b, a, True)"
  then have b: "b = takeWhile (\<lambda>x. x \<noteq> c) s" and a: "a = drop 1 (dropWhile (\<lambda>x. x \<noteq> c) s)"
    and c: "c \<in> set s" by (auto simp: Cut_eq)
  from c obtain u v where s: "s = u @ c # v" and u: "c \<notin> set u"
    by (meson split_list_first)
  from u have "\<forall>x\<in>set u. x \<noteq> c" by auto
  with s a b show "s = b @ c # a \<and> c \<notin> set b" using u by simp
next
  assume "s = b @ c # a \<and> c \<notin> set b"
  moreover from this have "\<forall>x\<in>set b. x \<noteq> c" by auto
  ultimately show "Cut s c = (b, a, True)" by (simp add: Cut_eq)
qed

lemma Cut_missing: "Cut s c = (b, a, False) \<longleftrightarrow> b = s \<and> a = [] \<and> c \<notin> set s"
proof (cases "c \<in> set s")
  case False
  then have "Cut s c = (s, [], False)" by (induction s) auto
  with False show ?thesis by auto
qed (simp add: Cut_eq)

lemma Cut_prefix: "Cut s c = (b, a, f) \<Longrightarrow> prefix b s"
  by (auto simp: Cut_eq takeWhile_is_prefix)

lemma SplitN2_two: "SplitN2 s c = [b, a] \<longleftrightarrow> s = b @ c # a \<and> c \<notin> set b"
  using Cut_found [of s c b a] by (auto simp: SplitN2_def split: prod.splits)

lemma SplitSeq_nonempty [simp]: "SplitSeq s c \<noteq> []"
  by (induction s) (auto split: list.splits)

section \<open>The world of a request\<close>

text \<open>
  \<open>go_ctx\<close> holds what the program itself reads from a \<open>context.Context\<close>: \<open>ctx.Err()\<close>
  and the user ID under the key of the gRPC middleware. The span OpenTelemetry stores in
  the context is under a key of its own that the program never reads.
\<close>

record go_ctx =
  ctx_err :: "go_error option"
  ctx_userID :: "string option"

datatype log_entry =
    LogError go_error string
  | LogInfo string

text \<open>
  Span events, in the order they happen: a span starts with the name of its tracer, its own name and its attributes
  (\<open>attribute.String\<close>, \<open>attribute.Int\<close> and \<open>attribute.Int64\<close> values), may record an error and the status \<open>codes.Error\<close>, and ends.
\<close>

datatype attr = AString string | AInt int

datatype span_event =
    SpanStart string string "(string \<times> attr) list"
  | SpanRecordError go_error
  | SpanStatusError string
  | SpanEnd

text \<open>
  \<open>clock\<close> and \<open>random\<close> are the readings \<open>time.Now().UTC()\<close> (nanoseconds since the epoch)
  and the random strings (the UUIDs of \<open>uuid.New().String()\<close>, the salts of bcrypt) will
  deliver, one after the other; \<open>ticks\<close> and \<open>draws\<close> count the readings taken so far.
\<close>

record 'db world =
  wdb :: 'db
  clock :: "nat \<Rightarrow> int"
  ticks :: nat
  random :: "nat \<Rightarrow> string"
  draws :: nat
  logs :: "log_entry list"
  spans :: "span_event list"

type_synonym ('db, 'a) io = "('db world, 'a) state"

abbreviation ret :: "'a \<Rightarrow> ('db, 'a) io" where
  "ret \<equiv> State_Monad.return"

definition time_Now :: "('db, int) io" where
  [io_defs]: "time_Now = State (\<lambda>w. (clock w (ticks w), w\<lparr>ticks := Suc (ticks w)\<rparr>))"

definition uuid_New :: "('db, string) io" where
  [io_defs]: "uuid_New = State (\<lambda>w. (random w (draws w), w\<lparr>draws := Suc (draws w)\<rparr>))"

definition on_db :: "('db \<Rightarrow> 'a \<times> 'db) \<Rightarrow> ('db, 'a) io" where
  [io_defs]: "on_db f = State (\<lambda>w. case f (wdb w) of (x, d) \<Rightarrow> (x, w\<lparr>wdb := d\<rparr>))"

definition log_io :: "log_entry \<Rightarrow> ('db, unit) io" where
  [io_defs]: "log_io l = State (\<lambda>w. ((), w\<lparr>logs := logs w @ [l]\<rparr>))"

definition span_io :: "span_event list \<Rightarrow> ('db, unit) io" where
  [io_defs]: "span_io es = State (\<lambda>w. ((), w\<lparr>spans := spans w @ es\<rparr>))"

lemma run_time_Now [simp]:
  "run_state time_Now w = (clock w (ticks w), w\<lparr>ticks := Suc (ticks w)\<rparr>)"
  by (simp add: io_defs)

lemma run_uuid_New [simp]:
  "run_state uuid_New w = (random w (draws w), w\<lparr>draws := Suc (draws w)\<rparr>)"
  by (simp add: io_defs)

lemma run_on_db [simp]:
  "run_state (on_db f) w = (case f (wdb w) of (x, d) \<Rightarrow> (x, w\<lparr>wdb := d\<rparr>))"
  by (simp add: io_defs)

lemma run_log_io [simp]: "run_state (log_io l) w = ((), w\<lparr>logs := logs w @ [l]\<rparr>)"
  by (simp add: io_defs)

lemma run_span_io [simp]: "run_state (span_io es) w = ((), w\<lparr>spans := spans w @ es\<rparr>)"
  by (simp add: io_defs)

text \<open>\<open>val\<close> and \<open>post\<close> read the result and the final world of a run.\<close>

abbreviation val :: "('db, 'a) io \<Rightarrow> 'db world \<Rightarrow> 'a" where
  "val m w \<equiv> fst (run_state m w)"

abbreviation post :: "('db, 'a) io \<Rightarrow> 'db world \<Rightarrow> 'db world" where
  "post m w \<equiv> snd (run_state m w)"

section \<open>Spans and the comparison up to spans\<close>

text \<open>
  \<open>startSpan\<close> and \<open>endSpan\<close> are declared once in every \<open>tracing.go\<close>, with the same bodies and the
  \<open>_tracerName\<close> of the package as \<open>tr\<close>.
\<close>

definition startSpan :: "string \<Rightarrow> go_ctx \<Rightarrow> string \<Rightarrow> (string \<times> attr) list \<Rightarrow> ('db, go_ctx) io" where
  "startSpan tr ctx name attrs = do { span_io [SpanStart tr name attrs]; ret ctx }"

definition endSpan :: "go_error option \<Rightarrow> ('db, unit) io" where
  "endSpan err = do {
     (case err of
        None \<Rightarrow> ret ()
      | Some e \<Rightarrow> span_io [SpanRecordError e, SpanStatusError (error_text e)]);
     span_io [SpanEnd] }"

text \<open>The error component of a Go result pair \<open>(v, err)\<close>.\<close>

definition err_of :: "'a result \<Rightarrow> go_error option" where
  "err_of r = (case r of Inl e \<Rightarrow> Some e | Inr _ \<Rightarrow> None)"

lemma err_of_simps [simp]: "err_of (Inl e) = Some e" "err_of (Inr x) = None"
  by (simp_all add: err_of_def)

definition no_spans :: "'db world \<Rightarrow> 'db world" where
  "no_spans w = w\<lparr>spans := []\<rparr>"

text \<open>
  \<open>span_sim m n\<close>: from worlds that differ in their spans only, \<open>m\<close> and \<open>n\<close> give the same
  result and again worlds that differ in their spans only.
\<close>

definition span_sim :: "('db, 'a) io \<Rightarrow> ('db, 'a) io \<Rightarrow> bool" where
  "span_sim m n \<longleftrightarrow>
     (\<forall>w v. no_spans w = no_spans v \<longrightarrow>
        val m w = val n v \<and> no_spans (post m w) = no_spans (post n v))"

lemma no_spans_eqE:
  assumes "no_spans w = no_spans v"
  obtains s where "v = w\<lparr>spans := s\<rparr>"
proof
  show "v = w\<lparr>spans := spans v\<rparr>"
    using assms by (cases w; cases v) (simp add: no_spans_def)
qed

lemma no_spans_update [simp]: "no_spans (w\<lparr>spans := s\<rparr>) = no_spans w"
  by (simp add: no_spans_def)

lemma span_simI:
  assumes "\<And>w s. val m w = val n (w\<lparr>spans := s\<rparr>) \<and>
             no_spans (post m w) = no_spans (post n (w\<lparr>spans := s\<rparr>))"
  shows "span_sim m n"
  using assms by (auto simp: span_sim_def elim!: no_spans_eqE)

lemma span_simD:
  assumes "span_sim m n" and "no_spans w = no_spans v"
  shows "val m w = val n v" and "no_spans (post m w) = no_spans (post n v)"
  using assms by (auto simp: span_sim_def)

lemma span_sim_same:
  assumes "span_sim m n"
  shows "val m w = val n w" and "wdb (post m w) = wdb (post n w)" and "logs (post m w) = logs (post n w)"
proof -
  have "no_spans (post m w) = no_spans (post n w)" by (rule span_simD(2) [OF assms refl])
  then show "wdb (post m w) = wdb (post n w)" "logs (post m w) = logs (post n w)"
    by (auto elim!: no_spans_eqE)
  show "val m w = val n w" by (rule span_simD(1) [OF assms refl])
qed

lemma span_sim_return [span_sims, intro, simp]: "span_sim (ret x) (ret x)"
  by (rule span_simI) (simp add: no_spans_def)

lemma span_sim_bind [span_sims]:
  fixes m n :: "('a, 'b) io"
  assumes "span_sim m n" and "\<And>x. span_sim (f x) (g x)"
  shows "span_sim (do { x \<leftarrow> m; f x }) (do { x \<leftarrow> n; g x })"
  unfolding span_sim_def
proof (intro allI impI)
  fix w v :: "'a world"
  assume eq: "no_spans w = no_spans v"
  note m = span_simD [OF assms(1) eq]
  show "val (do { x \<leftarrow> m; f x }) w = val (do { x \<leftarrow> n; g x }) v \<and>
        no_spans (post (do { x \<leftarrow> m; f x }) w) = no_spans (post (do { x \<leftarrow> n; g x }) v)"
    using span_simD [OF assms(2) [of "val m w"] m(2)] m(1)
    by (simp add: case_prod_beta)
qed

lemma span_sim_time_Now [span_sims, simp]: "span_sim time_Now time_Now"
  by (rule span_simI) (simp add: no_spans_def)

lemma span_sim_uuid_New [span_sims, simp]: "span_sim uuid_New uuid_New"
  by (rule span_simI) (simp add: no_spans_def)

lemma span_sim_on_db [span_sims, simp]: "span_sim (on_db f) (on_db f)"
  by (rule span_simI) (simp add: no_spans_def split: prod.splits)

lemma span_sim_log_io [span_sims, simp]: "span_sim (log_io l) (log_io l)"
  by (rule span_simI) (simp add: no_spans_def)

lemma span_sim_span_io: "span_sim (span_io es) (span_io es')"
  by (rule span_simI) simp

lemma span_sim_sum [span_sims]:
  "(\<And>e. r = Inl e \<Longrightarrow> span_sim (f e) (f' e)) \<Longrightarrow> (\<And>x. r = Inr x \<Longrightarrow> span_sim (g x) (g' x)) \<Longrightarrow>
   span_sim (case r of Inl e \<Rightarrow> f e | Inr x \<Rightarrow> g x) (case r of Inl e \<Rightarrow> f' e | Inr x \<Rightarrow> g' x)"
  by (cases r) auto

lemma span_sim_option [span_sims]:
  "(r = None \<Longrightarrow> span_sim f f') \<Longrightarrow> (\<And>x. r = Some x \<Longrightarrow> span_sim (g x) (g' x)) \<Longrightarrow>
   span_sim (case r of None \<Rightarrow> f | Some x \<Rightarrow> g x) (case r of None \<Rightarrow> f' | Some x \<Rightarrow> g' x)"
  by (cases r) auto

lemma span_sim_outcome [span_sims]:
  "(\<And>x. r = Returns x \<Longrightarrow> span_sim (f x) (f' x)) \<Longrightarrow> (\<And>m. r = Panics m \<Longrightarrow> span_sim (g m) (g' m)) \<Longrightarrow>
   span_sim (case r of Returns x \<Rightarrow> f x | Panics m \<Rightarrow> g m) (case r of Returns x \<Rightarrow> f' x | Panics m \<Rightarrow> g' m)"
  by (cases r) auto

lemma span_sim_if [span_sims]:
  "(b \<Longrightarrow> span_sim f f') \<Longrightarrow> (\<not> b \<Longrightarrow> span_sim g g') \<Longrightarrow>
   span_sim (if b then f else g) (if b then f' else g')"
  by simp

text \<open>A decorator that opens a span, runs the call and closes the span adds nothing but spans.\<close>

lemma run_startSpan:
  "run_state (startSpan tr ctx name attrs) w = (ctx, w\<lparr>spans := spans w @ [SpanStart tr name attrs]\<rparr>)"
  by (simp add: startSpan_def)

lemma run_endSpan:
  "run_state (endSpan err) w =
     ((), w\<lparr>spans := spans w @
        (case err of None \<Rightarrow> [] | Some e \<Rightarrow> [SpanRecordError e, SpanStatusError (error_text e)]) @
        [SpanEnd]\<rparr>)"
  by (cases err) (simp_all add: endSpan_def)

lemma span_sim_decorated:
  fixes n :: "('a, 'b) io"
  assumes "span_sim (m ctx) n"
  shows "span_sim (do { c \<leftarrow> startSpan tr ctx name attrs; r \<leftarrow> m c; endSpan (f r); ret r }) n"
proof (rule span_simI)
  fix w :: "'a world" and s
  let ?w = "w\<lparr>spans := spans w @ [SpanStart tr name attrs]\<rparr>"
  have "no_spans ?w = no_spans (w\<lparr>spans := s\<rparr>)" by simp
  from span_simD [OF assms this]
  show "val (do { c \<leftarrow> startSpan tr ctx name attrs; r \<leftarrow> m c; endSpan (f r); ret r }) w =
          val n (w\<lparr>spans := s\<rparr>) \<and>
        no_spans (post (do { c \<leftarrow> startSpan tr ctx name attrs; r \<leftarrow> m c; endSpan (f r); ret r }) w) =
          no_spans (post n (w\<lparr>spans := s\<rparr>))"
    by (auto simp: run_startSpan run_endSpan split: prod.splits)
qed

lemma decorated_run:
  assumes "run_state (do { c \<leftarrow> startSpan tr ctx name attrs; r \<leftarrow> m c; endSpan (f r); ret r }) w = (r, w')"
  shows "\<exists>w1 w2. run_state (m ctx) w1 = (r, w2) \<and> wdb w1 = wdb w \<and> wdb w2 = wdb w'"
proof -
  let ?w = "w\<lparr>spans := spans w @ [SpanStart tr name attrs]\<rparr>"
  obtain x w2 where m: "run_state (m ctx) ?w = (x, w2)" by fastforce
  with assms have "x = r" and "wdb w2 = wdb w'" by (auto simp: run_startSpan run_endSpan)
  with m show ?thesis by (intro exI [of _ ?w] exI [of _ w2]) simp
qed

lemma prefix_same_length: "prefix xs ys \<Longrightarrow> length xs = length ys \<Longrightarrow> xs = ys"
  by (auto simp: prefix_def)

text \<open>The same two facts for a decorated call that can panic, where \<open>endSpan\<close> is then skipped.\<close>

lemma decorated_outcome_run:
  assumes "run_state (do { c \<leftarrow> startSpan tr ctx name attrs; x \<leftarrow> m c;
      case x of Panics p \<Rightarrow> ret (Panics p) | Returns r \<Rightarrow> do { endSpan (f r); ret (Returns r) } }) w = (x, w')"
  shows "\<exists>w1 w2. run_state (m ctx) w1 = (x, w2) \<and> wdb w1 = wdb w \<and> wdb w2 = wdb w'"
proof -
  let ?w = "w\<lparr>spans := spans w @ [SpanStart tr name attrs]\<rparr>"
  obtain y w2 where m: "run_state (m ctx) ?w = (y, w2)" by fastforce
  with assms have "y = x" and "wdb w2 = wdb w'"
    by (auto simp: run_startSpan run_endSpan split: outcome.splits)
  with m show ?thesis by (intro exI [of _ ?w] exI [of _ w2]) simp
qed

lemma span_sim_decorated_outcome:
  fixes n :: "('a, 'b outcome) io"
  assumes "span_sim (m ctx) n"
  shows "span_sim (do { c \<leftarrow> startSpan tr ctx name attrs; x \<leftarrow> m c;
      case x of Panics p \<Rightarrow> ret (Panics p) | Returns r \<Rightarrow> do { endSpan (f r); ret (Returns r) } }) n"
proof (rule span_simI)
  fix w :: "'a world" and s
  let ?w = "w\<lparr>spans := spans w @ [SpanStart tr name attrs]\<rparr>"
  let ?m = "do { c \<leftarrow> startSpan tr ctx name attrs; x \<leftarrow> m c;
      case x of Panics p \<Rightarrow> ret (Panics p) | Returns r \<Rightarrow> do { endSpan (f r); ret (Returns r) } }"
  have "no_spans ?w = no_spans (w\<lparr>spans := s\<rparr>)" by simp
  from span_simD [OF assms this]
  show "val ?m w = val n (w\<lparr>spans := s\<rparr>) \<and> no_spans (post ?m w) = no_spans (post n (w\<lparr>spans := s\<rparr>))"
    by (auto simp: run_startSpan run_endSpan split: prod.splits outcome.splits)
qed

end
