(* ===== verification/Lifecycle.thy ===== *)
theory Lifecycle
  imports Go_Prelude
begin

text \<open>
  What the long-running parts share: one goroutine in an \<open>errgroup\<close>, a channel \<open>notify\<close> on which it
  reports why it ended, a channel \<open>stop\<close>, and a \<open>Shutdown\<close> that closes \<open>stop\<close> and waits for the
  goroutine. The machine has the steps of that code; what the goroutine does before it ends is a
  parameter, given for the RabbitMQ server and client and for the NATS server
  (\<^verbatim>\<open>Start\<close>, \<^verbatim>\<open>start\<close>, \<^verbatim>\<open>handleMessages\<close>, \<^verbatim>\<open>subscribe\<close> and \<^verbatim>\<open>Shutdown\<close> in
  \<^verbatim>\<open>src/pkg/rabbitmq/rmq_rpc/{server,client}\<close> and \<^verbatim>\<open>src/pkg/nats/nats_rpc/server\<close>).
\<close>

section \<open>Joining errors\<close>

text \<open>\<open>errors.Join\<close>: \<open>nil\<close> values are dropped, and the join of none is \<open>nil\<close>.\<close>

definition errors_Join :: "go_error option list \<Rightarrow> go_error option" where
  "errors_Join errs = (case List.map_filter id errs of [] \<Rightarrow> None | es \<Rightarrow> Some (Joined es))"

definition context_Canceled :: go_error where
  [err_defs]: "context_Canceled = ErrorsNew ''context'' ''context canceled''"

lemma errors_Join_None [simp]: "errors_Join errs = None \<longleftrightarrow> set errs \<subseteq> {None}"
  by (induction errs) (auto simp: errors_Join_def map_filter_simps split: list.splits option.splits)

lemma set_map_filter_id [simp]: "set (List.map_filter id errs) = {e. Some e \<in> set errs}"
  by (force simp: map_filter_def)

lemma errors_Join_Is:
  assumes "errors_Join errs = Some e" and "Some e' \<in> set errs" and "errors_Is e' t"
  shows "errors_Is e t"
proof -
  from assms(1) have "e = Joined (List.map_filter id errs)" by (auto simp: errors_Join_def split: list.splits)
  with assms(2,3) show ?thesis by (auto simp: list_ex_iff)
qed

section \<open>The goroutine and its shutdown\<close>

datatype worker =
    NotStarted
  | Starting                          \<comment> \<open>before its loop, or before it subscribes\<close>
  | Working                           \<comment> \<open>in the \<open>select\<close> of its loop, or in \<open><-s.stop\<close>\<close>
  | Sending go_error                  \<comment> \<open>in \<open>notify <- err\<close>\<close>
  | Closing go_error                  \<comment> \<open>before \<open>close(notify)\<close>\<close>
  | Exited "go_error option"

fun ended :: "worker \<Rightarrow> bool" where
  "ended NotStarted = True"
| "ended (Exited r) = True"
| "ended _ = False"

datatype shutdown = Idle | Waits | Finished

record lifecycle =
  lc_worker :: worker
  lc_stop :: bool
  lc_notify :: "go_error list"
  lc_closed :: bool
  lc_shutdown :: shutdown

definition lc_new :: lifecycle where
  "lc_new = \<lparr>lc_worker = NotStarted, lc_stop = False, lc_notify = [], lc_closed = False, lc_shutdown = Idle\<rparr>"

text \<open>
  \<open>lc_step cap work\<close>: the steps of the component itself, with a \<open>notify\<close> of capacity \<open>cap\<close>. \<open>work stop\<close>
  are the steps of the goroutine before it sends, with the channel \<open>stop\<close> closed or not. A send
  needs room in the buffer.
\<close>

inductive lc_step :: "nat \<Rightarrow> (bool \<Rightarrow> worker \<Rightarrow> worker \<Rightarrow> bool) \<Rightarrow> lifecycle \<Rightarrow> lifecycle \<Rightarrow> bool"
  for cap work where
  start: "lc_step cap work s (s\<lparr>lc_worker := Starting\<rparr>)" if "lc_worker s = NotStarted"
| work: "lc_step cap work s (s\<lparr>lc_worker := w\<rparr>)" if "work (lc_stop s) (lc_worker s) w"
| send: "lc_step cap work s (s\<lparr>lc_notify := lc_notify s @ [e], lc_worker := Closing e\<rparr>)"
    if "lc_worker s = Sending e" "length (lc_notify s) < cap"
| close_notify: "lc_step cap work s (s\<lparr>lc_closed := True, lc_worker := Exited (Some e)\<rparr>)" if "lc_worker s = Closing e"
| shutdown: "lc_step cap work s (s\<lparr>lc_stop := True, lc_shutdown := Waits\<rparr>)"
    if "lc_shutdown s = Idle"
| finished: "lc_step cap work s (s\<lparr>lc_shutdown := Finished\<rparr>)" if "lc_shutdown s = Waits" "ended (lc_worker s)"

text \<open>Someone else receives from \<open>notify\<close>: from its buffer, or hand to hand from a blocked send.\<close>

inductive lc_receive :: "lifecycle \<Rightarrow> lifecycle \<Rightarrow> bool" where
  buffered: "lc_receive s (s\<lparr>lc_notify := es\<rparr>)" if "lc_notify s = e # es"
| rendezvous: "lc_receive s (s\<lparr>lc_worker := Closing e\<rparr>)" if "lc_worker s = Sending e" "lc_notify s = []"

inductive lc_reachable :: "nat \<Rightarrow> (bool \<Rightarrow> worker \<Rightarrow> worker \<Rightarrow> bool) \<Rightarrow> lifecycle \<Rightarrow> bool"
  for cap work where
  new: "lc_reachable cap work lc_new"
| step: "lc_reachable cap work s \<Longrightarrow> lc_step cap work s t \<Longrightarrow> lc_reachable cap work t"
| receive: "lc_reachable cap work s \<Longrightarrow> lc_receive s t \<Longrightarrow> lc_reachable cap work t"

section \<open>The three goroutines\<close>

text \<open>
  The RabbitMQ server and client run \<open>handleMessages\<close>: it serves deliveries, returns \<open>nil\<close> when
  \<open>stop\<close> is closed, and fails when the context is done or the reconnection fails.
\<close>

inductive rmq_work :: "bool \<Rightarrow> worker \<Rightarrow> worker \<Rightarrow> bool" where
  enter: "rmq_work stop Starting Working"
| serve: "rmq_work stop Working Working"
| stopped: "rmq_work True Working (Exited None)"
| failed: "rmq_work stop Working (Sending e)"

text \<open>The NATS server subscribes, which can fail, and then only waits for \<open>stop\<close>.\<close>

inductive nats_work :: "bool \<Rightarrow> worker \<Rightarrow> worker \<Rightarrow> bool" where
  subscribed: "nats_work stop Starting Working"
| failed: "nats_work stop Starting (Sending e)"
| stopped: "nats_work True Working (Exited None)"

inductive_simps rmq_work_simps: "rmq_work b w w'"
inductive_simps nats_work_simps: "nats_work b w w'"

text \<open>\<open>notify\<close> has capacity 1 in the servers and none in the client.\<close>

definition server_notify :: nat where
  "server_notify = 1"

definition client_notify :: nat where
  "client_notify = 0"

section \<open>The contract of a goroutine that can be shut down\<close>

text \<open>
  A goroutine obeys its \<open>stop\<close> channel when, with \<open>stop\<close> closed, it can leave \<open>Starting\<close> and
  \<open>Working\<close> towards its end, and when it never acts after it has sent.
\<close>

locale stoppable =
  fixes cap :: nat and work :: "bool \<Rightarrow> worker \<Rightarrow> worker \<Rightarrow> bool"
  assumes room: "0 < cap"
    and enters: "work True Starting Working"
    and stops: "work True Working (Exited None)"
    and active: "work b w w' \<Longrightarrow> w = Starting \<or> w = Working"
    and forward: "work b w w' \<Longrightarrow> w' = Working \<or> w' = Exited None \<or> (\<exists>e. w' = Sending e)"
begin

definition inv :: "lifecycle \<Rightarrow> bool" where
  "inv s \<longleftrightarrow>
     (lc_notify s \<noteq> [] \<longrightarrow> (\<exists>e. lc_worker s = Closing e \<or> lc_worker s = Exited (Some e))) \<and>
     (lc_shutdown s \<noteq> Idle \<longrightarrow> lc_stop s) \<and>
     (lc_closed s \<longrightarrow> (\<exists>e. lc_worker s = Exited (Some e)))"

lemma inv_step: "lc_step cap work s t \<Longrightarrow> inv s \<Longrightarrow> inv t"
proof (induction rule: lc_step.induct)
  case (work s w)
  from active [OF work.hyps] forward [OF work.hyps] work.prems show ?case by (auto simp: inv_def)
qed (auto simp: inv_def)

lemma inv_reachable: "lc_reachable cap work s \<Longrightarrow> inv s"
proof (induction rule: lc_reachable.induct)
  case new
  then show ?case by (simp add: inv_def lc_new_def)
next
  case (step s t)
  then show ?case by (blast intro: inv_step)
next
  case (receive s t)
  from receive(2,3) show ?case by cases (auto simp: inv_def)
qed

text \<open>With \<open>stop\<close> closed, the goroutine reaches its end by steps of its own.\<close>

lemma worker_ends:
  assumes "inv s" "lc_shutdown s = Waits"
  shows "\<exists>t. (lc_step cap work)\<^sup>*\<^sup>* s t \<and> ended (lc_worker t) \<and> lc_shutdown t = Waits"
proof -
  from assms have stop: "lc_stop s" by (auto simp: inv_def)
  have close: "\<exists>t. (lc_step cap work)\<^sup>*\<^sup>* s t \<and> ended (lc_worker t) \<and> lc_shutdown t = Waits"
    if "lc_worker s = Closing e" "lc_shutdown s = Waits" for s e
  proof -
    from that(1) have "lc_step cap work s (s\<lparr>lc_closed := True, lc_worker := Exited (Some e)\<rparr>)" by (rule lc_step.close_notify)
    with that(2) show ?thesis by (auto intro!: r_into_rtranclp exI)
  qed
  have leave: "\<exists>t. (lc_step cap work)\<^sup>*\<^sup>* s t \<and> ended (lc_worker t) \<and> lc_shutdown t = Waits"
    if "lc_worker s = Working" "lc_shutdown s = Waits" "lc_stop s" for s
  proof -
    from that stops have "lc_step cap work s (s\<lparr>lc_worker := Exited None\<rparr>)" by (auto intro: lc_step.work)
    with that(2) show ?thesis by (auto intro!: r_into_rtranclp exI)
  qed
  show ?thesis
  proof (cases "lc_worker s")
    case Starting
    with enters stop have "lc_step cap work s (s\<lparr>lc_worker := Working\<rparr>)" by (auto intro: lc_step.work)
    with leave [of "s\<lparr>lc_worker := Working\<rparr>"] assms(2) stop show ?thesis
      by (auto intro: converse_rtranclp_into_rtranclp)
  next
    case (Sending e)
    with assms(1) have "lc_notify s = []" by (auto simp: inv_def)
    with Sending room have "lc_step cap work s (s\<lparr>lc_notify := lc_notify s @ [e], lc_worker := Closing e\<rparr>)"
      by (intro lc_step.send) auto
    with close [of "s\<lparr>lc_notify := lc_notify s @ [e], lc_worker := Closing e\<rparr>" e] assms(2) show ?thesis
      by (auto intro: converse_rtranclp_into_rtranclp)
  qed (use close leave assms(2) stop in \<open>auto intro: exI [of _ s]\<close>)
qed

lemma shutdown_completes:
  assumes "lc_reachable cap work s" "lc_shutdown s = Waits"
  shows "\<exists>t. (lc_step cap work)\<^sup>*\<^sup>* s t \<and> lc_shutdown t = Finished"
proof -
  from worker_ends [OF inv_reachable [OF assms(1)] assms(2)] obtain t
    where t: "(lc_step cap work)\<^sup>*\<^sup>* s t" "ended (lc_worker t)" "lc_shutdown t = Waits" by blast
  with lc_step.finished [of t cap work] have "lc_step cap work t (t\<lparr>lc_shutdown := Finished\<rparr>)" by simp
  with t(1) show ?thesis by (auto intro!: exI [of _ "t\<lparr>lc_shutdown := Finished\<rparr>"])
qed

end

interpretation rmq_server: stoppable server_notify rmq_work
  by unfold_locales (auto simp: server_notify_def rmq_work_simps)

interpretation nats_server: stoppable server_notify nats_work
  by unfold_locales (auto simp: server_notify_def nats_work_simps)


section \<open>What Shutdown returns\<close>

text \<open>
  The error of \<open>eg.Wait\<close> unless it is a cancellation, then the error of closing; each is logged.
  The client's \<open>Shutdown\<close> logs nothing.
\<close>

definition unless_canceled :: "go_error option \<Rightarrow> go_error option" where
  "unless_canceled err = (case err of None \<Rightarrow> None | Some e \<Rightarrow> if errors_Is e context_Canceled then None else Some e)"

definition log_if :: "go_error option \<Rightarrow> string \<Rightarrow> log_entry list" where
  "log_if err msg = (case err of None \<Rightarrow> [] | Some e \<Rightarrow> [LogError e msg])"

definition rmq_server_Shutdown :: "go_error option \<Rightarrow> go_error option \<Rightarrow> log_entry list \<times> go_error option" where
  "rmq_server_Shutdown waitErr closeErr =
     (log_if (unless_canceled waitErr) ''rmq_rpc server - Server - Shutdown - s.eg.Wait'' @
      log_if closeErr ''rmq_rpc server - Server - Shutdown - s.Connection.Close'' @
      [LogInfo ''rmq_rpc server - Server - Shutdown''],
      errors_Join [unless_canceled waitErr, closeErr])"

definition rmq_client_Shutdown :: "go_error option \<Rightarrow> go_error option \<Rightarrow> go_error option" where
  "rmq_client_Shutdown waitErr closeErr = errors_Join [unless_canceled waitErr, closeErr]"

text \<open>The NATS server unsubscribes when it has a subscription; closing its connection returns nothing.\<close>

definition nats_server_Shutdown ::
  "go_error option \<Rightarrow> bool \<Rightarrow> go_error option \<Rightarrow> log_entry list \<times> go_error option" where
  "nats_server_Shutdown waitErr subscribed unsubscribeErr =
     (let err = (if subscribed then unsubscribeErr else None) in
      (log_if (unless_canceled waitErr) ''nats_rpc server - Server - Shutdown - s.eg.Wait'' @
       log_if err ''nats_rpc server - Server - Shutdown - s.conn.Subscription.Unsubscribe'' @
       [LogInfo ''nats_rpc server - Server - Shutdown''],
       errors_Join [unless_canceled waitErr, err]))"

section \<open>Shutting down\<close>


text \<open>A run of the client: started, its reconnection fails, and then \<open>Shutdown\<close> is called.\<close>

definition stuck :: "go_error \<Rightarrow> lifecycle" where
  "stuck e = \<lparr>lc_worker = Sending e, lc_stop = True, lc_notify = [], lc_closed = False, lc_shutdown = Waits\<rparr>"

lemma stuck_reachable: "lc_reachable cap rmq_work (stuck e)"
proof -
  have "lc_reachable cap rmq_work (lc_new\<lparr>lc_worker := Starting\<rparr>)"
    by (rule lc_reachable.step [OF lc_reachable.new lc_step.start]) (simp add: lc_new_def)
  then have "lc_reachable cap rmq_work (lc_new\<lparr>lc_worker := Starting\<rparr>\<lparr>lc_worker := Working\<rparr>)"
    by (rule lc_reachable.step [OF _ lc_step.work]) (simp add: rmq_work_simps)
  then have "lc_reachable cap rmq_work (lc_new\<lparr>lc_worker := Starting\<rparr>\<lparr>lc_worker := Working\<rparr>\<lparr>lc_worker := Sending e\<rparr>)"
    by (rule lc_reachable.step [OF _ lc_step.work]) (simp add: rmq_work_simps)
  then have "lc_reachable cap rmq_work
      (lc_new\<lparr>lc_worker := Starting\<rparr>\<lparr>lc_worker := Working\<rparr>\<lparr>lc_worker := Sending e\<rparr>\<lparr>lc_stop := True, lc_shutdown := Waits\<rparr>)"
    by (rule lc_reachable.step [OF _ lc_step.shutdown]) (simp add: lc_new_def)
  then show ?thesis by (simp add: stuck_def lc_new_def)
qed


text \<open>
  The client's \<open>notify\<close> has no buffer, and its \<open>Shutdown\<close> can hang: there is a state it reaches
  when the reconnection fails, in which \<open>Shutdown\<close> waits for the goroutine, the goroutine waits for
  a receiver, and the client has no step left. Only a concurrent remote call that happens to
  receive the error lets it go on.
\<close>

theorem client_shutdown_hangs:
  "\<exists>s. lc_reachable client_notify rmq_work s \<and> lc_shutdown s = Waits \<and> \<not> (\<exists>t. lc_step client_notify rmq_work s t)"
proof (intro exI conjI)
  show "lc_reachable client_notify rmq_work (stuck context_Canceled)" by (rule stuck_reachable)
  show "lc_shutdown (stuck context_Canceled) = Waits" by (simp add: stuck_def)
  show "\<not> (\<exists>t. lc_step client_notify rmq_work (stuck context_Canceled) t)"
    by (auto elim!: lc_step.cases simp: stuck_def client_notify_def rmq_work_simps)
qed

end
