(* ===== verification/Rmq_Connection.thy ===== *)
theory Rmq_Connection
  imports Go_Prelude
begin

text \<open>
  The RabbitMQ connection (\<^verbatim>\<open>src/pkg/rabbitmq/rmq_rpc/connection.go\<close>) with its retry loop, the
  shared errors (\<^verbatim>\<open>errors.go\<close>) and the carrier of trace headers (\<^verbatim>\<open>otel_carrier.go\<close>). The AMQP
  library is a parameter over the state \<open>'s\<close> of the broker.
\<close>

section \<open>Errors and statuses\<close>

definition rmq_ErrTimeout :: go_error where
  [err_defs]: "rmq_ErrTimeout = ErrorsNew ''rmqrpc'' ''timeout''"

definition rmq_ErrInternalServer :: go_error where
  [err_defs]: "rmq_ErrInternalServer = ErrorsNew ''rmqrpc'' ''internal server error''"

definition rmq_ErrBadHandler :: go_error where
  [err_defs]: "rmq_ErrBadHandler = ErrorsNew ''rmqrpc'' ''unregistered handler''"

definition rmq_Success :: string where
  "rmq_Success = ''success''"

section \<open>The carrier of trace headers\<close>

text \<open>An \<open>amqp.Table\<close> holds values of several types; the carrier reads strings only.\<close>

datatype table_value = TString string | TOther

type_synonym amqp_table = "string \<rightharpoonup> table_value"

definition TableCarrier_Get :: "amqp_table \<Rightarrow> string \<Rightarrow> string" where
  "TableCarrier_Get c key =
     (case c key of
        None \<Rightarrow> []
      | Some v \<Rightarrow> (case v of TString s \<Rightarrow> s | TOther \<Rightarrow> []))"

definition TableCarrier_Set :: "amqp_table \<Rightarrow> string \<Rightarrow> string \<Rightarrow> amqp_table" where
  "TableCarrier_Set c key v = c(key \<mapsto> TString v)"

definition TableCarrier_Keys :: "amqp_table \<Rightarrow> string set" where
  "TableCarrier_Keys c = dom c"

lemma TableCarrier_laws:
  "TableCarrier_Get (TableCarrier_Set c k v) k' = (if k' = k then v else TableCarrier_Get c k')"
  "TableCarrier_Keys (TableCarrier_Set c k v) = insert k (TableCarrier_Keys c)"
  by (auto simp: TableCarrier_Get_def TableCarrier_Set_def TableCarrier_Keys_def)

section \<open>Connecting\<close>

text \<open>
  Connections, channels and delivery streams are numbers; \<open>None\<close> is Go's \<open>nil\<close>. Each call of the
  library can fail.
\<close>

record 's amqp_lib =
  amqp_Dial :: "string \<Rightarrow> ('s, nat result) state"
  amqp_Channel :: "nat \<Rightarrow> ('s, nat result) state"
  amqp_ExchangeDeclare :: "nat \<Rightarrow> string \<Rightarrow> string \<Rightarrow> ('s, go_error option) state"
  amqp_QueueDeclare :: "nat \<Rightarrow> ('s, string result) state"
  amqp_QueueBind :: "nat \<Rightarrow> string \<Rightarrow> string \<Rightarrow> ('s, go_error option) state"
  amqp_Consume :: "nat \<Rightarrow> string \<Rightarrow> ('s, nat result) state"
  time_Sleep :: "int \<Rightarrow> ('s, unit) state"

record Connection =
  ConsumerExchange :: string
  cfg_URL :: string
  cfg_WaitTime :: int
  cfg_Attempts :: int
  conn_Connection :: "nat option"
  conn_Channel :: "nat option"
  conn_Delivery :: "nat option"

definition NewConnection :: "string \<Rightarrow> string \<Rightarrow> int \<Rightarrow> int \<Rightarrow> Connection" where
  "NewConnection consumerExchange url waitTime attempts =
     \<lparr>ConsumerExchange = consumerExchange, cfg_URL = url, cfg_WaitTime = waitTime, cfg_Attempts = attempts,
      conn_Connection = None, conn_Channel = None, conn_Delivery = None\<rparr>"

text \<open>\<open>connect\<close> assigns the fields as it goes; a call that fails leaves \<open>nil\<close> in its field.\<close>

definition connect :: "'s amqp_lib \<Rightarrow> Connection \<Rightarrow> ('s, go_error option \<times> Connection) state" where
  "connect lib c = do {
     dialed \<leftarrow> amqp_Dial lib (cfg_URL c);
     case dialed of
       Inl err \<Rightarrow> State_Monad.return (Some (Errorf ''amqp.Dial: '' err), c\<lparr>conn_Connection := None\<rparr>)
     | Inr conn \<Rightarrow> do {
         let c = c\<lparr>conn_Connection := Some conn\<rparr>;
         opened \<leftarrow> amqp_Channel lib conn;
         case opened of
           Inl err \<Rightarrow> State_Monad.return (Some (Errorf ''c.Connection.Channel: '' err), c\<lparr>conn_Channel := None\<rparr>)
         | Inr chan \<Rightarrow> do {
             let c = c\<lparr>conn_Channel := Some chan\<rparr>;
             declared \<leftarrow> amqp_ExchangeDeclare lib chan (ConsumerExchange c) ''fanout'';
             case declared of
               Some err \<Rightarrow> State_Monad.return (Some (Errorf ''c.Connection.Channel: '' err), c)
             | None \<Rightarrow> do {
                 queued \<leftarrow> amqp_QueueDeclare lib chan;
                 case queued of
                   Inl err \<Rightarrow> State_Monad.return (Some (Errorf ''c.Channel.QueueDeclare: '' err), c)
                 | Inr queue \<Rightarrow> do {
                     bound \<leftarrow> amqp_QueueBind lib chan queue (ConsumerExchange c);
                     case bound of
                       Some err \<Rightarrow> State_Monad.return (Some (Errorf ''c.Channel.QueueBind: '' err), c)
                     | None \<Rightarrow> do {
                         consumed \<leftarrow> amqp_Consume lib chan queue;
                         case consumed of
                           Inl err \<Rightarrow> State_Monad.return (Some (Errorf ''c.Channel.Consume: '' err), c\<lparr>conn_Delivery := None\<rparr>)
                         | Inr d \<Rightarrow> State_Monad.return (None, c\<lparr>conn_Delivery := Some d\<rparr>) } } } } } }"

fun attempts :: "'s amqp_lib \<Rightarrow> nat \<Rightarrow> Connection \<Rightarrow> go_error option \<Rightarrow> ('s, go_error option \<times> Connection) state" where
  "attempts lib 0 c err = State_Monad.return (err, c)"
| "attempts lib (Suc i) c err = do {
     (e, c) \<leftarrow> connect lib c;
     case e of
       None \<Rightarrow> State_Monad.return (None, c)
     | Some e \<Rightarrow> do {
         _ \<leftarrow> time_Sleep lib (cfg_WaitTime c);
         attempts lib i c (Some e) } }"

definition AttemptConnect :: "'s amqp_lib \<Rightarrow> Connection \<Rightarrow> ('s, go_error option \<times> Connection) state" where
  "AttemptConnect lib c = do {
     (err, c) \<leftarrow> attempts lib (nat (cfg_Attempts c)) c None;
     case err of
       Some e \<Rightarrow> State_Monad.return (Some (Errorf ''rmq_rpc - AttemptConnect - c.connect: '' e), c)
     | None \<Rightarrow> State_Monad.return (None, c) }"

section \<open>What the retry loop guarantees\<close>

lemma connect_ok:
  "run_state (connect lib c) s = ((None, c'), s') \<Longrightarrow>
   conn_Connection c' \<noteq> None \<and> conn_Channel c' \<noteq> None \<and> conn_Delivery c' \<noteq> None"
  by (auto simp: connect_def Let_def split: prod.splits sum.splits option.splits)

lemma connect_config:
  "run_state (connect lib c) s = ((e, c'), s') \<Longrightarrow> cfg_Attempts c' = cfg_Attempts c \<and> cfg_WaitTime c' = cfg_WaitTime c"
  by (auto simp: connect_def Let_def split: prod.splits sum.splits option.splits)

lemma attempts_ok:
  "run_state (attempts lib n c err) s = ((None, c'), s') \<Longrightarrow> n = 0 \<longrightarrow> err \<noteq> None \<Longrightarrow>
   conn_Connection c' \<noteq> None \<and> conn_Channel c' \<noteq> None \<and> conn_Delivery c' \<noteq> None"
proof (induction n arbitrary: c err s)
  case (Suc n)
  obtain e c1 s1 where con: "run_state (connect lib c) s = ((e, c1), s1)" by (metis surj_pair)
  show ?case
  proof (cases e)
    case None
    with con Suc.prems(1) connect_ok [of lib c s c1 s1] show ?thesis by simp
  next
    case (Some e1)
    obtain s2 where "run_state (time_Sleep lib (cfg_WaitTime c1)) s1 = ((), s2)"
      by (metis (full_types) old.unit.exhaust surj_pair)
    with con Some Suc.prems(1) have "run_state (attempts lib n c1 (Some e1)) s2 = ((None, c'), s')" by simp
    from Suc.IH [OF this] show ?thesis by simp
  qed
qed auto

text \<open>
  With a positive number of attempts, \<open>AttemptConnect\<close> reports success only for a connection that
  is open, has a channel and consumes deliveries. With none (or a negative number) it reports
  success too, and has not connected at all.
\<close>

theorem AttemptConnect_success:
  assumes "run_state (AttemptConnect lib c) s = ((None, c'), s')"
  shows "(0 < cfg_Attempts c \<and> conn_Connection c' \<noteq> None \<and> conn_Channel c' \<noteq> None \<and> conn_Delivery c' \<noteq> None) \<or>
    (cfg_Attempts c \<le> 0 \<and> c' = c \<and> s' = s)"
proof -
  obtain e c1 s1 where run: "run_state (attempts lib (nat (cfg_Attempts c)) c None) s = ((e, c1), s1)" by (metis surj_pair)
  with assms have e: "e = None" "c1 = c'" "s1 = s'" by (auto simp: AttemptConnect_def split: option.splits)
  show ?thesis
  proof (cases "0 < cfg_Attempts c")
    case True
    then have "nat (cfg_Attempts c) \<noteq> 0" by simp
    with attempts_ok [OF run [unfolded e]] True show ?thesis by simp
  next
    case False
    with run e show ?thesis by simp
  qed
qed

text \<open>A library that counts the dials and the time slept: it refuses the first \<open>k\<close> dials, or all.\<close>

definition counting_lib :: "nat \<Rightarrow> (nat \<times> int) amqp_lib" where
  "counting_lib k =
     \<lparr>amqp_Dial = (\<lambda>_. State (\<lambda>(n, t). (if n < k then Inl (LibError ''amqp'' ''refused'') else Inr 1, (Suc n, t)))),
      amqp_Channel = (\<lambda>_. State_Monad.return (Inr 2)),
      amqp_ExchangeDeclare = (\<lambda>_ _ _. State_Monad.return None),
      amqp_QueueDeclare = (\<lambda>_. State_Monad.return (Inr ''q'')),
      amqp_QueueBind = (\<lambda>_ _ _. State_Monad.return None),
      amqp_Consume = (\<lambda>_ _. State_Monad.return (Inr 3)),
      time_Sleep = (\<lambda>d. State (\<lambda>(n, t). ((), (n, t + d))))\<rparr>"

definition refusing_lib :: "(nat \<times> int) amqp_lib" where
  "refusing_lib = (counting_lib 0)\<lparr>amqp_Dial := \<lambda>_. State (\<lambda>(n, t). (Inl (LibError ''amqp'' ''refused''), (Suc n, t)))\<rparr>"

lemma AttemptConnect_success_witness:
  "conn_Delivery (snd (fst (run_state (AttemptConnect (counting_lib 1) (NewConnection ''rpc'' ''amqp'' 5 2)) (0, 0)))) \<noteq> None"
proof -
  let ?r = "run_state (AttemptConnect (counting_lib 1) (NewConnection ''rpc'' ''amqp'' 5 2)) (0, 0)"
  have n: "nat (cfg_Attempts (NewConnection ''rpc'' ''amqp'' 5 2)) = Suc (Suc 0)" by (simp add: NewConnection_def)
  have "fst (fst ?r) = None"
    by (simp add: AttemptConnect_def n) (simp add: connect_def counting_lib_def NewConnection_def)
  then have "?r = ((None, snd (fst ?r)), snd ?r)" by (simp add: prod_eq_iff)
  from AttemptConnect_success [OF this] show ?thesis by (simp add: NewConnection_def)
qed

text \<open>
  The loop gives up after the configured number of attempts: when no dial succeeds, what it has
  done is exactly that many rounds of one dial and one wait, a wait after the last one included,
  and it reports the error of a dial.
\<close>

theorem AttemptConnect_gives_up:
  assumes "0 < cfg_Attempts c"
    and refused: "\<And>s. \<exists>e. fst (run_state (amqp_Dial lib (cfg_URL c)) s) = Inl e"
  shows "\<exists>e c'. run_state (AttemptConnect lib c) s =
    ((Some (Errorf ''rmq_rpc - AttemptConnect - c.connect: '' (Errorf ''amqp.Dial: '' e)), c'),
     ((\<lambda>s. snd (run_state (time_Sleep lib (cfg_WaitTime c)) (snd (run_state (amqp_Dial lib (cfg_URL c)) s))))
        ^^ nat (cfg_Attempts c)) s)"
proof -
  let ?round = "\<lambda>s. snd (run_state (time_Sleep lib (cfg_WaitTime c)) (snd (run_state (amqp_Dial lib (cfg_URL c)) s)))"
  have loop: "\<exists>e c''. run_state (attempts lib (Suc i) c' err) s = ((Some (Errorf ''amqp.Dial: '' e), c''), (?round ^^ Suc i) s)"
    if "cfg_WaitTime c' = cfg_WaitTime c" "cfg_URL c' = cfg_URL c" for i c' err s
    using that
  proof (induction i arbitrary: c' err s)
    case 0
    from refused [of s] 0 show ?case
      by (auto simp: connect_def split: prod.splits)
  next
    case (Suc i)
    from refused [of s] obtain e where e: "fst (run_state (amqp_Dial lib (cfg_URL c)) s) = Inl e" by blast
    let ?c = "c'\<lparr>conn_Connection := None\<rparr>"
    from e have con: "run_state (connect lib c') s = ((Some (Errorf ''amqp.Dial: '' e), ?c), snd (run_state (amqp_Dial lib (cfg_URL c)) s))"
      using Suc.prems by (auto simp: connect_def split: prod.splits)
    have "run_state (attempts lib (Suc (Suc i)) c' err) s =
        run_state (attempts lib (Suc i) ?c (Some (Errorf ''amqp.Dial: '' e))) (?round s)"
      using Suc.prems by (subst attempts.simps(2)) (simp add: con split: prod.splits del: attempts.simps)
    moreover have "(?round ^^ Suc (Suc i)) s = (?round ^^ Suc i) (?round s)"
      by (simp only: funpow_Suc_right o_apply)
    moreover note Suc.IH [of ?c "Some (Errorf ''amqp.Dial: '' e)" "?round s"]
    ultimately show ?case using Suc.prems by (simp del: attempts.simps funpow.simps)
  qed
  obtain i where i: "nat (cfg_Attempts c) = Suc i" using assms(1) by (cases "nat (cfg_Attempts c)") auto
  from loop [of c i None s] show ?thesis by (auto simp: AttemptConnect_def i simp del: attempts.simps funpow.simps)
qed

lemma AttemptConnect_gives_up_witness:
  "\<exists>e c'. run_state (AttemptConnect refusing_lib (NewConnection ''rpc'' ''amqp'' 5 2)) (0, 0) =
    ((Some (Errorf ''rmq_rpc - AttemptConnect - c.connect: '' (Errorf ''amqp.Dial: '' e)), c'), (2, 10))"
proof -
  let ?c = "NewConnection ''rpc'' ''amqp'' 5 2"
  have dial: "run_state (amqp_Dial refusing_lib u) s = (Inl (LibError ''amqp'' ''refused''), (Suc (fst s), snd s))"
    and sleep: "run_state (time_Sleep refusing_lib d) s = ((), (fst s, snd s + d))" for u d s
    by (simp_all add: refusing_lib_def counting_lib_def split: prod.splits)
  have c: "0 < cfg_Attempts ?c" "nat (cfg_Attempts ?c) = Suc (Suc 0)" "cfg_WaitTime ?c = 5" by (simp_all add: NewConnection_def)
  have refused: "\<exists>e. fst (run_state (amqp_Dial refusing_lib (cfg_URL ?c)) s) = Inl e" for s by (simp add: dial)
  from AttemptConnect_gives_up [OF c(1) refused, of "(0, 0)"] show ?thesis
    by (simp add: dial sleep c(2,3) numeral_2_eq_2)
qed

end
