(* ===== verification/Entity.thy ===== *)
theory Entity
  imports Go_Prelude
begin

text \<open>
  The entities of \<^verbatim>\<open>src/internal/entity\<close>: users, tasks, translations, the sentinel errors
  of the domain, and the state machine of a task's status. \<open>TaskStatus\<close> is a string type in
  the source, so any string is a value of it; \<open>Valid\<close> singles out the three known ones.
\<close>

section \<open>Errors\<close>

definition ErrUserNotFound :: go_error where
  [err_defs]: "ErrUserNotFound = ErrorsNew ''entity'' ''user not found''"

definition ErrUserAlreadyExists :: go_error where
  [err_defs]: "ErrUserAlreadyExists = ErrorsNew ''entity'' ''user already exists''"

definition ErrInvalidCredentials :: go_error where
  [err_defs]: "ErrInvalidCredentials = ErrorsNew ''entity'' ''invalid credentials''"

definition ErrTaskNotFound :: go_error where
  [err_defs]: "ErrTaskNotFound = ErrorsNew ''entity'' ''task not found''"

definition ErrTaskForbidden :: go_error where
  [err_defs]: "ErrTaskForbidden = ErrorsNew ''entity'' ''task does not belong to user''"

definition ErrInvalidTransition :: go_error where
  [err_defs]: "ErrInvalidTransition = ErrorsNew ''entity'' ''invalid status transition''"

section \<open>Users and translations\<close>

record User =
  user_ID :: string
  user_Username :: string
  user_Email :: string
  user_PasswordHash :: string
  user_CreatedAt :: int
  user_UpdatedAt :: int

record Translation =
  tr_Source :: string
  tr_Destination :: string
  tr_Original :: string
  tr_Translation :: string

record TranslationHistory =
  History :: "Translation list"

section \<open>Tasks\<close>

type_synonym TaskStatus = string

definition TaskStatusTodo :: TaskStatus where
  "TaskStatusTodo = ''todo''"

definition TaskStatusInProgress :: TaskStatus where
  "TaskStatusInProgress = ''in_progress''"

definition TaskStatusDone :: TaskStatus where
  "TaskStatusDone = ''done''"

lemmas status_defs = TaskStatusTodo_def TaskStatusInProgress_def TaskStatusDone_def

record Task =
  task_ID :: string
  task_UserID :: string
  task_Title :: string
  task_Description :: string
  task_Status :: TaskStatus
  task_CreatedAt :: int
  task_UpdatedAt :: int

definition Valid :: "TaskStatus \<Rightarrow> bool" where
  "Valid s = (if s = TaskStatusTodo \<or> s = TaskStatusInProgress \<or> s = TaskStatusDone
              then True else False)"

definition validTransitions :: "TaskStatus \<rightharpoonup> TaskStatus list" where
  "validTransitions =
     [TaskStatusTodo \<mapsto> [TaskStatusInProgress],
      TaskStatusInProgress \<mapsto> [TaskStatusDone, TaskStatusTodo],
      TaskStatusDone \<mapsto> []]"

text \<open>\<open>Transition\<close> mutates its receiver: the model returns the error and the task after the call.\<close>

definition Transition :: "Task \<Rightarrow> TaskStatus \<Rightarrow> go_error option \<times> Task" where
  "Transition t newStatus =
     (case validTransitions (task_Status t) of
        None \<Rightarrow> (Some ErrInvalidTransition, t)
      | Some allowed \<Rightarrow>
          if newStatus \<in> set allowed then (None, t\<lparr>task_Status := newStatus\<rparr>)
          else (Some ErrInvalidTransition, t))"

section \<open>The status machine\<close>

text \<open>The edges the README draws: todo to in progress, in progress to done or back to todo.\<close>

inductive status_step :: "TaskStatus \<Rightarrow> TaskStatus \<Rightarrow> bool" where
  start: "status_step TaskStatusTodo TaskStatusInProgress"
| finish: "status_step TaskStatusInProgress TaskStatusDone"
| reopen: "status_step TaskStatusInProgress TaskStatusTodo"

inductive_cases status_step_from_done: "status_step TaskStatusDone s"

inductive_simps status_step_simps: "status_step s s'"

lemma statuses_distinct [simp]:
  "TaskStatusTodo \<noteq> TaskStatusInProgress" "TaskStatusInProgress \<noteq> TaskStatusTodo"
  "TaskStatusTodo \<noteq> TaskStatusDone" "TaskStatusDone \<noteq> TaskStatusTodo"
  "TaskStatusInProgress \<noteq> TaskStatusDone" "TaskStatusDone \<noteq> TaskStatusInProgress"
  by (simp_all add: status_defs)

lemma Valid_statuses [simp]:
  "Valid TaskStatusTodo" "Valid TaskStatusInProgress" "Valid TaskStatusDone"
  by (simp_all add: Valid_def)

lemma Valid_iff: "Valid s \<longleftrightarrow> s \<in> {TaskStatusTodo, TaskStatusInProgress, TaskStatusDone}"
  by (simp add: Valid_def)

lemma status_step_Valid: "status_step s s' \<Longrightarrow> Valid s \<and> Valid s'"
  by (auto simp: status_step_simps)

lemma done_terminal: "\<not> status_step TaskStatusDone s"
  by (auto elim: status_step_from_done)

lemma status_steps_from_done: "status_step\<^sup>*\<^sup>* TaskStatusDone s \<Longrightarrow> s = TaskStatusDone"
  by (induction rule: rtranclp_induct) (auto simp: done_terminal)

lemma Transition_allowed:
  "status_step (task_Status t) s \<Longrightarrow> Transition t s = (None, t\<lparr>task_Status := s\<rparr>)"
  by (auto simp: Transition_def validTransitions_def status_step_simps)

lemma Transition_refused:
  "\<not> status_step (task_Status t) s \<Longrightarrow> Transition t s = (Some ErrInvalidTransition, t)"
  by (auto simp: Transition_def validTransitions_def status_step_simps)

lemma Transition_cases:
  obtains (ok) "status_step (task_Status t) s" "Transition t s = (None, t\<lparr>task_Status := s\<rparr>)"
  | (err) "\<not> status_step (task_Status t) s" "Transition t s = (Some ErrInvalidTransition, t)"
  using Transition_allowed Transition_refused by blast

text \<open>
  C2. \<open>Task.Transition\<close> implements exactly the status machine of the README: it accepts
  the three edges todo to in progress, in progress to done and in progress to todo, changes
  nothing but the status then, and in every other case (an unknown current status included)
  returns \<open>ErrInvalidTransition\<close> and leaves the task as it was.
\<close>

theorem Transition_implements_machine:
  "Transition t s =
     (if status_step (task_Status t) s then (None, t\<lparr>task_Status := s\<rparr>)
      else (Some ErrInvalidTransition, t))"
  by (simp add: Transition_allowed Transition_refused)

text \<open>Any number of \<open>Transition\<close> calls on one task, refused ones included.\<close>

definition transitions :: "TaskStatus list \<Rightarrow> Task \<Rightarrow> Task" where
  "transitions ss t = fold (\<lambda>s t. snd (Transition t s)) ss t"

lemma transitions_steps: "status_step\<^sup>*\<^sup>* (task_Status t) (task_Status (transitions ss t))"
proof (induction ss arbitrary: t)
  case Nil
  then show ?case by (simp add: transitions_def)
next
  case (Cons s ss)
  have "status_step\<^sup>*\<^sup>* (task_Status t) (task_Status (snd (Transition t s)))"
    by (rule Transition_cases [of t s]) auto
  also from Cons.IH [of "snd (Transition t s)"]
  have "status_step\<^sup>*\<^sup>* (task_Status (snd (Transition t s))) (task_Status (transitions (s # ss) t))"
    by (simp add: transitions_def)
  finally show ?case .
qed

lemma status_steps_Valid: "status_step\<^sup>*\<^sup>* s s' \<Longrightarrow> Valid s \<Longrightarrow> Valid s'"
  by (induction rule: rtranclp_induct) (auto dest: status_step_Valid)

text \<open>
  Whatever statuses a caller asks for, and in whatever order, a task whose status is
  known keeps a known status, and a task that is done stays done.
\<close>

theorem transitions_keep_status_known:
  assumes "Valid (task_Status t)"
  shows "Valid (task_Status (transitions ss t)) \<and>
         (task_Status t = TaskStatusDone \<longrightarrow> transitions ss t = t)"
proof
  show "Valid (task_Status (transitions ss t))"
    using transitions_steps assms by (rule status_steps_Valid)
  have "task_Status t = TaskStatusDone \<Longrightarrow> transitions ss t = t"
    by (induction ss) (auto simp: transitions_def Transition_refused done_terminal)
  then show "task_Status t = TaskStatusDone \<longrightarrow> transitions ss t = t" by blast
qed

definition sample_task :: Task where
  "sample_task = \<lparr>task_ID = ''t1'', task_UserID = ''u1'', task_Title = ''write'',
     task_Description = '''', task_Status = TaskStatusTodo, task_CreatedAt = 1000,
     task_UpdatedAt = 1000\<rparr>"

theorem transitions_keep_status_known_witness:
  "Valid (task_Status sample_task) \<and>
   Valid (task_Status (transitions [TaskStatusInProgress, TaskStatusDone, TaskStatusTodo] sample_task))"
proof -
  have h: "Valid (task_Status sample_task)" by (simp add: sample_task_def)
  show ?thesis
    using h transitions_keep_status_known
      [OF h, of "[TaskStatusInProgress, TaskStatusDone, TaskStatusTodo]"] by simp
qed

end
