(* ===== verification/Sql.thy ===== *)
theory Sql
  imports Entity
begin

text \<open>
  What the repositories send to PostgreSQL and what they rely on. A statement is the value
  the squirrel builder calls of the sources build; \<open>Postgres\<close> holds the builder and the pgx
  pool as parameters (both are libraries, and the server is a service), and the locale
  \<open>sql_db\<close> names the documented behaviour of SQL that the repositories use: what a
  statement does to the tables, what a query returns, that primary keys stay unique, and
  that an error the pool reports is never one of the program's own errors.
\<close>

section \<open>Statements\<close>

datatype sqlval = VText string | VTime int | VInt int | VNull

text \<open>\<open>sq.Eq{c1: v1, ...}\<close> and \<open>Where("c = ?", v)\<close>.\<close>

datatype sql_pred =
    SqEq "(string \<times> sqlval) list"
  | SqExpr string sqlval

text \<open>
  \<open>Select cols table preds order_desc limit offset\<close>; the optional parts are the builder
  calls \<open>OrderBy(c DESC)\<close>, \<open>Limit(n)\<close> and \<open>Offset(n)\<close>.
\<close>

datatype stmt =
    Insert string "string list" "sqlval list"
  | Update string "(string \<times> sqlval) list" "sql_pred list"
  | Delete string "sql_pred list"
  | Select "string list" string "sql_pred list" "string option" "64 word option" "64 word option"

text \<open>
  The rows of a \<open>Query\<close> as the loop \<open>for rows.Next() { rows.Scan(...) }\<close> meets them: per row
  the scanned values or the error of \<open>Scan\<close>; \<open>rows_Err\<close> is \<open>rows.Err()\<close> after the loop.
\<close>

record pgx_rows =
  rows_items :: "sqlval list result list"
  rows_Err :: "go_error option"

definition ErrNoRows :: go_error where
  [err_defs]: "ErrNoRows = ErrorsNew ''pgx'' ''no rows in result set''"

text \<open>
  The parts of \<^verbatim>\<open>pkg/postgres.Postgres\<close> the repositories use. \<open>Builder_ToSql s\<close> is the error
  of \<open>ToSql()\<close>, if any; the SQL text and its arguments are identified with \<open>s\<close>. The pool
  functions return what \<open>Exec\<close> (rows affected), \<open>QueryRow(...).Scan(...)\<close> (the scanned
  values) and \<open>Query\<close> return, and the database after the call.
\<close>

record 'db Postgres =
  Builder_ToSql :: "stmt \<Rightarrow> go_error option"
  Pool_Exec :: "go_ctx \<Rightarrow> stmt \<Rightarrow> 'db \<Rightarrow> nat result \<times> 'db"
  Pool_QueryRow :: "go_ctx \<Rightarrow> stmt \<Rightarrow> 'db \<Rightarrow> sqlval list result \<times> 'db"
  Pool_Query :: "go_ctx \<Rightarrow> stmt \<Rightarrow> 'db \<Rightarrow> pgx_rows result \<times> 'db"

text \<open>
  Reading a scanned value into a Go variable; the variable keeps its zero value when
  nothing was scanned into it.
\<close>

fun val_str :: "sqlval \<Rightarrow> string" where
  "val_str (VText s) = s"
| "val_str _ = ''''"

fun val_time :: "sqlval \<Rightarrow> int" where
  "val_time (VTime t) = t"
| "val_time _ = 0"

fun val_int :: "sqlval \<Rightarrow> 64 word" where
  "val_int (VInt n) = of_int n"
| "val_int _ = 0"

text \<open>The loop over the rows: stops at the first \<open>Scan\<close> error, else collects every row.\<close>

fun scan_rows :: "(sqlval list \<Rightarrow> 'a) \<Rightarrow> sqlval list result list \<Rightarrow> 'a list \<Rightarrow> 'a list result" where
  "scan_rows scan [] acc = Inr acc"
| "scan_rows scan (Inl err # rest) acc = Inl err"
| "scan_rows scan (Inr vs # rest) acc = scan_rows scan rest (acc @ [scan vs])"

lemma scan_rows_all: "scan_rows scan (map Inr vss) acc = Inr (acc @ map scan vss)"
  by (induction vss arbitrary: acc) auto

lemma scan_rows_map: "scan_rows scan (map (\<lambda>r. Inr (f r)) rs) acc = Inr (acc @ map (\<lambda>r. scan (f r)) rs)"
  by (induction rs arbitrary: acc) auto

lemma scan_rows_ok:
  "scan_rows scan items acc = Inr xs \<Longrightarrow> \<exists>vss. items = map Inr vss \<and> xs = acc @ map scan vss"
proof (induction scan items acc rule: scan_rows.induct)
  case (3 scan vs rest acc)
  then obtain vss where "rest = map Inr vss \<and> xs = acc @ scan vs # map scan vss" by auto
  then show ?case by (intro exI [of _ "vs # vss"]) simp
qed auto

section \<open>What SQL does\<close>

type_synonym row = "string \<rightharpoonup> sqlval"
type_synonym tables = "string \<Rightarrow> row multiset"

text \<open>
  \<open>sql_cast uuid micro c v\<close> is the value of column \<open>c\<close> that the argument \<open>v\<close> is converted
  to: in the columns of type UUID the canonical text \<open>uuid s\<close> of the argument, a timestamp
  to the precision \<open>micro\<close> that PostgreSQL keeps; other text is stored as it is.
\<close>

fun sql_cast :: "(string \<Rightarrow> string) \<Rightarrow> (int \<Rightarrow> int) \<Rightarrow> string \<Rightarrow> sqlval \<Rightarrow> sqlval" where
  "sql_cast uuid micro c (VText s) =
     (if c = ''id'' \<or> c = ''user_id'' then VText (uuid s) else VText s)"
| "sql_cast uuid micro c (VTime i) = VTime (micro i)"
| "sql_cast uuid micro c v = v"

type_synonym casts = "string \<Rightarrow> sqlval \<Rightarrow> sqlval"

fun pred_holds :: "casts \<Rightarrow> sql_pred \<Rightarrow> row \<Rightarrow> bool" where
  "pred_holds cast (SqEq kvs) r = list_all (\<lambda>(k, v). r k = Some (cast k v)) kvs"
| "pred_holds cast (SqExpr k v) r = (r k = Some (cast k v))"

definition matches :: "casts \<Rightarrow> sql_pred list \<Rightarrow> row \<Rightarrow> bool" where
  "matches cast ps r = list_all (\<lambda>p. pred_holds cast p r) ps"

definition new_row :: "casts \<Rightarrow> string list \<Rightarrow> sqlval list \<Rightarrow> row" where
  "new_row cast cs vs = map_of (zip cs (map2 cast cs vs))"

definition set_row :: "casts \<Rightarrow> (string \<times> sqlval) list \<Rightarrow> row \<Rightarrow> row" where
  "set_row cast sets r = r ++ map_of (map (\<lambda>(k, v). (k, cast k v)) sets)"

text \<open>The tables after a statement, and the number of rows it affects.\<close>

fun effect :: "casts \<Rightarrow> stmt \<Rightarrow> tables \<Rightarrow> tables" where
  "effect cast (Insert t cs vs) T = T(t := add_mset (new_row cast cs vs) (T t))"
| "effect cast (Update t sets ps) T =
     T(t := image_mset (\<lambda>r. if matches cast ps r then set_row cast sets r else r) (T t))"
| "effect cast (Delete t ps) T = T(t := filter_mset (\<lambda>r. \<not> matches cast ps r) (T t))"
| "effect cast (Select cs t ps ord lim off) T = T"

fun affected :: "casts \<Rightarrow> stmt \<Rightarrow> tables \<Rightarrow> nat" where
  "affected cast (Insert t cs vs) T = 1"
| "affected cast (Update t sets ps) T = size (filter_mset (matches cast ps) (T t))"
| "affected cast (Delete t ps) T = size (filter_mset (matches cast ps) (T t))"
| "affected cast (Select cs t ps ord lim off) T = 0"

text \<open>
  \<open>answers T s xs\<close>: \<open>xs\<close> is a list of rows that the query \<open>s\<close> may return: the matching
  rows in some order that respects \<open>ORDER BY ... DESC\<close>, cut by \<open>OFFSET\<close> and \<open>LIMIT\<close>.
\<close>

definition desc_by :: "string option \<Rightarrow> row list \<Rightarrow> bool" where
  "desc_by ord rs = (case ord of
     None \<Rightarrow> True
   | Some c \<Rightarrow> sorted_wrt (\<lambda>r r'. val_time (the (r' c)) \<le> val_time (the (r c))) rs)"

definition cut :: "64 word option \<Rightarrow> 64 word option \<Rightarrow> 'a list \<Rightarrow> 'a list" where
  "cut lim off xs =
     (let ys = (case off of None \<Rightarrow> xs | Some n \<Rightarrow> drop (unat n) xs)
      in case lim of None \<Rightarrow> ys | Some n \<Rightarrow> take (unat n) ys)"

fun answers :: "casts \<Rightarrow> tables \<Rightarrow> stmt \<Rightarrow> row list \<Rightarrow> bool" where
  "answers cast T (Select cs t ps ord lim off) xs =
     (\<exists>ys. mset ys = filter_mset (matches cast ps) (T t) \<and> desc_by ord ys \<and> xs = cut lim off ys)"
| "answers cast T _ xs = False"

definition project :: "string list \<Rightarrow> row \<Rightarrow> sqlval list" where
  "project cs r = map (\<lambda>c. the (r c)) cs"

section \<open>The schema of the migrations\<close>

text \<open>
  The constraints \<^verbatim>\<open>src/migrations\<close> declares on the tables the repositories use: the type of
  every column (\<open>description\<close> and the four texts of \<open>history\<close> may be null), the primary keys
  \<open>tasks.id\<close> and \<open>users.id\<close>, the unique columns of \<open>users\<close>, and the foreign keys
  \<open>tasks.user_id\<close> and \<open>history.user_id\<close>.
\<close>

definition text_col :: "string \<Rightarrow> row \<Rightarrow> bool" where
  "text_col c r = (case r c of Some (VText _) \<Rightarrow> True | _ \<Rightarrow> False)"

definition null_col :: "string \<Rightarrow> row \<Rightarrow> bool" where
  "null_col c r = (case r c of Some (VText _) \<Rightarrow> True | Some VNull \<Rightarrow> True | _ \<Rightarrow> False)"

definition time_col :: "string \<Rightarrow> row \<Rightarrow> bool" where
  "time_col c r = (case r c of Some (VTime _) \<Rightarrow> True | _ \<Rightarrow> False)"

definition task_row :: "row \<Rightarrow> bool" where
  "task_row r \<longleftrightarrow> text_col ''id'' r \<and> text_col ''user_id'' r \<and> text_col ''title'' r \<and>
     null_col ''description'' r \<and> text_col ''status'' r \<and>
     time_col ''created_at'' r \<and> time_col ''updated_at'' r"

definition user_row :: "row \<Rightarrow> bool" where
  "user_row r \<longleftrightarrow> text_col ''id'' r \<and> text_col ''username'' r \<and> text_col ''email'' r \<and>
     text_col ''password_hash'' r \<and> time_col ''created_at'' r \<and> time_col ''updated_at'' r"

definition history_row :: "row \<Rightarrow> bool" where
  "history_row r \<longleftrightarrow> text_col ''user_id'' r \<and> null_col ''source'' r \<and> null_col ''destination'' r \<and>
     null_col ''original'' r \<and> null_col ''translation'' r"

definition unique_col :: "string \<Rightarrow> row multiset \<Rightarrow> bool" where
  "unique_col c R \<longleftrightarrow> (\<forall>v. count (image_mset (\<lambda>r. r c) R) v \<le> 1)"

definition references :: "row multiset \<Rightarrow> string \<Rightarrow> row multiset \<Rightarrow> string \<Rightarrow> bool" where
  "references R c S k \<longleftrightarrow> (\<forall>r \<in># R. \<exists>q \<in># S. r c = q k)"

definition uniques_ok :: "tables \<Rightarrow> bool" where
  "uniques_ok T \<longleftrightarrow> unique_col ''id'' (T ''tasks'') \<and> unique_col ''id'' (T ''users'') \<and>
     unique_col ''username'' (T ''users'') \<and> unique_col ''email'' (T ''users'')"

definition schema_ok :: "tables \<Rightarrow> bool" where
  "schema_ok T \<longleftrightarrow>
     (\<forall>r \<in># T ''tasks''. task_row r) \<and> (\<forall>r \<in># T ''users''. user_row r) \<and>
     (\<forall>r \<in># T ''history''. history_row r) \<and>
     uniques_ok T \<and>
     references (T ''tasks'') ''user_id'' (T ''users'') ''id'' \<and>
     references (T ''history'') ''user_id'' (T ''users'') ''id''"

lemma text_col_iff: "text_col c r \<longleftrightarrow> (\<exists>s. r c = Some (VText s))"
  by (auto simp: text_col_def split: option.splits sqlval.splits)

lemma null_col_iff: "null_col c r \<longleftrightarrow> r c = Some VNull \<or> (\<exists>s. r c = Some (VText s))"
  by (auto simp: null_col_def split: option.splits sqlval.splits)

lemma time_col_iff: "time_col c r \<longleftrightarrow> (\<exists>i. r c = Some (VTime i))"
  by (auto simp: time_col_def split: option.splits sqlval.splits)

lemmas col_iffs = text_col_iff null_col_iff time_col_iff

lemma unique_colD:
  assumes "unique_col c R" and "r \<in># R" and "r' \<in># R" and "r c = r' c"
  shows "r = r'"
proof (rule ccontr)
  assume "r \<noteq> r'"
  with assms(2,3) obtain R' where R: "R = add_mset r (add_mset r' R')"
    by (metis insert_noteq_member mset_add)
  then have "2 \<le> count (image_mset (\<lambda>r. r c) R) (r c)" using assms(4) by simp
  moreover from assms(1) have "count (image_mset (\<lambda>r. r c) R) (r c) \<le> 1"
    by (simp add: unique_col_def)
  ultimately show False by linarith
qed

lemma unique_col_mset: "unique_col c (mset rs) \<longleftrightarrow> distinct (map (\<lambda>r. r c) rs)"
proof -
  have "(\<forall>v. count (mset (map (\<lambda>r. r c) rs)) v \<le> 1) \<longleftrightarrow> distinct (map (\<lambda>r. r c) rs)"
    by (metis One_nat_def count_mset_0_iff distinct_count_atmost_1 le_Suc_eq le_zero_eq zero_le)
  then show ?thesis by (simp add: unique_col_def)
qed

text \<open>The SQLSTATE of a violated primary key or unique constraint.\<close>

definition unique_violation :: string where
  "unique_violation = ''23505''"

text \<open>An error that wraps none of the domain's sentinel errors.\<close>

definition foreign :: "go_error \<Rightarrow> bool" where
  "foreign e \<longleftrightarrow> (\<forall>m. \<not> errors_Is e (ErrorsNew ''entity'' m))"

lemma foreign_simps [simp]:
  "foreign (LibError p m)" "foreign (PgError c m)" "foreign (Errorf p e) \<longleftrightarrow> foreign e"
  "foreign (ErrorsNew p m) \<longleftrightarrow> p \<noteq> ''entity''"
  by (auto simp: foreign_def)

lemma foreign_sentinels:
  assumes "foreign e"
  shows "\<not> errors_Is e ErrTaskNotFound" "\<not> errors_Is e ErrTaskForbidden"
    "\<not> errors_Is e ErrInvalidTransition" "\<not> errors_Is e ErrUserNotFound"
    "\<not> errors_Is e ErrUserAlreadyExists" "\<not> errors_Is e ErrInvalidCredentials"
  using assms by (simp_all add: foreign_def err_defs)

text \<open>
  What the repositories rely on. \<open>good\<close> marks the databases that respect the schema of the
  migrations (every database the service runs on, since the migrations create the tables and
  PostgreSQL enforces their constraints). A statement that fails leaves the tables as they
  were, or, when the connection is lost after the commit, as the statement left them.
\<close>

locale sql_db =
  fixes pg :: "'db Postgres"
    and tbl :: "'db \<Rightarrow> tables"
    and good :: "'db \<Rightarrow> bool"
    and uuid :: "string \<Rightarrow> string"
    and micro :: "int \<Rightarrow> int"
  assumes uuid_idem: "uuid (uuid u) = uuid u"
    and micro_idem: "micro (micro i) = micro i"
    and good_schema: "good d \<Longrightarrow> schema_ok (tbl d)"
    and builder_foreign: "Builder_ToSql pg s = Some e \<Longrightarrow> foreign e"
    and exec_ok: "Pool_Exec pg ctx s d = (Inr n, d') \<Longrightarrow>
       tbl d' = effect (sql_cast uuid micro) s (tbl d) \<and> n = affected (sql_cast uuid micro) s (tbl d)"
    and exec_err: "Pool_Exec pg ctx s d = (Inl e, d') \<Longrightarrow>
       tbl d' = tbl d \<or> tbl d' = effect (sql_cast uuid micro) s (tbl d)"
    and exec_unique: "Pool_Exec pg ctx s d = (Inl e, d') \<Longrightarrow>
       errors_As_PgError e = Some unique_violation \<Longrightarrow>
       tbl d' = tbl d \<and> \<not> uniques_ok (effect (sql_cast uuid micro) s (tbl d))"
    and exec_good: "Pool_Exec pg ctx s d = (nr, d') \<Longrightarrow> good d \<Longrightarrow> good d'"
    and row_good: "Pool_QueryRow pg ctx s d = (vr, d') \<Longrightarrow> good d \<Longrightarrow> good d'"
    and query_good: "Pool_Query pg ctx s d = (qr, d') \<Longrightarrow> good d \<Longrightarrow> good d'"
    and exec_foreign: "Pool_Exec pg ctx s d = (Inl e, d') \<Longrightarrow> foreign e"
    and row_ok: "Pool_QueryRow pg ctx (Select cs t ps ord lim off) d = (Inr vs, d') \<Longrightarrow>
       ''COUNT(*)'' \<notin> set cs \<Longrightarrow>
       \<exists>r xs. answers (sql_cast uuid micro) (tbl d) (Select cs t ps ord lim off) (r # xs) \<and> vs = project cs r"
    and row_none: "Pool_QueryRow pg ctx (Select cs t ps ord lim off) d = (Inl e, d') \<Longrightarrow>
       errors_Is e ErrNoRows \<Longrightarrow> answers (sql_cast uuid micro) (tbl d) (Select cs t ps ord lim off) []"
    and row_count: "Pool_QueryRow pg ctx (Select [''COUNT(*)''] t ps None None None) d = (Inr vs, d') \<Longrightarrow>
       vs = [VInt (int (size (filter_mset (matches (sql_cast uuid micro) ps) (tbl d t))))]"
    and row_frame: "Pool_QueryRow pg ctx (Select cs t ps ord lim off) d = (vr, d') \<Longrightarrow> tbl d' = tbl d"
    and row_foreign: "Pool_QueryRow pg ctx s d = (Inl e, d') \<Longrightarrow> foreign e"
    and query_ok: "Pool_Query pg ctx (Select cs t ps ord lim off) d = (Inr rs, d') \<Longrightarrow>
       \<exists>xs. answers (sql_cast uuid micro) (tbl d) (Select cs t ps ord lim off) xs \<and>
         (\<forall>i < length (rows_items rs). \<forall>vs. rows_items rs ! i = Inr vs \<longrightarrow>
            i < length xs \<and> vs = project cs (xs ! i)) \<and>
         (rows_Err rs = None \<longrightarrow> length (rows_items rs) = length xs)"
    and query_frame: "Pool_Query pg ctx (Select cs t ps ord lim off) d = (qr, d') \<Longrightarrow> tbl d' = tbl d"
    and query_foreign: "Pool_Query pg ctx s d = (Inl e, d') \<Longrightarrow> foreign e"
begin

abbreviation cast :: casts where
  "cast \<equiv> sql_cast uuid micro"

lemma exec_cases:
  assumes "Pool_Exec pg ctx s d = (nr, d')" and "good d"
  obtains (ok) n where "nr = Inr n" "good d'" "tbl d' = effect cast s (tbl d)" "n = affected cast s (tbl d)"
  | (failed) e where "nr = Inl e" "foreign e" "good d'" "tbl d' = tbl d"
  | (lost) e where "nr = Inl e" "foreign e" "good d'" "tbl d' = effect cast s (tbl d)"
proof (cases nr)
  case (Inl e)
  with assms have "foreign e" "good d'" "tbl d' = tbl d \<or> tbl d' = effect cast s (tbl d)"
    by (auto dest: exec_err exec_good exec_foreign)
  with Inl failed lost show ?thesis by blast
next
  case (Inr n)
  with assms exec_ok [of ctx s d n d'] exec_good [of ctx s d nr d'] ok show ?thesis by simp
qed

lemma row_cases:
  assumes "Pool_QueryRow pg ctx (Select cs t ps None None None) d = (vr, d')" and "good d"
    and "''COUNT(*)'' \<notin> set cs"
  obtains (row) r where "vr = Inr (project cs r)" "r \<in># tbl d t" "matches cast ps r" "good d'" "tbl d' = tbl d"
  | (none) e where "vr = Inl e" "errors_Is e ErrNoRows" "\<forall>r \<in># tbl d t. \<not> matches cast ps r"
      "good d'" "tbl d' = tbl d"
  | (failed) e where "vr = Inl e" "\<not> errors_Is e ErrNoRows" "foreign e" "good d'" "tbl d' = tbl d"
proof -
  from assms(1,2) have d': "good d'" "tbl d' = tbl d"
    by (auto dest: row_good row_frame)
  show ?thesis
  proof (cases vr)
    case (Inl e)
    show ?thesis
    proof (cases "errors_Is e ErrNoRows")
      case True
      with Inl assms(1) row_none [of ctx cs t ps None None None d e d']
      have "filter_mset (matches cast ps) (tbl d t) = {#}"
        by (auto simp: desc_by_def cut_def)
      then have "\<forall>r \<in># tbl d t. \<not> matches cast ps r"
        by (auto simp: filter_mset_eq_mempty_iff)
      with none Inl True d' show ?thesis by blast
    next
      case False
      from Inl assms(1) have "foreign e" by (auto dest: row_foreign)
      with failed Inl False d' show ?thesis by blast
    qed
  next
    case (Inr vs)
    with assms row_ok [of ctx cs t ps None None None d vs d'] obtain r xs
      where vs: "vs = project cs r" and m: "mset (r # xs) = filter_mset (matches cast ps) (tbl d t)"
      by (auto simp: desc_by_def cut_def)
    have "r \<in># filter_mset (matches cast ps) (tbl d t)"
      by (simp flip: m)
    then have "r \<in># tbl d t" "matches cast ps r" by auto
    with row Inr vs d' show ?thesis by blast
  qed
qed

end

end
