(* ===== verification/Task_Repo.thy ===== *)
theory Task_Repo
  imports Sql
begin

text \<open>
  The task repository: the interface \<open>TaskRepo\<close> of \<^verbatim>\<open>src/internal/repo/contracts.go\<close>, its
  PostgreSQL implementation (\<^verbatim>\<open>src/internal/repo/persistent/task/task.go\<close>), the tracing
  decorator around it (\<^verbatim>\<open>tracing.go\<close> beside it), the contract of the interface as the locale
  \<open>task_repo\<close>, and the proof that the implementation meets the contract on every database
  that behaves like \<open>sql_db\<close>.
\<close>

section \<open>The interface\<close>

record TaskFilter =
  flt_Status :: "TaskStatus option"
  flt_Limit :: "64 word"
  flt_Offset :: "64 word"

record 'db TaskRepo =
  TaskRepo_Store :: "go_ctx \<Rightarrow> Task \<Rightarrow> ('db, go_error option) io"
  TaskRepo_GetByID :: "go_ctx \<Rightarrow> string \<Rightarrow> string \<Rightarrow> ('db, Task result) io"
  TaskRepo_List :: "go_ctx \<Rightarrow> string \<Rightarrow> TaskFilter \<Rightarrow> ('db, (Task list \<times> 64 word) result outcome) io"
  TaskRepo_Update :: "go_ctx \<Rightarrow> Task \<Rightarrow> ('db, go_error option) io"
  TaskRepo_Delete :: "go_ctx \<Rightarrow> string \<Rightarrow> string \<Rightarrow> ('db, go_error option) io"

section \<open>The PostgreSQL implementation\<close>

definition task_cols :: "string list" where
  "task_cols = [''id'', ''user_id'', ''title'', ''description'', ''status'', ''created_at'', ''updated_at'']"

text \<open>The values of \<open>Columns(...)\<close> and the destinations of \<open>Scan(&t.ID, ..., &t.UpdatedAt)\<close>.\<close>

definition task_vals :: "Task \<Rightarrow> sqlval list" where
  "task_vals t = [VText (task_ID t), VText (task_UserID t), VText (task_Title t),
     VText (task_Description t), VText (task_Status t), VTime (task_CreatedAt t), VTime (task_UpdatedAt t)]"

fun scan_task :: "sqlval list \<Rightarrow> Task" where
  "scan_task [i, u, ti, de, st, ca, ua] =
     \<lparr>task_ID = val_str i, task_UserID = val_str u, task_Title = val_str ti,
      task_Description = val_str de, task_Status = val_str st,
      task_CreatedAt = val_time ca, task_UpdatedAt = val_time ua\<rparr>"
| "scan_task _ =
     \<lparr>task_ID = '''', task_UserID = '''', task_Title = '''', task_Description = '''',
      task_Status = '''', task_CreatedAt = 0, task_UpdatedAt = 0\<rparr>"

definition Task_Store :: "'db Postgres \<Rightarrow> go_ctx \<Rightarrow> Task \<Rightarrow> ('db, go_error option) io" where
  "Task_Store r ctx task =
     (let sql = Insert ''tasks'' task_cols (task_vals task) in
      case Builder_ToSql r sql of
        Some err \<Rightarrow> ret (Some (Errorf ''TaskRepo - Store - r.Builder: '' err))
      | None \<Rightarrow> do {
          res \<leftarrow> on_db (Pool_Exec r ctx sql);
          case res of
            Inl err \<Rightarrow> ret (Some (Errorf ''TaskRepo - Store - r.Pool.Exec: '' err))
          | Inr _ \<Rightarrow> ret None })"

definition Task_GetByID :: "'db Postgres \<Rightarrow> go_ctx \<Rightarrow> string \<Rightarrow> string \<Rightarrow> ('db, Task result) io" where
  "Task_GetByID r ctx userID taskID =
     (let sql = Select task_cols ''tasks'' [SqEq [(''id'', VText taskID)]] None None None in
      case Builder_ToSql r sql of
        Some err \<Rightarrow> ret (Inl (Errorf ''TaskRepo - GetByID - r.Builder: '' err))
      | None \<Rightarrow> do {
          res \<leftarrow> on_db (Pool_QueryRow r ctx sql);
          case res of
            Inl err \<Rightarrow>
              if errors_Is err ErrNoRows then ret (Inl ErrTaskNotFound)
              else ret (Inl (Errorf ''TaskRepo - GetByID - r.Pool.QueryRow: '' err))
          | Inr vs \<Rightarrow>
              let task = scan_task vs in
              if task_UserID task \<noteq> userID then ret (Inl ErrTaskForbidden)
              else ret (Inr task) })"

text \<open>
  \<open>make([]entity.Task, 0, filter.Limit)\<close> panics when the backing array would be larger than
  the runtime's limit: a \<open>Task\<close> takes 128 bytes on 64-bit platforms (five strings of 16 and
  two \<open>time.Time\<close> of 24), and the runtime refuses more than \<open>2 ^ 48\<close> bytes.
\<close>

definition task_size :: nat where
  "task_size = 5 * 16 + 2 * 24"

definition max_alloc :: nat where
  "max_alloc = 2 ^ 48"

definition makeslice_panics :: "64 word \<Rightarrow> bool" where
  "makeslice_panics n \<longleftrightarrow> max_alloc < unat n * task_size"

definition status_pred :: "TaskStatus option \<Rightarrow> sql_pred list" where
  "status_pred st = (case st of None \<Rightarrow> [] | Some s \<Rightarrow> [SqEq [(''status'', VText s)]])"

definition List_count :: "string \<Rightarrow> TaskFilter \<Rightarrow> stmt" where
  "List_count userID f =
     Select [''COUNT(*)''] ''tasks'' (SqEq [(''user_id'', VText userID)] # status_pred (flt_Status f))
       None None None"

definition List_data :: "string \<Rightarrow> TaskFilter \<Rightarrow> stmt" where
  "List_data userID f =
     Select task_cols ''tasks'' (SqEq [(''user_id'', VText userID)] # status_pred (flt_Status f))
       (Some ''created_at'') (Some (flt_Limit f)) (Some (flt_Offset f))"

text \<open>After the loop the source returns without asking for \<open>rows.Err()\<close>.\<close>

definition Task_List ::
  "'db Postgres \<Rightarrow> go_ctx \<Rightarrow> string \<Rightarrow> TaskFilter \<Rightarrow> ('db, (Task list \<times> 64 word) result outcome) io"
where
  "Task_List r ctx userID flt =
     (case Builder_ToSql r (List_count userID flt) of
        Some err \<Rightarrow> ret (Returns (Inl (Errorf ''TaskRepo - List - countBuilder: '' err)))
      | None \<Rightarrow> do {
          cres \<leftarrow> on_db (Pool_QueryRow r ctx (List_count userID flt));
          case cres of
            Inl err \<Rightarrow> ret (Returns (Inl (Errorf ''TaskRepo - List - count query: '' err)))
          | Inr cvs \<Rightarrow>
              let total = (case cvs of v # _ \<Rightarrow> val_int v | [] \<Rightarrow> 0) in
              case Builder_ToSql r (List_data userID flt) of
                Some err \<Rightarrow> ret (Returns (Inl (Errorf ''TaskRepo - List - dataBuilder: '' err)))
              | None \<Rightarrow> do {
                  qres \<leftarrow> on_db (Pool_Query r ctx (List_data userID flt));
                  case qres of
                    Inl err \<Rightarrow> ret (Returns (Inl (Errorf ''TaskRepo - List - r.Pool.Query: '' err)))
                  | Inr rows \<Rightarrow>
                      if makeslice_panics (flt_Limit flt)
                      then ret (Panics ''runtime error: makeslice: cap out of range'')
                      else case scan_rows scan_task (rows_items rows) [] of
                             Inl err \<Rightarrow> ret (Returns (Inl (Errorf ''TaskRepo - List - rows.Scan: '' err)))
                           | Inr tasks \<Rightarrow> ret (Returns (Inr (tasks, total))) } })"

definition Task_Update :: "'db Postgres \<Rightarrow> go_ctx \<Rightarrow> Task \<Rightarrow> ('db, go_error option) io" where
  "Task_Update r ctx task =
     (let sql = Update ''tasks''
            [(''title'', VText (task_Title task)), (''description'', VText (task_Description task)),
             (''status'', VText (task_Status task)), (''updated_at'', VTime (task_UpdatedAt task))]
            [SqEq [(''id'', VText (task_ID task)), (''user_id'', VText (task_UserID task))]] in
      case Builder_ToSql r sql of
        Some err \<Rightarrow> ret (Some (Errorf ''TaskRepo - Update - r.Builder: '' err))
      | None \<Rightarrow> do {
          res \<leftarrow> on_db (Pool_Exec r ctx sql);
          case res of
            Inl err \<Rightarrow> ret (Some (Errorf ''TaskRepo - Update - r.Pool.Exec: '' err))
          | Inr n \<Rightarrow> if n = 0 then ret (Some ErrTaskNotFound) else ret None })"

definition Task_Delete :: "'db Postgres \<Rightarrow> go_ctx \<Rightarrow> string \<Rightarrow> string \<Rightarrow> ('db, go_error option) io" where
  "Task_Delete r ctx userID taskID =
     (let sql = Delete ''tasks'' [SqEq [(''id'', VText taskID), (''user_id'', VText userID)]] in
      case Builder_ToSql r sql of
        Some err \<Rightarrow> ret (Some (Errorf ''TaskRepo - Delete - r.Builder: '' err))
      | None \<Rightarrow> do {
          res \<leftarrow> on_db (Pool_Exec r ctx sql);
          case res of
            Inl err \<Rightarrow> ret (Some (Errorf ''TaskRepo - Delete - r.Pool.Exec: '' err))
          | Inr n \<Rightarrow> if n = 0 then ret (Some ErrTaskNotFound) else ret None })"

definition TaskPgRepo :: "'db Postgres \<Rightarrow> 'db TaskRepo" where
  "TaskPgRepo pg =
     \<lparr>TaskRepo_Store = Task_Store pg, TaskRepo_GetByID = Task_GetByID pg, TaskRepo_List = Task_List pg,
      TaskRepo_Update = Task_Update pg, TaskRepo_Delete = Task_Delete pg\<rparr>"

section \<open>The tracing decorator\<close>

definition task_repo_tracer :: string where
  "task_repo_tracer = ''github.com/divilla/go-scream-template/internal/repo/persistent/task''"

definition MaxInt64 :: "64 word" where
  "MaxInt64 = 0x7FFFFFFFFFFFFFFF"

definition safeUint64ToInt64 :: "64 word \<Rightarrow> 64 word" where
  "safeUint64ToInt64 v = (if v > MaxInt64 then MaxInt64 else v)"

definition tracedRepo_Store :: "'db TaskRepo \<Rightarrow> go_ctx \<Rightarrow> Task \<Rightarrow> ('db, go_error option) io" where
  "tracedRepo_Store next ctx task = do {
     ctx \<leftarrow> startSpan task_repo_tracer ctx ''TaskRepo.Store''
              [(''user.id'', AString (task_UserID task)), (''task.id'', AString (task_ID task))];
     err \<leftarrow> TaskRepo_Store next ctx task;
     endSpan err;
     ret err }"

definition tracedRepo_GetByID :: "'db TaskRepo \<Rightarrow> go_ctx \<Rightarrow> string \<Rightarrow> string \<Rightarrow> ('db, Task result) io" where
  "tracedRepo_GetByID next ctx userID taskID = do {
     ctx \<leftarrow> startSpan task_repo_tracer ctx ''TaskRepo.GetByID''
              [(''user.id'', AString userID), (''task.id'', AString taskID)];
     result \<leftarrow> TaskRepo_GetByID next ctx userID taskID;
     endSpan (err_of result);
     ret result }"

text \<open>\<open>endSpan\<close> is not deferred: a panic of the wrapped call leaves the span open.\<close>

definition tracedRepo_List ::
  "'db TaskRepo \<Rightarrow> go_ctx \<Rightarrow> string \<Rightarrow> TaskFilter \<Rightarrow> ('db, (Task list \<times> 64 word) result outcome) io"
where
  "tracedRepo_List next ctx userID flt =
     (let attrs = [(''user.id'', AString userID),
                   (''task.limit'', AInt (sint (safeUint64ToInt64 (flt_Limit flt)))),
                   (''task.offset'', AInt (sint (safeUint64ToInt64 (flt_Offset flt))))];
          attrs = (case flt_Status flt of None \<Rightarrow> attrs | Some s \<Rightarrow> attrs @ [(''task.status'', AString s)])
      in do {
        ctx \<leftarrow> startSpan task_repo_tracer ctx ''TaskRepo.List'' attrs;
        res \<leftarrow> TaskRepo_List next ctx userID flt;
        case res of
          Panics m \<Rightarrow> ret (Panics m)
        | Returns r \<Rightarrow> do { endSpan (err_of r); ret (Returns r) } })"

definition tracedRepo_Update :: "'db TaskRepo \<Rightarrow> go_ctx \<Rightarrow> Task \<Rightarrow> ('db, go_error option) io" where
  "tracedRepo_Update next ctx task = do {
     ctx \<leftarrow> startSpan task_repo_tracer ctx ''TaskRepo.Update''
              [(''user.id'', AString (task_UserID task)), (''task.id'', AString (task_ID task))];
     err \<leftarrow> TaskRepo_Update next ctx task;
     endSpan err;
     ret err }"

definition tracedRepo_Delete :: "'db TaskRepo \<Rightarrow> go_ctx \<Rightarrow> string \<Rightarrow> string \<Rightarrow> ('db, go_error option) io" where
  "tracedRepo_Delete next ctx userID taskID = do {
     ctx \<leftarrow> startSpan task_repo_tracer ctx ''TaskRepo.Delete''
              [(''user.id'', AString userID), (''task.id'', AString taskID)];
     err \<leftarrow> TaskRepo_Delete next ctx userID taskID;
     endSpan err;
     ret err }"

definition newTracedTaskRepo :: "'db TaskRepo \<Rightarrow> 'db TaskRepo" where
  "newTracedTaskRepo next =
     \<lparr>TaskRepo_Store = tracedRepo_Store next, TaskRepo_GetByID = tracedRepo_GetByID next,
      TaskRepo_List = tracedRepo_List next, TaskRepo_Update = tracedRepo_Update next,
      TaskRepo_Delete = tracedRepo_Delete next\<rparr>"

text \<open>\<open>New\<close> of the package: the PostgreSQL repository behind the decorator.\<close>

definition NewTaskRepo :: "'db Postgres \<Rightarrow> 'db TaskRepo" where
  "NewTaskRepo pg = newTracedTaskRepo (TaskPgRepo pg)"

section \<open>The contract of the interface\<close>

text \<open>
  The contract speaks of the tasks a database holds, as a multiset. \<open>stored_task\<close> is what a
  task becomes when it is stored; \<open>write_task t x\<close> is row \<open>x\<close> after \<open>Update(t)\<close>.
\<close>

definition row_task :: "row \<Rightarrow> Task" where
  "row_task r = scan_task (project task_cols r)"

definition stored_task :: "(string \<Rightarrow> string) \<Rightarrow> (int \<Rightarrow> int) \<Rightarrow> Task \<Rightarrow> Task" where
  "stored_task uuid micro t = t\<lparr>task_ID := uuid (task_ID t), task_UserID := uuid (task_UserID t),
     task_CreatedAt := micro (task_CreatedAt t), task_UpdatedAt := micro (task_UpdatedAt t)\<rparr>"

definition write_task :: "(int \<Rightarrow> int) \<Rightarrow> Task \<Rightarrow> Task \<Rightarrow> Task" where
  "write_task micro t x = x\<lparr>task_Title := task_Title t, task_Description := task_Description t,
     task_Status := task_Status t, task_UpdatedAt := micro (task_UpdatedAt t)\<rparr>"

definition is_task :: "string \<Rightarrow> string \<Rightarrow> Task \<Rightarrow> bool" where
  "is_task u i x \<longleftrightarrow> task_ID x = i \<and> task_UserID x = u"

definition update_tasks :: "(string \<Rightarrow> string) \<Rightarrow> (int \<Rightarrow> int) \<Rightarrow> Task \<Rightarrow> Task multiset \<Rightarrow> Task multiset" where
  "update_tasks uuid micro t M =
     image_mset (\<lambda>x. if is_task (uuid (task_UserID t)) (uuid (task_ID t)) x
                     then write_task micro t x else x) M"

text \<open>The rows \<open>List\<close> may show: a prefix of the page of a newest-first listing of the matching tasks.\<close>

definition wanted :: "(string \<Rightarrow> string) \<Rightarrow> string \<Rightarrow> TaskStatus option \<Rightarrow> Task \<Rightarrow> bool" where
  "wanted uuid u st x \<longleftrightarrow> task_UserID x = uuid u \<and> (\<forall>s. st = Some s \<longrightarrow> task_Status x = s)"

definition newest_first :: "Task list \<Rightarrow> bool" where
  "newest_first = sorted_wrt (\<lambda>x y. task_CreatedAt y \<le> task_CreatedAt x)"

locale task_repo =
  fixes repo :: "'db TaskRepo"
    and tasks :: "'db \<Rightarrow> Task multiset"
    and ok :: "'db \<Rightarrow> bool"
    and uuid :: "string \<Rightarrow> string"
    and micro :: "int \<Rightarrow> int"
  assumes canon: "uuid (uuid u) = uuid u"
    and trunc: "micro (micro n) = micro n"
    and key: "ok d \<Longrightarrow> x \<in># tasks d \<Longrightarrow> y \<in># tasks d \<Longrightarrow> task_ID x = task_ID y \<Longrightarrow> x = y"
    and store_inv: "run_state (TaskRepo_Store repo ctx t) w = (oe, w') \<Longrightarrow> ok (wdb w) \<Longrightarrow> ok (wdb w')"
    and store_ok: "run_state (TaskRepo_Store repo ctx t) w = (None, w') \<Longrightarrow> ok (wdb w) \<Longrightarrow>
       tasks (wdb w') = add_mset (stored_task uuid micro t) (tasks (wdb w))"
    and store_err: "run_state (TaskRepo_Store repo ctx t) w = (Some e, w') \<Longrightarrow> ok (wdb w) \<Longrightarrow>
       foreign e \<and> tasks (wdb w') \<in> {tasks (wdb w), add_mset (stored_task uuid micro t) (tasks (wdb w))}"
    and get_frame: "run_state (TaskRepo_GetByID repo ctx u i) w = (tr, w') \<Longrightarrow> ok (wdb w) \<Longrightarrow>
       ok (wdb w') \<and> tasks (wdb w') = tasks (wdb w)"
    and get_ok: "run_state (TaskRepo_GetByID repo ctx u i) w = (Inr t, w') \<Longrightarrow> ok (wdb w) \<Longrightarrow>
       t \<in># tasks (wdb w) \<and> is_task u (uuid i) t"
    and get_err: "run_state (TaskRepo_GetByID repo ctx u i) w = (Inl e, w') \<Longrightarrow> ok (wdb w) \<Longrightarrow>
       (e = ErrTaskNotFound \<and> (\<forall>x \<in># tasks (wdb w). task_ID x \<noteq> uuid i)) \<or>
       (e = ErrTaskForbidden \<and> (\<exists>x \<in># tasks (wdb w). task_ID x = uuid i \<and> task_UserID x \<noteq> u)) \<or>
       foreign e"
    and update_inv: "run_state (TaskRepo_Update repo ctx t) w = (oe, w') \<Longrightarrow> ok (wdb w) \<Longrightarrow> ok (wdb w')"
    and update_ok: "run_state (TaskRepo_Update repo ctx t) w = (None, w') \<Longrightarrow> ok (wdb w) \<Longrightarrow>
       tasks (wdb w') = update_tasks uuid micro t (tasks (wdb w)) \<and>
       (\<exists>x \<in># tasks (wdb w). is_task (uuid (task_UserID t)) (uuid (task_ID t)) x)"
    and update_err: "run_state (TaskRepo_Update repo ctx t) w = (Some e, w') \<Longrightarrow> ok (wdb w) \<Longrightarrow>
       (e = ErrTaskNotFound \<and> tasks (wdb w') = tasks (wdb w) \<and>
         (\<forall>x \<in># tasks (wdb w). \<not> is_task (uuid (task_UserID t)) (uuid (task_ID t)) x)) \<or>
       (foreign e \<and> tasks (wdb w') \<in> {tasks (wdb w), update_tasks uuid micro t (tasks (wdb w))})"
    and delete_inv: "run_state (TaskRepo_Delete repo ctx u i) w = (oe, w') \<Longrightarrow> ok (wdb w) \<Longrightarrow> ok (wdb w')"
    and delete_ok: "run_state (TaskRepo_Delete repo ctx u i) w = (None, w') \<Longrightarrow> ok (wdb w) \<Longrightarrow>
       tasks (wdb w') = filter_mset (\<lambda>x. \<not> is_task (uuid u) (uuid i) x) (tasks (wdb w)) \<and>
       (\<exists>x \<in># tasks (wdb w). is_task (uuid u) (uuid i) x)"
    and delete_err: "run_state (TaskRepo_Delete repo ctx u i) w = (Some e, w') \<Longrightarrow> ok (wdb w) \<Longrightarrow>
       (e = ErrTaskNotFound \<and> tasks (wdb w') = tasks (wdb w) \<and>
         (\<forall>x \<in># tasks (wdb w). \<not> is_task (uuid u) (uuid i) x)) \<or>
       (foreign e \<and> tasks (wdb w') \<in>
         {tasks (wdb w), filter_mset (\<lambda>x. \<not> is_task (uuid u) (uuid i) x) (tasks (wdb w))})"
    and list_frame: "run_state (TaskRepo_List repo ctx u flt) w = (lr, w') \<Longrightarrow> ok (wdb w) \<Longrightarrow>
       ok (wdb w') \<and> tasks (wdb w') = tasks (wdb w)"
    and list_ok: "run_state (TaskRepo_List repo ctx u flt) w = (Returns (Inr (ts, cnt)), w') \<Longrightarrow>
       ok (wdb w) \<Longrightarrow>
       (\<exists>ys. mset ys = filter_mset (wanted uuid u (flt_Status flt)) (tasks (wdb w)) \<and> newest_first ys \<and>
          prefix ts (cut (Some (flt_Limit flt)) (Some (flt_Offset flt)) ys)) \<and>
       cnt = of_nat (size (filter_mset (wanted uuid u (flt_Status flt)) (tasks (wdb w))))"
    and list_panic: "run_state (TaskRepo_List repo ctx u flt) w = (Panics msg, w') \<Longrightarrow>
       makeslice_panics (flt_Limit flt)"
begin

lemma get_unique:
  "run_state (TaskRepo_GetByID repo ctx u i) w = (Inr t, w') \<Longrightarrow> ok (wdb w) \<Longrightarrow>
   x \<in># tasks (wdb w) \<Longrightarrow> task_ID x = uuid i \<Longrightarrow> x = t"
  using get_ok [of ctx u i w t w'] key [of "wdb w" x t] by (auto simp: is_task_def)

end

section \<open>The implementation meets the contract\<close>

lemma task_rowE:
  assumes "task_row r"
  obtains i u ti st ca ua where "r ''id'' = Some (VText i)" "r ''user_id'' = Some (VText u)"
    "r ''title'' = Some (VText ti)" "r ''status'' = Some (VText st)"
    "r ''created_at'' = Some (VTime ca)" "r ''updated_at'' = Some (VTime ua)"
  using assms by (auto simp: task_row_def col_iffs)

lemma row_task_sel [simp]:
  "task_ID (row_task r) = val_str (the (r ''id''))"
  "task_UserID (row_task r) = val_str (the (r ''user_id''))"
  "task_Title (row_task r) = val_str (the (r ''title''))"
  "task_Description (row_task r) = val_str (the (r ''description''))"
  "task_Status (row_task r) = val_str (the (r ''status''))"
  "task_CreatedAt (row_task r) = val_time (the (r ''created_at''))"
  "task_UpdatedAt (row_task r) = val_time (the (r ''updated_at''))"
  by (simp_all add: row_task_def project_def task_cols_def)

lemma Task_eqI:
  assumes "task_ID x = task_ID y" "task_UserID x = task_UserID y" "task_Title x = task_Title y"
    "task_Description x = task_Description y" "task_Status x = task_Status y"
    "task_CreatedAt x = task_CreatedAt y" "task_UpdatedAt x = task_UpdatedAt y"
  shows "x = (y :: Task)"
  using assms by simp

lemma new_row_task: "row_task (new_row (sql_cast uuid micro) task_cols (task_vals t)) = stored_task uuid micro t"
  by (rule Task_eqI) (simp_all add: new_row_def task_cols_def task_vals_def stored_task_def)

lemma matches_owner:
  assumes "task_row r"
  shows "matches (sql_cast uuid micro) [SqEq [(''id'', VText i), (''user_id'', VText u)]] r \<longleftrightarrow>
         is_task (uuid u) (uuid i) (row_task r)"
  using assms by (elim task_rowE) (simp add: matches_def is_task_def)

lemma matches_id:
  assumes "task_row r"
  shows "matches (sql_cast uuid micro) [SqEq [(''id'', VText i)]] r \<longleftrightarrow> task_ID (row_task r) = uuid i"
  using assms by (elim task_rowE) (simp add: matches_def)

lemma matches_wanted:
  assumes "task_row r"
  shows "matches (sql_cast uuid micro) (SqEq [(''user_id'', VText u)] # status_pred st) r \<longleftrightarrow>
         wanted uuid u st (row_task r)"
  using assms by (elim task_rowE) (cases st; simp add: matches_def wanted_def status_pred_def)

lemma set_row_task:
  assumes "task_row r"
  shows "row_task (set_row (sql_cast uuid micro)
            [(''title'', VText (task_Title t)), (''description'', VText (task_Description t)),
             (''status'', VText (task_Status t)), (''updated_at'', VTime (task_UpdatedAt t))] r) =
         write_task micro t (row_task r)"
  by (rule Task_eqI) (simp_all add: set_row_def write_task_def)

definition db_tasks :: "('db \<Rightarrow> tables) \<Rightarrow> 'db \<Rightarrow> Task multiset" where
  "db_tasks tbl d = image_mset row_task (tbl d ''tasks'')"

lemma db_tasks_cong: "tbl d' = tbl d \<Longrightarrow> db_tasks tbl d' = db_tasks tbl d"
  by (simp add: db_tasks_def)

lemma answers_all:
  "answers cast T (Select cs t ps None None None) xs \<longleftrightarrow> mset xs = filter_mset (matches cast ps) (T t)"
  by (auto simp: desc_by_def cut_def)

lemma cut_map: "cut lim off (map f xs) = map f (cut lim off xs)"
  by (simp add: cut_def Let_def drop_map take_map split: option.splits)

lemma prefix_of_items:
  assumes "\<forall>i < length vss. i < length xs \<and> vss ! i = f (xs ! i)"
  shows "prefix (map g vss) (map (\<lambda>x. g (f x)) xs)"
proof -
  have "length vss \<le> length xs"
    using assms by (cases vss) (auto simp: Suc_le_eq dest: spec [of _ "length vss - 1"])
  then have "vss = map f (take (length vss) xs)"
    using assms by (intro nth_equalityI) auto
  then have "map g vss = take (length vss) (map (\<lambda>x. g (f x)) xs)"
    by (metis (no_types, lifting) comp_apply list.map_cong list.map_comp take_map)
  then show ?thesis by (simp add: take_is_prefix)
qed

lemma Task_List_panics:
  "run_state (Task_List pg ctx u flt) w = (Panics msg, w') \<Longrightarrow> makeslice_panics (flt_Limit flt)"
  by (auto simp: Task_List_def Let_def split: option.splits sum.splits prod.splits if_splits)

context sql_db
begin

abbreviation tasks :: "'db \<Rightarrow> Task multiset" where
  "tasks \<equiv> db_tasks tbl"

lemma good_task_row: "good d \<Longrightarrow> r \<in># tbl d ''tasks'' \<Longrightarrow> task_row r"
  using good_schema [of d] by (simp add: schema_ok_def)

lemma filter_tasks:
  assumes "good d" and "\<And>r. task_row r \<Longrightarrow> P r \<longleftrightarrow> Q (row_task r)"
  shows "image_mset row_task (filter_mset P (tbl d ''tasks'')) = filter_mset Q (tasks d)"
proof -
  have "filter_mset P (tbl d ''tasks'') = filter_mset (\<lambda>r. Q (row_task r)) (tbl d ''tasks'')"
    by (rule filter_mset_cong) (use assms good_task_row in auto)
  then show ?thesis by (simp add: db_tasks_def filter_mset_image_mset o_def)
qed

lemma tasks_key: "good d \<Longrightarrow> x \<in># tasks d \<Longrightarrow> y \<in># tasks d \<Longrightarrow> task_ID x = task_ID y \<Longrightarrow> x = y"
proof -
  assume d: "good d" and x: "x \<in># tasks d" and y: "y \<in># tasks d" and id: "task_ID x = task_ID y"
  from x y obtain r q where r: "r \<in># tbl d ''tasks''" "x = row_task r"
    and q: "q \<in># tbl d ''tasks''" "y = row_task q" by (auto simp: db_tasks_def)
  from r q id good_task_row [OF d] have "r ''id'' = q ''id''"
    by (metis row_task_sel(1) task_rowE val_str.simps(1) option.sel)
  with r q good_schema [OF d] have "r = q"
    by (auto simp: schema_ok_def uniques_ok_def dest: unique_colD)
  with r q show "x = y" by simp
qed

lemma tasks_insert:
  "tasks_of = effect cast (Insert ''tasks'' task_cols (task_vals t)) (tbl d) \<Longrightarrow>
   image_mset row_task (tasks_of ''tasks'') = add_mset (stored_task uuid micro t) (tasks d)"
  by (simp add: db_tasks_def new_row_task)

lemma tasks_update:
  assumes "good d"
  shows "image_mset row_task (effect cast (Update ''tasks''
            [(''title'', VText (task_Title t)), (''description'', VText (task_Description t)),
             (''status'', VText (task_Status t)), (''updated_at'', VTime (task_UpdatedAt t))]
            [SqEq [(''id'', VText (task_ID t)), (''user_id'', VText (task_UserID t))]]) (tbl d) ''tasks'') =
         update_tasks uuid micro t (tasks d)"
  unfolding update_tasks_def db_tasks_def effect.simps fun_upd_same multiset.map_comp o_def
  by (rule image_mset_cong) (simp add: good_task_row [OF assms] matches_owner set_row_task)

lemma tasks_delete:
  assumes "good d"
  shows "image_mset row_task (effect cast
            (Delete ''tasks'' [SqEq [(''id'', VText i), (''user_id'', VText u)]]) (tbl d) ''tasks'') =
         filter_mset (\<lambda>x. \<not> is_task (uuid u) (uuid i) x) (tasks d)"
  using filter_tasks [OF assms, of "\<lambda>r. \<not> matches cast [SqEq [(''id'', VText i), (''user_id'', VText u)]] r"
      "\<lambda>x. \<not> is_task (uuid u) (uuid i) x"]
  by (simp add: matches_owner)

lemma affected_owner:
  assumes "good d" and "n = size (filter_mset (matches cast [SqEq [(''id'', VText i), (''user_id'', VText u)]])
                                 (tbl d ''tasks''))"
  shows "n = 0 \<longleftrightarrow> (\<forall>x \<in># tasks d. \<not> is_task (uuid u) (uuid i) x)"
proof -
  have "n = size (filter_mset (is_task (uuid u) (uuid i)) (tasks d))"
    using assms filter_tasks [OF assms(1), of "matches cast [SqEq [(''id'', VText i), (''user_id'', VText u)]]"
      "is_task (uuid u) (uuid i)"]
    by (metis matches_owner size_image_mset)
  then show ?thesis by (auto simp: filter_mset_eq_mempty_iff)
qed

lemma pg_store:
  assumes run: "run_state (Task_Store pg ctx t) w = (oe, w')" and w: "good (wdb w)"
  shows "good (wdb w') \<and>
    (case oe of
       None \<Rightarrow> tasks (wdb w') = add_mset (stored_task uuid micro t) (tasks (wdb w))
     | Some e \<Rightarrow> foreign e \<and>
         tasks (wdb w') \<in> {tasks (wdb w), add_mset (stored_task uuid micro t) (tasks (wdb w))})"
proof -
  let ?sql = "Insert ''tasks'' task_cols (task_vals t)"
  show ?thesis
  proof (cases "Builder_ToSql pg ?sql")
    case (Some e)
    with run w show ?thesis by (auto simp: Task_Store_def dest: builder_foreign)
  next
    case None
    obtain r d' where exec: "Pool_Exec pg ctx ?sql (wdb w) = (r, d')" by fastforce
    have new: "tbl d' = effect cast ?sql (tbl (wdb w)) \<Longrightarrow>
        tasks d' = add_mset (stored_task uuid micro t) (tasks (wdb w))"
      by (simp add: db_tasks_def new_row_task)
    have same: "tbl d' = tbl (wdb w) \<Longrightarrow> tasks d' = tasks (wdb w)" by (rule db_tasks_cong)
    from exec w show ?thesis
      by (cases rule: exec_cases) (use run None exec new same in \<open>auto simp: Task_Store_def\<close>)
  qed
qed

lemma pg_get:
  assumes run: "run_state (Task_GetByID pg ctx u i) w = (tr, w')" and w: "good (wdb w)"
  shows "good (wdb w') \<and> tasks (wdb w') = tasks (wdb w) \<and>
    (case tr of
       Inr t \<Rightarrow> t \<in># tasks (wdb w) \<and> is_task u (uuid i) t
     | Inl e \<Rightarrow>
        (e = ErrTaskNotFound \<and> (\<forall>x \<in># tasks (wdb w). task_ID x \<noteq> uuid i)) \<or>
        (e = ErrTaskForbidden \<and> (\<exists>x \<in># tasks (wdb w). task_ID x = uuid i \<and> task_UserID x \<noteq> u)) \<or>
        foreign e)"
proof -
  let ?ps = "[SqEq [(''id'', VText i)]]"
  let ?sql = "Select task_cols ''tasks'' ?ps None None None"
  show ?thesis
  proof (cases "Builder_ToSql pg ?sql")
    case (Some e)
    with run w show ?thesis by (auto simp: Task_GetByID_def dest: builder_foreign)
  next
    case None
    obtain vr d' where exec: "Pool_QueryRow pg ctx ?sql (wdb w) = (vr, d')" by fastforce
    have cols: "''COUNT(*)'' \<notin> set task_cols" by (simp add: task_cols_def)
    have same: "tbl d' = tbl (wdb w) \<Longrightarrow> tasks d' = tasks (wdb w)" by (rule db_tasks_cong)
    from exec w cols show ?thesis
    proof (cases rule: row_cases)
      case (row r)
      have "task_ID (row_task r) = uuid i"
        using row good_task_row [OF w] matches_id [of r uuid micro i] by blast
      moreover have "row_task r \<in># tasks (wdb w)"
        using row by (simp add: db_tasks_def)
      ultimately show ?thesis
        using run None exec row same
        by (auto simp: Task_GetByID_def Let_def is_task_def row_task_def [symmetric]
            simp del: row_task_sel split: if_splits)
    next
      case (none e)
      have "\<forall>x \<in># tasks (wdb w). task_ID x \<noteq> uuid i"
        using none good_task_row [OF w] matches_id [of _ uuid micro i]
        by (auto simp: db_tasks_def simp del: row_task_sel)
      with run None exec none same show ?thesis by (auto simp: Task_GetByID_def)
    next
      case (failed e)
      with run None exec same show ?thesis by (auto simp: Task_GetByID_def)
    qed
  qed
qed

lemma pg_update:
  assumes run: "run_state (Task_Update pg ctx t) w = (oe, w')" and w: "good (wdb w)"
  defines "U \<equiv> update_tasks uuid micro t (tasks (wdb w))"
    and "mine \<equiv> is_task (uuid (task_UserID t)) (uuid (task_ID t))"
  shows "good (wdb w') \<and>
    (case oe of
       None \<Rightarrow> tasks (wdb w') = U \<and> (\<exists>x \<in># tasks (wdb w). mine x)
     | Some e \<Rightarrow>
        (e = ErrTaskNotFound \<and> tasks (wdb w') = tasks (wdb w) \<and> (\<forall>x \<in># tasks (wdb w). \<not> mine x)) \<or>
        (foreign e \<and> tasks (wdb w') \<in> {tasks (wdb w), U}))"
proof -
  let ?sets = "[(''title'', VText (task_Title t)), (''description'', VText (task_Description t)),
             (''status'', VText (task_Status t)), (''updated_at'', VTime (task_UpdatedAt t))]"
  let ?ps = "[SqEq [(''id'', VText (task_ID t)), (''user_id'', VText (task_UserID t))]]"
  let ?sql = "Update ''tasks'' ?sets ?ps"
  show ?thesis
  proof (cases "Builder_ToSql pg ?sql")
    case (Some e)
    with run w show ?thesis by (auto simp: Task_Update_def dest: builder_foreign)
  next
    case None
    obtain r d' where exec: "Pool_Exec pg ctx ?sql (wdb w) = (r, d')" by fastforce
    have new: "tbl d' = effect cast ?sql (tbl (wdb w)) \<Longrightarrow> tasks d' = U"
      unfolding U_def tasks_update [OF w, symmetric] by (simp add: db_tasks_def)
    have idle: "\<forall>x \<in># tasks (wdb w). \<not> mine x \<Longrightarrow> U = tasks (wdb w)"
      unfolding U_def update_tasks_def mine_def by (simp cong: image_mset_cong)
    from exec w show ?thesis
    proof (cases rule: exec_cases)
      case (ok n)
      have "n = 0 \<longleftrightarrow> (\<forall>x \<in># tasks (wdb w). \<not> mine x)"
        unfolding mine_def by (rule affected_owner [OF w]) (simp add: ok)
      with run None exec ok new idle show ?thesis
        by (auto simp: Task_Update_def split: if_splits)
    qed (use run None exec new db_tasks_cong [of tbl d' "wdb w"] in \<open>auto simp: Task_Update_def\<close>)
  qed
qed

lemma pg_delete:
  assumes run: "run_state (Task_Delete pg ctx u i) w = (oe, w')" and w: "good (wdb w)"
  defines "D \<equiv> filter_mset (\<lambda>x. \<not> is_task (uuid u) (uuid i) x) (tasks (wdb w))"
  shows "good (wdb w') \<and>
    (case oe of
       None \<Rightarrow> tasks (wdb w') = D \<and> (\<exists>x \<in># tasks (wdb w). is_task (uuid u) (uuid i) x)
     | Some e \<Rightarrow>
        (e = ErrTaskNotFound \<and> tasks (wdb w') = tasks (wdb w) \<and>
          (\<forall>x \<in># tasks (wdb w). \<not> is_task (uuid u) (uuid i) x)) \<or>
        (foreign e \<and> tasks (wdb w') \<in> {tasks (wdb w), D}))"
proof -
  let ?sql = "Delete ''tasks'' [SqEq [(''id'', VText i), (''user_id'', VText u)]]"
  show ?thesis
  proof (cases "Builder_ToSql pg ?sql")
    case (Some e)
    with run w show ?thesis by (auto simp: Task_Delete_def dest: builder_foreign)
  next
    case None
    obtain r d' where exec: "Pool_Exec pg ctx ?sql (wdb w) = (r, d')" by fastforce
    have new: "tbl d' = effect cast ?sql (tbl (wdb w)) \<Longrightarrow> tasks d' = D"
      unfolding D_def tasks_delete [OF w, symmetric] by (simp add: db_tasks_def)
    have idle: "\<forall>x \<in># tasks (wdb w). \<not> is_task (uuid u) (uuid i) x \<Longrightarrow> D = tasks (wdb w)"
      unfolding D_def by (simp add: filter_mset_eq_conv)
    from exec w show ?thesis
    proof (cases rule: exec_cases)
      case (ok n)
      have "n = 0 \<longleftrightarrow> (\<forall>x \<in># tasks (wdb w). \<not> is_task (uuid u) (uuid i) x)"
        by (rule affected_owner [OF w]) (simp add: ok)
      with run None exec ok new idle show ?thesis
        by (auto simp: Task_Delete_def split: if_splits)
    qed (use run None exec new db_tasks_cong [of tbl d' "wdb w"] in \<open>auto simp: Task_Delete_def\<close>)
  qed
qed

lemma list_answer:
  assumes d: "good d" and q: "Pool_Query pg ctx (List_data u flt) d = (Inr rs, d')"
    and scan: "scan_rows scan_task (rows_items rs) [] = Inr ts"
  shows "\<exists>ys. mset ys = filter_mset (wanted uuid u (flt_Status flt)) (tasks d) \<and> newest_first ys \<and>
    prefix ts (cut (Some (flt_Limit flt)) (Some (flt_Offset flt)) ys) \<and>
    (rows_Err rs = None \<longrightarrow> ts = cut (Some (flt_Limit flt)) (Some (flt_Offset flt)) ys)"
proof -
  let ?ps = "SqEq [(''user_id'', VText u)] # status_pred (flt_Status flt)"
  from scan obtain vss where items: "rows_items rs = map Inr vss" and ts: "ts = map scan_task vss"
    by (auto dest: scan_rows_ok)
  from query_ok [OF q [unfolded List_data_def]] items obtain ys where
    ys: "mset ys = filter_mset (matches cast ?ps) (tbl d ''tasks'')" "desc_by (Some ''created_at'') ys"
    and vss: "\<forall>i < length vss. i < length (cut (Some (flt_Limit flt)) (Some (flt_Offset flt)) ys) \<and>
         vss ! i = project task_cols (cut (Some (flt_Limit flt)) (Some (flt_Offset flt)) ys ! i)"
    and full: "rows_Err rs = None \<longrightarrow> length vss = length (cut (Some (flt_Limit flt)) (Some (flt_Offset flt)) ys)"
    by auto
  let ?ts = "map row_task ys"
  have "mset ?ts = filter_mset (wanted uuid u (flt_Status flt)) (tasks d)"
    using filter_tasks [OF d, of "matches cast ?ps" "wanted uuid u (flt_Status flt)"]
    by (simp add: ys(1) matches_wanted)
  moreover have "newest_first ?ts"
    using ys(2) by (simp add: desc_by_def newest_first_def sorted_wrt_map)
  moreover have pre: "prefix ts (cut (Some (flt_Limit flt)) (Some (flt_Offset flt)) ?ts)"
    using prefix_of_items [OF vss, of scan_task] by (simp add: ts cut_map row_task_def [abs_def])
  moreover have "rows_Err rs = None \<longrightarrow> ts = cut (Some (flt_Limit flt)) (Some (flt_Offset flt)) ?ts"
  proof
    assume "rows_Err rs = None"
    with full have "length ts = length (cut (Some (flt_Limit flt)) (Some (flt_Offset flt)) ?ts)"
      by (simp add: ts cut_map)
    with pre show "ts = cut (Some (flt_Limit flt)) (Some (flt_Offset flt)) ?ts"
      by (rule prefix_same_length)
  qed
  ultimately show ?thesis by (intro exI [of _ ?ts] conjI)
qed

lemma count_answer:
  assumes d: "good d" and q: "Pool_QueryRow pg ctx (List_count u flt) d = (Inr vs, d')"
  shows "vs = [VInt (int (size (filter_mset (wanted uuid u (flt_Status flt)) (tasks d))))]"
  using row_count [OF q [unfolded List_count_def]]
    filter_tasks [OF d, of "matches cast (SqEq [(''user_id'', VText u)] # status_pred (flt_Status flt))"
      "wanted uuid u (flt_Status flt)"]
  by (metis matches_wanted size_image_mset)

lemma pg_list:
  assumes run: "run_state (Task_List pg ctx u flt) w = (lr, w')" and w: "good (wdb w)"
  shows "good (wdb w') \<and> tasks (wdb w') = tasks (wdb w) \<and>
    (case lr of
       Panics m \<Rightarrow> makeslice_panics (flt_Limit flt)
     | Returns (Inl e) \<Rightarrow> True
     | Returns (Inr (ts, cnt)) \<Rightarrow>
        (\<exists>ys. mset ys = filter_mset (wanted uuid u (flt_Status flt)) (tasks (wdb w)) \<and> newest_first ys \<and>
          prefix ts (cut (Some (flt_Limit flt)) (Some (flt_Offset flt)) ys)) \<and>
        cnt = of_nat (size (filter_mset (wanted uuid u (flt_Status flt)) (tasks (wdb w)))))"
proof -
  obtain vr d1 where c: "Pool_QueryRow pg ctx (List_count u flt) (wdb w) = (vr, d1)" by fastforce
  obtain qr d2 where q: "Pool_Query pg ctx (List_data u flt) d1 = (qr, d2)" by fastforce
  from c w have d1: "good d1" "tbl d1 = tbl (wdb w)"
    by (auto simp: List_count_def dest: row_good row_frame)
  from q d1 have d2: "good d2" "tbl d2 = tbl (wdb w)"
    by (auto simp: List_data_def dest: query_good query_frame)
  have t: "tasks d1 = tasks (wdb w)" "tasks d2 = tasks (wdb w)"
    using d1 d2 by (simp_all add: db_tasks_def)
  note counted = count_answer [OF w, of ctx u flt _ d1, unfolded c]
  note answered = list_answer [OF d1(1), of ctx u flt _ d2, unfolded q t]
  show ?thesis
    using run w c q d1(1) d2(1) t counted answered
    by (fastforce simp: Task_List_def Let_def split: option.splits sum.splits if_splits)
qed

lemma pg_task_repo: "task_repo (TaskPgRepo pg) tasks good uuid micro"
proof
  fix d x y
  show "good d \<Longrightarrow> x \<in># tasks d \<Longrightarrow> y \<in># tasks d \<Longrightarrow> task_ID x = task_ID y \<Longrightarrow> x = y"
    by (rule tasks_key)
next
  fix ctx u i w e w'
  assume "run_state (TaskRepo_GetByID (TaskPgRepo pg) ctx u i) w = (Inl e, w')" and "good (wdb w)"
  then show "(e = ErrTaskNotFound \<and> (\<forall>x \<in># tasks (wdb w). task_ID x \<noteq> uuid i)) \<or>
       (e = ErrTaskForbidden \<and> (\<exists>x \<in># tasks (wdb w). task_ID x = uuid i \<and> task_UserID x \<noteq> u)) \<or>
       foreign e"
    using pg_get [of ctx u i w "Inl e" w'] by (simp add: TaskPgRepo_def)
qed (auto simp: TaskPgRepo_def uuid_idem micro_idem
    dest: pg_store pg_get pg_update pg_delete pg_list Task_List_panics)

end

section \<open>The decorator keeps the contract and adds nothing but spans\<close>

lemma traced_Store_run:
  "run_state (TaskRepo_Store (newTracedTaskRepo r) ctx t) w = (oe, w') \<Longrightarrow>
   \<exists>w1 w2. run_state (TaskRepo_Store r ctx t) w1 = (oe, w2) \<and> wdb w1 = wdb w \<and> wdb w2 = wdb w'"
  unfolding newTracedTaskRepo_def tracedRepo_Store_def TaskRepo.select_convs by (rule decorated_run)

lemma traced_GetByID_run:
  "run_state (TaskRepo_GetByID (newTracedTaskRepo r) ctx u i) w = (tr, w') \<Longrightarrow>
   \<exists>w1 w2. run_state (TaskRepo_GetByID r ctx u i) w1 = (tr, w2) \<and> wdb w1 = wdb w \<and> wdb w2 = wdb w'"
  unfolding newTracedTaskRepo_def tracedRepo_GetByID_def TaskRepo.select_convs by (rule decorated_run)

lemma traced_List_run:
  "run_state (TaskRepo_List (newTracedTaskRepo r) ctx u flt) w = (lr, w') \<Longrightarrow>
   \<exists>w1 w2. run_state (TaskRepo_List r ctx u flt) w1 = (lr, w2) \<and> wdb w1 = wdb w \<and> wdb w2 = wdb w'"
  unfolding newTracedTaskRepo_def tracedRepo_List_def Let_def TaskRepo.select_convs
  by (rule decorated_outcome_run)

lemma traced_Update_run:
  "run_state (TaskRepo_Update (newTracedTaskRepo r) ctx t) w = (oe, w') \<Longrightarrow>
   \<exists>w1 w2. run_state (TaskRepo_Update r ctx t) w1 = (oe, w2) \<and> wdb w1 = wdb w \<and> wdb w2 = wdb w'"
  unfolding newTracedTaskRepo_def tracedRepo_Update_def TaskRepo.select_convs by (rule decorated_run)

lemma traced_Delete_run:
  "run_state (TaskRepo_Delete (newTracedTaskRepo r) ctx u i) w = (oe, w') \<Longrightarrow>
   \<exists>w1 w2. run_state (TaskRepo_Delete r ctx u i) w1 = (oe, w2) \<and> wdb w1 = wdb w \<and> wdb w2 = wdb w'"
  unfolding newTracedTaskRepo_def tracedRepo_Delete_def TaskRepo.select_convs by (rule decorated_run)

context task_repo
begin

lemma traced_contract: "task_repo (newTracedTaskRepo repo) tasks ok uuid micro"
proof (unfold_locales, goal_cases)
  case 1 show ?case by (rule canon)
next
  case 2 show ?case by (rule trunc)
next
  case 3 then show ?case by (rule key)
next
  case 4 then show ?case by - (drule traced_Store_run, elim exE conjE, drule store_inv; simp)
next
  case 5 then show ?case by - (drule traced_Store_run, elim exE conjE, drule store_ok; simp)
next
  case 6 then show ?case by - (drule traced_Store_run, elim exE conjE, drule store_err; simp)
next
  case 7 then show ?case by - (drule traced_GetByID_run, elim exE conjE, drule get_frame; simp)
next
  case 8 then show ?case by - (drule traced_GetByID_run, elim exE conjE, drule get_ok; simp)
next
  case 9 then show ?case by - (drule traced_GetByID_run, elim exE conjE, drule get_err; simp)
next
  case 10 then show ?case by - (drule traced_Update_run, elim exE conjE, drule update_inv; simp)
next
  case 11 then show ?case by - (drule traced_Update_run, elim exE conjE, drule update_ok; simp)
next
  case 12 then show ?case by - (drule traced_Update_run, elim exE conjE, drule update_err; simp)
next
  case 13 then show ?case by - (drule traced_Delete_run, elim exE conjE, drule delete_inv; simp)
next
  case 14 then show ?case by - (drule traced_Delete_run, elim exE conjE, drule delete_ok; simp)
next
  case 15 then show ?case by - (drule traced_Delete_run, elim exE conjE, drule delete_err; simp)
next
  case 16 then show ?case by - (drule traced_List_run, elim exE conjE, drule list_frame; simp)
next
  case 17 then show ?case by - (drule traced_List_run, elim exE conjE, drule list_ok; simp)
next
  case 18 then show ?case by - (drule traced_List_run, elim exE conjE, drule list_panic; simp)
qed

end

text \<open>On every database that behaves like \<open>sql_db\<close>, \<open>New\<close> of the package meets the contract.\<close>

sublocale sql_db \<subseteq> task_store: task_repo "NewTaskRepo pg" "db_tasks tbl" good uuid micro
  unfolding NewTaskRepo_def by (rule task_repo.traced_contract [OF pg_task_repo])

text \<open>The decorator is transparent: up to spans, it is the repository it wraps.\<close>

definition task_repo_sim :: "'db TaskRepo \<Rightarrow> 'db TaskRepo \<Rightarrow> bool" where
  "task_repo_sim r r' \<longleftrightarrow>
     (\<forall>ctx t. span_sim (TaskRepo_Store r ctx t) (TaskRepo_Store r' ctx t)) \<and>
     (\<forall>ctx u i. span_sim (TaskRepo_GetByID r ctx u i) (TaskRepo_GetByID r' ctx u i)) \<and>
     (\<forall>ctx u flt. span_sim (TaskRepo_List r ctx u flt) (TaskRepo_List r' ctx u flt)) \<and>
     (\<forall>ctx t. span_sim (TaskRepo_Update r ctx t) (TaskRepo_Update r' ctx t)) \<and>
     (\<forall>ctx u i. span_sim (TaskRepo_Delete r ctx u i) (TaskRepo_Delete r' ctx u i))"

lemma traced_task_repo_sim:
  assumes "task_repo_sim r r'"
  shows "task_repo_sim (newTracedTaskRepo r) r'"
proof -
  have "span_sim (tracedRepo_List r ctx u flt) (TaskRepo_List r' ctx u flt)" for ctx u flt
    unfolding tracedRepo_List_def Let_def
    by (rule span_sim_decorated_outcome) (use assms in \<open>simp add: task_repo_sim_def\<close>)
  then show ?thesis
    using assms
    by (auto simp: task_repo_sim_def newTracedTaskRepo_def tracedRepo_Store_def tracedRepo_GetByID_def
        tracedRepo_Update_def tracedRepo_Delete_def intro!: span_sim_decorated)
qed

lemma pg_task_repo_sim: "task_repo_sim (TaskPgRepo pg) (TaskPgRepo pg)"
  unfolding task_repo_sim_def TaskPgRepo_def
  by (auto simp: Task_Store_def Task_GetByID_def Task_List_def Task_Update_def Task_Delete_def Let_def
      intro!: span_sims)

end
