(* ===== verification/Task_Usecase.thy ===== *)
theory Task_Usecase
  imports Task_Repo
begin

text \<open>
  The task use case (\<^verbatim>\<open>src/internal/usecase/task\<close>): the interface \<open>usecase.Task\<close>, the use case
  over any \<open>TaskRepo\<close>, its tracing decorator, the abstract specification of what a request of
  one user may do to the stored tasks, and the proof that every operation refines it on every
  repository that meets the contract.
\<close>

section \<open>The interface and the use case\<close>

record 'db TaskUC =
  TaskUC_Create :: "go_ctx \<Rightarrow> string \<Rightarrow> string \<Rightarrow> string \<Rightarrow> ('db, Task result) io"
  TaskUC_Get :: "go_ctx \<Rightarrow> string \<Rightarrow> string \<Rightarrow> ('db, Task result) io"
  TaskUC_List :: "go_ctx \<Rightarrow> string \<Rightarrow> TaskStatus option \<Rightarrow> 64 word \<Rightarrow> 64 word \<Rightarrow>
    ('db, (Task list \<times> 64 word) result outcome) io"
  TaskUC_Update :: "go_ctx \<Rightarrow> string \<Rightarrow> string \<Rightarrow> string \<Rightarrow> string \<Rightarrow> ('db, Task result) io"
  TaskUC_Transition :: "go_ctx \<Rightarrow> string \<Rightarrow> string \<Rightarrow> TaskStatus \<Rightarrow> ('db, Task result) io"
  TaskUC_Delete :: "go_ctx \<Rightarrow> string \<Rightarrow> string \<Rightarrow> ('db, go_error option) io"

definition TaskUseCase_Create ::
  "'db TaskRepo \<Rightarrow> go_ctx \<Rightarrow> string \<Rightarrow> string \<Rightarrow> string \<Rightarrow> ('db, Task result) io"
where
  "TaskUseCase_Create repo ctx userID title description = do {
     now \<leftarrow> time_Now;
     newID \<leftarrow> uuid_New;
     let task = \<lparr>task_ID = newID, task_UserID = userID, task_Title = title,
                 task_Description = description, task_Status = TaskStatusTodo,
                 task_CreatedAt = now, task_UpdatedAt = now\<rparr>;
     err \<leftarrow> TaskRepo_Store repo ctx task;
     case err of
       Some e \<Rightarrow> ret (Inl (Errorf ''TaskUseCase - Create - uc.repo.Store: '' e))
     | None \<Rightarrow> ret (Inr task) }"

definition TaskUseCase_Get :: "'db TaskRepo \<Rightarrow> go_ctx \<Rightarrow> string \<Rightarrow> string \<Rightarrow> ('db, Task result) io" where
  "TaskUseCase_Get repo ctx userID taskID = do {
     res \<leftarrow> TaskRepo_GetByID repo ctx userID taskID;
     case res of
       Inl err \<Rightarrow> ret (Inl (Errorf ''TaskUseCase - Get - uc.repo.GetByID: '' err))
     | Inr task \<Rightarrow> ret (Inr task) }"

text \<open>\<open>limit\<close> and \<open>offset\<close> are Go's 64-bit \<open>int\<close>; \<open>uint64(x)\<close> keeps the bits.\<close>

definition clamp_limit :: "64 word \<Rightarrow> 64 word" where
  "clamp_limit limit = (if sint limit \<le> 0 then 10 else limit)"

definition clamp_offset :: "64 word \<Rightarrow> 64 word" where
  "clamp_offset offset = (if sint offset < 0 then 0 else offset)"

definition TaskUseCase_List ::
  "'db TaskRepo \<Rightarrow> go_ctx \<Rightarrow> string \<Rightarrow> TaskStatus option \<Rightarrow> 64 word \<Rightarrow> 64 word \<Rightarrow>
   ('db, (Task list \<times> 64 word) result outcome) io"
where
  "TaskUseCase_List repo ctx userID status limit offset = do {
     let limit = clamp_limit limit;
     let offset = clamp_offset offset;
     res \<leftarrow> TaskRepo_List repo ctx userID \<lparr>flt_Status = status, flt_Limit = limit, flt_Offset = offset\<rparr>;
     case res of
       Panics m \<Rightarrow> ret (Panics m)
     | Returns (Inl err) \<Rightarrow> ret (Returns (Inl (Errorf ''TaskUseCase - List - uc.repo.List: '' err)))
     | Returns (Inr (tasks, cnt)) \<Rightarrow> ret (Returns (Inr (tasks, cnt))) }"

definition TaskUseCase_Update ::
  "'db TaskRepo \<Rightarrow> go_ctx \<Rightarrow> string \<Rightarrow> string \<Rightarrow> string \<Rightarrow> string \<Rightarrow> ('db, Task result) io"
where
  "TaskUseCase_Update repo ctx userID taskID title description = do {
     now \<leftarrow> time_Now;
     res \<leftarrow> TaskRepo_GetByID repo ctx userID taskID;
     case res of
       Inl err \<Rightarrow> ret (Inl (Errorf ''TaskUseCase - Update - uc.repo.GetByID: '' err))
     | Inr task \<Rightarrow> do {
         let task = task\<lparr>task_Title := title, task_Description := description, task_UpdatedAt := now\<rparr>;
         err \<leftarrow> TaskRepo_Update repo ctx task;
         case err of
           Some e \<Rightarrow> ret (Inl (Errorf ''TaskUseCase - Update - uc.repo.Update: '' e))
         | None \<Rightarrow> ret (Inr task) } }"

definition TaskUseCase_Transition ::
  "'db TaskRepo \<Rightarrow> go_ctx \<Rightarrow> string \<Rightarrow> string \<Rightarrow> TaskStatus \<Rightarrow> ('db, Task result) io"
where
  "TaskUseCase_Transition repo ctx userID taskID newStatus = do {
     now \<leftarrow> time_Now;
     res \<leftarrow> TaskRepo_GetByID repo ctx userID taskID;
     case res of
       Inl err \<Rightarrow> ret (Inl (Errorf ''TaskUseCase - Transition - uc.repo.GetByID: '' err))
     | Inr task \<Rightarrow>
         (case Transition task newStatus of
            (Some err, _) \<Rightarrow> ret (Inl err)
          | (None, task) \<Rightarrow> do {
              let task = task\<lparr>task_UpdatedAt := now\<rparr>;
              err \<leftarrow> TaskRepo_Update repo ctx task;
              case err of
                Some e \<Rightarrow> ret (Inl (Errorf ''TaskUseCase - Transition - uc.repo.Update: '' e))
              | None \<Rightarrow> ret (Inr task) }) }"

definition TaskUseCase_Delete :: "'db TaskRepo \<Rightarrow> go_ctx \<Rightarrow> string \<Rightarrow> string \<Rightarrow> ('db, go_error option) io" where
  "TaskUseCase_Delete repo ctx userID taskID = do {
     err \<leftarrow> TaskRepo_Delete repo ctx userID taskID;
     case err of
       Some e \<Rightarrow> ret (Some (Errorf ''TaskUseCase - Delete - uc.repo.Delete: '' e))
     | None \<Rightarrow> ret None }"

definition TaskUseCase :: "'db TaskRepo \<Rightarrow> 'db TaskUC" where
  "TaskUseCase r =
     \<lparr>TaskUC_Create = TaskUseCase_Create r, TaskUC_Get = TaskUseCase_Get r, TaskUC_List = TaskUseCase_List r,
      TaskUC_Update = TaskUseCase_Update r, TaskUC_Transition = TaskUseCase_Transition r,
      TaskUC_Delete = TaskUseCase_Delete r\<rparr>"

section \<open>The tracing decorator\<close>

definition task_uc_tracer :: string where
  "task_uc_tracer = ''github.com/divilla/go-scream-template/internal/usecase/task''"

definition tracedTask_Create ::
  "'db TaskUC \<Rightarrow> go_ctx \<Rightarrow> string \<Rightarrow> string \<Rightarrow> string \<Rightarrow> ('db, Task result) io"
where
  "tracedTask_Create next ctx userID title description = do {
     ctx \<leftarrow> startSpan task_uc_tracer ctx ''TaskUseCase.Create'' [(''user.id'', AString userID)];
     result \<leftarrow> TaskUC_Create next ctx userID title description;
     endSpan (err_of result);
     ret result }"

definition tracedTask_Get :: "'db TaskUC \<Rightarrow> go_ctx \<Rightarrow> string \<Rightarrow> string \<Rightarrow> ('db, Task result) io" where
  "tracedTask_Get next ctx userID taskID = do {
     ctx \<leftarrow> startSpan task_uc_tracer ctx ''TaskUseCase.Get'' [(''user.id'', AString userID), (''task.id'', AString taskID)];
     result \<leftarrow> TaskUC_Get next ctx userID taskID;
     endSpan (err_of result);
     ret result }"

definition tracedTask_List ::
  "'db TaskUC \<Rightarrow> go_ctx \<Rightarrow> string \<Rightarrow> TaskStatus option \<Rightarrow> 64 word \<Rightarrow> 64 word \<Rightarrow>
   ('db, (Task list \<times> 64 word) result outcome) io"
where
  "tracedTask_List next ctx userID status limit offset =
     (let attrs = [(''user.id'', AString userID), (''task.limit'', AInt (sint limit)),
                   (''task.offset'', AInt (sint offset))];
          attrs = (case status of None \<Rightarrow> attrs | Some s \<Rightarrow> attrs @ [(''task.status'', AString s)])
      in do {
        ctx \<leftarrow> startSpan task_uc_tracer ctx ''TaskUseCase.List'' attrs;
        res \<leftarrow> TaskUC_List next ctx userID status limit offset;
        case res of
          Panics m \<Rightarrow> ret (Panics m)
        | Returns r \<Rightarrow> do { endSpan (err_of r); ret (Returns r) } })"

definition tracedTask_Update ::
  "'db TaskUC \<Rightarrow> go_ctx \<Rightarrow> string \<Rightarrow> string \<Rightarrow> string \<Rightarrow> string \<Rightarrow> ('db, Task result) io"
where
  "tracedTask_Update next ctx userID taskID title description = do {
     ctx \<leftarrow> startSpan task_uc_tracer ctx ''TaskUseCase.Update'' [(''user.id'', AString userID), (''task.id'', AString taskID)];
     result \<leftarrow> TaskUC_Update next ctx userID taskID title description;
     endSpan (err_of result);
     ret result }"

definition tracedTask_Transition ::
  "'db TaskUC \<Rightarrow> go_ctx \<Rightarrow> string \<Rightarrow> string \<Rightarrow> TaskStatus \<Rightarrow> ('db, Task result) io"
where
  "tracedTask_Transition next ctx userID taskID newStatus = do {
     ctx \<leftarrow> startSpan task_uc_tracer ctx ''TaskUseCase.Transition''
              [(''user.id'', AString userID), (''task.id'', AString taskID),
               (''task.new_status'', AString newStatus)];
     result \<leftarrow> TaskUC_Transition next ctx userID taskID newStatus;
     endSpan (err_of result);
     ret result }"

definition tracedTask_Delete :: "'db TaskUC \<Rightarrow> go_ctx \<Rightarrow> string \<Rightarrow> string \<Rightarrow> ('db, go_error option) io" where
  "tracedTask_Delete next ctx userID taskID = do {
     ctx \<leftarrow> startSpan task_uc_tracer ctx ''TaskUseCase.Delete'' [(''user.id'', AString userID), (''task.id'', AString taskID)];
     err \<leftarrow> TaskUC_Delete next ctx userID taskID;
     endSpan err;
     ret err }"

definition newTracedTask :: "'db TaskUC \<Rightarrow> 'db TaskUC" where
  "newTracedTask next =
     \<lparr>TaskUC_Create = tracedTask_Create next, TaskUC_Get = tracedTask_Get next,
      TaskUC_List = tracedTask_List next, TaskUC_Update = tracedTask_Update next,
      TaskUC_Transition = tracedTask_Transition next, TaskUC_Delete = tracedTask_Delete next\<rparr>"

definition NewTaskUseCase :: "'db TaskRepo \<Rightarrow> 'db TaskUC" where
  "NewTaskUseCase r = newTracedTask (TaskUseCase r)"

section \<open>Transparency of the decorator\<close>

definition task_uc_sim :: "'db TaskUC \<Rightarrow> 'db TaskUC \<Rightarrow> bool" where
  "task_uc_sim r r' \<longleftrightarrow>
     (\<forall>ctx u a b. span_sim (TaskUC_Create r ctx u a b) (TaskUC_Create r' ctx u a b)) \<and>
     (\<forall>ctx u i. span_sim (TaskUC_Get r ctx u i) (TaskUC_Get r' ctx u i)) \<and>
     (\<forall>ctx u st l off. span_sim (TaskUC_List r ctx u st l off) (TaskUC_List r' ctx u st l off)) \<and>
     (\<forall>ctx u i a b. span_sim (TaskUC_Update r ctx u i a b) (TaskUC_Update r' ctx u i a b)) \<and>
     (\<forall>ctx u i s. span_sim (TaskUC_Transition r ctx u i s) (TaskUC_Transition r' ctx u i s)) \<and>
     (\<forall>ctx u i. span_sim (TaskUC_Delete r ctx u i) (TaskUC_Delete r' ctx u i))"

lemma traced_task_uc_sim:
  assumes "task_uc_sim r r'"
  shows "task_uc_sim (newTracedTask r) r'"
proof -
  have "span_sim (tracedTask_List r ctx u st l off) (TaskUC_List r' ctx u st l off)" for ctx u st l off
    unfolding tracedTask_List_def Let_def
    by (rule span_sim_decorated_outcome) (use assms in \<open>simp add: task_uc_sim_def\<close>)
  then show ?thesis
    using assms
    by (auto simp: task_uc_sim_def newTracedTask_def tracedTask_Create_def tracedTask_Get_def
        tracedTask_Update_def tracedTask_Transition_def tracedTask_Delete_def intro!: span_sim_decorated)
qed

lemma task_usecase_sim:
  assumes "task_repo_sim r r'"
  shows "task_uc_sim (TaskUseCase r) (TaskUseCase r')"
proof -
  have ops [span_sims]: "span_sim (TaskRepo_Store r ctx t) (TaskRepo_Store r' ctx t)"
    "span_sim (TaskRepo_GetByID r ctx u i) (TaskRepo_GetByID r' ctx u i)"
    "span_sim (TaskRepo_List r ctx u flt) (TaskRepo_List r' ctx u flt)"
    "span_sim (TaskRepo_Update r ctx t) (TaskRepo_Update r' ctx t)"
    "span_sim (TaskRepo_Delete r ctx u i) (TaskRepo_Delete r' ctx u i)" for ctx t u i flt
    using assms by (auto simp: task_repo_sim_def)
  show ?thesis
    by (auto simp: task_uc_sim_def TaskUseCase_def TaskUseCase_Create_def TaskUseCase_Get_def
        TaskUseCase_List_def TaskUseCase_Update_def TaskUseCase_Transition_def TaskUseCase_Delete_def
        Let_def intro!: span_sims split: prod.splits)
qed

end
