(* ===== verification/User_Repo.thy ===== *)
theory User_Repo
  imports Sql
begin

text \<open>
  The user repository: the interface \<open>UserRepo\<close>, its PostgreSQL implementation
  (\<^verbatim>\<open>src/internal/repo/persistent/user/user.go\<close>), the tracing decorator, the contract of the
  interface as the locale \<open>user_repo\<close>, and the proof that the implementation meets it.
\<close>

record 'db UserRepo =
  UserRepo_Store :: "go_ctx \<Rightarrow> User \<Rightarrow> ('db, go_error option) io"
  UserRepo_GetByID :: "go_ctx \<Rightarrow> string \<Rightarrow> ('db, User result) io"
  UserRepo_GetByEmail :: "go_ctx \<Rightarrow> string \<Rightarrow> ('db, User result) io"

section \<open>The PostgreSQL implementation\<close>

definition user_cols :: "string list" where
  "user_cols = [''id'', ''username'', ''email'', ''password_hash'', ''created_at'', ''updated_at'']"

definition user_vals :: "User \<Rightarrow> sqlval list" where
  "user_vals u = [VText (user_ID u), VText (user_Username u), VText (user_Email u),
     VText (user_PasswordHash u), VTime (user_CreatedAt u), VTime (user_UpdatedAt u)]"

fun scan_user :: "sqlval list \<Rightarrow> User" where
  "scan_user [i, n, em, h, ca, ua] =
     \<lparr>user_ID = val_str i, user_Username = val_str n, user_Email = val_str em,
      user_PasswordHash = val_str h, user_CreatedAt = val_time ca, user_UpdatedAt = val_time ua\<rparr>"
| "scan_user _ =
     \<lparr>user_ID = '''', user_Username = '''', user_Email = '''', user_PasswordHash = '''',
      user_CreatedAt = 0, user_UpdatedAt = 0\<rparr>"

definition User_Store :: "'db Postgres \<Rightarrow> go_ctx \<Rightarrow> User \<Rightarrow> ('db, go_error option) io" where
  "User_Store r ctx user =
     (let sql = Insert ''users'' user_cols (user_vals user) in
      case Builder_ToSql r sql of
        Some err \<Rightarrow> ret (Some (Errorf ''UserRepo - Store - r.Builder: '' err))
      | None \<Rightarrow> do {
          res \<leftarrow> on_db (Pool_Exec r ctx sql);
          case res of
            Inl err \<Rightarrow>
              if errors_As_PgError err = Some unique_violation then ret (Some ErrUserAlreadyExists)
              else ret (Some (Errorf ''UserRepo - Store - r.Pool.Exec: '' err))
          | Inr _ \<Rightarrow> ret None })"

definition getUser :: "'db Postgres \<Rightarrow> go_ctx \<Rightarrow> string \<Rightarrow> string \<Rightarrow> ('db, User result) io" where
  "getUser r ctx column v =
     (let sql = Select user_cols ''users'' [SqEq [(column, VText v)]] None None None in
      case Builder_ToSql r sql of
        Some err \<Rightarrow> ret (Inl (Errorf ''UserRepo - getUser - r.Builder: '' err))
      | None \<Rightarrow> do {
          res \<leftarrow> on_db (Pool_QueryRow r ctx sql);
          case res of
            Inl err \<Rightarrow>
              if errors_Is err ErrNoRows then ret (Inl ErrUserNotFound)
              else ret (Inl (Errorf ''UserRepo - getUser - r.Pool.QueryRow: '' err))
          | Inr vs \<Rightarrow> ret (Inr (scan_user vs)) })"

definition User_GetByID :: "'db Postgres \<Rightarrow> go_ctx \<Rightarrow> string \<Rightarrow> ('db, User result) io" where
  "User_GetByID r ctx i = getUser r ctx ''id'' i"

definition User_GetByEmail :: "'db Postgres \<Rightarrow> go_ctx \<Rightarrow> string \<Rightarrow> ('db, User result) io" where
  "User_GetByEmail r ctx email = getUser r ctx ''email'' email"

definition UserPgRepo :: "'db Postgres \<Rightarrow> 'db UserRepo" where
  "UserPgRepo pg = \<lparr>UserRepo_Store = User_Store pg, UserRepo_GetByID = User_GetByID pg,
     UserRepo_GetByEmail = User_GetByEmail pg\<rparr>"

section \<open>The tracing decorator\<close>

definition user_repo_tracer :: string where
  "user_repo_tracer = ''github.com/divilla/go-scream-template/internal/repo/persistent/user''"

definition tracedUserRepo_Store :: "'db UserRepo \<Rightarrow> go_ctx \<Rightarrow> User \<Rightarrow> ('db, go_error option) io" where
  "tracedUserRepo_Store next ctx user = do {
     ctx \<leftarrow> startSpan user_repo_tracer ctx ''UserRepo.Store'' [(''user.id'', AString (user_ID user))];
     err \<leftarrow> UserRepo_Store next ctx user;
     endSpan err;
     ret err }"

definition tracedUserRepo_GetByID :: "'db UserRepo \<Rightarrow> go_ctx \<Rightarrow> string \<Rightarrow> ('db, User result) io" where
  "tracedUserRepo_GetByID next ctx i = do {
     ctx \<leftarrow> startSpan user_repo_tracer ctx ''UserRepo.GetByID'' [(''user.id'', AString i)];
     result \<leftarrow> UserRepo_GetByID next ctx i;
     endSpan (err_of result);
     ret result }"

definition tracedUserRepo_GetByEmail :: "'db UserRepo \<Rightarrow> go_ctx \<Rightarrow> string \<Rightarrow> ('db, User result) io" where
  "tracedUserRepo_GetByEmail next ctx email = do {
     ctx \<leftarrow> startSpan user_repo_tracer ctx ''UserRepo.GetByEmail'' [(''user.email'', AString email)];
     result \<leftarrow> UserRepo_GetByEmail next ctx email;
     endSpan (err_of result);
     ret result }"

definition newTracedUserRepo :: "'db UserRepo \<Rightarrow> 'db UserRepo" where
  "newTracedUserRepo next =
     \<lparr>UserRepo_Store = tracedUserRepo_Store next, UserRepo_GetByID = tracedUserRepo_GetByID next,
      UserRepo_GetByEmail = tracedUserRepo_GetByEmail next\<rparr>"

definition NewUserRepo :: "'db Postgres \<Rightarrow> 'db UserRepo" where
  "NewUserRepo pg = newTracedUserRepo (UserPgRepo pg)"

section \<open>The contract of the interface\<close>

definition stored_user :: "(string \<Rightarrow> string) \<Rightarrow> (int \<Rightarrow> int) \<Rightarrow> User \<Rightarrow> User" where
  "stored_user uuid micro u = u\<lparr>user_ID := uuid (user_ID u), user_CreatedAt := micro (user_CreatedAt u),
     user_UpdatedAt := micro (user_UpdatedAt u)\<rparr>"

locale user_repo =
  fixes repo :: "'db UserRepo"
    and users :: "'db \<Rightarrow> User multiset"
    and ok :: "'db \<Rightarrow> bool"
    and uuid :: "string \<Rightarrow> string"
    and micro :: "int \<Rightarrow> int"
  assumes user_key: "ok d \<Longrightarrow> x \<in># users d \<Longrightarrow> y \<in># users d \<Longrightarrow>
       user_ID x = user_ID y \<or> user_Email x = user_Email y \<or> user_Username x = user_Username y \<Longrightarrow> x = y"
    and ustore_inv: "run_state (UserRepo_Store repo ctx u) w = (oe, w') \<Longrightarrow> ok (wdb w) \<Longrightarrow> ok (wdb w')"
    and ustore_ok: "run_state (UserRepo_Store repo ctx u) w = (None, w') \<Longrightarrow> ok (wdb w) \<Longrightarrow>
       users (wdb w') = add_mset (stored_user uuid micro u) (users (wdb w)) \<and>
       (\<forall>x \<in># users (wdb w). user_Email x \<noteq> user_Email u \<and> user_Username x \<noteq> user_Username u)"
    and ustore_err: "run_state (UserRepo_Store repo ctx u) w = (Some e, w') \<Longrightarrow> ok (wdb w) \<Longrightarrow>
       (e = ErrUserAlreadyExists \<and> users (wdb w') = users (wdb w) \<and>
         (\<exists>x \<in># users (wdb w). user_ID x = uuid (user_ID u) \<or> user_Email x = user_Email u \<or>
            user_Username x = user_Username u)) \<or>
       (foreign e \<and> users (wdb w') \<in> {users (wdb w), add_mset (stored_user uuid micro u) (users (wdb w))})"
    and uget_frame: "run_state (UserRepo_GetByID repo ctx i) w = (ur, w') \<Longrightarrow> ok (wdb w) \<Longrightarrow>
       ok (wdb w') \<and> users (wdb w') = users (wdb w)"
    and uget_ok: "run_state (UserRepo_GetByID repo ctx i) w = (Inr u, w') \<Longrightarrow> ok (wdb w) \<Longrightarrow>
       u \<in># users (wdb w) \<and> user_ID u = uuid i"
    and uget_err: "run_state (UserRepo_GetByID repo ctx i) w = (Inl e, w') \<Longrightarrow> ok (wdb w) \<Longrightarrow>
       (e = ErrUserNotFound \<and> (\<forall>x \<in># users (wdb w). user_ID x \<noteq> uuid i)) \<or> foreign e"
    and umail_frame: "run_state (UserRepo_GetByEmail repo ctx i) w = (ur, w') \<Longrightarrow> ok (wdb w) \<Longrightarrow>
       ok (wdb w') \<and> users (wdb w') = users (wdb w)"
    and umail_ok: "run_state (UserRepo_GetByEmail repo ctx i) w = (Inr u, w') \<Longrightarrow> ok (wdb w) \<Longrightarrow>
       u \<in># users (wdb w) \<and> user_Email u = i"
    and umail_err: "run_state (UserRepo_GetByEmail repo ctx i) w = (Inl e, w') \<Longrightarrow> ok (wdb w) \<Longrightarrow>
       (e = ErrUserNotFound \<and> (\<forall>x \<in># users (wdb w). user_Email x \<noteq> i)) \<or> foreign e"
begin

lemma mail_unique:
  "run_state (UserRepo_GetByEmail repo ctx i) w = (Inr u, w') \<Longrightarrow> ok (wdb w) \<Longrightarrow>
   x \<in># users (wdb w) \<Longrightarrow> user_Email x = i \<Longrightarrow> x = u"
  using umail_ok [of ctx i w u w'] user_key [of "wdb w" x u] by auto

end

section \<open>The implementation meets the contract\<close>

definition row_user :: "row \<Rightarrow> User" where
  "row_user r = scan_user (project user_cols r)"

definition db_users :: "('db \<Rightarrow> tables) \<Rightarrow> 'db \<Rightarrow> User multiset" where
  "db_users tbl d = image_mset row_user (tbl d ''users'')"

lemma db_users_cong: "tbl d' = tbl d \<Longrightarrow> db_users tbl d' = db_users tbl d"
  by (simp add: db_users_def)

lemma user_rowE:
  assumes "user_row r"
  obtains i n em h ca ua where "r ''id'' = Some (VText i)" "r ''username'' = Some (VText n)"
    "r ''email'' = Some (VText em)" "r ''password_hash'' = Some (VText h)"
    "r ''created_at'' = Some (VTime ca)" "r ''updated_at'' = Some (VTime ua)"
  using assms by (auto simp: user_row_def col_iffs)

lemma row_user_sel [simp]:
  "user_ID (row_user r) = val_str (the (r ''id''))"
  "user_Username (row_user r) = val_str (the (r ''username''))"
  "user_Email (row_user r) = val_str (the (r ''email''))"
  "user_PasswordHash (row_user r) = val_str (the (r ''password_hash''))"
  "user_CreatedAt (row_user r) = val_time (the (r ''created_at''))"
  "user_UpdatedAt (row_user r) = val_time (the (r ''updated_at''))"
  by (simp_all add: row_user_def project_def user_cols_def)

lemma User_eqI:
  assumes "user_ID x = user_ID y" "user_Username x = user_Username y" "user_Email x = user_Email y"
    "user_PasswordHash x = user_PasswordHash y" "user_CreatedAt x = user_CreatedAt y"
    "user_UpdatedAt x = user_UpdatedAt y"
  shows "x = (y :: User)"
  using assms by simp

lemma new_row_cols:
  "new_row (sql_cast uuid micro) user_cols (user_vals u) ''id'' = Some (VText (uuid (user_ID u)))"
  "new_row (sql_cast uuid micro) user_cols (user_vals u) ''username'' = Some (VText (user_Username u))"
  "new_row (sql_cast uuid micro) user_cols (user_vals u) ''email'' = Some (VText (user_Email u))"
  "new_row (sql_cast uuid micro) user_cols (user_vals u) ''password_hash'' = Some (VText (user_PasswordHash u))"
  "new_row (sql_cast uuid micro) user_cols (user_vals u) ''created_at'' = Some (VTime (micro (user_CreatedAt u)))"
  "new_row (sql_cast uuid micro) user_cols (user_vals u) ''updated_at'' = Some (VTime (micro (user_UpdatedAt u)))"
  by (simp_all add: new_row_def user_cols_def user_vals_def)

lemma new_row_user: "row_user (new_row (sql_cast uuid micro) user_cols (user_vals u)) = stored_user uuid micro u"
  by (rule User_eqI) (simp_all add: new_row_cols stored_user_def)

lemma matches_user:
  assumes "user_row r"
  shows "matches (sql_cast uuid micro) [SqEq [(''id'', VText i)]] r \<longleftrightarrow> user_ID (row_user r) = uuid i"
    and "matches (sql_cast uuid micro) [SqEq [(''email'', VText i)]] r \<longleftrightarrow> user_Email (row_user r) = i"
  using assms by (elim user_rowE; simp add: matches_def)+

text \<open>A row added to a table breaks the uniqueness of a column only when the value is there already.\<close>

lemma count_add_le_1:
  "(\<forall>v. count (add_mset x N) v \<le> 1) \<longleftrightarrow> (\<forall>v. count N v \<le> 1) \<and> x \<notin># N"
proof (intro iffI conjI allI)
  assume le: "\<forall>v. count (add_mset x N) v \<le> 1"
  from spec [OF le, of x] show "x \<notin># N" by (simp add: not_in_iff)
  fix v
  from spec [OF le, of v] show "count N v \<le> 1" by (auto split: if_splits)
next
  fix v
  assume "(\<forall>v. count N v \<le> 1) \<and> x \<notin># N"
  then show "count (add_mset x N) v \<le> 1" by (auto simp: not_in_iff)
qed

lemma unique_col_add:
  "unique_col c (add_mset r R) \<longleftrightarrow> unique_col c R \<and> (\<forall>q \<in># R. q c \<noteq> r c)"
proof -
  have "(\<forall>q \<in># R. q c \<noteq> r c) \<longleftrightarrow> r c \<notin># image_mset (\<lambda>q. q c) R"
    unfolding in_image_mset image_iff by metis
  then show ?thesis
    unfolding unique_col_def image_mset_add_mset count_add_le_1 by simp
qed

lemma uniques_insert_user:
  assumes "uniques_ok T"
  shows "uniques_ok (T(''users'' := add_mset r (T ''users''))) \<longleftrightarrow>
    (\<forall>q \<in># T ''users''. q ''id'' \<noteq> r ''id'' \<and> q ''username'' \<noteq> r ''username'' \<and> q ''email'' \<noteq> r ''email'')"
  using assms by (auto simp: uniques_ok_def unique_col_add)

context sql_db
begin

abbreviation users :: "'db \<Rightarrow> User multiset" where
  "users \<equiv> db_users tbl"

lemma good_user_row: "good d \<Longrightarrow> r \<in># tbl d ''users'' \<Longrightarrow> user_row r"
  using good_schema [of d] by (simp add: schema_ok_def)

lemma users_key:
  assumes d: "good d" and x: "x \<in># users d" and y: "y \<in># users d"
    and eq: "user_ID x = user_ID y \<or> user_Email x = user_Email y \<or> user_Username x = user_Username y"
  shows "x = y"
proof -
  from x y obtain r q where r: "r \<in># tbl d ''users''" "x = row_user r"
    and q: "q \<in># tbl d ''users''" "y = row_user q" by (auto simp: db_users_def)
  from good_user_row [OF d r(1)] good_user_row [OF d q(1)] eq
  have "r ''id'' = q ''id'' \<or> r ''email'' = q ''email'' \<or> r ''username'' = q ''username''"
    by (elim user_rowE) (simp add: r q)
  with r q good_schema [OF d] have "r = q"
    by (auto simp: schema_ok_def uniques_ok_def dest: unique_colD)
  with r q show "x = y" by simp
qed

lemma user_clash:
  fixes u :: User
  assumes d: "good d"
  defines "T \<equiv> effect cast (Insert ''users'' user_cols (user_vals u)) (tbl d)"
  shows "uniques_ok T \<longleftrightarrow>
    (\<forall>x \<in># users d. user_ID x \<noteq> uuid (user_ID u) \<and> user_Username x \<noteq> user_Username u \<and>
       user_Email x \<noteq> user_Email u)"
proof -
  have "uniques_ok (tbl d)" using good_schema [OF d] by (simp add: schema_ok_def)
  then have "uniques_ok T \<longleftrightarrow> (\<forall>q \<in># tbl d ''users''. q ''id'' \<noteq> Some (VText (uuid (user_ID u))) \<and>
      q ''username'' \<noteq> Some (VText (user_Username u)) \<and> q ''email'' \<noteq> Some (VText (user_Email u)))"
    by (simp add: T_def uniques_insert_user new_row_cols)
  also have "\<dots> \<longleftrightarrow> (\<forall>q \<in># tbl d ''users''. user_ID (row_user q) \<noteq> uuid (user_ID u) \<and>
      user_Username (row_user q) \<noteq> user_Username u \<and> user_Email (row_user q) \<noteq> user_Email u)"
    by (rule ball_cong [OF refl]) (drule good_user_row [OF d], elim user_rowE, simp)
  finally show ?thesis by (simp add: db_users_def)
qed

lemma pg_user_store:
  assumes run: "run_state (User_Store pg ctx u) w = (oe, w')" and w: "good (wdb w)"
  shows "good (wdb w') \<and>
    (case oe of
       None \<Rightarrow> users (wdb w') = add_mset (stored_user uuid micro u) (users (wdb w)) \<and>
         (\<forall>x \<in># users (wdb w). user_Email x \<noteq> user_Email u \<and> user_Username x \<noteq> user_Username u)
     | Some e \<Rightarrow>
        (e = ErrUserAlreadyExists \<and> users (wdb w') = users (wdb w) \<and>
          (\<exists>x \<in># users (wdb w). user_ID x = uuid (user_ID u) \<or> user_Email x = user_Email u \<or>
            user_Username x = user_Username u)) \<or>
        (foreign e \<and> users (wdb w') \<in> {users (wdb w), add_mset (stored_user uuid micro u) (users (wdb w))}))"
proof -
  let ?sql = "Insert ''users'' user_cols (user_vals u)"
  show ?thesis
  proof (cases "Builder_ToSql pg ?sql")
    case (Some e)
    with run w show ?thesis by (auto simp: User_Store_def dest: builder_foreign)
  next
    case None
    obtain r d' where exec: "Pool_Exec pg ctx ?sql (wdb w) = (r, d')" by fastforce
    have new: "tbl d' = effect cast ?sql (tbl (wdb w)) \<Longrightarrow>
        users d' = add_mset (stored_user uuid micro u) (users (wdb w))"
      by (simp add: db_users_def new_row_user)
    have same: "tbl d' = tbl (wdb w) \<Longrightarrow> users d' = users (wdb w)" by (rule db_users_cong)
    from exec w show ?thesis
    proof (cases rule: exec_cases)
      case (ok n)
      from good_schema [OF ok(2)] have "uniques_ok (effect cast ?sql (tbl (wdb w)))"
        by (simp add: schema_ok_def ok(3) del: effect.simps)
      with user_clash [OF w, of u] run None exec ok new show ?thesis
        by (auto simp: User_Store_def simp del: effect.simps)
    next
      case (failed e)
      with exec_unique [of ctx ?sql "wdb w" e d'] exec user_clash [OF w, of u] run None same show ?thesis
        by (auto simp: User_Store_def simp del: effect.simps split: if_splits)
    next
      case (lost e)
      with exec_unique [of ctx ?sql "wdb w" e d'] exec user_clash [OF w, of u] run None new same show ?thesis
        by (auto simp: User_Store_def simp del: effect.simps split: if_splits)
    qed
  qed
qed

lemma pg_user_get:
  assumes run: "run_state (getUser pg ctx c v) w = (ur, w')" and w: "good (wdb w)"
    and c: "\<And>r. user_row r \<Longrightarrow> matches cast [SqEq [(c, VText v)]] r \<longleftrightarrow> P (row_user r)"
  shows "good (wdb w') \<and> users (wdb w') = users (wdb w) \<and>
    (case ur of
       Inr u \<Rightarrow> u \<in># users (wdb w) \<and> P u
     | Inl e \<Rightarrow> (e = ErrUserNotFound \<and> (\<forall>x \<in># users (wdb w). \<not> P x)) \<or> foreign e)"
proof -
  let ?sql = "Select user_cols ''users'' [SqEq [(c, VText v)]] None None None"
  show ?thesis
  proof (cases "Builder_ToSql pg ?sql")
    case (Some e)
    with run w show ?thesis by (auto simp: getUser_def dest: builder_foreign)
  next
    case None
    obtain vr d' where exec: "Pool_QueryRow pg ctx ?sql (wdb w) = (vr, d')" by fastforce
    have cols: "''COUNT(*)'' \<notin> set user_cols" by (simp add: user_cols_def)
    have same: "tbl d' = tbl (wdb w) \<Longrightarrow> users d' = users (wdb w)" by (rule db_users_cong)
    from exec w cols show ?thesis
    proof (cases rule: row_cases)
      case (row r)
      then have "P (row_user r)" "row_user r \<in># users (wdb w)"
        using c [OF good_user_row [OF w]] by (auto simp: db_users_def)
      with run None exec row same show ?thesis
        by (auto simp: getUser_def row_user_def [symmetric])
    next
      case (none e)
      then have "\<forall>x \<in># users (wdb w). \<not> P x"
        using c [OF good_user_row [OF w]] by (auto simp: db_users_def)
      with run None exec none same show ?thesis by (auto simp: getUser_def)
    next
      case (failed e)
      with run None exec same show ?thesis by (auto simp: getUser_def)
    qed
  qed
qed

lemmas pg_user_get_id = pg_user_get [where c = "''id''" and P = "\<lambda>u. user_ID u = uuid v" and v = v for v,
    OF _ _ matches_user(1), folded User_GetByID_def]
lemmas pg_user_get_mail = pg_user_get [where c = "''email''" and P = "\<lambda>u. user_Email u = v" and v = v for v,
    OF _ _ matches_user(2), folded User_GetByEmail_def]

lemma pg_user_repo: "user_repo (UserPgRepo pg) users good uuid micro"
proof (unfold_locales, goal_cases)
  case 1 then show ?case by (rule users_key)
next
  case 2 then show ?case by (auto simp: UserPgRepo_def dest: pg_user_store)
next
  case 3 then show ?case by (auto simp: UserPgRepo_def dest: pg_user_store)
next
  case (4 ctx u w e w') then show ?case using pg_user_store [of ctx u w "Some e" w'] by (simp add: UserPgRepo_def)
next
  case 5 then show ?case by (auto simp: UserPgRepo_def dest: pg_user_get_id)
next
  case 6 then show ?case by (auto simp: UserPgRepo_def dest: pg_user_get_id)
next
  case (7 ctx i w e w') then show ?case using pg_user_get_id [of ctx i w "Inl e" w'] by (simp add: UserPgRepo_def)
next
  case 8 then show ?case by (auto simp: UserPgRepo_def dest: pg_user_get_mail)
next
  case 9 then show ?case by (auto simp: UserPgRepo_def dest: pg_user_get_mail)
next
  case (10 ctx i w e w') then show ?case using pg_user_get_mail [of ctx i w "Inl e" w'] by (simp add: UserPgRepo_def)
qed

end

section \<open>The decorator keeps the contract and adds nothing but spans\<close>

lemma traced_ustore_run:
  "run_state (UserRepo_Store (newTracedUserRepo r) ctx u) w = (oe, w') \<Longrightarrow>
   \<exists>w1 w2. run_state (UserRepo_Store r ctx u) w1 = (oe, w2) \<and> wdb w1 = wdb w \<and> wdb w2 = wdb w'"
  unfolding newTracedUserRepo_def tracedUserRepo_Store_def UserRepo.select_convs by (rule decorated_run)

lemma traced_uget_run:
  "run_state (UserRepo_GetByID (newTracedUserRepo r) ctx i) w = (ur, w') \<Longrightarrow>
   \<exists>w1 w2. run_state (UserRepo_GetByID r ctx i) w1 = (ur, w2) \<and> wdb w1 = wdb w \<and> wdb w2 = wdb w'"
  unfolding newTracedUserRepo_def tracedUserRepo_GetByID_def UserRepo.select_convs by (rule decorated_run)

lemma traced_umail_run:
  "run_state (UserRepo_GetByEmail (newTracedUserRepo r) ctx i) w = (ur, w') \<Longrightarrow>
   \<exists>w1 w2. run_state (UserRepo_GetByEmail r ctx i) w1 = (ur, w2) \<and> wdb w1 = wdb w \<and> wdb w2 = wdb w'"
  unfolding newTracedUserRepo_def tracedUserRepo_GetByEmail_def UserRepo.select_convs by (rule decorated_run)

context user_repo
begin

lemma traced_user_contract: "user_repo (newTracedUserRepo repo) users ok uuid micro"
proof (unfold_locales, goal_cases)
  case 1 then show ?case by (rule user_key)
next
  case 2 then show ?case by - (drule traced_ustore_run, elim exE conjE, drule ustore_inv; simp)
next
  case 3 then show ?case by - (drule traced_ustore_run, elim exE conjE, drule ustore_ok; simp)
next
  case 4 then show ?case by - (drule traced_ustore_run, elim exE conjE, drule ustore_err; simp)
next
  case 5 then show ?case by - (drule traced_uget_run, elim exE conjE, drule uget_frame; simp)
next
  case 6 then show ?case by - (drule traced_uget_run, elim exE conjE, drule uget_ok; simp)
next
  case 7 then show ?case by - (drule traced_uget_run, elim exE conjE, drule uget_err; simp)
next
  case 8 then show ?case by - (drule traced_umail_run, elim exE conjE, drule umail_frame; simp)
next
  case 9 then show ?case by - (drule traced_umail_run, elim exE conjE, drule umail_ok; simp)
next
  case 10 then show ?case by - (drule traced_umail_run, elim exE conjE, drule umail_err; simp)
qed

end

sublocale sql_db \<subseteq> user_store: user_repo "NewUserRepo pg" "db_users tbl" good uuid micro
  unfolding NewUserRepo_def by (rule user_repo.traced_user_contract [OF pg_user_repo])

definition user_repo_sim :: "'db UserRepo \<Rightarrow> 'db UserRepo \<Rightarrow> bool" where
  "user_repo_sim r r' \<longleftrightarrow>
     (\<forall>ctx t. span_sim (UserRepo_Store r ctx t) (UserRepo_Store r' ctx t)) \<and>
     (\<forall>ctx i. span_sim (UserRepo_GetByID r ctx i) (UserRepo_GetByID r' ctx i)) \<and>
     (\<forall>ctx i. span_sim (UserRepo_GetByEmail r ctx i) (UserRepo_GetByEmail r' ctx i))"

lemma traced_user_repo_sim:
  "user_repo_sim r r' \<Longrightarrow> user_repo_sim (newTracedUserRepo r) r'"
  by (auto simp: user_repo_sim_def newTracedUserRepo_def tracedUserRepo_Store_def tracedUserRepo_GetByID_def
      tracedUserRepo_GetByEmail_def intro!: span_sim_decorated)

lemma pg_user_repo_sim: "user_repo_sim (UserPgRepo pg) (UserPgRepo pg)"
  unfolding user_repo_sim_def UserPgRepo_def
  by (auto simp: User_Store_def User_GetByID_def User_GetByEmail_def getUser_def Let_def intro!: span_sims)

text \<open>The repository reads neither the clock nor the random source.\<close>

lemma getUser_clock:
  "run_state (getUser pg ctx c v) w = (r, w') \<Longrightarrow> clock w' = clock w \<and> ticks w' = ticks w"
  by (auto simp: getUser_def Let_def split: option.splits prod.splits sum.splits if_splits)

end
