(* ===== verification/Jwt.thy ===== *)
theory Jwt
  imports Entity
begin

text \<open>
  The JWT manager (\<^verbatim>\<open>src/pkg/jwt/jwt.go\<close>). The library \<open>golang-jwt/jwt/v5\<close> it calls is the
  parameter \<open>jwtlib\<close>; \<open>jwt_documented\<close> names the documented behaviour the manager relies on, and
  \<open>demo_jwt\<close> is a small executable library with that behaviour.
\<close>

section \<open>The library\<close>

text \<open>
  \<open>token.Method\<close> with the \<open>alg\<close> of its header: an HMAC method or one of another family. A
  registered claim set holds the subject and the expiry, a \<open>NumericDate\<close> in seconds.
\<close>

datatype signing_method = SigningMethodHMAC string | OtherSigningMethod string

fun alg :: "signing_method \<Rightarrow> string" where
  "alg (SigningMethodHMAC a) = a"
| "alg (OtherSigningMethod a) = a"

definition SigningMethodHS256 :: signing_method where
  "SigningMethodHS256 = SigningMethodHMAC ''HS256''"

record RegisteredClaims =
  Subject :: string
  ExpiresAt :: int

record Token =
  Method :: signing_method
  Claims :: RegisteredClaims

text \<open>
  \<open>Parse now s keyfunc\<close> is \<open>jwtlib.Parse(s, keyfunc)\<close> at the time \<open>now\<close> (nanoseconds).
\<close>

record jwtlib =
  NewNumericDate :: "int \<Rightarrow> int"
  SignedString :: "Token \<Rightarrow> string \<Rightarrow> string result"
  Parse :: "int \<Rightarrow> string \<Rightarrow> (Token \<Rightarrow> string result) \<Rightarrow> Token result"
  GetSubject :: "Token \<Rightarrow> string result"

section \<open>The manager\<close>

record Manager =
  secret :: string
  duration :: int

definition ErrUnexpectedSigningMethod :: go_error where
  [err_defs]: "ErrUnexpectedSigningMethod = ErrorsNew ''jwt'' ''unexpected signing method''"

definition NewManager :: "string \<Rightarrow> int \<Rightarrow> Manager" where
  "NewManager s d = \<lparr>secret = s, duration = d\<rparr>"

definition generateToken ::
  "jwtlib \<Rightarrow> Manager \<Rightarrow> string \<Rightarrow> (Token \<Rightarrow> string \<Rightarrow> string result) \<Rightarrow> ('db, string result) io"
where
  "generateToken lib m userID sign = do {
     now \<leftarrow> time_Now;
     let token = \<lparr>Method = SigningMethodHS256,
                  Claims = \<lparr>Subject = userID, ExpiresAt = NewNumericDate lib (now + duration m)\<rparr>\<rparr>;
     case sign token (secret m) of
       Inl err \<Rightarrow> ret (Inl (Errorf ''jwt - GenerateToken - token.SignedString: '' err))
     | Inr tokenString \<Rightarrow> ret (Inr tokenString) }"

definition GenerateToken :: "jwtlib \<Rightarrow> Manager \<Rightarrow> string \<Rightarrow> ('db, string result) io" where
  "GenerateToken lib m userID = generateToken lib m userID (SignedString lib)"

text \<open>The function literal passed to \<open>jwtlib.Parse\<close>.\<close>

definition keyfunc :: "Manager \<Rightarrow> Token \<Rightarrow> string result" where
  "keyfunc m token =
     (case Method token of
        SigningMethodHMAC _ \<Rightarrow> Inr (secret m)
      | OtherSigningMethod a \<Rightarrow> Inl (ErrorfSuffix ErrUnexpectedSigningMethod ('': '' @ a)))"

definition ParseToken :: "jwtlib \<Rightarrow> Manager \<Rightarrow> string \<Rightarrow> ('db, string result) io" where
  "ParseToken lib m tokenString = do {
     now \<leftarrow> time_Now;
     case Parse lib now tokenString (keyfunc m) of
       Inl err \<Rightarrow> ret (Inl (Errorf ''jwt - ParseToken - jwtlib.Parse: '' err))
     | Inr token \<Rightarrow>
         (case GetSubject lib token of
            Inl err \<Rightarrow> ret (Inl (Errorf ''jwt - ParseToken - GetSubject: '' err))
          | Inr sub \<Rightarrow> ret (Inr sub)) }"

section \<open>What the manager relies on\<close>

text \<open>
  \<open>NewNumericDate\<close> truncates to seconds. \<open>SignedString\<close> and \<open>Parse\<close>: the string a token was
  signed into parses to the token when the key function returns the key it was signed with and
  the expiry lies ahead; an expired token does not parse; when the key function refuses the
  token, its error is in the chain of the error of \<open>Parse\<close>; \<open>Parse\<close> succeeds only on a string
  that carries a signature of the token under the key the key function returns, and before its
  expiry (\<open>sig\<close> is that relation; the string determines the token). \<open>GetSubject\<close> of registered claims is the subject.
\<close>

definition second :: int where
  "second = 1000000000"

definition jwt_documented :: "jwtlib \<Rightarrow> (Token \<Rightarrow> string \<Rightarrow> string \<Rightarrow> bool) \<Rightarrow> bool" where
  "jwt_documented lib sig \<longleftrightarrow>
     (\<forall>t. NewNumericDate lib t = t div second) \<and>
     (\<forall>tok. GetSubject lib tok = Inr (Subject (Claims tok))) \<and>
     (\<forall>tok key s now kf. SignedString lib tok key = Inr s \<longrightarrow> kf tok = Inr key \<longrightarrow>
        now < ExpiresAt (Claims tok) * second \<longrightarrow> Parse lib now s kf = Inr tok) \<and>
     (\<forall>tok key s now kf e. SignedString lib tok key = Inr s \<longrightarrow> kf tok = Inl e \<longrightarrow>
        (\<exists>e'. Parse lib now s kf = Inl e' \<and> errors_Is e' e)) \<and>
     (\<forall>tok s now kf. Parse lib now s kf = Inr tok \<longrightarrow>
        now < ExpiresAt (Claims tok) * second \<and> (\<exists>key. kf tok = Inr key \<and> sig tok key s)) \<and>
     (\<forall>tok key s. SignedString lib tok key = Inr s \<longrightarrow> sig tok key s) \<and>
     (\<forall>tok tok' key key' s. sig tok key s \<longrightarrow> sig tok' key' s \<longrightarrow> tok' = tok)"

lemma jwt_documentedD:
  assumes "jwt_documented lib sig"
  shows jwt_date: "NewNumericDate lib t = t div second"
    and jwt_subject: "GetSubject lib tok = Inr (Subject (Claims tok))"
    and jwt_roundtrip: "SignedString lib tok key = Inr s \<Longrightarrow> kf tok = Inr key \<Longrightarrow>
        now < ExpiresAt (Claims tok) * second \<Longrightarrow> Parse lib now s kf = Inr tok"
    and jwt_refused: "SignedString lib tok key = Inr s \<Longrightarrow> kf tok = Inl e \<Longrightarrow>
        \<exists>e'. Parse lib now s kf = Inl e' \<and> errors_Is e' e"
    and jwt_sound: "Parse lib now s kf = Inr tok \<Longrightarrow>
        now < ExpiresAt (Claims tok) * second \<and> (\<exists>key. kf tok = Inr key \<and> sig tok key s)"
    and jwt_signed: "SignedString lib tok key = Inr s \<Longrightarrow> sig tok key s"
    and jwt_determined: "sig tok key s \<Longrightarrow> sig tok' key' s \<Longrightarrow> tok' = tok"
  using assms unfolding jwt_documented_def by (elim conjE, metis)+

section \<open>A library with that behaviour\<close>

text \<open>
  \<open>demo_jwt\<close> writes a token and its key as length-prefixed fields. It keeps no secret, and needs
  none to be an instance of \<open>jwt_documented\<close>.
\<close>

definition field :: "string \<Rightarrow> string" where
  "field s = replicate (length s) CHR ''n'' @ CHR '':'' # s"

definition take_field :: "string \<Rightarrow> string \<times> string" where
  "take_field s = (let n = length (takeWhile (\<lambda>c. c = CHR ''n'') s); r = drop (Suc n) s in (take n r, drop n r))"

lemma takeWhile_prefixed: "takeWhile (\<lambda>c. c = a) (replicate n a @ b # r) = replicate n a" if "b \<noteq> a"
  using that by (induction n) auto

lemma take_field_field: "take_field (field s @ r) = (s, r)"
proof -
  have "takeWhile (\<lambda>c. c = CHR ''n'') (field s @ r) = replicate (length s) CHR ''n''"
    unfolding field_def using takeWhile_prefixed [of "CHR '':''" "CHR ''n''" "length s" "s @ r"] by simp
  then show ?thesis by (simp add: take_field_def Let_def) (simp add: field_def)
qed

definition demo_sign :: "Token \<Rightarrow> string \<Rightarrow> string" where
  "demo_sign tok key =
     field (case Method tok of SigningMethodHMAC a \<Rightarrow> CHR ''H'' # a | OtherSigningMethod a \<Rightarrow> CHR ''O'' # a) @
     field (Subject (Claims tok)) @
     field ((if ExpiresAt (Claims tok) < 0 then ''-'' else ''+'') @
            replicate (nat \<bar>ExpiresAt (Claims tok)\<bar>) CHR ''1'') @
     field key"

definition demo_read :: "string \<Rightarrow> Token \<times> string" where
  "demo_read s =
     (let (m, s1) = take_field s; (u, s2) = take_field s1; (x, s3) = take_field s2; (k, s4) = take_field s3 in
      (\<lparr>Method = (case m of [] \<Rightarrow> OtherSigningMethod []
                           | c # a \<Rightarrow> if c = CHR ''H'' then SigningMethodHMAC a else OtherSigningMethod a),
        Claims = \<lparr>Subject = u,
          ExpiresAt = (case x of [] \<Rightarrow> 0 | c # n \<Rightarrow> if c = CHR ''-'' then - int (length n) else int (length n))\<rparr>\<rparr>,
       k))"

lemma take_field_last: "take_field (field s) = (s, [])"
  using take_field_field [of s "[]"] by simp

lemma demo_read_sign: "demo_read (demo_sign tok key) = (tok, key)"
proof -
  obtain m u x where tok: "tok = \<lparr>Method = m, Claims = \<lparr>Subject = u, ExpiresAt = x\<rparr>\<rparr>"
    by (cases tok; cases "Claims tok") auto
  show ?thesis
    by (cases m; cases "x < 0")
      (simp_all add: tok demo_read_def demo_sign_def take_field_field take_field_last)
qed

definition ErrTokenUnverifiable :: go_error where
  "ErrTokenUnverifiable = LibError ''jwt'' ''token is unverifiable''"

definition demo_jwt :: jwtlib where
  "demo_jwt =
     \<lparr>NewNumericDate = (\<lambda>t. t div second),
      SignedString = (\<lambda>tok key. Inr (demo_sign tok key)),
      Parse = (\<lambda>now s kf. case demo_read s of (tok, key) \<Rightarrow>
         (case kf tok of
            Inl e \<Rightarrow> Inl (Joined [ErrTokenUnverifiable, e])
          | Inr key' \<Rightarrow>
              if key' \<noteq> key then Inl (LibError ''jwt'' ''token signature is invalid'')
              else if ExpiresAt (Claims tok) * second \<le> now then Inl (LibError ''jwt'' ''token is expired'')
              else Inr tok)),
      GetSubject = (\<lambda>tok. Inr (Subject (Claims tok)))\<rparr>"

definition demo_signed :: "Token \<Rightarrow> string \<Rightarrow> string \<Rightarrow> bool" where
  "demo_signed tok key s \<longleftrightarrow> demo_read s = (tok, key)"

lemma demo_jwt_documented: "jwt_documented demo_jwt demo_signed"
  unfolding jwt_documented_def
  by (auto simp: demo_jwt_def demo_signed_def demo_read_sign split: prod.splits sum.splits if_splits)

section \<open>What the manager does\<close>

lemma token_valid_iff:
  assumes "jwt_documented lib sig"
    and "val (GenerateToken lib m u) w = Inr s"
    and "secret m' = secret m"
  shows "val (ParseToken lib m' s) v = Inr u \<longleftrightarrow>
    clock v (ticks v) < (clock w (ticks w) + duration m) div second * second"
proof -
  let ?tok = "\<lparr>Method = SigningMethodHS256, Claims = \<lparr>Subject = u,
      ExpiresAt = (clock w (ticks w) + duration m) div second\<rparr>\<rparr>"
  have signed: "SignedString lib ?tok (secret m) = Inr s"
    using assms(2) by (auto simp: GenerateToken_def generateToken_def jwt_date [OF assms(1)] split: sum.splits)
  have kf: "keyfunc m' ?tok = Inr (secret m)"
    by (simp add: keyfunc_def SigningMethodHS256_def assms(3))
  show ?thesis
  proof (cases "clock v (ticks v) < (clock w (ticks w) + duration m) div second * second")
    case True
    with jwt_roundtrip [OF assms(1) signed, where kf = "keyfunc m'", OF kf] have "Parse lib (clock v (ticks v)) s (keyfunc m') = Inr ?tok"
      by simp
    with True show ?thesis by (simp add: ParseToken_def jwt_subject [OF assms(1)])
  next
    case False
    have "val (ParseToken lib m' s) v \<noteq> Inr u"
    proof
      assume "val (ParseToken lib m' s) v = Inr u"
      then obtain tok where p: "Parse lib (clock v (ticks v)) s (keyfunc m') = Inr tok"
        by (auto simp: ParseToken_def split: sum.splits)
      from jwt_sound [OF assms(1) p] obtain key where "sig tok key s"
        and now: "clock v (ticks v) < ExpiresAt (Claims tok) * second" by auto
      with jwt_determined [OF assms(1) jwt_signed [OF assms(1) signed]] have "tok = ?tok" by blast
      with now False show False by simp
    qed
    with False show ?thesis by simp
  qed
qed

text \<open>
  A token issued at time \<open>t\<close> gives back the user it was issued for to a manager with the same
  secret until the expiry \<open>t + duration\<close>, cut to whole seconds, and is refused from then on.
\<close>

theorem token_roundtrip:
  assumes "jwt_documented lib sig"
    and "val (GenerateToken lib m u) w = Inr s"
    and "secret m' = secret m"
  shows "val (ParseToken lib m' s) v = Inr u \<longleftrightarrow>
    clock v (ticks v) < (clock w (ticks w) + duration m) div second * second"
  using assms by (rule token_valid_iff)

lemma token_roundtrip_witness:
  "val (ParseToken demo_jwt \<lparr>secret = ''key'', duration = 5 * second\<rparr>
       (demo_sign \<lparr>Method = SigningMethodHS256, Claims = \<lparr>Subject = ''u1'', ExpiresAt = 5\<rparr>\<rparr> ''key''))
     \<lparr>wdb = (), clock = (\<lambda>_. 4 * second), ticks = 0, random = (\<lambda>_. []), draws = 0, logs = [], spans = []\<rparr> =
   Inr ''u1''"
proof -
  let ?w = "\<lparr>wdb = (), clock = (\<lambda>_. 0), ticks = 0, random = (\<lambda>_. []), draws = 0, logs = [], spans = []\<rparr>"
  let ?m = "\<lparr>secret = ''key'', duration = 5 * second\<rparr>"
  let ?s = "demo_sign \<lparr>Method = SigningMethodHS256, Claims = \<lparr>Subject = ''u1'', ExpiresAt = 5\<rparr>\<rparr> ''key''"
  have "val (GenerateToken demo_jwt ?m ''u1'') ?w = Inr ?s"
    by (simp add: GenerateToken_def generateToken_def demo_jwt_def second_def)
  from token_roundtrip [OF demo_jwt_documented this, of ?m
      "\<lparr>wdb = (), clock = (\<lambda>_. 4 * second), ticks = 0, random = (\<lambda>_. []), draws = 0, logs = [], spans = []\<rparr>"]
  show ?thesis by (simp add: second_def)
qed



text \<open>
  A signed token of another family of methods is refused whatever the key, and the error
  wraps \<open>ErrUnexpectedSigningMethod\<close>: the algorithm cannot be switched.
\<close>

theorem ParseToken_method_pinned:
  assumes "jwt_documented lib sig" and "SignedString lib tok key = Inr s"
    and "Method tok = OtherSigningMethod a"
  shows "\<exists>e. val (ParseToken lib m s) w = Inl e \<and> errors_Is e ErrUnexpectedSigningMethod"
proof -
  let ?e = "ErrorfSuffix ErrUnexpectedSigningMethod ('': '' @ a)"
  have "keyfunc m tok = Inl ?e" by (simp add: keyfunc_def assms(3))
  from jwt_refused [OF assms(1,2), where kf = "keyfunc m", OF this] obtain e' where
    e': "Parse lib (clock w (ticks w)) s (keyfunc m) = Inl e'" "errors_Is e' ?e" by blast
  have "errors_Is e' ErrUnexpectedSigningMethod"
    by (rule errors_Is_trans [OF e'(2)]) simp
  with e'(1) show ?thesis by (simp add: ParseToken_def)
qed

lemma ParseToken_method_pinned_witness:
  "\<exists>e. val (ParseToken demo_jwt \<lparr>secret = ''key'', duration = 1\<rparr>
         (demo_sign \<lparr>Method = OtherSigningMethod ''RS256'', Claims = \<lparr>Subject = ''u1'', ExpiresAt = 5\<rparr>\<rparr> ''key''))
       \<lparr>wdb = (), clock = (\<lambda>_. 0), ticks = 0, random = (\<lambda>_. []), draws = 0, logs = [], spans = []\<rparr> = Inl e \<and>
     errors_Is e ErrUnexpectedSigningMethod"
proof -
  let ?tok = "\<lparr>Method = OtherSigningMethod ''RS256'', Claims = \<lparr>Subject = ''u1'', ExpiresAt = 5\<rparr>\<rparr>"
  have "SignedString demo_jwt ?tok ''key'' = Inr (demo_sign ?tok ''key'')" by (simp add: demo_jwt_def)
  from ParseToken_method_pinned [OF demo_jwt_documented this, of "''RS256''"] show ?thesis by simp
qed

end
