(* ===== verification/User_Usecase.thy ===== *)
theory User_Usecase
  imports User_Repo Jwt
begin

text \<open>
  The user use case (\<^verbatim>\<open>src/internal/usecase/user\<close>): registration, login and profile over any
  \<open>UserRepo\<close>, its tracing decorator, and what they guarantee on every repository that meets the
  contract. The package \<open>bcrypt\<close> is a parameter, with \<open>bcrypt_documented\<close> for what is used of it.
\<close>

section \<open>Parameters\<close>

text \<open>\<open>GenerateFromPassword\<close> takes the salt it draws as its first argument.\<close>

record bcrypt =
  GenerateFromPassword :: "string \<Rightarrow> string \<Rightarrow> nat \<Rightarrow> string result"
  CompareHashAndPassword :: "string \<Rightarrow> string \<Rightarrow> go_error option"

definition bcrypt_DefaultCost :: nat where
  "bcrypt_DefaultCost = 10"

definition bcrypt_documented :: "bcrypt \<Rightarrow> bool" where
  "bcrypt_documented b \<longleftrightarrow>
     (\<forall>salt p c h. GenerateFromPassword b salt p c = Inr h \<longrightarrow> CompareHashAndPassword b h p = None) \<and>
     (\<forall>salt p c e. GenerateFromPassword b salt p c = Inl e \<longrightarrow> foreign e)"

text \<open>A stand-in for witnesses, with the limit of 72 bytes that bcrypt has.\<close>

definition demo_bcrypt :: bcrypt where
  "demo_bcrypt =
     \<lparr>GenerateFromPassword = (\<lambda>salt p c.
         if 72 < length p then Inl (LibError ''bcrypt'' ''password length exceeds 72 bytes'')
         else Inr (field salt @ p)),
      CompareHashAndPassword = (\<lambda>h p.
         if snd (take_field h) = p then None
         else Some (LibError ''bcrypt'' ''hashedPassword is not the hash of the given password''))\<rparr>"

lemma demo_bcrypt_documented: "bcrypt_documented demo_bcrypt"
  by (auto simp: bcrypt_documented_def demo_bcrypt_def take_field_field split: if_splits)

section \<open>The use case\<close>

record 'db UserUC =
  UserUC_Register :: "go_ctx \<Rightarrow> string \<Rightarrow> string \<Rightarrow> string \<Rightarrow> ('db, User result) io"
  UserUC_Login :: "go_ctx \<Rightarrow> string \<Rightarrow> string \<Rightarrow> ('db, string result) io"
  UserUC_GetUser :: "go_ctx \<Rightarrow> string \<Rightarrow> ('db, User result) io"

definition UserUseCase_Register ::
  "bcrypt \<Rightarrow> 'db UserRepo \<Rightarrow> go_ctx \<Rightarrow> string \<Rightarrow> string \<Rightarrow> string \<Rightarrow> ('db, User result) io"
where
  "UserUseCase_Register bc repo ctx username email password = do {
     salt \<leftarrow> uuid_New;
     case GenerateFromPassword bc salt password bcrypt_DefaultCost of
       Inl err \<Rightarrow> ret (Inl (Errorf ''UserUseCase - Register - bcrypt.GenerateFromPassword: '' err))
     | Inr hash \<Rightarrow> do {
         now \<leftarrow> time_Now;
         newID \<leftarrow> uuid_New;
         let user = \<lparr>user_ID = newID, user_Username = username, user_Email = email,
                     user_PasswordHash = hash, user_CreatedAt = now, user_UpdatedAt = now\<rparr>;
         err \<leftarrow> UserRepo_Store repo ctx user;
         case err of
           Some e \<Rightarrow> ret (Inl (Errorf ''UserUseCase - Register - uc.repo.Store: '' e))
         | None \<Rightarrow> ret (Inr user) } }"

definition UserUseCase_Login ::
  "bcrypt \<Rightarrow> jwtlib \<Rightarrow> Manager \<Rightarrow> 'db UserRepo \<Rightarrow> go_ctx \<Rightarrow> string \<Rightarrow> string \<Rightarrow> ('db, string result) io"
where
  "UserUseCase_Login bc lib jwt repo ctx email password = do {
     res \<leftarrow> UserRepo_GetByEmail repo ctx email;
     case res of
       Inl err \<Rightarrow> ret (Inl ErrInvalidCredentials)
     | Inr user \<Rightarrow>
         (case CompareHashAndPassword bc (user_PasswordHash user) password of
            Some err \<Rightarrow> ret (Inl ErrInvalidCredentials)
          | None \<Rightarrow> do {
              tok \<leftarrow> GenerateToken lib jwt (user_ID user);
              case tok of
                Inl err \<Rightarrow> ret (Inl (Errorf ''UserUseCase - Login - uc.jwt.GenerateToken: '' err))
              | Inr token \<Rightarrow> ret (Inr token) }) }"

definition UserUseCase_GetUser :: "'db UserRepo \<Rightarrow> go_ctx \<Rightarrow> string \<Rightarrow> ('db, User result) io" where
  "UserUseCase_GetUser repo ctx userID = do {
     res \<leftarrow> UserRepo_GetByID repo ctx userID;
     case res of
       Inl err \<Rightarrow> ret (Inl (Errorf ''UserUseCase - GetUser - uc.repo.GetByID: '' err))
     | Inr user \<Rightarrow> ret (Inr user) }"

definition UserUseCase :: "bcrypt \<Rightarrow> jwtlib \<Rightarrow> 'db UserRepo \<Rightarrow> Manager \<Rightarrow> 'db UserUC" where
  "UserUseCase bc lib r j =
     \<lparr>UserUC_Register = UserUseCase_Register bc r, UserUC_Login = UserUseCase_Login bc lib j r,
      UserUC_GetUser = UserUseCase_GetUser r\<rparr>"

section \<open>The tracing decorator\<close>

definition user_uc_tracer :: string where
  "user_uc_tracer = ''github.com/divilla/go-scream-template/internal/usecase/user''"

definition tracedUser_Register ::
  "'db UserUC \<Rightarrow> go_ctx \<Rightarrow> string \<Rightarrow> string \<Rightarrow> string \<Rightarrow> ('db, User result) io"
where
  "tracedUser_Register next ctx username email password = do {
     ctx \<leftarrow> startSpan user_uc_tracer ctx ''UserUseCase.Register'' [(''user.email'', AString email)];
     result \<leftarrow> UserUC_Register next ctx username email password;
     endSpan (err_of result);
     ret result }"

definition tracedUser_Login :: "'db UserUC \<Rightarrow> go_ctx \<Rightarrow> string \<Rightarrow> string \<Rightarrow> ('db, string result) io" where
  "tracedUser_Login next ctx email password = do {
     ctx \<leftarrow> startSpan user_uc_tracer ctx ''UserUseCase.Login'' [(''user.email'', AString email)];
     result \<leftarrow> UserUC_Login next ctx email password;
     endSpan (err_of result);
     ret result }"

definition tracedUser_GetUser :: "'db UserUC \<Rightarrow> go_ctx \<Rightarrow> string \<Rightarrow> ('db, User result) io" where
  "tracedUser_GetUser next ctx userID = do {
     ctx \<leftarrow> startSpan user_uc_tracer ctx ''UserUseCase.GetUser'' [(''user.id'', AString userID)];
     result \<leftarrow> UserUC_GetUser next ctx userID;
     endSpan (err_of result);
     ret result }"

definition newTracedUser :: "'db UserUC \<Rightarrow> 'db UserUC" where
  "newTracedUser next =
     \<lparr>UserUC_Register = tracedUser_Register next, UserUC_Login = tracedUser_Login next,
      UserUC_GetUser = tracedUser_GetUser next\<rparr>"

definition NewUserUseCase :: "bcrypt \<Rightarrow> jwtlib \<Rightarrow> 'db UserRepo \<Rightarrow> Manager \<Rightarrow> 'db UserUC" where
  "NewUserUseCase bc lib r j = newTracedUser (UserUseCase bc lib r j)"

section \<open>Transparency of the decorator\<close>

definition user_uc_sim :: "'db UserUC \<Rightarrow> 'db UserUC \<Rightarrow> bool" where
  "user_uc_sim r r' \<longleftrightarrow>
     (\<forall>ctx a b c. span_sim (UserUC_Register r ctx a b c) (UserUC_Register r' ctx a b c)) \<and>
     (\<forall>ctx a b. span_sim (UserUC_Login r ctx a b) (UserUC_Login r' ctx a b)) \<and>
     (\<forall>ctx a. span_sim (UserUC_GetUser r ctx a) (UserUC_GetUser r' ctx a))"

lemma traced_user_uc_sim: "user_uc_sim r r' \<Longrightarrow> user_uc_sim (newTracedUser r) r'"
  by (auto simp: user_uc_sim_def newTracedUser_def tracedUser_Register_def tracedUser_Login_def
      tracedUser_GetUser_def intro!: span_sim_decorated)

lemma span_sim_GenerateToken [span_sims]: "span_sim (GenerateToken lib m u) (GenerateToken lib m u)"
  unfolding GenerateToken_def generateToken_def Let_def by (intro span_sims)

lemma user_usecase_sim:
  assumes "user_repo_sim r r'"
  shows "user_uc_sim (UserUseCase bc lib r j) (UserUseCase bc lib r' j)"
proof -
  have ops [span_sims]: "span_sim (UserRepo_Store r ctx t) (UserRepo_Store r' ctx t)"
    "span_sim (UserRepo_GetByID r ctx i) (UserRepo_GetByID r' ctx i)"
    "span_sim (UserRepo_GetByEmail r ctx i) (UserRepo_GetByEmail r' ctx i)" for ctx t i
    using assms by (auto simp: user_repo_sim_def)
  show ?thesis
    by (auto simp: user_uc_sim_def UserUseCase_def UserUseCase_Register_def UserUseCase_Login_def
        UserUseCase_GetUser_def Let_def intro!: span_sims)
qed

section \<open>What registration and login guarantee\<close>

lemma GenerateToken_val:
  "val (GenerateToken lib m u) w = val (GenerateToken lib m u) v" if "clock w (ticks w) = clock v (ticks v)"
  using that by (simp add: GenerateToken_def generateToken_def split: sum.splits)

lemma GenerateToken_wdb: "wdb (post (GenerateToken lib m u) w) = wdb w"
  by (simp add: GenerateToken_def generateToken_def split: sum.splits)

context user_repo
begin

lemma register_cases:
  assumes run: "run_state (UserUseCase_Register bc repo ctx name mail p) w = (r, w')" and w: "ok (wdb w)"
  obtains (hash) e salt where "r = Inl (Errorf ''UserUseCase - Register - bcrypt.GenerateFromPassword: '' e)"
      "GenerateFromPassword bc salt p bcrypt_DefaultCost = Inl e" "wdb w' = wdb w"
  | (stored) u salt where "r = Inr u" "ok (wdb w')" "user_Username u = name" "user_Email u = mail"
      "GenerateFromPassword bc salt p bcrypt_DefaultCost = Inr (user_PasswordHash u)"
      "users (wdb w') = add_mset (stored_user uuid micro u) (users (wdb w))"
      "\<forall>x \<in># users (wdb w). user_Email x \<noteq> mail \<and> user_Username x \<noteq> name"
  | (taken) x where "r = Inl (Errorf ''UserUseCase - Register - uc.repo.Store: '' ErrUserAlreadyExists)" "ok (wdb w')"
      "users (wdb w') = users (wdb w)" "x \<in># users (wdb w)"
      "user_ID x = uuid (random w (Suc (draws w))) \<or> user_Email x = mail \<or> user_Username x = name"
  | (failed) e u where "r = Inl (Errorf ''UserUseCase - Register - uc.repo.Store: '' e)" "foreign e" "ok (wdb w')"
      "user_Username u = name" "user_Email u = mail"
      "users (wdb w') \<in> {users (wdb w), add_mset (stored_user uuid micro u) (users (wdb w))}"
proof (cases "GenerateFromPassword bc (random w (draws w)) p bcrypt_DefaultCost")
  case (Inl e)
  with run show ?thesis by (intro hash [of e "random w (draws w)"]) (auto simp: UserUseCase_Register_def)
next
  case (Inr h)
  let ?u = "\<lparr>user_ID = random w (Suc (draws w)), user_Username = name, user_Email = mail,
     user_PasswordHash = h, user_CreatedAt = clock w (ticks w), user_UpdatedAt = clock w (ticks w)\<rparr>"
  let ?w = "w\<lparr>ticks := Suc (ticks w), draws := Suc (Suc (draws w))\<rparr>"
  obtain oe w1 where st: "run_state (UserRepo_Store repo ctx ?u) ?w = (oe, w1)" by fastforce
  with run Inr have r: "r = (case oe of None \<Rightarrow> Inr ?u | Some e \<Rightarrow> Inl (Errorf ''UserUseCase - Register - uc.repo.Store: '' e))"
    and w': "w' = w1"
    by (auto simp: UserUseCase_Register_def Let_def split: option.splits)
  from w st ustore_inv [OF st] have ok': "ok (wdb w')" by (simp add: w')
  show ?thesis
  proof (cases oe)
    case None
    with ustore_ok [of ctx ?u ?w w1] st w Inr ok' r w' show ?thesis
      by (intro stored [of ?u "random w (draws w)"]) auto
  next
    case (Some e)
    with ustore_err [of ctx ?u ?w e w1] st w Inr ok' r w' show ?thesis
      by (auto intro: failed [of e ?u] taken)
  qed
qed

text \<open>\<open>Login\<close> hands out a token exactly for the user with that e-mail whose hash accepts the password.\<close>

lemma login_ok:
  assumes "run_state (UserUseCase_Login bc lib m repo ctx mail p) w = (Inr s, w')" and "ok (wdb w)"
  shows "\<exists>x (w1 :: 'db world). x \<in># users (wdb w) \<and> user_Email x = mail \<and>
    CompareHashAndPassword bc (user_PasswordHash x) p = None \<and>
    val (GenerateToken lib m (user_ID x)) w1 = Inr s \<and> ok (wdb w') \<and> users (wdb w') = users (wdb w)"
proof -
  obtain ur w1 where get: "run_state (UserRepo_GetByEmail repo ctx mail) w = (ur, w1)" by fastforce
  with assms(1) obtain x where x: "ur = Inr x" "CompareHashAndPassword bc (user_PasswordHash x) p = None"
    and tok: "run_state (GenerateToken lib m (user_ID x)) w1 = (Inr s, w')"
    by (auto simp: UserUseCase_Login_def split: sum.splits option.splits prod.splits)
  have "wdb w' = wdb w1" using GenerateToken_wdb [of lib m "user_ID x" w1] tok by simp
  with umail_ok [OF get [unfolded x(1)] assms(2)] umail_frame [OF get assms(2)] x
  have "x \<in># users (wdb w) \<and> user_Email x = mail \<and> CompareHashAndPassword bc (user_PasswordHash x) p = None \<and>
      val (GenerateToken lib m (user_ID x)) w1 = Inr s \<and> ok (wdb w') \<and> users (wdb w') = users (wdb w)"
    by (simp add: tok)
  then show ?thesis by blast
qed

lemma login_frame:
  assumes "run_state (UserUseCase_Login bc lib m repo ctx mail p) w = (r, w')" and "ok (wdb w)"
  shows "ok (wdb w') \<and> users (wdb w') = users (wdb w)"
proof -
  obtain ur w1 where get: "run_state (UserRepo_GetByEmail repo ctx mail) w = (ur, w1)" by fastforce
  with assms(1) have "wdb w' = wdb w1"
    using GenerateToken_wdb [of lib m _ w1]
    by (auto simp: UserUseCase_Login_def split: sum.splits option.splits prod.splits) (metis snd_conv)+
  with umail_frame [OF get assms(2)] show ?thesis by simp
qed

text \<open>An unknown e-mail and a wrong password get the same answer.\<close>

lemma login_refused:
  assumes "ok (wdb w)"
    and "\<forall>x \<in># users (wdb w). user_Email x = mail \<longrightarrow> CompareHashAndPassword bc (user_PasswordHash x) p \<noteq> None"
  shows "val (UserUseCase_Login bc lib m repo ctx mail p) w = Inl ErrInvalidCredentials"
proof -
  obtain ur w1 where get: "run_state (UserRepo_GetByEmail repo ctx mail) w = (ur, w1)" by fastforce
  show ?thesis
  proof (cases ur)
    case (Inr x)
    with umail_ok [of ctx mail w x w1] get assms
    have "CompareHashAndPassword bc (user_PasswordHash x) p \<noteq> None" by simp
    with get Inr show ?thesis by (auto simp: UserUseCase_Login_def)
  qed (use get in \<open>simp add: UserUseCase_Login_def\<close>)
qed

lemma login_answers:
  assumes "x \<in># users (wdb w)" and "ok (wdb w)" and "user_Email x = mail"
    and "CompareHashAndPassword bc (user_PasswordHash x) p = None"
    and "run_state (UserRepo_GetByEmail repo ctx mail) w = (Inr y, w1)"
  shows "val (UserUseCase_Login bc lib m repo ctx mail p) w =
    (case val (GenerateToken lib m (user_ID x)) w1 of
       Inl e \<Rightarrow> Inl (Errorf ''UserUseCase - Login - uc.jwt.GenerateToken: '' e) | Inr s \<Rightarrow> Inr s)"
proof -
  have "x = y" using mail_unique [OF assms(5,2,1,3)] .
  with assms(4,5) show ?thesis
    by (auto simp: UserUseCase_Login_def split: sum.splits prod.splits)
qed

end

end
