(* ===== verification/Translation_Repo.thy ===== *)
theory Translation_Repo
  imports Sql
begin

text \<open>
  The translation history repository and the client of the translation service: the
  interfaces \<open>TranslationRepo\<close> and \<open>TranslationWebAPI\<close> of \<^verbatim>\<open>src/internal/repo/contracts.go\<close>,
  the PostgreSQL implementation (\<^verbatim>\<open>persistent/translation/translation.go\<close>), the Google client
  (\<^verbatim>\<open>webapi/translation_google.go\<close>), the two tracing decorators, and the contract of the
  repository as the locale \<open>translation_repo\<close> with the proof that the implementation meets it.
\<close>

section \<open>The interfaces\<close>

record 'db TranslationRepo =
  TranslationRepo_Store :: "go_ctx \<Rightarrow> string \<Rightarrow> Translation \<Rightarrow> ('db, go_error option) io"
  TranslationRepo_GetHistory :: "go_ctx \<Rightarrow> string \<Rightarrow> ('db, Translation list result) io"

record 'db TranslationWebAPI =
  WebAPI_Translate :: "go_ctx \<Rightarrow> Translation \<Rightarrow> ('db, Translation result) io"

section \<open>The PostgreSQL implementation\<close>

text \<open>
  The source names the columns in one string, \<open>"user_id, source, ..."\<close>, which the builder copies
  into the statement; here it is the list of the names.
\<close>

definition history_cols :: "string list" where
  "history_cols = [''source'', ''destination'', ''original'', ''translation'']"

fun scan_translation :: "sqlval list \<Rightarrow> Translation" where
  "scan_translation [a, b, c, d] =
     \<lparr>tr_Source = val_str a, tr_Destination = val_str b, tr_Original = val_str c, tr_Translation = val_str d\<rparr>"
| "scan_translation _ = \<lparr>tr_Source = [], tr_Destination = [], tr_Original = [], tr_Translation = []\<rparr>"

definition Translation_GetHistory ::
  "'db Postgres \<Rightarrow> go_ctx \<Rightarrow> string \<Rightarrow> ('db, Translation list result) io"
where
  "Translation_GetHistory r ctx userID =
     (let sql = Select history_cols ''history'' [SqExpr ''user_id'' (VText userID)] None None None in
      case Builder_ToSql r sql of
        Some err \<Rightarrow> ret (Inl (Errorf ''TranslationRepo - GetHistory - r.Builder: '' err))
      | None \<Rightarrow> do {
          res \<leftarrow> on_db (Pool_Query r ctx sql);
          case res of
            Inl err \<Rightarrow> ret (Inl (Errorf ''TranslationRepo - GetHistory - r.Pool.Query: '' err))
          | Inr rows \<Rightarrow>
              (case scan_rows scan_translation (rows_items rows) [] of
                 Inl err \<Rightarrow> ret (Inl (Errorf ''TranslationRepo - GetHistory - rows.Scan: '' err))
               | Inr entities \<Rightarrow>
                   (case rows_Err rows of
                      Some err \<Rightarrow> ret (Inl (Errorf ''TranslationRepo - GetHistory - rows.Err: '' err))
                    | None \<Rightarrow> ret (Inr entities))) })"

definition history_vals :: "string \<Rightarrow> Translation \<Rightarrow> sqlval list" where
  "history_vals userID t = [VText userID, VText (tr_Source t), VText (tr_Destination t),
     VText (tr_Original t), VText (tr_Translation t)]"

definition Translation_Store ::
  "'db Postgres \<Rightarrow> go_ctx \<Rightarrow> string \<Rightarrow> Translation \<Rightarrow> ('db, go_error option) io"
where
  "Translation_Store r ctx userID t =
     (let sql = Insert ''history'' (''user_id'' # history_cols) (history_vals userID t) in
      case Builder_ToSql r sql of
        Some err \<Rightarrow> ret (Some (Errorf ''TranslationRepo - Store - r.Builder: '' err))
      | None \<Rightarrow> do {
          res \<leftarrow> on_db (Pool_Exec r ctx sql);
          case res of
            Inl err \<Rightarrow> ret (Some (Errorf ''TranslationRepo - Store - r.Pool.Exec: '' err))
          | Inr _ \<Rightarrow> ret None })"

definition TranslationPgRepo :: "'db Postgres \<Rightarrow> 'db TranslationRepo" where
  "TranslationPgRepo pg =
     \<lparr>TranslationRepo_Store = Translation_Store pg, TranslationRepo_GetHistory = Translation_GetHistory pg\<rparr>"

section \<open>The client of the translation service\<close>

text \<open>
  \<open>trans.Translate(text, source, destination)\<close> of the package \<open>go-googletrans\<close> is a call to a
  web service: the parameter \<open>googletrans\<close> gives its answer, which may differ from call to call
  and so also depends on a fresh draw.
\<close>

type_synonym googletrans = "string \<Rightarrow> string \<Rightarrow> string \<Rightarrow> string \<Rightarrow> string result"

definition TranslationWebAPI_Translate ::
  "googletrans \<Rightarrow> go_ctx \<Rightarrow> Translation \<Rightarrow> ('db, Translation result) io"
where
  "TranslationWebAPI_Translate gtrans ctx t =
     (case ctx_err ctx of
        Some err \<Rightarrow> ret (Inl (Errorf ''TranslationWebAPI - Translate - ctx: '' err))
      | None \<Rightarrow> do {
          answer \<leftarrow> uuid_New;
          case gtrans (tr_Original t) (tr_Source t) (tr_Destination t) answer of
            Inl err \<Rightarrow> ret (Inl (Errorf ''TranslationWebAPI - Translate - trans.Translate: '' err))
          | Inr txt \<Rightarrow> ret (Inr (t\<lparr>tr_Translation := txt\<rparr>)) })"

definition webapi_tracer :: string where
  "webapi_tracer = ''github.com/divilla/go-scream-template/internal/repo/webapi''"

definition tracedTranslationWebAPI_Translate ::
  "'db TranslationWebAPI \<Rightarrow> go_ctx \<Rightarrow> Translation \<Rightarrow> ('db, Translation result) io"
where
  "tracedTranslationWebAPI_Translate next ctx t = do {
     ctx \<leftarrow> startSpan webapi_tracer ctx ''TranslationWebAPI.Translate''
              [(''translation.source'', AString (tr_Source t)),
               (''translation.destination'', AString (tr_Destination t))];
     result \<leftarrow> WebAPI_Translate next ctx t;
     endSpan (err_of result);
     ret result }"

definition newTracedWebAPI :: "'db TranslationWebAPI \<Rightarrow> 'db TranslationWebAPI" where
  "newTracedWebAPI next = \<lparr>WebAPI_Translate = tracedTranslationWebAPI_Translate next\<rparr>"

definition GoogleWebAPI :: "googletrans \<Rightarrow> 'db TranslationWebAPI" where
  "GoogleWebAPI gtrans = \<lparr>WebAPI_Translate = TranslationWebAPI_Translate gtrans\<rparr>"

definition NewTranslationWebAPI :: "googletrans \<Rightarrow> 'db TranslationWebAPI" where
  "NewTranslationWebAPI gtrans = newTracedWebAPI (GoogleWebAPI gtrans)"

section \<open>The tracing decorator of the repository\<close>

text \<open>The package has the tracer name of the task repository.\<close>

definition translation_repo_tracer :: string where
  "translation_repo_tracer = ''github.com/divilla/go-scream-template/internal/repo/persistent/task''"

definition tracedTranslationRepo_Store ::
  "'db TranslationRepo \<Rightarrow> go_ctx \<Rightarrow> string \<Rightarrow> Translation \<Rightarrow> ('db, go_error option) io"
where
  "tracedTranslationRepo_Store next ctx userID t = do {
     ctx \<leftarrow> startSpan translation_repo_tracer ctx ''TranslationRepo.Store''
              [(''user.id'', AString userID), (''translation.source'', AString (tr_Source t)),
               (''translation.destination'', AString (tr_Destination t))];
     err \<leftarrow> TranslationRepo_Store next ctx userID t;
     endSpan err;
     ret err }"

definition tracedTranslationRepo_GetHistory ::
  "'db TranslationRepo \<Rightarrow> go_ctx \<Rightarrow> string \<Rightarrow> ('db, Translation list result) io"
where
  "tracedTranslationRepo_GetHistory next ctx userID = do {
     ctx \<leftarrow> startSpan translation_repo_tracer ctx ''TranslationRepo.GetHistory'' [(''user.id'', AString userID)];
     result \<leftarrow> TranslationRepo_GetHistory next ctx userID;
     endSpan (err_of result);
     ret result }"

definition newTracedTranslationRepo :: "'db TranslationRepo \<Rightarrow> 'db TranslationRepo" where
  "newTracedTranslationRepo next =
     \<lparr>TranslationRepo_Store = tracedTranslationRepo_Store next,
      TranslationRepo_GetHistory = tracedTranslationRepo_GetHistory next\<rparr>"

definition NewTranslationRepo :: "'db Postgres \<Rightarrow> 'db TranslationRepo" where
  "NewTranslationRepo pg = newTracedTranslationRepo (TranslationPgRepo pg)"

section \<open>The contract of the repository\<close>

text \<open>The history as a multiset of pairs of the owner and the translation.\<close>

type_synonym history = "(string \<times> Translation) multiset"

definition of_owner :: "string \<Rightarrow> history \<Rightarrow> Translation multiset" where
  "of_owner u H = image_mset snd (filter_mset (\<lambda>(v, _). v = u) H)"

locale translation_repo =
  fixes repo :: "'db TranslationRepo"
    and history :: "'db \<Rightarrow> history"
    and ok :: "'db \<Rightarrow> bool"
    and uuid :: "string \<Rightarrow> string"
  assumes hstore_inv: "run_state (TranslationRepo_Store repo ctx u t) w = (oe, w') \<Longrightarrow> ok (wdb w) \<Longrightarrow> ok (wdb w')"
    and hstore_ok: "run_state (TranslationRepo_Store repo ctx u t) w = (None, w') \<Longrightarrow> ok (wdb w) \<Longrightarrow>
       history (wdb w') = add_mset (uuid u, t) (history (wdb w))"
    and hstore_err: "run_state (TranslationRepo_Store repo ctx u t) w = (Some e, w') \<Longrightarrow> ok (wdb w) \<Longrightarrow>
       foreign e \<and> history (wdb w') \<in> {history (wdb w), add_mset (uuid u, t) (history (wdb w))}"
    and hget_frame: "run_state (TranslationRepo_GetHistory repo ctx u) w = (tr, w') \<Longrightarrow> ok (wdb w) \<Longrightarrow>
       ok (wdb w') \<and> history (wdb w') = history (wdb w)"
    and hget_ok: "run_state (TranslationRepo_GetHistory repo ctx u) w = (Inr ts, w') \<Longrightarrow> ok (wdb w) \<Longrightarrow>
       mset ts = of_owner (uuid u) (history (wdb w))"
begin

text \<open>What was stored is in the history of its owner, and in no one else's.\<close>

lemma stored_then_listed:
  assumes "run_state (TranslationRepo_Store repo ctx u t) w = (None, w1)" and "ok (wdb w)"
    and "run_state (TranslationRepo_GetHistory repo ctx' v) w1 = (Inr ts, w2)"
  shows "mset ts = (if uuid v = uuid u then {#t#} else {#}) + of_owner (uuid v) (history (wdb w))"
  using assms hstore_ok [OF assms(1,2)] hget_ok [OF assms(3)] hstore_inv [OF assms(1,2)]
  by (auto simp: of_owner_def)

end

section \<open>The implementation meets the contract\<close>

definition row_translation :: "row \<Rightarrow> Translation" where
  "row_translation r = scan_translation (project history_cols r)"

definition row_history :: "row \<Rightarrow> string \<times> Translation" where
  "row_history r = (val_str (the (r ''user_id'')), row_translation r)"

definition db_history :: "('db \<Rightarrow> tables) \<Rightarrow> 'db \<Rightarrow> history" where
  "db_history tbl d = image_mset row_history (tbl d ''history'')"

lemma db_history_cong: "tbl d' = tbl d \<Longrightarrow> db_history tbl d' = db_history tbl d"
  by (simp add: db_history_def)

lemma new_row_history:
  "row_history (new_row (sql_cast uuid micro) (''user_id'' # history_cols) (history_vals u t)) = (uuid u, t)"
  by (simp add: row_history_def row_translation_def new_row_def history_cols_def history_vals_def project_def)

lemma matches_history:
  assumes "history_row r"
  shows "matches (sql_cast uuid micro) [SqExpr ''user_id'' (VText u)] r \<longleftrightarrow> fst (row_history r) = uuid u"
  using assms by (auto simp: matches_def row_history_def history_row_def col_iffs)

context sql_db
begin

abbreviation history :: "'db \<Rightarrow> history" where
  "history \<equiv> db_history tbl"

lemma good_history_row: "good d \<Longrightarrow> r \<in># tbl d ''history'' \<Longrightarrow> history_row r"
  using good_schema [of d] by (simp add: schema_ok_def)

lemma pg_history_store:
  assumes run: "run_state (Translation_Store pg ctx u t) w = (oe, w')" and w: "good (wdb w)"
  shows "good (wdb w') \<and>
    (case oe of
       None \<Rightarrow> history (wdb w') = add_mset (uuid u, t) (history (wdb w))
     | Some e \<Rightarrow> foreign e \<and> history (wdb w') \<in> {history (wdb w), add_mset (uuid u, t) (history (wdb w))})"
proof -
  let ?sql = "Insert ''history'' (''user_id'' # history_cols) (history_vals u t)"
  show ?thesis
  proof (cases "Builder_ToSql pg ?sql")
    case (Some e)
    with run w show ?thesis by (auto simp: Translation_Store_def dest: builder_foreign)
  next
    case None
    obtain r d' where exec: "Pool_Exec pg ctx ?sql (wdb w) = (r, d')" by fastforce
    have new: "tbl d' = effect cast ?sql (tbl (wdb w)) \<Longrightarrow> history d' = add_mset (uuid u, t) (history (wdb w))"
      by (simp add: db_history_def new_row_history)
    have same: "tbl d' = tbl (wdb w) \<Longrightarrow> history d' = history (wdb w)" by (rule db_history_cong)
    from exec w show ?thesis
      by (cases rule: exec_cases) (use run None exec new same in \<open>auto simp: Translation_Store_def\<close>)
  qed
qed

lemma history_answer:
  assumes d: "good d"
    and q: "Pool_Query pg ctx (Select history_cols ''history'' [SqExpr ''user_id'' (VText u)] None None None) d = (Inr rs, d')"
    and scan: "scan_rows scan_translation (rows_items rs) [] = Inr ts" and full: "rows_Err rs = None"
  shows "mset ts = of_owner (uuid u) (history d)"
proof -
  let ?ps = "[SqExpr ''user_id'' (VText u)]"
  from scan obtain vss where items: "rows_items rs = map Inr vss" and ts: "ts = map scan_translation vss"
    by (auto dest: scan_rows_ok)
  from query_ok [OF q] items full obtain ys where
    ys: "mset ys = filter_mset (matches cast ?ps) (tbl d ''history'')"
    and vss: "\<forall>i < length vss. i < length ys \<and> vss ! i = project history_cols (ys ! i)" "length vss = length ys"
    by (auto simp: desc_by_def cut_def)
  have "vss = map (project history_cols) ys"
    using vss by (intro nth_equalityI) auto
  then have "mset ts = image_mset row_translation (mset ys)"
    by (simp add: ts row_translation_def [abs_def] o_def)
  also have "\<dots> = image_mset row_translation (filter_mset (\<lambda>r. fst (row_history r) = uuid u) (tbl d ''history''))"
    unfolding ys using good_history_row [OF d] by (auto simp: matches_history intro!: arg_cong [where f = "image_mset row_translation"] filter_mset_cong)
  also have "\<dots> = of_owner (uuid u) (history d)"
    by (simp add: of_owner_def db_history_def filter_mset_image_mset case_prod_beta o_def row_history_def
        multiset.map_comp)
  finally show ?thesis .
qed

lemma pg_history_get:
  assumes run: "run_state (Translation_GetHistory pg ctx u) w = (tr, w')" and w: "good (wdb w)"
  shows "good (wdb w') \<and> history (wdb w') = history (wdb w) \<and>
    (case tr of Inl e \<Rightarrow> True | Inr ts \<Rightarrow> mset ts = of_owner (uuid u) (history (wdb w)))"
proof -
  let ?sql = "Select history_cols ''history'' [SqExpr ''user_id'' (VText u)] None None None"
  obtain qr d' where q: "Pool_Query pg ctx ?sql (wdb w) = (qr, d')" by fastforce
  from q w have d': "good d'" "history d' = history (wdb w)"
    by (auto dest: query_good query_frame intro: db_history_cong)
  show ?thesis
    using run w q d' history_answer [OF w, of ctx u _ d', unfolded q]
    by (fastforce simp: Translation_GetHistory_def Let_def split: option.splits sum.splits)
qed

lemma pg_translation_repo: "translation_repo (TranslationPgRepo pg) history good uuid"
  by unfold_locales (auto simp: TranslationPgRepo_def dest: pg_history_store pg_history_get)

end

section \<open>The decorators keep the contract and add nothing but spans\<close>

lemma traced_hstore_run:
  "run_state (TranslationRepo_Store (newTracedTranslationRepo r) ctx u t) w = (oe, w') \<Longrightarrow>
   \<exists>w1 w2. run_state (TranslationRepo_Store r ctx u t) w1 = (oe, w2) \<and> wdb w1 = wdb w \<and> wdb w2 = wdb w'"
  unfolding newTracedTranslationRepo_def tracedTranslationRepo_Store_def TranslationRepo.select_convs
  by (rule decorated_run)

lemma traced_hget_run:
  "run_state (TranslationRepo_GetHistory (newTracedTranslationRepo r) ctx u) w = (tr, w') \<Longrightarrow>
   \<exists>w1 w2. run_state (TranslationRepo_GetHistory r ctx u) w1 = (tr, w2) \<and> wdb w1 = wdb w \<and> wdb w2 = wdb w'"
  unfolding newTracedTranslationRepo_def tracedTranslationRepo_GetHistory_def TranslationRepo.select_convs
  by (rule decorated_run)

context translation_repo
begin

lemma traced_history_contract: "translation_repo (newTracedTranslationRepo repo) history ok uuid"
proof (unfold_locales, goal_cases)
  case 1 then show ?case by - (drule traced_hstore_run, elim exE conjE, drule hstore_inv; simp)
next
  case 2 then show ?case by - (drule traced_hstore_run, elim exE conjE, drule hstore_ok; simp)
next
  case 3 then show ?case by - (drule traced_hstore_run, elim exE conjE, drule hstore_err; simp)
next
  case 4 then show ?case by - (drule traced_hget_run, elim exE conjE, drule hget_frame; simp)
next
  case 5 then show ?case by - (drule traced_hget_run, elim exE conjE, drule hget_ok; simp)
qed

end

sublocale sql_db \<subseteq> history_store: translation_repo "NewTranslationRepo pg" "db_history tbl" good uuid
  unfolding NewTranslationRepo_def by (rule translation_repo.traced_history_contract [OF pg_translation_repo])

definition translation_repo_sim :: "'db TranslationRepo \<Rightarrow> 'db TranslationRepo \<Rightarrow> bool" where
  "translation_repo_sim r r' \<longleftrightarrow>
     (\<forall>ctx u t. span_sim (TranslationRepo_Store r ctx u t) (TranslationRepo_Store r' ctx u t)) \<and>
     (\<forall>ctx u. span_sim (TranslationRepo_GetHistory r ctx u) (TranslationRepo_GetHistory r' ctx u))"

definition webapi_sim :: "'db TranslationWebAPI \<Rightarrow> 'db TranslationWebAPI \<Rightarrow> bool" where
  "webapi_sim r r' \<longleftrightarrow> (\<forall>ctx t. span_sim (WebAPI_Translate r ctx t) (WebAPI_Translate r' ctx t))"

lemma traced_translation_repo_sim:
  "translation_repo_sim r r' \<Longrightarrow> translation_repo_sim (newTracedTranslationRepo r) r'"
  by (auto simp: translation_repo_sim_def newTracedTranslationRepo_def tracedTranslationRepo_Store_def
      tracedTranslationRepo_GetHistory_def intro!: span_sim_decorated)

lemma traced_webapi_sim: "webapi_sim r r' \<Longrightarrow> webapi_sim (newTracedWebAPI r) r'"
  by (auto simp: webapi_sim_def newTracedWebAPI_def tracedTranslationWebAPI_Translate_def
      intro!: span_sim_decorated)

lemma pg_translation_repo_sim: "translation_repo_sim (TranslationPgRepo pg) (TranslationPgRepo pg)"
  unfolding translation_repo_sim_def TranslationPgRepo_def
  by (auto simp: Translation_Store_def Translation_GetHistory_def Let_def intro!: span_sims)

lemma google_webapi_sim: "webapi_sim (GoogleWebAPI gtrans) (GoogleWebAPI gtrans)"
  unfolding webapi_sim_def GoogleWebAPI_def
  by (auto simp: TranslationWebAPI_Translate_def intro!: span_sims)

end
