(* ===== verification/Translation_Usecase.thy ===== *)
theory Translation_Usecase
  imports Translation_Repo
begin

text \<open>
  The translation use case (\<^verbatim>\<open>src/internal/usecase/translation\<close>) over any repository and any
  client of the translation service, its tracing decorator, and what a translation leaves in
  the history on every repository that meets the contract.
\<close>

section \<open>The use case\<close>

record 'db TranslationUC =
  TranslationUC_Translate :: "go_ctx \<Rightarrow> string \<Rightarrow> Translation \<Rightarrow> ('db, Translation result) io"
  TranslationUC_History :: "go_ctx \<Rightarrow> string \<Rightarrow> ('db, TranslationHistory result) io"

definition TranslationUseCase_History ::
  "'db TranslationRepo \<Rightarrow> go_ctx \<Rightarrow> string \<Rightarrow> ('db, TranslationHistory result) io"
where
  "TranslationUseCase_History repo ctx userID = do {
     res \<leftarrow> TranslationRepo_GetHistory repo ctx userID;
     case res of
       Inl err \<Rightarrow> ret (Inl (Errorf ''TranslationUseCase - History - s.repo.GetHistory: '' err))
     | Inr translations \<Rightarrow> ret (Inr \<lparr>History = translations\<rparr>) }"

definition TranslationUseCase_Translate ::
  "'db TranslationRepo \<Rightarrow> 'db TranslationWebAPI \<Rightarrow> go_ctx \<Rightarrow> string \<Rightarrow> Translation \<Rightarrow> ('db, Translation result) io"
where
  "TranslationUseCase_Translate repo webAPI ctx userID t = do {
     res \<leftarrow> WebAPI_Translate webAPI ctx t;
     case res of
       Inl err \<Rightarrow> ret (Inl (Errorf ''TranslationUseCase - Translate - s.webAPI.Translate: '' err))
     | Inr translation \<Rightarrow> do {
         err \<leftarrow> TranslationRepo_Store repo ctx userID translation;
         case err of
           Some e \<Rightarrow> ret (Inl (Errorf ''TranslationUseCase - Translate - s.repo.Store: '' e))
         | None \<Rightarrow> ret (Inr translation) } }"

definition TranslationUseCase :: "'db TranslationRepo \<Rightarrow> 'db TranslationWebAPI \<Rightarrow> 'db TranslationUC" where
  "TranslationUseCase r w =
     \<lparr>TranslationUC_Translate = TranslationUseCase_Translate r w,
      TranslationUC_History = TranslationUseCase_History r\<rparr>"

section \<open>The tracing decorator\<close>

definition translation_uc_tracer :: string where
  "translation_uc_tracer = ''github.com/divilla/go-scream-template/internal/usecase/translation''"

definition tracedTranslation_Translate ::
  "'db TranslationUC \<Rightarrow> go_ctx \<Rightarrow> string \<Rightarrow> Translation \<Rightarrow> ('db, Translation result) io"
where
  "tracedTranslation_Translate next ctx userID tr = do {
     ctx \<leftarrow> startSpan translation_uc_tracer ctx ''TranslationUseCase.Translate''
              [(''user.id'', AString userID), (''translation.source'', AString (tr_Source tr)),
               (''translation.destination'', AString (tr_Destination tr))];
     result \<leftarrow> TranslationUC_Translate next ctx userID tr;
     endSpan (err_of result);
     ret result }"

definition tracedTranslation_History ::
  "'db TranslationUC \<Rightarrow> go_ctx \<Rightarrow> string \<Rightarrow> ('db, TranslationHistory result) io"
where
  "tracedTranslation_History next ctx userID = do {
     ctx \<leftarrow> startSpan translation_uc_tracer ctx ''TranslationUseCase.History'' [(''user.id'', AString userID)];
     result \<leftarrow> TranslationUC_History next ctx userID;
     endSpan (err_of result);
     ret result }"

definition newTracedTranslation :: "'db TranslationUC \<Rightarrow> 'db TranslationUC" where
  "newTracedTranslation next =
     \<lparr>TranslationUC_Translate = tracedTranslation_Translate next,
      TranslationUC_History = tracedTranslation_History next\<rparr>"

definition NewTranslationUseCase :: "'db TranslationRepo \<Rightarrow> 'db TranslationWebAPI \<Rightarrow> 'db TranslationUC" where
  "NewTranslationUseCase r w = newTracedTranslation (TranslationUseCase r w)"

section \<open>Transparency of the decorator\<close>

definition translation_uc_sim :: "'db TranslationUC \<Rightarrow> 'db TranslationUC \<Rightarrow> bool" where
  "translation_uc_sim r r' \<longleftrightarrow>
     (\<forall>ctx u t. span_sim (TranslationUC_Translate r ctx u t) (TranslationUC_Translate r' ctx u t)) \<and>
     (\<forall>ctx u. span_sim (TranslationUC_History r ctx u) (TranslationUC_History r' ctx u))"

lemma traced_translation_uc_sim:
  "translation_uc_sim r r' \<Longrightarrow> translation_uc_sim (newTracedTranslation r) r'"
  by (auto simp: translation_uc_sim_def newTracedTranslation_def tracedTranslation_Translate_def
      tracedTranslation_History_def intro!: span_sim_decorated)

lemma translation_usecase_sim:
  assumes "translation_repo_sim r r'" and "webapi_sim a a'"
  shows "translation_uc_sim (TranslationUseCase r a) (TranslationUseCase r' a')"
proof -
  have ops [span_sims]: "span_sim (TranslationRepo_Store r ctx u t) (TranslationRepo_Store r' ctx u t)"
    "span_sim (TranslationRepo_GetHistory r ctx u) (TranslationRepo_GetHistory r' ctx u)"
    "span_sim (WebAPI_Translate a ctx t) (WebAPI_Translate a' ctx t)" for ctx u t
    using assms by (auto simp: translation_repo_sim_def webapi_sim_def)
  show ?thesis
    by (auto simp: translation_uc_sim_def TranslationUseCase_def TranslationUseCase_Translate_def
        TranslationUseCase_History_def intro!: span_sims)
qed

section \<open>What a translation leaves in the history\<close>

text \<open>The client touches no database and changes nothing of the request but the translated text.\<close>

lemma traced_translate_run:
  assumes "run_state (WebAPI_Translate (NewTranslationWebAPI gtrans) ctx t) w = (tr, w')"
  shows "wdb w' = wdb w \<and>
    (case tr of
       Inl e \<Rightarrow> True
     | Inr t' \<Rightarrow> ctx_err ctx = None \<and>
         (\<exists>d txt. gtrans (tr_Original t) (tr_Source t) (tr_Destination t) d = Inr txt \<and> t' = t\<lparr>tr_Translation := txt\<rparr>))"
proof -
  have "\<exists>w1 w2. run_state (TranslationWebAPI_Translate gtrans ctx t) w1 = (tr, w2) \<and> wdb w1 = wdb w \<and> wdb w2 = wdb w'"
    using assms
    unfolding NewTranslationWebAPI_def newTracedWebAPI_def GoogleWebAPI_def tracedTranslationWebAPI_Translate_def
      TranslationWebAPI.select_convs
    by (rule decorated_run)
  then obtain w1 w2 where run: "run_state (TranslationWebAPI_Translate gtrans ctx t) w1 = (tr, w2)"
    "wdb w1 = wdb w" "wdb w2 = wdb w'" by blast
  then show ?thesis
    by (auto simp: TranslationWebAPI_Translate_def split: option.splits sum.splits)
qed

context translation_repo
begin

lemma translate_effect:
  assumes "run_state (TranslationUseCase_Translate repo (NewTranslationWebAPI gtrans) ctx u t) w = (r, w')"
    and "ok (wdb w)"
  shows "ok (wdb w') \<and>
    (case r of
       Inr t' \<Rightarrow> history (wdb w') = add_mset (uuid u, t') (history (wdb w)) \<and> t' = t\<lparr>tr_Translation := tr_Translation t'\<rparr>
     | Inl e \<Rightarrow> history (wdb w') = history (wdb w) \<or>
         (\<exists>txt. history (wdb w') = add_mset (uuid u, t\<lparr>tr_Translation := txt\<rparr>) (history (wdb w))))"
proof -
  obtain tr w1 where web: "run_state (WebAPI_Translate (NewTranslationWebAPI gtrans) ctx t) w = (tr, w1)" by fastforce
  note w1 = traced_translate_run [OF web]
  show ?thesis
  proof (cases tr)
    case (Inl e)
    with assms web w1 show ?thesis by (auto simp: TranslationUseCase_Translate_def)
  next
    case (Inr t')
    obtain oe w2 where st: "run_state (TranslationRepo_Store repo ctx u t') w1 = (oe, w2)" by fastforce
    with assms web w1 Inr show ?thesis
      using hstore_inv [OF st] hstore_ok [of ctx u t' w1 w2] hstore_err [of ctx u t' w1 _ w2]
      by (auto simp: TranslationUseCase_Translate_def split: option.splits)
  qed
qed

end

end
