(* ===== verification/Rpc_Types.thy ===== *)
theory Rpc_Types
  imports Task_Usecase User_Usecase Translation_Usecase
begin

text \<open>
  What the two message-based transports share: the request structures with their validation
  tags, the values a handler returns, the controller with its parameters (the JSON package, the
  validator, the JWT library), and the type of a handler.
\<close>

type_synonym rpc_fields = "string \<Rightarrow> string"

text \<open>
  \<open>Unmarshal data names\<close> decodes \<open>data\<close> into a structure with these string fields, absent ones
  empty; \<open>Unmarshal_envelope\<close> decodes an \<open>AuthenticatedRequest\<close> into its token and its raw data;
  \<open>Unmarshal_ListTasks\<close> decodes the structure that has two integer fields.
\<close>

record json_lib =
  Unmarshal_envelope :: "string \<Rightarrow> (string \<times> string) result"
  Unmarshal :: "string \<Rightarrow> string list \<Rightarrow> rpc_fields result"
  Unmarshal_ListTasks :: "string \<Rightarrow> (string \<times> 64 word \<times> 64 word) result"

datatype rpc_value =
    RUser User
  | RToken string
  | RTask Task
  | RTaskList "Task list" "64 word"
  | RDeleteStatus string
  | RHistory TranslationHistory
  | RTranslation Translation

record 'db rpc_V1 =
  rpc_t :: "'db TranslationUC"
  rpc_u :: "'db UserUC"
  rpc_tk :: "'db TaskUC"
  rpc_j :: Manager
  rpc_jwtlib :: jwtlib
  rpc_json :: json_lib
  rpc_validate :: "(string \<times> string) list \<Rightarrow> go_error option"

definition rpc_Struct :: "'db rpc_V1 \<Rightarrow> (string \<times> string) list \<Rightarrow> rpc_fields \<Rightarrow> go_error option" where
  "rpc_Struct r tags req = rpc_validate r (map (\<lambda>(name, tag). (tag, req name)) tags)"

section \<open>The request structures of the RabbitMQ controllers\<close>

definition rpc_Register_tags :: "(string \<times> string) list" where
  "rpc_Register_tags = [(''username'', ''required,min=3,max=255''), (''email'', ''required,email''),
     (''password'', ''required,min=6'')]"

definition rpc_Login_tags :: "(string \<times> string) list" where
  "rpc_Login_tags = [(''email'', ''required,email''), (''password'', ''required'')]"

definition rpc_Translate_tags :: "(string \<times> string) list" where
  "rpc_Translate_tags = [(''source'', ''required''), (''destination'', ''required''), (''original'', ''required'')]"

definition rpc_CreateTask_tags :: "(string \<times> string) list" where
  "rpc_CreateTask_tags = [(''title'', ''required,max=255''), (''description'', ''max=1000'')]"

definition rpc_GetTask_tags :: "(string \<times> string) list" where
  "rpc_GetTask_tags = [(''id'', ''required'')]"

definition rpc_ListTasks_tags :: "(string \<times> string) list" where
  "rpc_ListTasks_tags = [(''status'', ''omitempty,oneof=todo in_progress done'')]"

definition rpc_UpdateTask_tags :: "(string \<times> string) list" where
  "rpc_UpdateTask_tags = [(''id'', ''required''), (''title'', ''required,max=255''), (''description'', ''max=1000'')]"

definition rpc_TransitionTask_tags :: "(string \<times> string) list" where
  "rpc_TransitionTask_tags = [(''id'', ''required''), (''status'', ''required,oneof=todo in_progress done'')]"

definition rpc_DeleteTask_tags :: "(string \<times> string) list" where
  "rpc_DeleteTask_tags = [(''id'', ''required'')]"

section \<open>Handlers\<close>

text \<open>A handler takes the context and the body of the message.\<close>

type_synonym 'db CallHandler = "go_ctx \<Rightarrow> string \<Rightarrow> ('db, rpc_value result outcome) io"

definition simple :: "(go_ctx \<Rightarrow> string \<Rightarrow> ('db, rpc_value result) io) \<Rightarrow> 'db CallHandler" where
  "simple h ctx body = do { r \<leftarrow> h ctx body; ret (Returns r) }"

section \<open>Transports\<close>

text \<open>
  The run of a transport keeps the state \<open>'b\<close> of its connection beside the world of the handlers.
  \<open>on_world\<close> runs a computation on the world; \<open>logged\<close> is the effect of logging an error, if there
  is one.
\<close>

definition on_world :: "('db, 'a) io \<Rightarrow> ('b \<times> 'db world, 'a) state" where
  "on_world m = State (\<lambda>(b, w). case run_state m w of (x, w) \<Rightarrow> (x, (b, w)))"

lemma run_on_world [simp]: "run_state (on_world m) (b, w) = (val m w, (b, post m w))"
  by (simp add: on_world_def split: prod.splits)

definition logged :: "go_error option \<Rightarrow> string \<Rightarrow> 'db world \<Rightarrow> 'db world" where
  "logged err msg w = (case err of None \<Rightarrow> w | Some e \<Rightarrow> w\<lparr>logs := logs w @ [LogError e msg]\<rparr>)"

text \<open>
  What the router does with a call that starts a span of the given name: \<open>Returns None\<close> when it has
  no handler of that name.
\<close>

definition handled ::
  "string \<Rightarrow> string \<Rightarrow> (string \<rightharpoonup> 'db CallHandler) \<Rightarrow> go_ctx \<Rightarrow> string \<Rightarrow> string \<Rightarrow> 'db world \<Rightarrow> rpc_value result option outcome" where
  "handled tr span router ctx handler body w =
     (case router handler of
        None \<Rightarrow> Returns None
      | Some h \<Rightarrow>
          (case val (h ctx body) (w\<lparr>spans := spans w @ [SpanStart tr (span @ handler) [(''rpc.method'', AString handler)]]\<rparr>) of
             Panics msg \<Rightarrow> Panics msg
           | Returns r \<Rightarrow> Returns (Some r)))"

text \<open>What a caller gets for a reply with a status and a body, in terms of the transport's errors.\<close>

definition reply_result ::
  "go_error \<Rightarrow> go_error \<Rightarrow> string \<Rightarrow> (string \<Rightarrow> 'v result) \<Rightarrow> rpc_value result option \<Rightarrow> (rpc_value \<Rightarrow> string result) \<Rightarrow>
   (go_error \<Rightarrow> string result) \<Rightarrow> 'v option result" where
  "reply_result badHandler internal step unmarshal r marshal onFailure =
     (case r of
        None \<Rightarrow> Inl badHandler
      | Some (Inl _) \<Rightarrow> Inl internal
      | Some (Inr v) \<Rightarrow>
          (case (case marshal v of Inl e \<Rightarrow> onFailure e | Inr body \<Rightarrow> Inr body) of
             Inl e \<Rightarrow> Inl internal
           | Inr body \<Rightarrow> (case unmarshal body of Inl e \<Rightarrow> Inl (Errorf step e) | Inr x \<Rightarrow> Inr (Some x))))"

end
