(* ===== verification/Nats_Transport.thy ===== *)
theory Nats_Transport
  imports Rpc_Types
begin

text \<open>
  The NATS RPC transport: the carrier of trace headers
  (\<^verbatim>\<open>src/pkg/nats/nats_rpc/otel_carrier.go\<close>), the server's dispatch of one message
  (\<^verbatim>\<open>server/server.go\<close>) and the client's remote call (\<^verbatim>\<open>client/client.go\<close>). What the sources use
  of nats.go on headers and messages is an interface with its documented laws.
\<close>

section \<open>Errors, headers and messages\<close>

definition nats_ErrTimeout :: go_error where
  [err_defs]: "nats_ErrTimeout = ErrorsNew ''natsrpc'' ''timeout''"

definition nats_ErrInternalServer :: go_error where
  [err_defs]: "nats_ErrInternalServer = ErrorsNew ''natsrpc'' ''internal server error''"

definition nats_ErrBadHandler :: go_error where
  [err_defs]: "nats_ErrBadHandler = ErrorsNew ''natsrpc'' ''unregistered handler''"

definition nats_Success :: string where
  "nats_Success = ''success''"

definition context_DeadlineExceeded :: go_error where
  [err_defs]: "context_DeadlineExceeded = ErrorsNew ''context'' ''context deadline exceeded''"

text \<open>A \<open>nats.Header\<close> is a \<open>map[string][]string\<close>.\<close>

type_synonym nats_header = "string \<rightharpoonup> string list"

record NatsMsg =
  m_Subject :: string
  m_Reply :: string
  m_Header :: nats_header
  m_Data :: string

definition HeaderCarrier_Get :: "nats_header \<Rightarrow> string \<Rightarrow> string" where
  "HeaderCarrier_Get c key = (case c key of None \<Rightarrow> [] | Some values \<Rightarrow> (case values of [] \<Rightarrow> [] | v # _ \<Rightarrow> v))"

definition HeaderCarrier_Set :: "nats_header \<Rightarrow> string \<Rightarrow> string \<Rightarrow> nats_header" where
  "HeaderCarrier_Set c key v = c(key \<mapsto> [v])"

definition HeaderCarrier_Keys :: "nats_header \<Rightarrow> string set" where
  "HeaderCarrier_Keys c = dom c"

text \<open>
  \<open>hdr_Get\<close> is \<open>nats.Header.Get\<close>, \<open>hdr_Set\<close> is \<open>nats.Header.Set\<close>, and \<open>NewMsg\<close> is \<open>nats.NewMsg\<close>; \<open>Inject\<close>
  is the installed propagator writing to a carrier.
\<close>

record nats_lib =
  hdr_Get :: "nats_header \<Rightarrow> string \<Rightarrow> string"
  hdr_Set :: "nats_header \<Rightarrow> string \<Rightarrow> string \<Rightarrow> nats_header"
  NewMsg :: "string \<Rightarrow> NatsMsg"
  Inject :: "nats_header \<Rightarrow> nats_header"

text \<open>
  The documented laws: \<open>Get\<close> returns the first value of a key and the empty string when there is
  none, \<open>Set\<close> replaces the values of its key by one, \<open>NewMsg\<close> makes a message for the subject; the
  propagator writes its own keys, not the one the transport uses.
\<close>

locale nats_headers =
  fixes lib :: nats_lib
  assumes Get_first: "h k = Some (v # vs) \<Longrightarrow> hdr_Get lib h k = v"
    and Get_none: "h k = None \<Longrightarrow> hdr_Get lib h k = []"
    and Set_one: "hdr_Set lib h k v = h(k \<mapsto> [v])"
    and NewMsg_subject: "m_Subject (NewMsg lib subject) = subject"
    and Inject_own_keys: "Inject lib h ''Handler'' = h ''Handler''"
begin

lemma Get_Set: "hdr_Get lib (hdr_Set lib h k v) k = v"
  by (rule Get_first) (simp add: Set_one)

lemma Get_Handler: "hdr_Get lib (Inject lib [''Handler'' \<mapsto> [handler]]) ''Handler'' = handler"
  by (rule Get_first) (simp add: Inject_own_keys)

end

text \<open>The program's own carrier satisfies the laws of the headers.\<close>

definition carrier_lib :: nats_lib where
  "carrier_lib = \<lparr>hdr_Get = HeaderCarrier_Get, hdr_Set = HeaderCarrier_Set,
     NewMsg = (\<lambda>subject. \<lparr>m_Subject = subject, m_Reply = [], m_Header = Map.empty, m_Data = []\<rparr>),
     Inject = (\<lambda>h. HeaderCarrier_Set h ''traceparent'' ''00-1-1-01'')\<rparr>"

interpretation carrier: nats_headers carrier_lib
  by unfold_locales (auto simp: carrier_lib_def HeaderCarrier_Get_def HeaderCarrier_Set_def)

section \<open>The server\<close>

record 'db NatsServer =
  ns_ctx :: go_ctx
  ns_lib :: nats_lib
  ns_router :: "string \<rightharpoonup> 'db CallHandler"
  ns_PublishMsg :: "NatsMsg list \<Rightarrow> NatsMsg \<Rightarrow> go_error option"
  ns_Marshal :: "rpc_value \<Rightarrow> string result"

type_synonym ('db, 'a) nats = "(NatsMsg list \<times> 'db world, 'a) state"

definition nats_publish :: "'db NatsServer \<Rightarrow> NatsMsg \<Rightarrow> string \<Rightarrow> string \<Rightarrow> ('db, unit) nats" where
  "nats_publish s msg body status =
     (let respondMsg = NewMsg (ns_lib s) (m_Reply msg);
          respondMsg = respondMsg\<lparr>m_Header := hdr_Set (ns_lib s) (m_Header respondMsg) ''Status'' status\<rparr>;
          respondMsg = respondMsg\<lparr>m_Data := body\<rparr>
      in do {
        err \<leftarrow> State (\<lambda>(sent, w). (ns_PublishMsg s sent respondMsg, (sent @ [respondMsg], w)));
        case err of
          None \<Rightarrow> State_Monad.return ()
        | Some e \<Rightarrow> on_world (log_io (LogError e ''nats_rpc server - Server - publish - msg.Respond'')) })"

text \<open>The deferred \<open>span.End\<close> runs on every way out.\<close>

definition nats_handleMessage :: "'db NatsServer \<Rightarrow> NatsMsg \<Rightarrow> ('db, unit outcome) nats" where
  "nats_handleMessage s msg = do {
     let handler = hdr_Get (ns_lib s) (m_Header msg) ''Handler'';
     on_world (span_io [SpanStart ''nats-rpc.server'' (''nats_rpc.process '' @ handler) [(''rpc.method'', AString handler)]]);
     out \<leftarrow> (case ns_router s handler of
         None \<Rightarrow> do {
           on_world (span_io [SpanStatusError (error_text nats_ErrBadHandler)]);
           nats_publish s msg [] (error_text nats_ErrBadHandler);
           State_Monad.return (Returns ()) }
       | Some callHandler \<Rightarrow> do {
           response \<leftarrow> on_world (callHandler (ns_ctx s) (m_Data msg));
           case response of
             Panics m \<Rightarrow> State_Monad.return (Panics m)
           | Returns (Inl err) \<Rightarrow> do {
               on_world (span_io [SpanRecordError err, SpanStatusError (error_text err)]);
               nats_publish s msg [] (error_text nats_ErrInternalServer);
               on_world (log_io (LogError err ''nats_rpc server - Server - handleMessage - callHandler''));
               State_Monad.return (Returns ()) }
           | Returns (Inr response) \<Rightarrow>
               (case ns_Marshal s response of
                  Inl err \<Rightarrow> do {
                    on_world (log_io (LogError err ''nats_rpc server - Server - handleMessage - json.Marshal''));
                    nats_publish s msg [] (error_text nats_ErrInternalServer);
                    State_Monad.return (Returns ()) }
                | Inr body \<Rightarrow> do {
                    nats_publish s msg body nats_Success;
                    State_Monad.return (Returns ()) }) });
     on_world (span_io [SpanEnd]);
     State_Monad.return out }"

section \<open>The client\<close>

text \<open>
  \<open>RequestMsg\<close> is the connection, over a state \<open>'s\<close> of its own. The result is as for the RabbitMQ
  client: \<open>Inr (Some v)\<close> is a decoded response, \<open>Inr None\<close> a return that left \<open>response\<close> as it was.
\<close>

record 's NatsClient =
  nc_lib :: nats_lib
  nc_subject :: string
  nc_timeout :: int
  nc_RequestMsg :: "NatsMsg \<Rightarrow> int \<Rightarrow> ('s, NatsMsg result) state"

definition nats_remoteCall ::
  "('q \<Rightarrow> string result) \<Rightarrow> (string \<Rightarrow> 'v result) \<Rightarrow> 's NatsClient \<Rightarrow> string \<Rightarrow> 'q option \<Rightarrow> ('s, 'v option result) state" where
  "nats_remoteCall marshal unmarshal c handler request =
     (case (case request of None \<Rightarrow> Inr [] | Some q \<Rightarrow> marshal q) of
        Inl err \<Rightarrow> State_Monad.return (Inl err)
      | Inr requestBody \<Rightarrow>
          (let header = Inject (nc_lib c) [''Handler'' \<mapsto> [handler]];
               requestMessage = \<lparr>m_Subject = nc_subject c, m_Reply = [], m_Header = header, m_Data = requestBody\<rparr>
           in do {
             answer \<leftarrow> nc_RequestMsg c requestMessage (nc_timeout c);
             case answer of
               Inl err \<Rightarrow> State_Monad.return (Inl
                 (if errors_Is err context_DeadlineExceeded then nats_ErrTimeout
                  else Errorf ''nats_rpc client - Client - RemoteCall - c.connection.Conn.Request: '' err))
             | Inr message \<Rightarrow>
                 (let status = hdr_Get (nc_lib c) (m_Header message) ''Status'' in
                  if status = nats_Success
                  then (case unmarshal (m_Data message) of
                          Inl err \<Rightarrow> State_Monad.return (Inl (Errorf ''nats_rpc client - Client - RemoteCall - json.Unmarshal: '' err))
                        | Inr v \<Rightarrow> State_Monad.return (Inr (Some v)))
                  else if status = error_text nats_ErrBadHandler then State_Monad.return (Inl nats_ErrBadHandler)
                  else if status = error_text nats_ErrInternalServer then State_Monad.return (Inl nats_ErrInternalServer)
                  else State_Monad.return (Inr None)) }))"

text \<open>\<open>RemoteCall\<close> wraps it in a span; the connection is beside the world.\<close>

definition nats_RemoteCall ::
  "('q \<Rightarrow> string result) \<Rightarrow> (string \<Rightarrow> 'v result) \<Rightarrow> ('s \<times> 'db world) NatsClient \<Rightarrow> string \<Rightarrow> 'q option \<Rightarrow>
   ('s \<times> 'db world, 'v option result) state" where
  "nats_RemoteCall marshal unmarshal c handler request = do {
     on_world (span_io [SpanStart ''nats-rp.client'' (''nats_rpc.publish '' @ handler) [(''rpc.method'', AString handler)]]);
     r \<leftarrow> nats_remoteCall marshal unmarshal c handler request;
     on_world (endSpan (err_of r));
     State_Monad.return r }"

section \<open>One call, end to end\<close>

text \<open>
  A network that delivers: the request reaches the server with a reply subject, and what the
  server publishes is handed back; a server that panics lets the request time out.
\<close>

definition loopback :: "'db NatsServer \<Rightarrow> string \<Rightarrow> NatsMsg \<Rightarrow> int \<Rightarrow> ('db, NatsMsg result) nats" where
  "loopback s inbox msg timeout = do {
     out \<leftarrow> nats_handleMessage s (msg\<lparr>m_Reply := inbox\<rparr>);
     sent \<leftarrow> State (\<lambda>(sent, w). (sent, (sent, w)));
     State_Monad.return (case out of Panics _ \<Rightarrow> Inl context_DeadlineExceeded | Returns _ \<Rightarrow> Inr (last sent)) }"

abbreviation nats_handled :: "'db NatsServer \<Rightarrow> string \<Rightarrow> string \<Rightarrow> 'db world \<Rightarrow> rpc_value result option outcome" where
  "nats_handled s handler body w \<equiv> handled ''nats-rpc.server'' ''nats_rpc.process '' (ns_router s) (ns_ctx s) handler body w"

definition nats_reply :: "nats_lib \<Rightarrow> string \<Rightarrow> string \<times> string \<Rightarrow> NatsMsg" where
  "nats_reply lib subject r =
     (NewMsg lib subject)\<lparr>m_Header := hdr_Set lib (m_Header (NewMsg lib subject)) ''Status'' (fst r), m_Data := snd r\<rparr>"

definition nats_status :: "(rpc_value \<Rightarrow> string result) \<Rightarrow> rpc_value result option \<Rightarrow> string \<times> string" where
  "nats_status marshal r =
     (case r of
        None \<Rightarrow> (''unregistered handler'', [])
      | Some (Inl _) \<Rightarrow> (''internal server error'', [])
      | Some (Inr v) \<Rightarrow> (case marshal v of Inl _ \<Rightarrow> (''internal server error'', []) | Inr body \<Rightarrow> (''success'', body)))"

lemma run_nats_publish [simp]:
  "run_state (nats_publish s msg body status) (sent, w) =
     ((), (sent @ [nats_reply (ns_lib s) (m_Reply msg) (status, body)],
       logged (ns_PublishMsg s sent (nats_reply (ns_lib s) (m_Reply msg) (status, body)))
         ''nats_rpc server - Server - publish - msg.Respond'' w))"
  by (simp add: nats_publish_def nats_reply_def logged_def Let_def split: option.splits)

lemma nats_texts [simp]:
  "error_text nats_ErrBadHandler = ''unregistered handler''"
  "error_text nats_ErrInternalServer = ''internal server error''"
  by (simp_all add: err_defs)

lemma handleMessage_actions:
  "\<exists>w'. run_state (nats_handleMessage s msg) (sent, w) =
     (case nats_handled s (hdr_Get (ns_lib s) (m_Header msg) ''Handler'') (m_Data msg) w of
        Panics m \<Rightarrow> (Panics m, (sent, w'))
      | Returns r \<Rightarrow> (Returns (), (sent @ [nats_reply (ns_lib s) (m_Reply msg) (nats_status (ns_Marshal s) r)], w')))"
  by (auto simp: nats_handleMessage_def handled_def nats_status_def nats_Success_def Let_def
        split: option.splits outcome.splits sum.splits)

context nats_headers
begin

lemma reply_fields:
  "hdr_Get lib (m_Header (nats_reply lib subject r)) ''Status'' = fst r"
  "m_Data (nats_reply lib subject r) = snd r"
  "m_Subject (nats_reply lib subject r) = subject"
  by (simp_all add: nats_reply_def Get_Set NewMsg_subject)

lemma remote_call_result:
  assumes "ns_lib s = lib" "nc_lib c = lib" "nc_RequestMsg c = loopback s inbox" "marshal q = Inr body"
  shows "fst (run_state (nats_remoteCall marshal unmarshal c handler (Some q)) (sent, w)) =
    (case nats_handled s handler body w of
       Panics _ \<Rightarrow> Inl nats_ErrTimeout
     | Returns r \<Rightarrow> reply_result nats_ErrBadHandler nats_ErrInternalServer
         ''nats_rpc client - Client - RemoteCall - json.Unmarshal: '' unmarshal r (ns_Marshal s) Inl)"
proof -
  let ?msg = "\<lparr>m_Subject = nc_subject c, m_Reply = inbox, m_Header = Inject lib [''Handler'' \<mapsto> [handler]], m_Data = body\<rparr>"
  obtain w' where "run_state (nats_handleMessage s ?msg) (sent, w) =
     (case nats_handled s handler body w of
        Panics m \<Rightarrow> (Panics m, (sent, w'))
      | Returns r \<Rightarrow> (Returns (), (sent @ [nats_reply lib inbox (nats_status (ns_Marshal s) r)], w')))"
    using handleMessage_actions [of s ?msg sent w] assms(1) by (auto simp: Get_Handler cong: outcome.case_cong)
  then show ?thesis
    using assms
    by (auto simp: nats_remoteCall_def loopback_def Let_def reply_fields nats_status_def nats_Success_def reply_result_def err_defs
          split: outcome.splits option.splits sum.splits)
qed

end

end
