(* ===== verification/Servers.thy ===== *)
theory Servers
  imports Lifecycle Rmq_Connection Nats_Transport
begin

text \<open>
  The constructors and options of the transports (\<^verbatim>\<open>src/pkg/rabbitmq/rmq_rpc/{server,client}\<close>,
  \<^verbatim>\<open>src/pkg/nats/nats_rpc/{server,client}\<close>), and the HTTP and gRPC servers
  (\<^verbatim>\<open>src/pkg/httpserver\<close>, \<^verbatim>\<open>src/pkg/grpcserver\<close>): what their goroutine reports on \<open>Notify\<close> and what
  their \<open>Shutdown\<close> returns. Durations are in nanoseconds.
\<close>

section \<open>RabbitMQ\<close>

text \<open>The settings an option can change: the timeout and the connection.\<close>

record rmq_settings =
  rs_timeout :: int
  rs_conn :: Connection

type_synonym rmq_option = "rmq_settings \<Rightarrow> rmq_settings"

definition rmq_Timeout :: "int \<Rightarrow> rmq_option" where
  "rmq_Timeout timeout s = s\<lparr>rs_timeout := timeout\<rparr>"

definition rmq_ConnWaitTime :: "int \<Rightarrow> rmq_option" where
  "rmq_ConnWaitTime timeout s = s\<lparr>rs_conn := (rs_conn s)\<lparr>cfg_WaitTime := timeout\<rparr>\<rparr>"

definition rmq_ConnAttempts :: "int \<Rightarrow> rmq_option" where
  "rmq_ConnAttempts n s = s\<lparr>rs_conn := (rs_conn s)\<lparr>cfg_Attempts := n\<rparr>\<rparr>"

definition rmq_settings_of :: "string \<Rightarrow> string \<Rightarrow> rmq_option list \<Rightarrow> rmq_settings" where
  "rmq_settings_of url exchange opts =
     fold (\<lambda>opt. opt) opts \<lparr>rs_timeout = 2000000000, rs_conn = NewConnection exchange url 5000000000 10\<rparr>"

definition rmq_server_New ::
  "'s amqp_lib \<Rightarrow> string \<Rightarrow> string \<Rightarrow> rmq_option list \<Rightarrow> ('s, rmq_settings result) state" where
  "rmq_server_New lib url serverExchange opts =
     (let s = rmq_settings_of url serverExchange opts in do {
        (err, conn) \<leftarrow> AttemptConnect lib (rs_conn s);
        case err of
          Some e \<Rightarrow> State_Monad.return (Inl (Errorf ''rmq_rpc server - NewServer - s.conn.AttemptConnect: '' e))
        | None \<Rightarrow> State_Monad.return (Inr (s\<lparr>rs_conn := conn\<rparr>)) })"

text \<open>The client has the same options, and the exchange it sends its calls to beside the one it listens on.\<close>

record rmq_client_settings =
  rcs_serverExchange :: string
  rcs_timeout :: int
  rcs_conn :: Connection

type_synonym rmq_client_option = "rmq_client_settings \<Rightarrow> rmq_client_settings"

definition rmq_client_Timeout :: "int \<Rightarrow> rmq_client_option" where
  "rmq_client_Timeout timeout c = c\<lparr>rcs_timeout := timeout\<rparr>"

definition rmq_client_ConnWaitTime :: "int \<Rightarrow> rmq_client_option" where
  "rmq_client_ConnWaitTime timeout c = c\<lparr>rcs_conn := (rcs_conn c)\<lparr>cfg_WaitTime := timeout\<rparr>\<rparr>"

definition rmq_client_ConnAttempts :: "int \<Rightarrow> rmq_client_option" where
  "rmq_client_ConnAttempts n c = c\<lparr>rcs_conn := (rcs_conn c)\<lparr>cfg_Attempts := n\<rparr>\<rparr>"

text \<open>The client's constructor also starts the worker, when it has connected.\<close>

definition rmq_client_New ::
  "'s amqp_lib \<Rightarrow> string \<Rightarrow> string \<Rightarrow> string \<Rightarrow> rmq_client_option list \<Rightarrow> ('s, (rmq_client_settings \<times> lifecycle) result) state" where
  "rmq_client_New lib url serverExchange clientExchange opts =
     (let c = fold (\<lambda>opt. opt) opts \<lparr>rcs_serverExchange = serverExchange, rcs_timeout = 2000000000,
            rcs_conn = NewConnection clientExchange url 5000000000 10\<rparr> in do {
        (err, conn) \<leftarrow> AttemptConnect lib (rcs_conn c);
        case err of
          Some e \<Rightarrow> State_Monad.return (Inl (Errorf ''rmq_rpc client - NewClient - c.conn.AttemptConnect: '' e))
        | None \<Rightarrow> State_Monad.return (Inr (c\<lparr>rcs_conn := conn\<rparr>, lc_new\<lparr>lc_worker := Starting\<rparr>)) })"

section \<open>NATS\<close>

record 'conn nats_settings =
  nset_subject :: string
  nset_connection :: 'conn
  nset_timeout :: int

type_synonym 'conn nats_option = "'conn nats_settings \<Rightarrow> 'conn nats_settings"

definition nats_Timeout :: "int \<Rightarrow> 'conn nats_option" where
  "nats_Timeout timeout s = s\<lparr>nset_timeout := timeout\<rparr>"

definition nats_newServer ::
  "(string \<Rightarrow> ('s, 'conn result) state) \<Rightarrow> string \<Rightarrow> string \<Rightarrow> 'conn nats_option list \<Rightarrow> ('s, 'conn nats_settings result) state" where
  "nats_newServer dial url serverSubject opts = do {
     connection \<leftarrow> dial url;
     case connection of
       Inl err \<Rightarrow> State_Monad.return (Inl (Errorf ''nats_rpc server - NewServer - nats.Connect: '' err))
     | Inr conn \<Rightarrow> State_Monad.return (Inr (fold (\<lambda>opt. opt) opts
         \<lparr>nset_subject = serverSubject, nset_connection = conn, nset_timeout = 2000000000\<rparr>)) }"

text \<open>The client puts the connection back after the options have run.\<close>

definition nats_newClient ::
  "(string \<Rightarrow> ('s, 'conn result) state) \<Rightarrow> string \<Rightarrow> string \<Rightarrow> 'conn nats_option list \<Rightarrow> ('s, 'conn nats_settings result) state" where
  "nats_newClient dial url serverSubject opts = do {
     connection \<leftarrow> dial url;
     case connection of
       Inl err \<Rightarrow> State_Monad.return (Inl (Errorf ''nats_rpc client - NewClient - nats.Connect: '' err))
     | Inr conn \<Rightarrow> State_Monad.return (Inr ((fold (\<lambda>opt. opt) opts
         \<lparr>nset_subject = serverSubject, nset_connection = conn, nset_timeout = 2000000000\<rparr>)\<lparr>nset_connection := conn\<rparr>)) }"

text \<open>
  The two exported constructors connect with \<open>nats.Connect\<close>, a parameter, under the same options:
  five seconds to connect and between attempts to reconnect, of which there are ten.
\<close>

datatype nats_connect_option = ReconnectWait int | MaxReconnects int | ConnectTimeout int

definition nats_server_New ::
  "(string \<Rightarrow> nats_connect_option list \<Rightarrow> ('s, 'conn result) state) \<Rightarrow> string \<Rightarrow> string \<Rightarrow> 'conn nats_option list \<Rightarrow>
   ('s, 'conn nats_settings result) state" where
  "nats_server_New nats_Connect url serverSubject opts =
     nats_newServer (\<lambda>url. nats_Connect url [ReconnectWait 5000000000, MaxReconnects 10, ConnectTimeout 5000000000])
       url serverSubject opts"

definition nats_client_New ::
  "(string \<Rightarrow> nats_connect_option list \<Rightarrow> ('s, 'conn result) state) \<Rightarrow> string \<Rightarrow> string \<Rightarrow> 'conn nats_option list \<Rightarrow>
   ('s, 'conn nats_settings result) state" where
  "nats_client_New nats_Connect url serverSubject opts =
     nats_newClient (\<lambda>url. nats_Connect url [ReconnectWait 5000000000, MaxReconnects 10, ConnectTimeout 5000000000])
       url serverSubject opts"

definition nats_client_Timeout :: "int \<Rightarrow> 'conn nats_option" where
  "nats_client_Timeout timeout c = c\<lparr>nset_timeout := timeout\<rparr>"

text \<open>\<open>Shutdown\<close> of the client only closes the connection and never fails.\<close>

definition nats_client_Shutdown :: "('conn \<Rightarrow> ('s, unit) state) \<Rightarrow> 'conn nats_settings \<Rightarrow> ('s, go_error option) state" where
  "nats_client_Shutdown close c = do { close (nset_connection c); State_Monad.return None }"

definition nats_subscribe ::
  "(string \<Rightarrow> ('s, 'sub result) state) \<Rightarrow> 'conn nats_settings \<Rightarrow> ('s, 'sub result) state" where
  "nats_subscribe subscribe s = do {
     r \<leftarrow> subscribe (nset_subject s);
     State_Monad.return (case r of
       Inl err \<Rightarrow> Inl (Errorf ''nats_rpc server - subscribe - s.conn.AttemptConnect: '' err)
     | Inr sub \<Rightarrow> Inr sub) }"

section \<open>What the goroutine of a server leaves on Notify\<close>

text \<open>The values sent on \<open>notify\<close>, whether it is closed, and what the goroutine returns to \<open>eg.Wait\<close>.\<close>

record server_end =
  se_notified :: "go_error list"
  se_closed :: bool
  se_wait :: "go_error option"

text \<open>The goroutine of the RabbitMQ server ends with the result of \<open>handleMessages\<close>, that of the NATS server with that of \<open>subscribe\<close>.\<close>

definition rmq_goroutine :: "go_error option \<Rightarrow> server_end" where
  "rmq_goroutine err =
     (case err of
        Some e \<Rightarrow> \<lparr>se_notified = [e], se_closed = True, se_wait = Some e\<rparr>
      | None \<Rightarrow> \<lparr>se_notified = [], se_closed = False, se_wait = None\<rparr>)"

definition nats_goroutine :: "go_error option \<Rightarrow> server_end" where
  "nats_goroutine err =
     (case err of
        Some e \<Rightarrow> \<lparr>se_notified = [e], se_closed = True, se_wait = Some e\<rparr>
      | None \<Rightarrow> \<lparr>se_notified = [], se_closed = False, se_wait = None\<rparr>)"

definition grpc_goroutine :: "go_error option \<Rightarrow> go_error option \<Rightarrow> server_end" where
  "grpc_goroutine listenErr serveErr =
     (case listenErr of
        Some e \<Rightarrow> \<lparr>se_notified = [e], se_closed = True, se_wait = Some e\<rparr>
      | None \<Rightarrow>
          (case serveErr of
             Some e \<Rightarrow> \<lparr>se_notified = [e], se_closed = True, se_wait = Some e\<rparr>
           | None \<Rightarrow> \<lparr>se_notified = [], se_closed = False, se_wait = None\<rparr>))"

text \<open>The HTTP server closes \<open>notify\<close> in a deferred call, so on every way out.\<close>

definition http_goroutine :: "go_error option \<Rightarrow> server_end" where
  "http_goroutine err =
     \<lparr>se_notified = (case err of None \<Rightarrow> [] | Some e \<Rightarrow> [e]), se_closed = True, se_wait = err\<rparr>"

text \<open>
  What the application relies on: a server whose goroutine fails says so on \<open>Notify\<close>, once, with
  the error it fails with.
\<close>

locale reporting_server =
  fixes goroutine :: "go_error option \<Rightarrow> server_end"
  assumes failure_reported: "goroutine (Some e) = \<lparr>se_notified = [e], se_closed = True, se_wait = Some e\<rparr>"
    and nothing_reported: "se_notified (goroutine None) = [] \<and> se_wait (goroutine None) = None"
begin

lemma notified_iff: "se_notified (goroutine err) = (case err of None \<Rightarrow> [] | Some e \<Rightarrow> [e])"
  by (cases err) (simp_all add: failure_reported nothing_reported)

lemma fits_in_buffer: "length (se_notified (goroutine err)) \<le> server_notify"
  by (simp add: notified_iff server_notify_def split: option.split)

lemma wait_result: "se_wait (goroutine err) = err"
  by (cases err) (simp_all add: failure_reported nothing_reported)

end

interpretation rmq_reports: reporting_server rmq_goroutine
  by unfold_locales (simp_all add: rmq_goroutine_def)

interpretation nats_reports: reporting_server nats_goroutine
  by unfold_locales (simp_all add: nats_goroutine_def)

interpretation grpc_reports: reporting_server "grpc_goroutine None"
  by unfold_locales (simp_all add: grpc_goroutine_def)

interpretation http_reports: reporting_server http_goroutine
  by unfold_locales (simp_all add: http_goroutine_def)

section \<open>The gRPC server\<close>

text \<open>\<open>net.JoinHostPort("", port)\<close>.\<close>

definition JoinHostPort :: "string \<Rightarrow> string" where
  "JoinHostPort port = CHR '':'' # port"

record 'o grpc_settings =
  gs_address :: string
  gs_serverOpts :: "'o list"

definition grpc_Port :: "string \<Rightarrow> 'o grpc_settings \<Rightarrow> 'o grpc_settings" where
  "grpc_Port port s = s\<lparr>gs_address := JoinHostPort port\<rparr>"

definition grpc_ServerOptions :: "'o list \<Rightarrow> 'o grpc_settings \<Rightarrow> 'o grpc_settings" where
  "grpc_ServerOptions opts s = s\<lparr>gs_serverOpts := gs_serverOpts s @ opts\<rparr>"

definition grpc_New :: "('o grpc_settings \<Rightarrow> 'o grpc_settings) list \<Rightarrow> 'o grpc_settings" where
  "grpc_New opts = fold (\<lambda>opt. opt) opts \<lparr>gs_address = '':80'', gs_serverOpts = []\<rparr>"

definition grpc_Shutdown :: "go_error option \<Rightarrow> log_entry list \<times> go_error option" where
  "grpc_Shutdown waitErr =
     (log_if (unless_canceled waitErr) ''grpc server - Server - Shutdown - s.eg.Wait'' @
      [LogInfo ''grpc server - Server - Shutdown''],
      errors_Join [unless_canceled waitErr])"

section \<open>The HTTP server\<close>

record http_settings =
  hs_address :: string
  hs_readTimeout :: int
  hs_writeTimeout :: int
  hs_shutdownTimeout :: int

definition http_Port :: "string \<Rightarrow> http_settings \<Rightarrow> http_settings" where
  "http_Port port s = s\<lparr>hs_address := JoinHostPort port\<rparr>"

definition http_ReadTimeout :: "int \<Rightarrow> http_settings \<Rightarrow> http_settings" where
  "http_ReadTimeout timeout s = s\<lparr>hs_readTimeout := timeout\<rparr>"

definition http_WriteTimeout :: "int \<Rightarrow> http_settings \<Rightarrow> http_settings" where
  "http_WriteTimeout timeout s = s\<lparr>hs_writeTimeout := timeout\<rparr>"

definition http_ShutdownTimeout :: "int \<Rightarrow> http_settings \<Rightarrow> http_settings" where
  "http_ShutdownTimeout timeout s = s\<lparr>hs_shutdownTimeout := timeout\<rparr>"

definition http_New :: "(http_settings \<Rightarrow> http_settings) list \<Rightarrow> http_settings" where
  "http_New opts = fold (\<lambda>opt. opt) opts \<lparr>hs_address = '':80'', hs_readTimeout = 5000000000,
     hs_writeTimeout = 5000000000, hs_shutdownTimeout = 3000000000\<rparr>"

record StartConfig =
  sc_Address :: string
  sc_GracefulTimeout :: int
  sc_HideBanner :: bool
  sc_HidePort :: bool

definition http_StartConfig :: "http_settings \<Rightarrow> StartConfig" where
  "http_StartConfig s = \<lparr>sc_Address = hs_address s, sc_GracefulTimeout = max (hs_shutdownTimeout s) 1,
     sc_HideBanner = True, sc_HidePort = True\<rparr>"

record http_Server =
  hserver_ReadTimeout :: int
  hserver_WriteTimeout :: int

definition configureHTTP :: "http_settings \<Rightarrow> http_Server \<Rightarrow> http_Server" where
  "configureHTTP s srv = srv\<lparr>hserver_ReadTimeout := hs_readTimeout s, hserver_WriteTimeout := hs_writeTimeout s\<rparr>"

text \<open>\<open>OnShutdownError\<close>: the error of the graceful shutdown, with that of closing the server.\<close>

definition http_OnShutdownError :: "go_error \<Rightarrow> go_error option \<Rightarrow> go_error option" where
  "http_OnShutdownError err closeErr = errors_Join [Some err, closeErr]"

definition http_Shutdown :: "go_error option \<Rightarrow> go_error option \<Rightarrow> log_entry list \<times> go_error option" where
  "http_Shutdown waitErr shutdownErr =
     (let err = errors_Join [unless_canceled waitErr, shutdownErr] in
      (log_if err ''restapi server - Server - Shutdown'' @ [LogInfo ''restapi server - Server - Shutdown''], err))"

text \<open>
  \<open>Start\<close> under \<open>sync.Once\<close>: the goroutine is started by the first call only. The state is the
  number of goroutines started, of sends on \<open>notify\<close>, and of times it was closed; the schedule says
  when \<open>Start\<close> is called and when a running goroutine ends.
\<close>

record http_run =
  hr_once :: bool
  hr_running :: nat
  hr_sent :: nat
  hr_closes :: nat

datatype http_event = CallStart | ServeEnds "go_error option"

fun http_step :: "http_run \<Rightarrow> http_event \<Rightarrow> http_run" where
  "http_step r CallStart = (if hr_once r then r else r\<lparr>hr_once := True, hr_running := Suc (hr_running r)\<rparr>)"
| "http_step r (ServeEnds err) =
     (if hr_running r = 0 then r
      else r\<lparr>hr_running := hr_running r - 1, hr_sent := hr_sent r + length (se_notified (http_goroutine err)),
             hr_closes := Suc (hr_closes r)\<rparr>)"

definition http_runs :: "http_event list \<Rightarrow> http_run" where
  "http_runs evs = foldl http_step \<lparr>hr_once = False, hr_running = 0, hr_sent = 0, hr_closes = 0\<rparr> evs"

lemma http_runs_inv:
  "let r = http_runs evs in
     hr_running r + hr_closes r = (if hr_once r then 1 else 0) \<and> hr_sent r \<le> hr_closes r \<and> (hr_once r \<longleftrightarrow> CallStart \<in> set evs)"
proof (induction evs rule: rev_induct)
  case (snoc ev evs)
  then show ?case
    by (cases ev) (auto simp: http_runs_def Let_def http_goroutine_def split: option.splits if_splits)
qed (simp add: http_runs_def)

text \<open>
  However often \<open>Start\<close> of the HTTP server is called, and in whatever order with the end of
  serving, one listener runs, at most one value is sent on \<open>notify\<close>, which has room for it, and it
  is closed at most once: no send blocks and no close panics. The grace period handed to Echo is
  positive whatever was configured, so shutdown is never left to Echo's default and never disabled.
\<close>

theorem http_server_once:
  "hr_running (http_runs evs) + hr_closes (http_runs evs) \<le> 1 \<and> hr_sent (http_runs evs) \<le> server_notify \<and>
   0 < sc_GracefulTimeout (http_StartConfig s) \<and> hs_shutdownTimeout s \<le> sc_GracefulTimeout (http_StartConfig s)"
  using http_runs_inv [of evs] by (auto simp: Let_def server_notify_def http_StartConfig_def split: if_splits)

section \<open>Errors of Shutdown\<close>

text \<open>
  No \<open>Shutdown\<close> loses an error: the error of the goroutine (unless it is a cancellation) and the
  error of closing can both be found in what it returns, and it returns \<open>nil\<close> exactly when there
  was neither. A cancellation is never reported.
\<close>

theorem shutdown_reports:
  assumes "result \<in> {snd (rmq_server_Shutdown w c), rmq_client_Shutdown w c, snd (nats_server_Shutdown w True c), snd (http_Shutdown w c)}"
  shows "(result = None \<longleftrightarrow> c = None \<and> unless_canceled w = None) \<and>
    ((c = Some e \<or> (w = Some e \<and> \<not> errors_Is e context_Canceled)) \<and> errors_Is e t \<longrightarrow>
       (\<exists>r. result = Some r \<and> errors_Is r t))"
proof -
  let ?join = "errors_Join [unless_canceled w, c]"
  have same: "snd (rmq_server_Shutdown w c) = ?join" "rmq_client_Shutdown w c = ?join"
    "snd (nats_server_Shutdown w True c) = ?join" "snd (http_Shutdown w c) = ?join"
    by (simp_all add: rmq_server_Shutdown_def rmq_client_Shutdown_def nats_server_Shutdown_def http_Shutdown_def Let_def)
  have none: "?join = None \<longleftrightarrow> c = None \<and> unless_canceled w = None"
    by auto
  have found: "\<exists>r. ?join = Some r \<and> errors_Is r t"
    if "c = Some e \<or> (w = Some e \<and> \<not> errors_Is e context_Canceled)" "errors_Is e t" for e t
  proof -
    from that(1) have e: "Some e \<in> set [unless_canceled w, c]" by (auto simp: unless_canceled_def)
    then have "?join \<noteq> None" by (subst errors_Join_None) auto
    then obtain r where r: "?join = Some r" by blast
    from errors_Join_Is [OF r e that(2)] r show ?thesis by blast
  qed
  from assms have "result = ?join" by (auto simp: same)
  with none found [of e t] show ?thesis by metis
qed

lemma shutdown_reports_witness:
  "\<exists>r. snd (http_Shutdown (Some context_Canceled) (Some (LibError ''http'' ''closed''))) = Some r \<and>
     errors_Is r (LibError ''http'' ''closed'')"
  using shutdown_reports [of "snd (http_Shutdown (Some context_Canceled) (Some (LibError ''http'' ''closed'')))"
    "Some context_Canceled" "Some (LibError ''http'' ''closed'')" "LibError ''http'' ''closed''" "LibError ''http'' ''closed''"]
  by simp

section \<open>New and connections\<close>

text \<open>With the default settings a constructor that succeeds has a consuming connection.\<close>

lemma rmq_server_New_connected:
  assumes "run_state (rmq_server_New lib url exchange []) st = (Inr s, st')"
  shows "conn_Connection (rs_conn s) \<noteq> None \<and> conn_Channel (rs_conn s) \<noteq> None \<and> conn_Delivery (rs_conn s) \<noteq> None"
proof -
  let ?c = "NewConnection exchange url 5000000000 10"
  obtain err conn st1 where run: "run_state (AttemptConnect lib ?c) st = ((err, conn), st1)" by (metis surj_pair)
  with assms have ok: "err = None" "rs_conn s = conn"
    by (auto simp: rmq_server_New_def rmq_settings_of_def split: option.splits)
  from run [unfolded ok(1)] have "run_state (attempts lib 10 ?c None) st = ((None, conn), st1)"
    by (auto simp: AttemptConnect_def NewConnection_def split: option.splits prod.splits)
  from attempts_ok [OF this] ok(2) show ?thesis by simp
qed

end
