(* ===== verification/Retry.thy ===== *)
theory Retry
  imports Go_Prelude
begin

text \<open>
  The loop with which the program waits for PostgreSQL, in \<open>postgres.New\<close>
  (\<^verbatim>\<open>src/pkg/postgres/postgres.go\<close>) and in \<open>runMigrations\<close> (\<^verbatim>\<open>src/internal/app/migrate.go\<close>): try,
  leave on success, otherwise report how many attempts are left, sleep and count down.
\<close>

fun retry_loop ::
  "('s, 'a result) state \<Rightarrow> (nat \<Rightarrow> ('s, unit) state) \<Rightarrow> nat \<Rightarrow> 'a option \<times> go_error option \<Rightarrow>
   ('s, 'a option \<times> go_error option) state" where
  "retry_loop act again 0 r0 = State_Monad.return r0"
| "retry_loop act again (Suc n) r0 = do {
     r \<leftarrow> act;
     case r of
       Inr x \<Rightarrow> State_Monad.return (Some x, None)
     | Inl err \<Rightarrow> do {
         again (Suc n);
         retry_loop act again n (None, Some err) } }"

text \<open>
  \<open>failing act again n s\<close>: from \<open>s\<close>, the first \<open>n\<close> attempts fail; \<open>rounds act again n k s\<close> is the state
  after \<open>n\<close> failed attempts that counted down from \<open>k\<close>.
\<close>

fun rounds :: "('s, 'a result) state \<Rightarrow> (nat \<Rightarrow> ('s, unit) state) \<Rightarrow> nat \<Rightarrow> nat \<Rightarrow> 's \<Rightarrow> 's" where
  "rounds act again 0 k s = s"
| "rounds act again (Suc n) k s = rounds act again n (k - 1) (snd (run_state (again k) (snd (run_state act s))))"

fun failing :: "('s, 'a result) state \<Rightarrow> (nat \<Rightarrow> ('s, unit) state) \<Rightarrow> nat \<Rightarrow> nat \<Rightarrow> 's \<Rightarrow> bool" where
  "failing act again 0 k s \<longleftrightarrow> True"
| "failing act again (Suc n) k s \<longleftrightarrow>
     (\<exists>e. fst (run_state act s) = Inl e) \<and> failing act again n (k - 1) (snd (run_state (again k) (snd (run_state act s))))"

lemma retry_all_fail:
  assumes "failing act again (Suc n) (Suc n) s"
  shows "\<exists>e. run_state (retry_loop act again (Suc n) r0) s = ((None, Some e), rounds act again (Suc n) (Suc n) s)"
  using assms
proof (induction n arbitrary: s r0)
  case 0
  then show ?case by (auto split: prod.splits)
next
  case (Suc n)
  from Suc.prems obtain e where e: "fst (run_state act s) = Inl e" by auto
  let ?s = "snd (run_state (again (Suc (Suc n))) (snd (run_state act s)))"
  have "run_state (retry_loop act again (Suc (Suc n)) r0) s = run_state (retry_loop act again (Suc n) (None, Some e)) ?s"
    by (subst retry_loop.simps(2)) (use e in \<open>auto split: prod.splits simp del: retry_loop.simps\<close>)
  with Suc.IH [of ?s "(None, Some e)"] Suc.prems show ?case by (simp del: retry_loop.simps)
qed

lemma retry_succeeds:
  assumes "k < n" and "failing act again k n s" and "run_state act (rounds act again k n s) = (Inr x, s')"
  shows "run_state (retry_loop act again n r0) s = ((Some x, None), s')"
  using assms
proof (induction k arbitrary: n s r0)
  case 0
  then show ?case by (cases n) auto
next
  case (Suc k)
  from Suc.prems(1) obtain m where n: "n = Suc m" by (cases n) auto
  from Suc.prems(2) obtain e where e: "fst (run_state act s) = Inl e" by auto
  let ?s = "snd (run_state (again n) (snd (run_state act s)))"
  have "run_state (retry_loop act again n r0) s = run_state (retry_loop act again m (None, Some e)) ?s"
    unfolding n by (subst retry_loop.simps(2)) (use e in \<open>auto split: prod.splits simp del: retry_loop.simps\<close>)
  with Suc.IH [of m ?s "(None, Some e)"] Suc.prems n show ?case by simp
qed

text \<open>One of the two happens.\<close>

lemma retry_cases:
  "failing act again n n s \<or>
   (\<exists>k x s'. k < n \<and> failing act again k n s \<and> run_state act (rounds act again k n s) = (Inr x, s'))"
proof -
  have "failing act again m n s \<or>
      (\<exists>k x s'. k < m \<and> failing act again k n s \<and> run_state act (rounds act again k n s) = (Inr x, s'))" for m
  proof (induction m arbitrary: n s)
    case (Suc m)
    obtain r s1 where run: "run_state act s = (r, s1)" by (metis surj_pair)
    show ?case
    proof (cases r)
      case (Inr x)
      with run show ?thesis by (intro disjI2 exI [of _ 0]) auto
    next
      case (Inl e)
      let ?s = "snd (run_state (again n) s1)"
      from Suc.IH [of "n - 1" ?s] consider "failing act again m (n - 1) ?s"
        | k x s' where "k < m" "failing act again k (n - 1) ?s" "run_state act (rounds act again k (n - 1) ?s) = (Inr x, s')"
        by blast
      then show ?thesis
      proof cases
        case 1
        with Inl run show ?thesis by auto
      next
        case 2
        with Inl run show ?thesis by (intro disjI2 exI [of _ "Suc k"]) auto
      qed
    qed
  qed simp
  from this [of n] show ?thesis .
qed

end
