(* ===== verification/Pg_Connect.thy ===== *)
theory Pg_Connect
  imports Retry
begin

text \<open>
  Opening the connection pool (\<^verbatim>\<open>src/pkg/postgres\<close>) and applying the migrations before the
  application starts (\<^verbatim>\<open>src/internal/app/migrate.go\<close>). The pgx and migrate libraries, the clock and
  the standard logger are parameters over a state \<open>'s\<close>.
\<close>

unbundle bit_operations_syntax

section \<open>The pool\<close>

text \<open>\<open>ParseConfig\<close> gives a configuration \<open>'c\<close>; the source sets its \<open>MaxConns\<close> and its tracer.\<close>

record ('s, 'c, 'p) pgxpool =
  ParseConfig :: "string \<Rightarrow> 'c result"
  set_MaxConns :: "32 word \<Rightarrow> 'c \<Rightarrow> 'c"
  set_Tracer :: "'c \<Rightarrow> 'c"
  NewWithConfig :: "'c \<Rightarrow> ('s, 'p result) state"
  Pool_Close :: "'p \<Rightarrow> ('s, unit) state"
  log_Printf :: "string \<Rightarrow> nat \<Rightarrow> ('s, unit) state"
  pg_Sleep :: "int \<Rightarrow> ('s, unit) state"

record 'p pg_conn =
  maxPoolSize :: "64 word"
  connAttempts :: int
  connTimeout :: int
  Pool :: "'p option"

type_synonym 'p pg_option = "'p pg_conn \<Rightarrow> 'p pg_conn"

definition MaxPoolSize :: "64 word \<Rightarrow> 'p pg_option" where
  "MaxPoolSize sz c = c\<lparr>maxPoolSize := sz\<rparr>"

definition ConnAttempts :: "int \<Rightarrow> 'p pg_option" where
  "ConnAttempts attempts c = c\<lparr>connAttempts := attempts\<rparr>"

definition ConnTimeout :: "int \<Rightarrow> 'p pg_option" where
  "ConnTimeout timeout c = c\<lparr>connTimeout := timeout\<rparr>"

text \<open>Durations are in nanoseconds.\<close>

definition pg_defaults :: "'p pg_conn" where
  "pg_defaults = \<lparr>maxPoolSize = 1, connAttempts = 10, connTimeout = 1000000000, Pool = None\<rparr>"

definition safeIntToInt32 :: "64 word \<Rightarrow> 32 word" where
  "safeIntToInt32 v = (let clamped = v AND 0x7FFFFFFF in ucast clamped)"

definition pg_apply :: "'p pg_option list \<Rightarrow> 'p pg_conn" where
  "pg_apply opts = fold (\<lambda>opt. opt) opts pg_defaults"

definition pg_config :: "('s, 'c, 'p) pgxpool \<Rightarrow> 'p pg_conn \<Rightarrow> 'c \<Rightarrow> 'c" where
  "pg_config lib pg c = set_Tracer lib (set_MaxConns lib (safeIntToInt32 (maxPoolSize pg)) c)"

definition pg_again :: "('s, 'c, 'p) pgxpool \<Rightarrow> 'p pg_conn \<Rightarrow> nat \<Rightarrow> ('s, unit) state" where
  "pg_again lib pg left = do {
     log_Printf lib ''Postgres is trying to connect, attempts left: %d'' left;
     pg_Sleep lib (connTimeout pg) }"

text \<open>
  \<open>New\<close>: the loop counts \<open>connAttempts\<close> down to where it leaves; the field is not read again.
\<close>

definition pg_New :: "('s, 'c, 'p) pgxpool \<Rightarrow> string \<Rightarrow> 'p pg_option list \<Rightarrow> ('s, 'p pg_conn result) state" where
  "pg_New lib url opts =
     (let pg = pg_apply opts in
      case ParseConfig lib url of
        Inl err \<Rightarrow> State_Monad.return (Inl (Errorf ''postgres - NewPostgres - pgxpool.ParseConfig: '' err))
      | Inr poolConfig \<Rightarrow> do {
          (pool, err) \<leftarrow> retry_loop (NewWithConfig lib (pg_config lib pg poolConfig)) (pg_again lib pg)
            (nat (connAttempts pg)) (Pool pg, None);
          case err of
            Some e \<Rightarrow> State_Monad.return (Inl (Errorf ''postgres - NewPostgres - connAttempts == 0: '' e))
          | None \<Rightarrow> State_Monad.return (Inr (pg\<lparr>Pool := pool\<rparr>)) })"

definition pg_Close :: "('s, 'c, 'p) pgxpool \<Rightarrow> 'p pg_conn \<Rightarrow> ('s, unit) state" where
  "pg_Close lib p = (case Pool p of None \<Rightarrow> State_Monad.return () | Some pool \<Rightarrow> Pool_Close lib pool)"

section \<open>The size of the pool\<close>

lemma mask_31: "(0x7FFFFFFF :: 64 word) = mask 31"
  by (simp add: mask_eq_exp_minus_1)

lemma uint_safeIntToInt32: "uint (safeIntToInt32 v) = uint v mod 2 ^ 31"
proof -
  have "uint (v AND mask 31) = uint v mod 2 ^ 31"
    by (simp add: uint_mod_distrib take_bit_eq_mod flip: take_bit_eq_mask)
  then show ?thesis
    by (simp add: safeIntToInt32_def mask_31 unsigned_ucast_eq take_bit_eq_mod)
qed

text \<open>
  The pool's maximum is the configured size modulo \<open>2\<^sup>3\<^sup>1\<close>: it is never negative and never
  overflows, and it is the configured size for every size an \<open>int32\<close> can hold. It is not a clamp, as
  the name of the local variable says: a size of \<open>2\<^sup>3\<^sup>1\<close> asks for no connection at all, and minus one
  for the largest number.
\<close>

theorem pool_size_masked:
  "sint (safeIntToInt32 v) = sint v mod 2 ^ 31 \<and> 0 \<le> sint (safeIntToInt32 v) \<and>
   safeIntToInt32 (2 ^ 31) = 0 \<and> sint (safeIntToInt32 (- 1)) = 2 ^ 31 - 1"
proof -
  have pos: "sint (safeIntToInt32 x) = uint x mod 2 ^ 31" for x :: "64 word"
  proof -
    have "uint (safeIntToInt32 x) < 2 ^ 31" by (simp add: uint_safeIntToInt32)
    then have "sint (safeIntToInt32 x) = uint (safeIntToInt32 x)"
      by (simp add: sint_uint signed_take_bit_int_eq_self_iff order_trans [of _ 0])
    then show ?thesis by (simp add: uint_safeIntToInt32)
  qed
  have "uint v mod 2 ^ 31 = sint v mod 2 ^ 31"
  proof -
    have "uint v = sint v mod 2 ^ 64" by (simp add: uint_sint take_bit_eq_mod)
    then show ?thesis by (simp add: mod_mod_cancel)
  qed
  moreover have "safeIntToInt32 (2 ^ 31) = 0" by (simp add: safeIntToInt32_def)
  moreover have "uint (- 1 :: 64 word) mod 2 ^ 31 = 2 ^ 31 - 1"
    by (simp add: unsigned_minus_1_eq_mask mask_eq_exp_minus_1)
  ultimately show ?thesis by (simp add: pos)
qed

section \<open>Opening the pool\<close>


section \<open>Migrations\<close>

text \<open>
  \<open>fatalf\<close> is \<open>log.Fatalf\<close> in the program, which does not return, and a recorder in the tests, which
  does: \<open>fatalf_returns\<close> says which. \<open>'m\<close> is an open migration.
\<close>

record ('s, 'm) migrationDependencies =
  open_migration :: "string \<Rightarrow> string \<Rightarrow> ('s, 'm result) state"
  migration_Up :: "'m \<Rightarrow> ('s, go_error option) state"
  migration_Close :: "'m \<Rightarrow> ('s, unit) state"
  migrate_sleep :: "int \<Rightarrow> ('s, unit) state"
  migrate_printf :: "string \<Rightarrow> ('s, unit) state"
  migrate_attempt :: "nat \<Rightarrow> ('s, unit) state"
  migrate_fatalf :: "string \<Rightarrow> go_error option \<Rightarrow> ('s, unit) state"
  fatalf_returns :: bool

definition ErrNoChange :: go_error where
  [err_defs]: "ErrNoChange = ErrorsNew ''migrate'' ''no change''"

definition migrate_again :: "('s, 'm) migrationDependencies \<Rightarrow> nat \<Rightarrow> ('s, unit) state" where
  "migrate_again deps left = do { migrate_attempt deps left; migrate_sleep deps 1000000000 }"

text \<open>
  What is done with an open migration. The deferred \<open>m.Close\<close> runs when the function returns, not
  when the process has exited.
\<close>

definition applyMigration :: "('s, 'm) migrationDependencies \<Rightarrow> 'm \<Rightarrow> ('s, unit) state" where
  "applyMigration deps m = do {
     err \<leftarrow> migration_Up deps m;
     case err of
       None \<Rightarrow> do { migrate_printf deps ''Migrate: up success''; migration_Close deps m }
     | Some e \<Rightarrow>
         if errors_Is e ErrNoChange then do { migrate_printf deps ''Migrate: no change''; migration_Close deps m }
         else do {
           migrate_fatalf deps ''Migrate: up error: %s'' (Some e);
           if fatalf_returns deps then migration_Close deps m else State_Monad.return () } }"

text \<open>After twenty attempts there is an error or a migration; neither is not possible.\<close>

definition runMigrations :: "('s, 'm) migrationDependencies \<Rightarrow> string \<Rightarrow> ('s, unit) state" where
  "runMigrations deps databaseURL =
     (if databaseURL = [] then migrate_fatalf deps ''migrate: environment variable not declared: PG_URL'' None
      else do {
        let databaseURL = databaseURL @ ''?sslmode=disable'';
        (m, err) \<leftarrow> retry_loop (open_migration deps ''file://migrations'' databaseURL) (migrate_again deps) 20 (None, None);
        case err of
          Some e \<Rightarrow> migrate_fatalf deps ''Migrate: postgres connect error: %s'' (Some e)
        | None \<Rightarrow> (case m of None \<Rightarrow> State_Monad.return () | Some m \<Rightarrow> applyMigration deps m) })"

text \<open>
  \<open>Migrate\<close> in a build with the tag \<open>migrate\<close> and in one without it; \<open>getenv\<close> is the environment,
  where a variable that is not set is empty.
\<close>

definition app_Migrate :: "(string \<Rightarrow> string) \<Rightarrow> ('s, 'm) migrationDependencies \<Rightarrow> ('s, unit) state" where
  "app_Migrate getenv deps = runMigrations deps (getenv ''PG_URL'')"

definition app_Migrate_disabled :: "('s, unit) state" where
  "app_Migrate_disabled = State_Monad.return ()"

text \<open>A library that records what it is asked, and connects at the \<open>k\<close>-th attempt.\<close>

datatype migrate_event = Opened bool | Up | Closed | Slept int | Printed string | Left nat | Fatal string

definition ask :: "migrate_event \<Rightarrow> 'a \<Rightarrow> (migrate_event list, 'a) state" where
  "ask ev x = State (\<lambda>evs. (x, evs @ [ev]))"

definition recorder :: "nat \<Rightarrow> go_error option \<Rightarrow> (migrate_event list, unit) migrationDependencies" where
  "recorder k up =
     \<lparr>open_migration = (\<lambda>_ _. State (\<lambda>evs.
         let n = length (filter (\<lambda>ev. ev = Opened False) evs) in
         if n < k then (Inl (LibError ''migrate'' ''refused''), evs @ [Opened False]) else (Inr (), evs @ [Opened True]))),
      migration_Up = (\<lambda>_. ask Up up), migration_Close = (\<lambda>_. ask Closed ()),
      migrate_sleep = (\<lambda>d. ask (Slept d) ()), migrate_printf = (\<lambda>m. ask (Printed m) ()),
      migrate_attempt = (\<lambda>n. ask (Left n) ()), migrate_fatalf = (\<lambda>m _. ask (Fatal m) ()), fatalf_returns = False\<rparr>"

lemma run_ask [simp]: "run_state (ask ev x) evs = (x, evs @ [ev])"
  by (simp add: ask_def)

text \<open>
  The migrations run at most once and only on an open connection: when an attempt succeeds they
  are applied exactly then, after that many rounds of waiting and with no further attempt; when all
  twenty fail they are not applied, and the program ends with the connection error. An empty
  \<open>PG_URL\<close> ends it before the first attempt.
\<close>

theorem migrations_applied_once:
  assumes "url \<noteq> []"
  shows "let act = open_migration deps ''file://migrations'' (url @ ''?sslmode=disable''); again = migrate_again deps in
    (\<exists>k m s'. k < 20 \<and> failing act again k 20 s \<and> run_state act (rounds act again k 20 s) = (Inr m, s') \<and>
       run_state (runMigrations deps url) s = run_state (applyMigration deps m) s') \<or>
    (\<exists>e. failing act again 20 20 s \<and> run_state (runMigrations deps url) s =
       run_state (migrate_fatalf deps ''Migrate: postgres connect error: %s'' (Some e)) (rounds act again 20 20 s))"
proof -
  let ?act = "open_migration deps ''file://migrations'' (url @ ''?sslmode=disable'')" and ?again = "migrate_again deps"
  let ?loop = "retry_loop ?act ?again 20 (None, None)"
  have bad: "run_state (runMigrations deps url) s = run_state (migrate_fatalf deps ''Migrate: postgres connect error: %s'' (Some e)) s'"
    if "run_state ?loop s = ((m, Some e), s')" for m e s'
    using assms that by (simp add: runMigrations_def Let_def)
  have good: "run_state (runMigrations deps url) s = run_state (applyMigration deps m) s'"
    if "run_state ?loop s = ((Some m, None), s')" for m s'
    using assms that by (simp add: runMigrations_def Let_def)
  have twenty: "(20::nat) = Suc 19" by simp
  from retry_cases [of ?act ?again 20 s] show ?thesis
  proof
    assume fail: "failing ?act ?again 20 20 s"
    from retry_all_fail [of ?act ?again 19 s "(None, None)", folded twenty, OF fail] obtain e
      where "run_state ?loop s = ((None, Some e), rounds ?act ?again 20 20 s)" by blast
    from bad [OF this] fail show ?thesis unfolding Let_def by blast
  next
    assume "\<exists>k x s'. k < 20 \<and> failing ?act ?again k 20 s \<and> run_state ?act (rounds ?act ?again k 20 s) = (Inr x, s')"
    then obtain k m s' where k: "k < 20" "failing ?act ?again k 20 s" "run_state ?act (rounds ?act ?again k 20 s) = (Inr m, s')" by blast
    from good [OF retry_succeeds [OF k, of "(None, None)"]] k show ?thesis unfolding Let_def by blast
  qed
qed

lemma migrations_applied_once_witness:
  "run_state (runMigrations (recorder 0 None) ''pg'') [] = ((), [Opened True, Up, Printed ''Migrate: up success'', Closed])"
proof -
  have act: "run_state (open_migration (recorder 0 None) a b) evs = (Inr (), evs @ [Opened True])" for a b evs
    by (simp add: recorder_def)
  have first: "failing (open_migration (recorder 0 None) a b) again k n [] = (k = 0)" for a b again k n
    by (cases k) (simp_all add: act)
  have up: "run_state (applyMigration (recorder 0 None) ()) [Opened True] =
      ((), [Opened True, Up, Printed ''Migrate: up success'', Closed])"
    by (simp add: applyMigration_def recorder_def)
  from migrations_applied_once [of "''pg''" "recorder 0 None" "[]"] show ?thesis
    by (auto simp: act first up Let_def)
qed

end
