(* ===== verification/Rest.thy ===== *)
theory Rest
  imports Task_Usecase User_Usecase Translation_Usecase
begin

text \<open>
  The REST controllers (\<^verbatim>\<open>src/internal/controller/restapi\<close>): the authentication middleware, the
  binding of request bodies, the request structures with their validation tags, every handler
  of version 1 and the route table. The framework \<open>echo\<close> and the package \<open>validator\<close> are
  parameters.
\<close>

section \<open>Requests and responses\<close>

text \<open>
  What the handlers read of an \<open>echo.Context\<close>: the header (a list of values per canonical key),
  the URL, the parsed query and path parameters, the request's context, the body not yet read,
  and the values stored with \<open>ctx.Set\<close>.
\<close>

record URL =
  url_Path :: string
  url_RawQuery :: string

record echo_ctx =
  req_Header :: "string \<Rightarrow> string list"
  req_URL :: URL
  req_Body :: string
  req_Context :: go_ctx
  QueryParam :: "string \<Rightarrow> string"
  Param :: "string \<Rightarrow> string"
  ctx_values :: "string \<rightharpoonup> string"

definition Header_Get :: "echo_ctx \<Rightarrow> string \<Rightarrow> string" where
  "Header_Get c k = (case req_Header c k of [] \<Rightarrow> [] | v # _ \<Rightarrow> v)"

definition Header_Set :: "echo_ctx \<Rightarrow> string \<Rightarrow> string \<Rightarrow> echo_ctx" where
  "Header_Set c k v = c\<lparr>req_Header := (req_Header c)(k := [v])\<rparr>"

datatype json =
    JError string
  | JUser User
  | JToken string
  | JTask Task
  | JTaskList "Task list" "64 word"
  | JTranslation Translation
  | JHistory TranslationHistory

text \<open>
  A handler writes a response with \<open>ctx.JSON\<close> or \<open>ctx.NoContent\<close>, or returns an error for the
  framework's error handler.
\<close>

datatype response =
    JSON nat json
  | NoContent nat
  | HandlerError go_error

abbreviation StatusOK :: nat where "StatusOK \<equiv> 200"
abbreviation StatusCreated :: nat where "StatusCreated \<equiv> 201"
abbreviation StatusNoContent :: nat where "StatusNoContent \<equiv> 204"
abbreviation StatusBadRequest :: nat where "StatusBadRequest \<equiv> 400"
abbreviation StatusUnauthorized :: nat where "StatusUnauthorized \<equiv> 401"
abbreviation StatusForbidden :: nat where "StatusForbidden \<equiv> 403"
abbreviation StatusNotFound :: nat where "StatusNotFound \<equiv> 404"
abbreviation StatusConflict :: nat where "StatusConflict \<equiv> 409"
abbreviation StatusInternalServerError :: nat where "StatusInternalServerError \<equiv> 500"

definition ErrStatusRequestEntityTooLarge :: go_error where
  "ErrStatusRequestEntityTooLarge = ErrorsNew ''echo'' ''Request Entity Too Large''"

text \<open>
  The framework and the validator. \<open>BindBody c fields\<close> decodes the body into a structure with
  these field names and leaves the context with the body consumed; a field that the body does
  not have keeps the empty string. \<open>Struct\<close> takes the validation tag and the value of each field.
\<close>

type_synonym fields = "string \<Rightarrow> string"

record web =
  echo_BindBody :: "echo_ctx \<Rightarrow> string list \<Rightarrow> fields result \<times> echo_ctx"
  validate_Struct :: "(string \<times> string) list \<Rightarrow> go_error option"

definition errorResponse :: "nat \<Rightarrow> string \<Rightarrow> response" where
  "errorResponse code msg = JSON code (JError msg)"

definition bodyErrorResponse :: "go_error \<Rightarrow> response" where
  "bodyErrorResponse err =
     (if errors_Is err ErrStatusRequestEntityTooLarge then HandlerError ErrStatusRequestEntityTooLarge
      else errorResponse StatusBadRequest ''invalid request body'')"

section \<open>Binding the body\<close>

definition MIMEApplicationJSON :: string where
  "MIMEApplicationJSON = ''application/json''"

definition MIMEApplicationForm :: string where
  "MIMEApplicationForm = ''application/x-www-form-urlencoded''"

definition MIMEMultipartForm :: string where
  "MIMEMultipartForm = ''multipart/form-data''"

definition mediaType :: "string \<Rightarrow> string" where
  "mediaType contentType = ToLower (TrimSpace (fst (Cut contentType CHR '';'')))"

definition normalizedType :: "string \<Rightarrow> string" where
  "normalizedType contentType =
     (let base = fst (Cut contentType CHR '';'') in
      if suffix ''json'' (mediaType contentType)
      then MIMEApplicationJSON @ drop (length base) contentType
      else mediaType contentType @ drop (length base) contentType)"

text \<open>The deferred restores run after \<open>echo.BindBody\<close>, the URL first.\<close>

definition bindBody :: "web \<Rightarrow> echo_ctx \<Rightarrow> string list \<Rightarrow> fields result \<times> echo_ctx" where
  "bindBody web c target =
     (let contentType = Header_Get c ''Content-Type'';
          normalized = normalizedType contentType;
          retyped = (normalized \<noteq> contentType);
          form = (mediaType contentType = MIMEApplicationForm \<or> mediaType contentType = MIMEMultipartForm);
          c1 = (if retyped then Header_Set c ''Content-Type'' normalized else c);
          requestURL = req_URL c1;
          c2 = (if form then c1\<lparr>req_URL := requestURL\<lparr>url_RawQuery := []\<rparr>\<rparr> else c1);
          (res, c3) = echo_BindBody web c2 target;
          c4 = (if form then c3\<lparr>req_URL := requestURL\<rparr> else c3);
          c5 = (if retyped then Header_Set c4 ''Content-Type'' contentType else c4)
      in (res, c5))"

section \<open>The requests and their validation tags\<close>

definition Register_tags :: "(string \<times> string) list" where
  "Register_tags = [(''username'', ''required,min=3,max=255''), (''email'', ''required,email''),
     (''password'', ''required,min=6'')]"

definition Login_tags :: "(string \<times> string) list" where
  "Login_tags = [(''email'', ''required,email''), (''password'', ''required'')]"

definition CreateTask_tags :: "(string \<times> string) list" where
  "CreateTask_tags = [(''title'', ''required,max=255''), (''description'', ''max=1000'')]"

definition UpdateTask_tags :: "(string \<times> string) list" where
  "UpdateTask_tags = [(''title'', ''required,max=255''), (''description'', ''max=1000'')]"

definition TransitionTask_tags :: "(string \<times> string) list" where
  "TransitionTask_tags = [(''status'', ''required,oneof=todo in_progress done'')]"

definition Translate_tags :: "(string \<times> string) list" where
  "Translate_tags = [(''source'', ''required''), (''destination'', ''required''), (''original'', ''required'')]"

definition Struct :: "web \<Rightarrow> (string \<times> string) list \<Rightarrow> fields \<Rightarrow> go_error option" where
  "Struct web tags body = validate_Struct web (map (\<lambda>(name, tag). (tag, body name)) tags)"

section \<open>The handlers\<close>

record 'db V1 =
  V1_t :: "'db TranslationUC"
  V1_u :: "'db UserUC"
  V1_tk :: "'db TaskUC"
  V1_web :: web

definition register :: "'db V1 \<Rightarrow> echo_ctx \<Rightarrow> ('db, response) io" where
  "register r c =
     (case fst (bindBody (V1_web r) c (map fst Register_tags)) of
        Inl err \<Rightarrow> do {
          log_io (LogError err ''restapi - v1 - register'');
          ret (bodyErrorResponse err) }
      | Inr body \<Rightarrow>
          (case Struct (V1_web r) Register_tags body of
             Some err \<Rightarrow> do {
               log_io (LogError err ''restapi - v1 - register'');
               ret (errorResponse StatusBadRequest ''invalid request body'') }
           | None \<Rightarrow> do {
               res \<leftarrow> UserUC_Register (V1_u r) (req_Context c) (body ''username'') (body ''email'') (body ''password'');
               case res of
                 Inl err \<Rightarrow> do {
                   log_io (LogError err ''restapi - v1 - register'');
                   if errors_Is err ErrUserAlreadyExists
                   then ret (errorResponse StatusConflict ''user already exists'')
                   else ret (errorResponse StatusInternalServerError ''internal server error'') }
               | Inr user \<Rightarrow> ret (JSON StatusCreated (JUser user)) }))"

definition login :: "'db V1 \<Rightarrow> echo_ctx \<Rightarrow> ('db, response) io" where
  "login r c =
     (case fst (bindBody (V1_web r) c (map fst Login_tags)) of
        Inl err \<Rightarrow> do {
          log_io (LogError err ''restapi - v1 - login'');
          ret (bodyErrorResponse err) }
      | Inr body \<Rightarrow>
          (case Struct (V1_web r) Login_tags body of
             Some err \<Rightarrow> do {
               log_io (LogError err ''restapi - v1 - login'');
               ret (errorResponse StatusBadRequest ''invalid request body'') }
           | None \<Rightarrow> do {
               res \<leftarrow> UserUC_Login (V1_u r) (req_Context c) (body ''email'') (body ''password'');
               case res of
                 Inl err \<Rightarrow> do {
                   log_io (LogError err ''restapi - v1 - login'');
                   if errors_Is err ErrInvalidCredentials
                   then ret (errorResponse StatusUnauthorized ''invalid credentials'')
                   else ret (errorResponse StatusInternalServerError ''internal server error'') }
               | Inr token \<Rightarrow> ret (JSON StatusOK (JToken token)) }))"

definition profile :: "'db V1 \<Rightarrow> echo_ctx \<Rightarrow> ('db, response) io" where
  "profile r c =
     (case ctx_values c ''userID'' of
        None \<Rightarrow> ret (errorResponse StatusUnauthorized ''unauthorized'')
      | Some userID \<Rightarrow> do {
          res \<leftarrow> UserUC_GetUser (V1_u r) (req_Context c) userID;
          case res of
            Inl err \<Rightarrow> do {
              log_io (LogError err ''restapi - v1 - profile'');
              if errors_Is err ErrUserNotFound
              then ret (errorResponse StatusNotFound ''user not found'')
              else ret (errorResponse StatusInternalServerError ''internal server error'') }
          | Inr user \<Rightarrow> ret (JSON StatusOK (JUser user)) })"

definition createTask :: "'db V1 \<Rightarrow> echo_ctx \<Rightarrow> ('db, response) io" where
  "createTask r c =
     (case ctx_values c ''userID'' of
        None \<Rightarrow> ret (errorResponse StatusUnauthorized ''unauthorized'')
      | Some userID \<Rightarrow>
          (case fst (bindBody (V1_web r) c (map fst CreateTask_tags)) of
             Inl err \<Rightarrow> do {
               log_io (LogError err ''restapi - v1 - createTask'');
               ret (bodyErrorResponse err) }
           | Inr body \<Rightarrow>
               (case Struct (V1_web r) CreateTask_tags body of
                  Some err \<Rightarrow> do {
                    log_io (LogError err ''restapi - v1 - createTask'');
                    ret (errorResponse StatusBadRequest ''invalid request body'') }
                | None \<Rightarrow> do {
                    res \<leftarrow> TaskUC_Create (V1_tk r) (req_Context c) userID (body ''title'') (body ''description'');
                    case res of
                      Inl err \<Rightarrow> do {
                        log_io (LogError err ''restapi - v1 - createTask'');
                        ret (errorResponse StatusInternalServerError ''internal server error'') }
                    | Inr task \<Rightarrow> ret (JSON StatusCreated (JTask task)) })))"

text \<open>
  \<open>strconv.Atoi\<close>: an optional sign and decimal digits, \<open>None\<close> for a syntax error or a value out
  of the range of a 64-bit \<open>int\<close>.
\<close>

definition digit :: "char \<Rightarrow> bool" where
  "digit ch \<longleftrightarrow> ch \<in> set ''0123456789''"

fun digits_value :: "string \<Rightarrow> int \<Rightarrow> int" where
  "digits_value [] acc = acc"
| "digits_value (ch # cs) acc = digits_value cs (10 * acc + (of_char ch - 48))"

definition Atoi :: "string \<Rightarrow> 64 word option" where
  "Atoi s =
     (let (neg, ds) = (case s of
            [] \<Rightarrow> (False, [])
          | ch # cs \<Rightarrow> if ch = CHR ''-'' then (True, cs) else if ch = CHR ''+'' then (False, cs) else (False, s));
          n = (if neg then - digits_value ds 0 else digits_value ds 0)
      in if ds = [] \<or> \<not> list_all digit ds then None
         else if n < - (2 ^ 63) \<or> 2 ^ 63 \<le> n then None
         else Some (word_of_int n))"

definition listTasks :: "'db V1 \<Rightarrow> echo_ctx \<Rightarrow> ('db, response outcome) io" where
  "listTasks r c =
     (case ctx_values c ''userID'' of
        None \<Rightarrow> ret (Returns (errorResponse StatusUnauthorized ''unauthorized''))
      | Some userID \<Rightarrow>
          let s = QueryParam c ''status'' in
          if s \<noteq> [] \<and> \<not> Valid s
          then ret (Returns (errorResponse StatusBadRequest ''invalid task status''))
          else do {
            let status = (if s \<noteq> [] then Some s else None);
            let limit = (case Atoi (QueryParam c ''limit'') of None \<Rightarrow> 10 | Some n \<Rightarrow> n);
            let offset = (case Atoi (QueryParam c ''offset'') of None \<Rightarrow> 0 | Some n \<Rightarrow> n);
            res \<leftarrow> TaskUC_List (V1_tk r) (req_Context c) userID status limit offset;
            case res of
              Panics m \<Rightarrow> ret (Panics m)
            | Returns (Inl err) \<Rightarrow> do {
                log_io (LogError err ''restapi - v1 - listTasks'');
                ret (Returns (errorResponse StatusInternalServerError ''internal server error'')) }
            | Returns (Inr (tasks, cnt)) \<Rightarrow> ret (Returns (JSON StatusOK (JTaskList tasks cnt))) })"

definition getTask :: "'db V1 \<Rightarrow> echo_ctx \<Rightarrow> ('db, response) io" where
  "getTask r c =
     (case ctx_values c ''userID'' of
        None \<Rightarrow> ret (errorResponse StatusUnauthorized ''unauthorized'')
      | Some userID \<Rightarrow> do {
          let taskID = Param c ''id'';
          res \<leftarrow> TaskUC_Get (V1_tk r) (req_Context c) userID taskID;
          case res of
            Inl err \<Rightarrow> do {
              log_io (LogError err ''restapi - v1 - getTask'');
              if errors_Is err ErrTaskNotFound
              then ret (errorResponse StatusNotFound ''task not found'')
              else if errors_Is err ErrTaskForbidden
              then ret (errorResponse StatusForbidden ''forbidden'')
              else ret (errorResponse StatusInternalServerError ''internal server error'') }
          | Inr task \<Rightarrow> ret (JSON StatusOK (JTask task)) })"

definition updateTask :: "'db V1 \<Rightarrow> echo_ctx \<Rightarrow> ('db, response) io" where
  "updateTask r c =
     (case ctx_values c ''userID'' of
        None \<Rightarrow> ret (errorResponse StatusUnauthorized ''unauthorized'')
      | Some userID \<Rightarrow>
          let taskID = Param c ''id'' in
          (case fst (bindBody (V1_web r) c (map fst UpdateTask_tags)) of
             Inl err \<Rightarrow> do {
               log_io (LogError err ''restapi - v1 - updateTask'');
               ret (bodyErrorResponse err) }
           | Inr body \<Rightarrow>
               (case Struct (V1_web r) UpdateTask_tags body of
                  Some err \<Rightarrow> do {
                    log_io (LogError err ''restapi - v1 - updateTask'');
                    ret (errorResponse StatusBadRequest ''invalid request body'') }
                | None \<Rightarrow> do {
                    res \<leftarrow> TaskUC_Update (V1_tk r) (req_Context c) userID taskID (body ''title'') (body ''description'');
                    case res of
                      Inl err \<Rightarrow> do {
                        log_io (LogError err ''restapi - v1 - updateTask'');
                        if errors_Is err ErrTaskNotFound
                        then ret (errorResponse StatusNotFound ''task not found'')
                        else if errors_Is err ErrTaskForbidden
                        then ret (errorResponse StatusForbidden ''forbidden'')
                        else ret (errorResponse StatusInternalServerError ''internal server error'') }
                    | Inr task \<Rightarrow> ret (JSON StatusOK (JTask task)) })))"

definition transitionTask :: "'db V1 \<Rightarrow> echo_ctx \<Rightarrow> ('db, response) io" where
  "transitionTask r c =
     (case ctx_values c ''userID'' of
        None \<Rightarrow> ret (errorResponse StatusUnauthorized ''unauthorized'')
      | Some userID \<Rightarrow>
          let taskID = Param c ''id'' in
          (case fst (bindBody (V1_web r) c (map fst TransitionTask_tags)) of
             Inl err \<Rightarrow> do {
               log_io (LogError err ''restapi - v1 - transitionTask'');
               ret (bodyErrorResponse err) }
           | Inr body \<Rightarrow>
               (case Struct (V1_web r) TransitionTask_tags body of
                  Some err \<Rightarrow> do {
                    log_io (LogError err ''restapi - v1 - transitionTask'');
                    ret (errorResponse StatusBadRequest ''invalid request body'') }
                | None \<Rightarrow> do {
                    res \<leftarrow> TaskUC_Transition (V1_tk r) (req_Context c) userID taskID (body ''status'');
                    case res of
                      Inl err \<Rightarrow> do {
                        log_io (LogError err ''restapi - v1 - transitionTask'');
                        if errors_Is err ErrTaskNotFound
                        then ret (errorResponse StatusNotFound ''task not found'')
                        else if errors_Is err ErrTaskForbidden
                        then ret (errorResponse StatusForbidden ''forbidden'')
                        else if errors_Is err ErrInvalidTransition
                        then ret (errorResponse StatusBadRequest ''invalid status transition'')
                        else ret (errorResponse StatusInternalServerError ''internal server error'') }
                    | Inr task \<Rightarrow> ret (JSON StatusOK (JTask task)) })))"

definition deleteTask :: "'db V1 \<Rightarrow> echo_ctx \<Rightarrow> ('db, response) io" where
  "deleteTask r c =
     (case ctx_values c ''userID'' of
        None \<Rightarrow> ret (errorResponse StatusUnauthorized ''unauthorized'')
      | Some userID \<Rightarrow> do {
          let taskID = Param c ''id'';
          res \<leftarrow> TaskUC_Delete (V1_tk r) (req_Context c) userID taskID;
          case res of
            Some err \<Rightarrow> do {
              log_io (LogError err ''restapi - v1 - deleteTask'');
              if errors_Is err ErrTaskNotFound
              then ret (errorResponse StatusNotFound ''task not found'')
              else ret (errorResponse StatusInternalServerError ''internal server error'') }
          | None \<Rightarrow> ret (NoContent StatusNoContent) })"

definition history :: "'db V1 \<Rightarrow> echo_ctx \<Rightarrow> ('db, response) io" where
  "history r c =
     (case ctx_values c ''userID'' of
        None \<Rightarrow> ret (errorResponse StatusUnauthorized ''unauthorized'')
      | Some userID \<Rightarrow> do {
          res \<leftarrow> TranslationUC_History (V1_t r) (req_Context c) userID;
          case res of
            Inl err \<Rightarrow> do {
              log_io (LogError err ''restapi - v1 - history'');
              ret (errorResponse StatusInternalServerError ''database problems'') }
          | Inr h \<Rightarrow> ret (JSON StatusOK (JHistory h)) })"

definition doTranslate :: "'db V1 \<Rightarrow> echo_ctx \<Rightarrow> ('db, response) io" where
  "doTranslate r c =
     (case ctx_values c ''userID'' of
        None \<Rightarrow> ret (errorResponse StatusUnauthorized ''unauthorized'')
      | Some userID \<Rightarrow>
          (case fst (bindBody (V1_web r) c (map fst Translate_tags)) of
             Inl err \<Rightarrow> do {
               log_io (LogError err ''restapi - v1 - doTranslate'');
               ret (bodyErrorResponse err) }
           | Inr body \<Rightarrow>
               (case Struct (V1_web r) Translate_tags body of
                  Some err \<Rightarrow> do {
                    log_io (LogError err ''restapi - v1 - doTranslate'');
                    ret (errorResponse StatusBadRequest ''invalid request body'') }
                | None \<Rightarrow> do {
                    res \<leftarrow> TranslationUC_Translate (V1_t r) (req_Context c) userID
                      \<lparr>tr_Source = body ''source'', tr_Destination = body ''destination'',
                       tr_Original = body ''original'', tr_Translation = []\<rparr>;
                    case res of
                      Inl err \<Rightarrow> do {
                        log_io (LogError err ''restapi - v1 - doTranslate'');
                        ret (errorResponse StatusInternalServerError ''translation service problems'') }
                    | Inr translation \<Rightarrow> ret (JSON StatusOK (JTranslation translation)) })))"

section \<open>The authentication middleware\<close>

definition Auth ::
  "jwtlib \<Rightarrow> Manager \<Rightarrow> (echo_ctx \<Rightarrow> ('db, response outcome) io) \<Rightarrow> echo_ctx \<Rightarrow> ('db, response outcome) io"
where
  "Auth lib jwtManager next c =
     (let header = Header_Get c ''Authorization'' in
      if header = [] then ret (Returns (JSON StatusUnauthorized (JError ''missing authorization header'')))
      else
        let parts = SplitN2 header CHR '' '' in
        if length parts \<noteq> 2 \<or> parts ! 0 \<noteq> ''Bearer''
        then ret (Returns (JSON StatusUnauthorized (JError ''invalid authorization header format'')))
        else do {
          res \<leftarrow> ParseToken lib jwtManager (parts ! 1);
          case res of
            Inl err \<Rightarrow> ret (Returns (JSON StatusUnauthorized (JError ''invalid or expired token'')))
          | Inr userID \<Rightarrow> next (c\<lparr>ctx_values := (ctx_values c)(''userID'' \<mapsto> userID)\<rparr>) })"

section \<open>The routes\<close>

definition plain :: "(echo_ctx \<Rightarrow> ('db, response) io) \<Rightarrow> echo_ctx \<Rightarrow> ('db, response outcome) io" where
  "plain h c = do { r \<leftarrow> h c; ret (Returns r) }"

definition public_routes :: "'db V1 \<Rightarrow> ((string \<times> string) \<times> (echo_ctx \<Rightarrow> ('db, response outcome) io)) list" where
  "public_routes r =
     [((''POST'', ''/v1/auth/register''), plain (register r)),
      ((''POST'', ''/v1/auth/login''), plain (login r))]"

definition protected_routes :: "'db V1 \<Rightarrow> ((string \<times> string) \<times> (echo_ctx \<Rightarrow> ('db, response outcome) io)) list" where
  "protected_routes r =
     [((''GET'', ''/v1/user/profile''), plain (profile r)),
      ((''POST'', ''/v1/tasks''), plain (createTask r)),
      ((''GET'', ''/v1/tasks''), listTasks r),
      ((''GET'', ''/v1/tasks/:id''), plain (getTask r)),
      ((''PUT'', ''/v1/tasks/:id''), plain (updateTask r)),
      ((''PATCH'', ''/v1/tasks/:id/status''), plain (transitionTask r)),
      ((''DELETE'', ''/v1/tasks/:id''), plain (deleteTask r)),
      ((''GET'', ''/v1/translation/history''), plain (history r)),
      ((''POST'', ''/v1/translation/do-translate''), plain (doTranslate r))]"

text \<open>\<open>NewRoutes\<close>: the handler of a method and a route pattern; the protected group runs behind \<open>Auth\<close>.\<close>

definition NewRoutes ::
  "'db V1 \<Rightarrow> jwtlib \<Rightarrow> Manager \<Rightarrow> (string \<times> string) \<rightharpoonup> (echo_ctx \<Rightarrow> ('db, response outcome) io)"
where
  "NewRoutes r lib jwtManager =
     map_of (public_routes r @ map (\<lambda>(k, h). (k, Auth lib jwtManager h)) (protected_routes r))"

end
