(* ===== verification/Http_Body.thy ===== *)
theory Http_Body
  imports Rest
begin

text \<open>
  The limit on request bodies (\<^verbatim>\<open>src/pkg/httpserver/body.go\<close>): the wrapper that reads the whole
  body, undoes its content encodings one after the other and bounds the body and every
  decompressed stage, before the handler runs.
\<close>

definition defaultBodyLimit :: nat where
  "defaultBodyLimit = 4 * 2 ^ 20"

text \<open>
  An \<open>io.Reader\<close> as what it delivers: its bytes and the error other than \<open>io.EOF\<close> that it ends
  with, if any.
\<close>

record reader =
  reader_data :: string
  reader_err :: "go_error option"

text \<open>
  \<open>io.ReadAll(io.LimitReader(r, n))\<close>: the limited reader reports the end of the file after \<open>n\<close>
  bytes, before an error of \<open>r\<close> that comes later.
\<close>

definition ReadAll_Limit :: "reader \<Rightarrow> nat \<Rightarrow> string \<times> go_error option" where
  "ReadAll_Limit r n =
     (take n (reader_data r), if n \<le> length (reader_data r) then None else reader_err r)"

text \<open>
  The decompressors, and \<open>echo.ErrBadRequest.Wrap\<close>. A constructor of a decompressor reads the
  header of the format and can fail; the one of brotli cannot.
\<close>

record codecs =
  gzip_NewReader :: "string \<Rightarrow> reader result"
  zlib_NewReader :: "string \<Rightarrow> reader result"
  brotli_NewReader :: "string \<Rightarrow> reader"
  ErrBadRequest_Wrap :: "go_error \<Rightarrow> go_error"

definition readBody :: "codecs \<Rightarrow> reader \<Rightarrow> string result" where
  "readBody lib r =
     (case ReadAll_Limit r (defaultBodyLimit + 1) of (body, err) \<Rightarrow>
        if length body > defaultBodyLimit then Inl ErrStatusRequestEntityTooLarge
        else case err of
               Some e \<Rightarrow> Inl (ErrBadRequest_Wrap lib e)
             | None \<Rightarrow> Inr body)"

definition decodeBody :: "codecs \<Rightarrow> string \<Rightarrow> string \<Rightarrow> string result" where
  "decodeBody lib body encoding =
     (let opened = (if encoding = ''gzip'' then Some (gzip_NewReader lib body)
                    else if encoding = ''deflate'' then Some (zlib_NewReader lib body)
                    else if encoding = ''br'' \<or> encoding = ''brotli'' then Some (Inr (brotli_NewReader lib body))
                    else None)
      in case opened of
           None \<Rightarrow> Inr body
         | Some (Inl err) \<Rightarrow> Inl (ErrBadRequest_Wrap lib err)
         | Some (Inr r) \<Rightarrow> readBody lib r)"

fun decodeAll :: "codecs \<Rightarrow> string list \<Rightarrow> string \<Rightarrow> string result" where
  "decodeAll lib [] body = Inr body"
| "decodeAll lib (encoding # rest) body =
     (case decodeBody lib body (TrimSpace encoding) of
        Inl err \<Rightarrow> Inl err
      | Inr b \<Rightarrow> decodeAll lib rest b)"

text \<open>
  \<open>bodyLimit next\<close> on a request with this content length and this body on the wire; the handler
  sees the decoded body.
\<close>

definition bodyLimit ::
  "codecs \<Rightarrow> (echo_ctx \<Rightarrow> ('db, response outcome) io) \<Rightarrow> int \<Rightarrow> reader \<Rightarrow> echo_ctx \<Rightarrow> ('db, response outcome) io"
where
  "bodyLimit lib next contentLength wire c =
     (if contentLength > int defaultBodyLimit then ret (Returns (HandlerError ErrStatusRequestEntityTooLarge))
      else case readBody lib wire of
        Inl err \<Rightarrow> ret (Returns (HandlerError err))
      | Inr body \<Rightarrow>
          (case decodeAll lib (SplitSeq (Header_Get c ''Content-Encoding'') CHR '','') body of
             Inl err \<Rightarrow> ret (Returns (HandlerError err))
           | Inr b \<Rightarrow> next (c\<lparr>req_Body := b\<rparr>)))"

text \<open>
  The router of the server wraps whatever handler the inner router finds for the request, the one
  for unknown routes included.
\<close>

definition bodyLimitRouter_Route ::
  "codecs \<Rightarrow> (echo_ctx \<Rightarrow> echo_ctx \<Rightarrow> ('db, response outcome) io) \<Rightarrow> int \<Rightarrow> reader \<Rightarrow> echo_ctx \<Rightarrow> ('db, response outcome) io"
where
  "bodyLimitRouter_Route lib route contentLength wire c = bodyLimit lib (route c) contentLength wire c"

section \<open>What the wrapper guarantees\<close>

lemma readBody_ok:
  "readBody lib r = Inr b \<longleftrightarrow>
     b = reader_data r \<and> reader_err r = None \<and> length (reader_data r) \<le> defaultBodyLimit"
  by (auto simp: readBody_def ReadAll_Limit_def split: option.splits if_splits)

lemma decodeBody_bounded: "decodeBody lib body e = Inr b \<Longrightarrow> length body \<le> defaultBodyLimit \<Longrightarrow> length b \<le> defaultBodyLimit"
  by (auto simp: decodeBody_def readBody_ok split: if_splits sum.splits)

lemma decodeAll_bounded: "decodeAll lib es body = Inr b \<Longrightarrow> length body \<le> defaultBodyLimit \<Longrightarrow> length b \<le> defaultBodyLimit"
  by (induction lib es body rule: decodeAll.induct) (auto split: sum.splits dest: decodeBody_bounded)


text \<open>
  A body that declares no content encoding reaches the handler unchanged exactly when it and
  its declared length are within the limit and the wire reader ends without an error; a longer
  one is answered with the error for 413.
\<close>

theorem plain_body:
  assumes "Header_Get c ''Content-Encoding'' = []" and "contentLength \<le> 4194304"
  shows "bodyLimit lib next contentLength wire c =
    (if length (reader_data wire) > 4194304 then ret (Returns (HandlerError ErrStatusRequestEntityTooLarge))
     else case reader_err wire of
       Some e \<Rightarrow> ret (Returns (HandlerError (ErrBadRequest_Wrap lib e)))
     | None \<Rightarrow> next (c\<lparr>req_Body := reader_data wire\<rparr>))"
  using assms
  by (simp add: bodyLimit_def readBody_def ReadAll_Limit_def defaultBodyLimit_def decodeBody_def TrimSpace_def
      split: option.splits)

definition demo_codecs :: codecs where
  "demo_codecs = \<lparr>gzip_NewReader = (\<lambda>s. Inr \<lparr>reader_data = s @ s, reader_err = None\<rparr>),
     zlib_NewReader = (\<lambda>s. Inl (LibError ''zlib'' ''invalid header'')),
     brotli_NewReader = (\<lambda>s. \<lparr>reader_data = s, reader_err = None\<rparr>),
     ErrBadRequest_Wrap = (\<lambda>e. Errorf ''Bad Request: '' e)\<rparr>"

definition demo_echo :: echo_ctx where
  "demo_echo = \<lparr>req_Header = (\<lambda>_. []), req_URL = \<lparr>url_Path = ''/v1/tasks'', url_RawQuery = ''a=b''\<rparr>,
     req_Body = [], req_Context = \<lparr>ctx_err = None, ctx_userID = None\<rparr>, QueryParam = (\<lambda>_. []), Param = (\<lambda>_. ''t1''),
     ctx_values = Map.empty\<rparr>"

lemma plain_body_witness:
  "bodyLimit demo_codecs (\<lambda>c. ret (Returns (JSON 200 (JToken (req_Body c))))) 2
     \<lparr>reader_data = ''hi'', reader_err = None\<rparr> demo_echo = (ret (Returns (JSON 200 (JToken ''hi''))) :: (unit, response outcome) io)"
  using plain_body [of demo_echo 2 demo_codecs "\<lambda>c. ret (Returns (JSON 200 (JToken (req_Body c)))) :: (unit, response outcome) io"
      "\<lparr>reader_data = ''hi'', reader_err = None\<rparr>"]
  by (simp add: demo_echo_def Header_Get_def)

end
