(* ===== verification/Mem_Db.thy ===== *)
theory Mem_Db
  imports Task_Repo User_Repo Translation_Repo
begin

text \<open>
  An executable reference database: tables as lists of rows, the constraints of
  \<^verbatim>\<open>src/migrations\<close> checked before a statement commits, UUIDs canonical in lower case and
  timestamps at microseconds. It is an instance of \<open>sql_db\<close>, so the contracts of the three
  repositories hold for the repositories over it.
\<close>

type_synonym mem = "string \<Rightarrow> row list"

definition mem_tbl :: "mem \<Rightarrow> tables" where
  "mem_tbl m = (\<lambda>t. mset (m t))"

definition micro_trunc :: "int \<Rightarrow> int" where
  "micro_trunc i = i - i mod 1000"

abbreviation mem_cast :: casts where
  "mem_cast \<equiv> sql_cast ToLower micro_trunc"

section \<open>The constraints\<close>

definition mem_uniques :: "mem \<Rightarrow> bool" where
  "mem_uniques m \<longleftrightarrow> distinct (map (\<lambda>r. r ''id'') (m ''tasks'')) \<and> distinct (map (\<lambda>r. r ''id'') (m ''users'')) \<and>
     distinct (map (\<lambda>r. r ''username'') (m ''users'')) \<and> distinct (map (\<lambda>r. r ''email'') (m ''users''))"

definition mem_types :: "mem \<Rightarrow> bool" where
  "mem_types m \<longleftrightarrow> list_all task_row (m ''tasks'') \<and> list_all user_row (m ''users'') \<and>
     list_all history_row (m ''history'')"

definition mem_refs :: "mem \<Rightarrow> bool" where
  "mem_refs m \<longleftrightarrow>
     list_all (\<lambda>r. list_ex (\<lambda>q. r ''user_id'' = q ''id'') (m ''users'')) (m ''tasks'') \<and>
     list_all (\<lambda>r. list_ex (\<lambda>q. r ''user_id'' = q ''id'') (m ''users'')) (m ''history'')"

definition mem_ok :: "mem \<Rightarrow> bool" where
  "mem_ok m \<longleftrightarrow> mem_types m \<and> mem_uniques m \<and> mem_refs m"

lemma mem_uniques_iff: "mem_uniques m \<longleftrightarrow> uniques_ok (mem_tbl m)"
  by (simp add: mem_uniques_def uniques_ok_def mem_tbl_def unique_col_mset)

lemma mem_ok_iff: "mem_ok m \<longleftrightarrow> schema_ok (mem_tbl m)"
  unfolding mem_ok_def mem_uniques_iff
  by (auto simp: schema_ok_def mem_types_def mem_refs_def references_def mem_tbl_def list_all_iff list_ex_iff)

section \<open>Statements\<close>

fun mem_effect :: "stmt \<Rightarrow> mem \<Rightarrow> mem" where
  "mem_effect (Insert t cs vs) m = m(t := m t @ [new_row mem_cast cs vs])"
| "mem_effect (Update t sets ps) m =
     m(t := map (\<lambda>r. if matches mem_cast ps r then set_row mem_cast sets r else r) (m t))"
| "mem_effect (Delete t ps) m = m(t := filter (\<lambda>r. \<not> matches mem_cast ps r) (m t))"
| "mem_effect (Select cs t ps ord lim off) m = m"

fun mem_affected :: "stmt \<Rightarrow> mem \<Rightarrow> nat" where
  "mem_affected (Insert t cs vs) m = 1"
| "mem_affected (Update t sets ps) m = length (filter (matches mem_cast ps) (m t))"
| "mem_affected (Delete t ps) m = length (filter (matches mem_cast ps) (m t))"
| "mem_affected (Select cs t ps ord lim off) m = 0"

definition mem_exec :: "go_ctx \<Rightarrow> stmt \<Rightarrow> mem \<Rightarrow> nat result \<times> mem" where
  "mem_exec ctx s m =
     (case ctx_err ctx of
        Some e \<Rightarrow> (Inl (LibError ''context'' (error_text e)), m)
      | None \<Rightarrow>
          let m' = mem_effect s m in
          if \<not> mem_types m' then (Inl (PgError ''42804'' ''datatype mismatch''), m)
          else if \<not> mem_uniques m' then (Inl (PgError ''23505'' ''duplicate key value''), m)
          else if \<not> mem_refs m' then (Inl (PgError ''23503'' ''foreign key violation''), m)
          else (Inr (mem_affected s m), m'))"

fun mem_select :: "stmt \<Rightarrow> mem \<Rightarrow> row list" where
  "mem_select (Select cs t ps ord lim off) m =
     (let rs = filter (matches mem_cast ps) (m t) in
      cut lim off (case ord of None \<Rightarrow> rs | Some c \<Rightarrow> sort_key (\<lambda>r. - val_time (the (r c))) rs))"
| "mem_select _ m = []"

definition mem_row :: "go_ctx \<Rightarrow> stmt \<Rightarrow> mem \<Rightarrow> sqlval list result \<times> mem" where
  "mem_row ctx s m =
     (case ctx_err ctx of
        Some e \<Rightarrow> (Inl (LibError ''context'' (error_text e)), m)
      | None \<Rightarrow>
          (case s of
             Select cs t ps ord lim off \<Rightarrow>
               if ''COUNT(*)'' \<in> set cs
               then (Inr [VInt (int (length (filter (matches mem_cast ps) (m t))))], m)
               else (case mem_select s m of
                       [] \<Rightarrow> (Inl ErrNoRows, m)
                     | r # _ \<Rightarrow> (Inr (project cs r), m))
           | _ \<Rightarrow> (Inl ErrNoRows, m)))"

definition mem_query :: "go_ctx \<Rightarrow> stmt \<Rightarrow> mem \<Rightarrow> pgx_rows result \<times> mem" where
  "mem_query ctx s m =
     (case ctx_err ctx of
        Some e \<Rightarrow> (Inl (LibError ''context'' (error_text e)), m)
      | None \<Rightarrow>
          (case s of
             Select cs t ps ord lim off \<Rightarrow>
               (Inr \<lparr>rows_items = map (\<lambda>r. Inr (project cs r)) (mem_select s m), rows_Err = None\<rparr>, m)
           | _ \<Rightarrow> (Inl (LibError ''pgx'' ''no rows''), m)))"

definition mem_pg :: "mem Postgres" where
  "mem_pg = \<lparr>Builder_ToSql = (\<lambda>s. None), Pool_Exec = mem_exec, Pool_QueryRow = mem_row,
     Pool_Query = mem_query\<rparr>"

section \<open>The laws of SQL hold\<close>

lemma lower_idem: "lower (lower c) = lower c"
  by (simp add: lower_def Let_def)

lemma ToLower_idem: "ToLower (ToLower s) = ToLower s"
  by (simp add: ToLower_def lower_idem)

lemma micro_trunc_idem: "micro_trunc (micro_trunc i) = micro_trunc i"
  by (simp add: micro_trunc_def minus_mod_eq_mult_div)

lemma mem_effect_tbl: "mem_tbl (mem_effect s m) = effect mem_cast s (mem_tbl m)"
  by (cases s) (auto simp: mem_tbl_def)

lemma mem_affected_tbl: "mem_affected s m = affected mem_cast s (mem_tbl m)"
  by (cases s) (auto simp: mem_tbl_def size_mset [symmetric] simp del: size_mset)

lemma mem_select_answers: "answers mem_cast (mem_tbl m) (Select cs t ps ord lim off)
    (mem_select (Select cs t ps ord lim off) m)"
proof -
  let ?rs = "filter (matches mem_cast ps) (m t)"
  let ?ys = "case ord of None \<Rightarrow> ?rs | Some c \<Rightarrow> sort_key (\<lambda>r. - val_time (the (r c))) ?rs"
  have "desc_by ord ?ys"
    using sorted_sort_key [of "\<lambda>r. - val_time (the (r c))" ?rs for c]
    by (auto simp: desc_by_def sorted_wrt_map split: option.splits)
  moreover have "mset ?ys = filter_mset (matches mem_cast ps) (mem_tbl m t)"
    by (simp add: mem_tbl_def split: option.splits)
  ultimately show ?thesis by (auto simp: Let_def)
qed

lemma mem_exec_cases:
  assumes "mem_exec ctx s d = (nr, d')"
  obtains (ok) "nr = Inr (mem_affected s d)" "d' = mem_effect s d" "mem_ok d'"
  | (err) e where "nr = Inl e" "d' = d" "foreign e"
      "errors_As_PgError e = Some unique_violation \<longrightarrow> \<not> mem_uniques (mem_effect s d)"
proof (cases "ctx_err ctx")
  case (Some e)
  with assms show ?thesis by (intro err [of "LibError ''context'' (error_text e)"]) (simp_all add: mem_exec_def)
next
  case None
  let ?m = "mem_effect s d"
  consider "\<not> mem_types ?m" | "mem_types ?m" "\<not> mem_uniques ?m"
    | "mem_types ?m" "mem_uniques ?m" "\<not> mem_refs ?m" | "mem_ok ?m"
    by (auto simp: mem_ok_def)
  then show ?thesis
  proof cases
    case 1
    with assms None show ?thesis
      by (intro err [of "PgError ''42804'' ''datatype mismatch''"])
        (simp_all add: mem_exec_def unique_violation_def)
  next
    case 2
    with assms None show ?thesis
      by (intro err [of "PgError ''23505'' ''duplicate key value''"]) (simp_all add: mem_exec_def)
  next
    case 3
    with assms None show ?thesis
      by (intro err [of "PgError ''23503'' ''foreign key violation''"])
        (simp_all add: mem_exec_def unique_violation_def)
  next
    case 4
    with assms None show ?thesis by (intro ok) (simp_all add: mem_exec_def mem_ok_def)
  qed
qed

interpretation mem: sql_db mem_pg mem_tbl mem_ok ToLower micro_trunc
proof (unfold_locales, goal_cases)
  case 1 show ?case by (rule ToLower_idem)
next
  case 2 show ?case by (rule micro_trunc_idem)
next
  case 3 then show ?case by (simp add: mem_ok_iff)
next
  case 4 then show ?case by (simp add: mem_pg_def)
next
  case 5 then show ?case
    by (auto simp: mem_pg_def mem_effect_tbl mem_affected_tbl elim: mem_exec_cases)
next
  case 6 then show ?case by (auto simp: mem_pg_def elim: mem_exec_cases)
next
  case 7 then show ?case
    by (auto simp: mem_pg_def mem_effect_tbl [symmetric] mem_uniques_iff [symmetric] elim: mem_exec_cases)
next
  case 8 then show ?case by (auto simp: mem_pg_def elim: mem_exec_cases)
next
  case 9 then show ?case
    by (auto simp: mem_pg_def mem_row_def split: option.splits stmt.splits if_splits list.splits)
next
  case 10 then show ?case by (auto simp: mem_pg_def mem_query_def split: option.splits stmt.splits)
next
  case 11 then show ?case by (auto simp: mem_pg_def elim: mem_exec_cases)
next
  case (12 ctx cs t ps ord lim off d vs d')
  then show ?case
    using mem_select_answers [of d cs t ps ord lim off]
    by (auto simp: mem_pg_def mem_row_def simp del: mem_select.simps answers.simps
        split: option.splits list.splits)
next
  case (13 ctx cs t ps ord lim off d e d')
  then show ?case
    using mem_select_answers [of d cs t ps ord lim off]
    by (auto simp: mem_pg_def mem_row_def ErrNoRows_def simp del: mem_select.simps answers.simps
        split: option.splits list.splits if_splits)
next
  case 14 then show ?case
    by (auto simp: mem_pg_def mem_row_def mem_tbl_def size_mset [symmetric] simp del: size_mset
        split: option.splits)
next
  case 15 then show ?case
    by (auto simp: mem_pg_def mem_row_def split: option.splits if_splits list.splits)
next
  case 16 then show ?case
    by (auto simp: mem_pg_def mem_row_def ErrNoRows_def split: option.splits stmt.splits if_splits list.splits)
next
  case (17 ctx cs t ps ord lim off d rs d')
  then show ?case
    using mem_select_answers [of d cs t ps ord lim off]
    by (intro exI [of _ "mem_select (Select cs t ps ord lim off) d"])
      (auto simp: mem_pg_def mem_query_def simp del: mem_select.simps answers.simps split: option.splits)
next
  case 18 then show ?case by (auto simp: mem_pg_def mem_query_def split: option.splits)
next
  case 19 then show ?case by (auto simp: mem_pg_def mem_query_def split: option.splits stmt.splits)
qed

section \<open>A database for witnesses\<close>

definition demo_user :: User where
  "demo_user = \<lparr>user_ID = ''u1'', user_Username = ''ann'', user_Email = ''a@b.c'', user_PasswordHash = ''n:sx'',
     user_CreatedAt = 1000, user_UpdatedAt = 1000\<rparr>"

definition demo_task :: Task where
  "demo_task = \<lparr>task_ID = ''t1'', task_UserID = ''u1'', task_Title = ''a'', task_Description = ''b'',
     task_Status = TaskStatusInProgress, task_CreatedAt = 2000, task_UpdatedAt = 2000\<rparr>"

definition demo_db :: mem where
  "demo_db = (\<lambda>_. [])(''users'' := [new_row mem_cast user_cols (user_vals demo_user)],
     ''tasks'' := [new_row mem_cast task_cols (task_vals demo_task)])"

definition demo_ctx :: go_ctx where
  "demo_ctx = \<lparr>ctx_err = None, ctx_userID = None\<rparr>"

definition demo_world :: "mem world" where
  "demo_world = \<lparr>wdb = demo_db, clock = (\<lambda>n. 5000 + int n * 1000), ticks = 0,
     random = (\<lambda>n. if n = 0 then ''r0'' else if n = 1 then ''r1'' else ''r2''), draws = 0, logs = [], spans = []\<rparr>"

lemma demo_db_ok: "mem_ok demo_db"
  by (simp add: mem_ok_def mem_types_def mem_uniques_def mem_refs_def demo_db_def demo_user_def demo_task_def
      new_row_def user_cols_def task_cols_def user_vals_def task_vals_def task_row_def user_row_def col_iffs
      ToLower_def lower_def)

lemma demo_world_ok: "mem_ok (wdb demo_world)"
  by (simp add: demo_world_def demo_db_ok)

lemma demo_world_sel [simp]: "wdb demo_world = demo_db" "ticks demo_world = 0" "draws demo_world = 0"
  "clock demo_world n = 5000 + int n * 1000" "random demo_world 0 = ''r0''" "random demo_world (Suc 0) = ''r1''"
  by (simp_all add: demo_world_def)

lemma demo_ToLower [simp]: "ToLower ''u1'' = ''u1''" "ToLower ''t1'' = ''t1''"
  by (simp_all add: ToLower_def lower_def)

lemma demo_tasks: "db_tasks mem_tbl demo_db = {#demo_task#}"
proof -
  have "stored_task ToLower micro_trunc demo_task = demo_task"
    by (simp add: stored_task_def demo_task_def micro_trunc_def)
  then show ?thesis by (simp add: db_tasks_def mem_tbl_def demo_db_def new_row_task)
qed

lemma demo_users: "db_users mem_tbl demo_db = {#demo_user#}"
proof -
  have "stored_user ToLower micro_trunc demo_user = demo_user"
    by (simp add: stored_user_def demo_user_def micro_trunc_def)
  then show ?thesis by (simp add: db_users_def mem_tbl_def demo_db_def new_row_user)
qed

lemma demo_history: "db_history mem_tbl demo_db = {#}"
  by (simp add: db_history_def mem_tbl_def demo_db_def)

lemmas mem_defs = mem_pg_def mem_exec_def mem_row_def mem_query_def mem_types_def mem_uniques_def
  mem_refs_def matches_def project_def new_row_def set_row_def cut_def ToLower_def lower_def micro_trunc_def
  task_cols_def task_vals_def user_cols_def user_vals_def history_cols_def history_vals_def
  task_row_def user_row_def history_row_def text_col_def null_col_def time_col_def
  demo_db_def demo_user_def demo_task_def demo_ctx_def

end
