(* ===== verification/Task_Spec.thy ===== *)
theory Task_Spec
  imports Task_Usecase
begin

text \<open>
  The abstract specification of the task service, a step relation on multisets of tasks that
  says what one request of one user may do, and the refinement: on any repository that meets
  the contract, every operation of the use case is a step of it. Ownership and the status
  machine are invariants of the specification and so hold for every sequence of requests.
\<close>

section \<open>What one request of one user may do\<close>

inductive task_step :: "string \<Rightarrow> Task multiset \<Rightarrow> Task multiset \<Rightarrow> bool" for u where
  skip: "task_step u M M"
| create: "task_UserID t = u \<Longrightarrow> task_Status t = TaskStatusTodo \<Longrightarrow> task_step u M (add_mset t M)"
| edit: "t \<in># M \<Longrightarrow> task_UserID t = u \<Longrightarrow>
     task_step u M (image_mset
       (\<lambda>x. if x = t then x\<lparr>task_Title := a, task_Description := b, task_UpdatedAt := n\<rparr> else x) M)"
| move: "t \<in># M \<Longrightarrow> task_UserID t = u \<Longrightarrow> status_step (task_Status t) s \<Longrightarrow>
     task_step u M (image_mset
       (\<lambda>x. if x = t then x\<lparr>task_Status := s, task_UpdatedAt := n\<rparr> else x) M)"
| remove: "task_step u M (filter_mset (\<lambda>x. \<not> is_task u i x) M)"

text \<open>The operations of the interface as data, and their execution.\<close>

datatype task_op =
    OpCreate string string
  | OpGet string
  | OpList "TaskStatus option" "64 word" "64 word"
  | OpUpdate string string string
  | OpTransition string TaskStatus
  | OpDelete string

definition run_op :: "'db TaskUC \<Rightarrow> go_ctx \<Rightarrow> string \<Rightarrow> task_op \<Rightarrow> ('db, unit) io" where
  "run_op uc ctx u op =
     (case op of
        OpCreate title desc \<Rightarrow> do { _ \<leftarrow> TaskUC_Create uc ctx u title desc; ret () }
      | OpGet i \<Rightarrow> do { _ \<leftarrow> TaskUC_Get uc ctx u i; ret () }
      | OpList st limit offset \<Rightarrow> do { _ \<leftarrow> TaskUC_List uc ctx u st limit offset; ret () }
      | OpUpdate i title desc \<Rightarrow> do { _ \<leftarrow> TaskUC_Update uc ctx u i title desc; ret () }
      | OpTransition i s \<Rightarrow> do { _ \<leftarrow> TaskUC_Transition uc ctx u i s; ret () }
      | OpDelete i \<Rightarrow> do { _ \<leftarrow> TaskUC_Delete uc ctx u i; ret () })"

fun run_ops :: "'db TaskUC \<Rightarrow> (go_ctx \<times> string \<times> task_op) list \<Rightarrow> ('db, unit) io" where
  "run_ops uc [] = ret ()"
| "run_ops uc ((ctx, u, op) # rest) = do { run_op uc ctx u op; run_ops uc rest }"

section \<open>Invariants of the specification\<close>

text \<open>A step of one user leaves every other user's tasks alone.\<close>

lemma filter_image_other:
  assumes "\<not> P t" and "\<And>x. x = t \<Longrightarrow> \<not> P (f x)"
  shows "filter_mset P (image_mset (\<lambda>x. if x = t then f x else x) M) = filter_mset P M"
  using assms by (induction M) auto

lemma task_step_isolated:
  assumes "task_step u M M'" and "v \<noteq> u"
  shows "filter_mset (\<lambda>x. task_UserID x = v) M' = filter_mset (\<lambda>x. task_UserID x = v) M"
  using assms
proof (induction rule: task_step.induct)
  case (remove M i)
  then show ?case by (auto simp: filter_filter_mset is_task_def intro!: filter_mset_cong)
qed (auto simp: filter_image_other)

text \<open>
  A step keeps every status known, and takes each task that survives along an edge of the
  status machine or leaves its status alone.
\<close>

definition statuses_known :: "Task multiset \<Rightarrow> bool" where
  "statuses_known M \<longleftrightarrow> (\<forall>x \<in># M. Valid (task_Status x))"

lemma task_step_known: "task_step u M M' \<Longrightarrow> statuses_known M \<Longrightarrow> statuses_known M'"
  by (induction rule: task_step.induct) (auto simp: statuses_known_def dest: status_step_Valid)

lemma task_step_moves:
  assumes "task_step u M M'" and "y \<in># M'"
  shows "y \<notin># M \<longrightarrow>
    (task_Status y = TaskStatusTodo \<and> task_UserID y = u) \<or>
    (\<exists>x \<in># M. task_ID y = task_ID x \<and> task_UserID y = task_UserID x \<and> task_CreatedAt y = task_CreatedAt x \<and>
       (task_Status y = task_Status x \<or> status_step (task_Status x) (task_Status y)))"
  using assms by (induction rule: task_step.induct) auto

section \<open>Every operation refines the specification\<close>

context task_repo
begin

lemma update_tasks_one:
  assumes d: "ok d" and t: "t \<in># tasks d" and u: "uuid (task_UserID t) = task_UserID t"
    and i: "uuid (task_ID t) = task_ID t" and t': "task_ID t' = task_ID t" "task_UserID t' = task_UserID t"
  shows "update_tasks uuid micro t' (tasks d) =
    image_mset (\<lambda>x. if x = t then write_task micro t' x else x) (tasks d)"
  unfolding update_tasks_def
proof (rule image_mset_cong)
  fix x
  assume "x \<in># tasks d"
  then have "is_task (uuid (task_UserID t')) (uuid (task_ID t')) x \<longleftrightarrow> x = t"
    using key [OF d _ t] u i t' by (auto simp: is_task_def)
  then show "(if is_task (uuid (task_UserID t')) (uuid (task_ID t')) x then write_task micro t' x else x) =
      (if x = t then write_task micro t' x else x)" by simp
qed

lemma Create_refines:
  assumes "run_state (TaskUseCase_Create repo ctx u a b) w = (r, w')" and "ok (wdb w)" and "uuid u = u"
  shows "ok (wdb w') \<and> task_step u (tasks (wdb w)) (tasks (wdb w'))"
proof -
  let ?t = "\<lparr>task_ID = random w (draws w), task_UserID = u, task_Title = a, task_Description = b,
     task_Status = TaskStatusTodo, task_CreatedAt = clock w (ticks w), task_UpdatedAt = clock w (ticks w)\<rparr>"
  let ?w = "w\<lparr>ticks := Suc (ticks w), draws := Suc (draws w)\<rparr>"
  obtain oe w1 where st: "run_state (TaskRepo_Store repo ctx ?t) ?w = (oe, w1)" by fastforce
  with assms(1) have "wdb w' = wdb w1"
    by (auto simp: TaskUseCase_Create_def Let_def split: option.splits)
  moreover have "task_step u M (add_mset (stored_task uuid micro ?t) M)" for M
    by (rule task_step.create) (simp_all add: stored_task_def assms(3))
  ultimately show ?thesis
    using st assms(2) store_inv [OF st] store_ok [of ctx ?t ?w w1] store_err [of ctx ?t ?w _ w1]
    by (cases oe) (auto intro: task_step.skip)
qed

lemma get_then_update:
  assumes w: "ok (wdb w)" and u: "uuid u = u"
    and get: "run_state (TaskRepo_GetByID repo ctx u i) w = (Inr t, w1)"
    and upd: "run_state (TaskRepo_Update repo ctx t') w2 = (oe, w')" "wdb w2 = wdb w1"
    and t': "task_ID t' = task_ID t" "task_UserID t' = task_UserID t"
  shows "ok (wdb w') \<and> t \<in># tasks (wdb w) \<and> task_UserID t = u \<and>
    (tasks (wdb w') = tasks (wdb w) \<or>
     tasks (wdb w') = image_mset (\<lambda>x. if x = t then write_task micro t' x else x) (tasks (wdb w))) \<and>
    (oe = None \<longrightarrow>
     tasks (wdb w') = image_mset (\<lambda>x. if x = t then write_task micro t' x else x) (tasks (wdb w)))"
proof -
  from get_frame [OF get w] have w1: "ok (wdb w1)" "tasks (wdb w1) = tasks (wdb w)" by simp_all
  from get_ok [OF get w] have t: "t \<in># tasks (wdb w)" "task_ID t = uuid i" "task_UserID t = u"
    by (simp_all add: is_task_def)
  have "update_tasks uuid micro t' (tasks (wdb w)) =
      image_mset (\<lambda>x. if x = t then write_task micro t' x else x) (tasks (wdb w))"
    by (rule update_tasks_one) (simp_all add: w t u canon t')
  then show ?thesis
    using t w1 upd update_inv [OF upd(1)] update_ok [of ctx t' w2 w'] update_err [of ctx t' w2 _ w']
    by (cases oe) auto
qed

lemma Update_refines:
  assumes run: "run_state (TaskUseCase_Update repo ctx u i a b) w = (r, w')" and w: "ok (wdb w)" and u: "uuid u = u"
  shows "ok (wdb w') \<and> task_step u (tasks (wdb w)) (tasks (wdb w'))"
proof -
  let ?w = "w\<lparr>ticks := Suc (ticks w)\<rparr>"
  have w': "ok (wdb ?w)" using w by simp
  obtain res w1 where get: "run_state (TaskRepo_GetByID repo ctx u i) ?w = (res, w1)" by fastforce
  show ?thesis
  proof (cases res)
    case (Inl e)
    with run get get_frame [OF get w'] show ?thesis
      by (auto simp: TaskUseCase_Update_def intro: task_step.skip)
  next
    case (Inr t)
    let ?t = "t\<lparr>task_Title := a, task_Description := b, task_UpdatedAt := clock w (ticks w)\<rparr>"
    obtain oe w2 where upd: "run_state (TaskRepo_Update repo ctx ?t) w1 = (oe, w2)" by fastforce
    have "wdb w' = wdb w2"
      using run get Inr upd by (auto simp: TaskUseCase_Update_def Let_def split: option.splits)
    moreover have "write_task micro ?t t =
        t\<lparr>task_Title := a, task_Description := b, task_UpdatedAt := micro (clock w (ticks w))\<rparr>"
      by (simp add: write_task_def)
    ultimately show ?thesis
      using get_then_update [OF w' u get [unfolded Inr] upd] task_step.edit [where t = t and M = "tasks (wdb w)" and u = u and a = a and b = b]
      by (auto intro: task_step.skip cong: if_cong)
  qed
qed

lemma Transition_refines:
  assumes run: "run_state (TaskUseCase_Transition repo ctx u i s) w = (r, w')" and w: "ok (wdb w)" and u: "uuid u = u"
  shows "ok (wdb w') \<and> task_step u (tasks (wdb w)) (tasks (wdb w'))"
proof -
  let ?w = "w\<lparr>ticks := Suc (ticks w)\<rparr>"
  have w': "ok (wdb ?w)" using w by simp
  obtain res w1 where get: "run_state (TaskRepo_GetByID repo ctx u i) ?w = (res, w1)" by fastforce
  show ?thesis
  proof (cases res)
    case (Inl e)
    with run get get_frame [OF get w'] show ?thesis
      by (auto simp: TaskUseCase_Transition_def intro: task_step.skip)
  next
    case (Inr t)
    show ?thesis
    proof (cases rule: Transition_cases [of t s])
      case err
      with run get Inr get_frame [OF get w'] show ?thesis
        by (auto simp: TaskUseCase_Transition_def intro: task_step.skip)
    next
      case ok
      let ?t = "t\<lparr>task_Status := s, task_UpdatedAt := clock w (ticks w)\<rparr>"
      obtain oe w2 where upd: "run_state (TaskRepo_Update repo ctx ?t) w1 = (oe, w2)" by fastforce
      have "wdb w' = wdb w2"
        using run get Inr upd ok by (auto simp: TaskUseCase_Transition_def Let_def split: option.splits)
      moreover have "write_task micro ?t t =
          t\<lparr>task_Status := s, task_UpdatedAt := micro (clock w (ticks w))\<rparr>"
        by (simp add: write_task_def)
      ultimately show ?thesis
        using get_then_update [OF w' u get [unfolded Inr] upd] ok(1)
          task_step.move [where t = t and M = "tasks (wdb w)" and u = u and s = s]
        by (auto intro: task_step.skip cong: if_cong)
    qed
  qed
qed

lemma Get_frame:
  assumes "run_state (TaskUseCase_Get repo ctx u i) w = (r, w')" and "ok (wdb w)"
  shows "ok (wdb w') \<and> tasks (wdb w') = tasks (wdb w)"
  using assms get_frame [of ctx u i w]
  by (auto simp: TaskUseCase_Get_def split: prod.splits sum.splits)

lemma List_frame:
  assumes "run_state (TaskUseCase_List repo ctx u st l off) w = (r, w')" and "ok (wdb w)"
  shows "ok (wdb w') \<and> tasks (wdb w') = tasks (wdb w)"
  using assms list_frame [of ctx u _ w]
  by (auto simp: TaskUseCase_List_def Let_def split: prod.splits sum.splits outcome.splits)

lemma Delete_refines:
  assumes "run_state (TaskUseCase_Delete repo ctx u i) w = (r, w')" and w: "ok (wdb w)" and u: "uuid u = u"
  shows "ok (wdb w') \<and> task_step u (tasks (wdb w)) (tasks (wdb w'))"
proof -
  obtain oe w1 where del: "run_state (TaskRepo_Delete repo ctx u i) w = (oe, w1)" by fastforce
  with assms(1) have "w' = w1" by (auto simp: TaskUseCase_Delete_def split: option.splits)
  then show ?thesis
    using del w u delete_inv [OF del w] delete_ok [of ctx u i w w1] delete_err [of ctx u i w _ w1]
    by (cases oe) (auto intro: task_step.intros)
qed

lemma op_refines:
  assumes "run_state (run_op (TaskUseCase repo) ctx u op) w = (x, w')" and "ok (wdb w)" and "uuid u = u"
  shows "ok (wdb w') \<and> task_step u (tasks (wdb w)) (tasks (wdb w'))"
proof (cases op)
  case (OpCreate a b)
  with assms show ?thesis
    by (auto simp: run_op_def TaskUseCase_def split: prod.splits dest: Create_refines)
next
  case (OpGet i)
  with assms show ?thesis
    by (auto simp: run_op_def TaskUseCase_def split: prod.splits dest!: Get_frame intro: task_step.skip)
next
  case (OpList st l off)
  with assms show ?thesis
    by (auto simp: run_op_def TaskUseCase_def split: prod.splits dest!: List_frame intro: task_step.skip)
next
  case (OpUpdate i a b)
  with assms show ?thesis
    by (auto simp: run_op_def TaskUseCase_def split: prod.splits dest: Update_refines)
next
  case (OpTransition i s)
  with assms show ?thesis
    by (auto simp: run_op_def TaskUseCase_def split: prod.splits dest: Transition_refines)
next
  case (OpDelete i)
  with assms show ?thesis
    by (auto simp: run_op_def TaskUseCase_def split: prod.splits dest: Delete_refines)
qed

lemma ops_known:
  assumes "run_state (run_ops (TaskUseCase repo) ops) w = (x, w')" and "ok (wdb w)"
    and "\<And>ctx u op. (ctx, u, op) \<in> set ops \<Longrightarrow> uuid u = u"
    and "statuses_known (tasks (wdb w))"
  shows "ok (wdb w') \<and> statuses_known (tasks (wdb w'))"
  using assms
proof (induction ops arbitrary: w)
  case (Cons o1 ops)
  obtain ctx u op where o1: "o1 = (ctx, u, op)" by (cases o1) auto
  obtain w1 where r1: "run_state (run_op (TaskUseCase repo) ctx u op) w = ((), w1)"
    by (metis (full_types) old.unit.exhaust surj_pair)
  have u: "uuid u = u" using Cons.prems(3) [of ctx u op] by (simp add: o1)
  from op_refines [OF r1 Cons.prems(2) u] Cons.prems(4)
  have "ok (wdb w1)" "statuses_known (tasks (wdb w1))" by (auto dest: task_step_known)
  moreover have "run_state (run_ops (TaskUseCase repo) ops) w1 = (x, w')"
    using Cons.prems(1) r1 by (simp add: o1)
  ultimately show ?case using Cons.IH [of w1] Cons.prems(3) by auto
qed simp

text \<open>What a successful creation leaves behind, and the exact outcome of a transition.\<close>

lemma create_ok:
  assumes "run_state (TaskUseCase_Create repo ctx u a b) w = (Inr t, w')" and "ok (wdb w)"
  shows "ok (wdb w') \<and> tasks (wdb w') = add_mset (stored_task uuid micro t) (tasks (wdb w)) \<and>
    task_UserID t = u \<and> task_Title t = a \<and> task_Description t = b \<and> task_Status t = TaskStatusTodo \<and>
    task_CreatedAt t = clock w (ticks w) \<and> task_UpdatedAt t = clock w (ticks w)"
proof -
  let ?t = "\<lparr>task_ID = random w (draws w), task_UserID = u, task_Title = a, task_Description = b,
     task_Status = TaskStatusTodo, task_CreatedAt = clock w (ticks w), task_UpdatedAt = clock w (ticks w)\<rparr>"
  let ?w = "w\<lparr>ticks := Suc (ticks w), draws := Suc (draws w)\<rparr>"
  obtain oe w1 where st: "run_state (TaskRepo_Store repo ctx ?t) ?w = (oe, w1)" by fastforce
  with assms(1) have "oe = None" and "t = ?t" and "w' = w1"
    by (auto simp: TaskUseCase_Create_def Let_def split: option.splits)
  with store_ok [of ctx ?t ?w w1] store_inv [OF st] st assms(2) show ?thesis by simp
qed

lemma get_stored:
  assumes "run_state (TaskUseCase_Get repo ctx u i) w = (r, w')" and "ok (wdb w)"
    and "x \<in># tasks (wdb w)" and "is_task u (uuid i) x"
  shows "r = Inr x \<or> (\<exists>e. r = Inl e \<and> foreign e)"
proof -
  obtain tr w1 where get: "run_state (TaskRepo_GetByID repo ctx u i) w = (tr, w1)" by fastforce
  show ?thesis
  proof (cases tr)
    case (Inl e)
    have "foreign e"
      using get_err [OF get [unfolded Inl] assms(2)] assms(3,4) key [OF assms(2) _ assms(3)]
      by (auto simp: is_task_def)
    with Inl get assms(1) show ?thesis by (auto simp: TaskUseCase_Get_def)
  next
    case (Inr t)
    from get_unique [OF get [unfolded Inr] assms(2,3)] assms(4) have "x = t" by (simp add: is_task_def)
    with Inr get assms(1) show ?thesis by (auto simp: TaskUseCase_Get_def)
  qed
qed

lemma transition_result:
  assumes run: "run_state (TaskUseCase_Transition repo ctx u i s) w = (r, w')" and w: "ok (wdb w)" and u: "uuid u = u"
  shows "(case r of
      Inr t' \<Rightarrow> \<exists>t \<in># tasks (wdb w). is_task u (uuid i) t \<and> status_step (task_Status t) s \<and>
        t' = t\<lparr>task_Status := s, task_UpdatedAt := clock w (ticks w)\<rparr> \<and>
        tasks (wdb w') = image_mset (\<lambda>x. if x = t
          then x\<lparr>task_Status := s, task_UpdatedAt := micro (clock w (ticks w))\<rparr> else x) (tasks (wdb w))
    | Inl e \<Rightarrow>
        (e = ErrInvalidTransition \<and> tasks (wdb w') = tasks (wdb w) \<and>
          (\<exists>t \<in># tasks (wdb w). is_task u (uuid i) t \<and> \<not> status_step (task_Status t) s)) \<or>
        (errors_Is e ErrTaskNotFound \<and> tasks (wdb w') = tasks (wdb w) \<and>
          (\<forall>x \<in># tasks (wdb w). task_ID x \<noteq> uuid i)) \<or>
        (errors_Is e ErrTaskForbidden \<and> tasks (wdb w') = tasks (wdb w) \<and>
          (\<exists>x \<in># tasks (wdb w). task_ID x = uuid i \<and> task_UserID x \<noteq> u)) \<or>
        foreign e)"
proof -
  let ?w = "w\<lparr>ticks := Suc (ticks w)\<rparr>"
  have w': "ok (wdb ?w)" using w by simp
  obtain res w1 where get: "run_state (TaskRepo_GetByID repo ctx u i) ?w = (res, w1)" by fastforce
  show ?thesis
  proof (cases res)
    case (Inl e)
    then have r: "r = Inl (Errorf ''TaskUseCase - Transition - uc.repo.GetByID: '' e)" "wdb w' = wdb w1"
      using run get by (auto simp: TaskUseCase_Transition_def)
    from get_err [OF get [unfolded Inl] w'] get_frame [OF get w'] show ?thesis
      by (auto simp: r)
  next
    case (Inr t)
    from get_ok [OF get [unfolded Inr] w'] have t: "t \<in># tasks (wdb w)" "is_task u (uuid i) t" by simp_all
    show ?thesis
    proof (cases rule: Transition_cases [of t s])
      case err
      with run get Inr get_frame [OF get w'] t show ?thesis
        by (auto simp: TaskUseCase_Transition_def)
    next
      case ok
      let ?t = "t\<lparr>task_Status := s, task_UpdatedAt := clock w (ticks w)\<rparr>"
      obtain oe w2 where upd: "run_state (TaskRepo_Update repo ctx ?t) w1 = (oe, w2)" by fastforce
      note both = get_then_update [OF w' u get [unfolded Inr] upd refl]
      have wr: "write_task micro ?t t = t\<lparr>task_Status := s, task_UpdatedAt := micro (clock w (ticks w))\<rparr>"
        by (simp add: write_task_def)
      have "oe = Some e \<Longrightarrow> foreign e" for e
        using update_err [of ctx ?t w1 e w2] upd get_frame [OF get w'] t u canon
        by (auto simp: is_task_def)
      with run get Inr upd ok(2) both wr t ok(1) show ?thesis
        by (auto simp: TaskUseCase_Transition_def Let_def split: option.splits cong: if_cong)
    qed
  qed
qed

end

end
