(* ===== verification/Task_Props.thy ===== *)
theory Task_Props
  imports Task_Spec Mem_Db
begin

text \<open>
  The properties of the task service, stated for the whole stack \<open>NewTaskUseCase (NewTaskRepo pg)\<close>
  (both tracing decorators, the use case and the PostgreSQL repository) over any database that
  behaves like \<open>sql_db\<close>.
\<close>

section \<open>The stack\<close>

definition task_service :: "'db Postgres \<Rightarrow> 'db TaskUC" where
  "task_service pg = NewTaskUseCase (NewTaskRepo pg)"

lemma task_service_sim: "task_uc_sim (task_service pg) (TaskUseCase (TaskPgRepo pg))"
  unfolding task_service_def NewTaskUseCase_def NewTaskRepo_def
  by (intro traced_task_uc_sim task_usecase_sim traced_task_repo_sim pg_task_repo_sim)

lemma task_service_sims [span_sims]:
  "span_sim (TaskUC_Create (task_service pg) ctx u a b) (TaskUseCase_Create (TaskPgRepo pg) ctx u a b)"
  "span_sim (TaskUC_Get (task_service pg) ctx u i) (TaskUseCase_Get (TaskPgRepo pg) ctx u i)"
  "span_sim (TaskUC_List (task_service pg) ctx u st l off) (TaskUseCase_List (TaskPgRepo pg) ctx u st l off)"
  "span_sim (TaskUC_Update (task_service pg) ctx u i a b) (TaskUseCase_Update (TaskPgRepo pg) ctx u i a b)"
  "span_sim (TaskUC_Transition (task_service pg) ctx u i s) (TaskUseCase_Transition (TaskPgRepo pg) ctx u i s)"
  "span_sim (TaskUC_Delete (task_service pg) ctx u i) (TaskUseCase_Delete (TaskPgRepo pg) ctx u i)"
  using task_service_sim [of pg] by (simp_all add: task_uc_sim_def TaskUseCase_def)

lemma run_op_sim [span_sims]:
  "span_sim (run_op (task_service pg) ctx u op) (run_op (TaskUseCase (TaskPgRepo pg)) ctx u op)"
  unfolding run_op_def by (cases op) (auto simp: TaskUseCase_def intro!: span_sims)

lemma run_ops_sim:
  "span_sim (run_ops (task_service pg) ops) (run_ops (TaskUseCase (TaskPgRepo pg)) ops)"
  by (induction "task_service pg" ops rule: run_ops.induct) (auto intro!: span_sims)

text \<open>
  C1. Every request to the task service, whatever its outcome (errors and lost connections
  included), is a step that the specification allows for the user that sends it: nothing, one
  new task in \<open>todo\<close> of that user, an edit of a task of that user that leaves its status alone,
  a move of such a task along an edge of the status machine, or a removal of such a task.
\<close>

theorem task_requests_refine:
  assumes "sql_db pg tbl good uuid micro" and "good (wdb w)" and "uuid u = u"
  shows "good (wdb (post (run_op (task_service pg) ctx u op) w)) \<and>
    task_step u (db_tasks tbl (wdb w)) (db_tasks tbl (wdb (post (run_op (task_service pg) ctx u op) w)))"
proof -
  note plain = task_repo.op_refines [OF sql_db.pg_task_repo [OF assms(1)]]
  have "run_state (run_op (TaskUseCase (TaskPgRepo pg)) ctx u op) w =
      ((), post (run_op (TaskUseCase (TaskPgRepo pg)) ctx u op) w)"
    by (metis (full_types) old.unit.exhaust prod.collapse)
  from plain [OF this assms(2,3)] show ?thesis
    by (simp add: span_sim_same(2) [OF run_op_sim])
qed

lemma task_requests_refine_witness:
  "mem_ok (wdb (post (run_op (task_service mem_pg) demo_ctx ''u1'' (OpDelete ''t1'')) demo_world)) \<and>
   task_step ''u1'' {#demo_task#}
     (db_tasks mem_tbl (wdb (post (run_op (task_service mem_pg) demo_ctx ''u1'' (OpDelete ''t1'')) demo_world)))"
  using task_requests_refine [OF mem.sql_db_axioms, OF demo_world_ok, of "''u1''" demo_ctx "OpDelete ''t1''"]
  by (simp add: demo_tasks)

text \<open>Sequences of requests, by induction over single ones.\<close>

lemma run_ops_induct:
  assumes db: "sql_db pg tbl good uuid micro" and w: "good (wdb w)"
    and canonical: "\<forall>(ctx, u, op) \<in> set ops. uuid u = u"
    and refl: "\<And>M. R M M"
    and step: "\<And>ctx u op M M' M''. (ctx, u, op) \<in> set ops \<Longrightarrow> task_step u M M' \<Longrightarrow> R M' M'' \<Longrightarrow> R M M''"
  shows "good (wdb (post (run_ops (task_service pg) ops) w)) \<and>
    R (db_tasks tbl (wdb w)) (db_tasks tbl (wdb (post (run_ops (task_service pg) ops) w)))"
  using w canonical step
proof (induction ops arbitrary: w)
  case (Cons o1 ops)
  obtain ctx u op where o1: "o1 = (ctx, u, op)" by (cases o1) auto
  let ?w = "post (run_op (task_service pg) ctx u op) w"
  from Cons.prems(2) have u: "uuid u = u" by (auto simp: o1)
  have one: "good (wdb ?w)" "task_step u (db_tasks tbl (wdb w)) (db_tasks tbl (wdb ?w))"
  proof -
    have "run_state (run_op (TaskUseCase (TaskPgRepo pg)) ctx u op) w =
        ((), post (run_op (TaskUseCase (TaskPgRepo pg)) ctx u op) w)"
      by (metis (full_types) old.unit.exhaust prod.collapse)
    from task_repo.op_refines [OF sql_db.pg_task_repo [OF db] this Cons.prems(1) u]
    show "good (wdb ?w)" "task_step u (db_tasks tbl (wdb w)) (db_tasks tbl (wdb ?w))"
      by (simp_all add: span_sim_same(2) [OF run_op_sim])
  qed
  have rest: "good (wdb (post (run_ops (task_service pg) ops) ?w)) \<and>
      R (db_tasks tbl (wdb ?w)) (db_tasks tbl (wdb (post (run_ops (task_service pg) ops) ?w)))"
    by (rule Cons.IH [OF one(1)]) (use Cons.prems(2,3) in \<open>auto intro: Cons.prems(3)\<close>)
  have "post (run_ops (task_service pg) (o1 # ops)) w = post (run_ops (task_service pg) ops) ?w"
    by (simp add: o1 case_prod_beta)
  with rest Cons.prems(3) [of ctx u op, OF _ one(2)] show ?case by (simp add: o1)
qed (simp add: refl)

text \<open>
  C3. No sequence of requests of other users changes a user's tasks: not one of them is
  altered, removed or added, whatever identifiers the requests name.
\<close>

theorem tasks_isolated:
  assumes "sql_db pg tbl good uuid micro" and "good (wdb w)"
    and "\<forall>(ctx, u, op) \<in> set ops. uuid u = u" and "\<forall>(ctx, u, op) \<in> set ops. u \<noteq> v"
  shows "filter_mset (\<lambda>x. task_UserID x = v) (db_tasks tbl (wdb (post (run_ops (task_service pg) ops) w))) =
    filter_mset (\<lambda>x. task_UserID x = v) (db_tasks tbl (wdb w))"
proof -
  let ?R = "\<lambda>M M'. filter_mset (\<lambda>x. task_UserID x = v) M' = filter_mset (\<lambda>x. task_UserID x = v) M"
  have "?R (db_tasks tbl (wdb w)) (db_tasks tbl (wdb (post (run_ops (task_service pg) ops) w)))"
    by (rule conjunct2 [OF run_ops_induct [OF assms(1-3), where R = ?R]])
      (use assms(4) in \<open>auto simp: task_step_isolated\<close>)
  then show ?thesis .
qed

lemma tasks_isolated_witness:
  "filter_mset (\<lambda>x. task_UserID x = ''u1'')
     (db_tasks mem_tbl (wdb (post (run_ops (task_service mem_pg)
        [(demo_ctx, ''t1'', OpDelete ''t1''), (demo_ctx, ''t1'', OpTransition ''t1'' ''done'')]) demo_world))) =
   {#demo_task#}"
  using tasks_isolated [OF mem.sql_db_axioms, OF demo_world_ok,
      of "[(demo_ctx, ''t1'', OpDelete ''t1''), (demo_ctx, ''t1'', OpTransition ''t1'' ''done'')]" "''u1''"]
  by (simp add: demo_tasks) (simp add: demo_task_def)

text \<open>
  C10. Whatever sequence of requests the service serves, every stored status stays one of
  \<open>todo\<close>, \<open>in_progress\<close> and \<open>done\<close>, although the database column takes any text.
\<close>

theorem stored_statuses_known:
  assumes "sql_db pg tbl good uuid micro" and "good (wdb w)"
    and "\<forall>(ctx, u, op) \<in> set ops. uuid u = u" and "statuses_known (db_tasks tbl (wdb w))"
  shows "statuses_known (db_tasks tbl (wdb (post (run_ops (task_service pg) ops) w)))"
proof -
  let ?R = "\<lambda>M M'. statuses_known M \<longrightarrow> statuses_known M'"
  have "?R (db_tasks tbl (wdb w)) (db_tasks tbl (wdb (post (run_ops (task_service pg) ops) w)))"
    by (rule conjunct2 [OF run_ops_induct [OF assms(1-3), where R = ?R]]) (auto dest: task_step_known)
  with assms(4) show ?thesis by blast
qed

lemma stored_statuses_known_witness:
  "statuses_known (db_tasks mem_tbl (wdb (post (run_ops (task_service mem_pg)
      [(demo_ctx, ''u1'', OpTransition ''t1'' ''done''), (demo_ctx, ''u1'', OpTransition ''t1'' ''nonsense'')])
      demo_world)))"
  using stored_statuses_known [OF mem.sql_db_axioms, OF demo_world_ok,
      of "[(demo_ctx, ''u1'', OpTransition ''t1'' ''done''), (demo_ctx, ''u1'', OpTransition ''t1'' ''nonsense'')]"]
  by (simp add: demo_tasks statuses_known_def) (simp add: demo_task_def)

text \<open>
  C11. A finished task is final: after one more request of anyone, the task with its identifier,
  if it is still there, is still in \<open>done\<close>.
\<close>

theorem done_is_final:
  assumes "sql_db pg tbl good uuid micro" and "good (wdb w)" and "uuid u = u"
    and "x \<in># db_tasks tbl (wdb w)" and "task_Status x = TaskStatusDone"
    and "y \<in># db_tasks tbl (wdb (post (run_op (task_service pg) ctx u op) w))" and "task_ID y = task_ID x"
  shows "task_Status y = TaskStatusDone"
proof -
  let ?M = "db_tasks tbl (wdb w)"
  let ?w = "post (run_op (task_service pg) ctx u op) w"
  have run: "run_state (run_op (TaskUseCase (TaskPgRepo pg)) ctx u op) w =
      ((), post (run_op (TaskUseCase (TaskPgRepo pg)) ctx u op) w)"
    by (metis (full_types) old.unit.exhaust prod.collapse)
  from task_repo.op_refines [OF sql_db.pg_task_repo [OF assms(1)] run assms(2,3)]
  have good: "good (wdb ?w)" and st: "task_step u ?M (db_tasks tbl (wdb ?w))"
    by (simp_all add: span_sim_same(2) [OF run_op_sim])
  note key = sql_db.tasks_key [OF assms(1,2)] and key' = sql_db.tasks_key [OF assms(1) good]
  show ?thesis
    using st key key' assms(4-7)
  proof (cases rule: task_step.cases)
    case (create t)
    then have "x \<in># db_tasks tbl (wdb ?w)" using assms(4) by simp
    with key' assms(5-7) show ?thesis by blast
  next
    case edit
    then obtain z where "z \<in># ?M" "task_ID y = task_ID z" "task_Status y = task_Status z"
      using assms(6) by (auto split: if_splits)
    with assms(4,5,7) key [of z x] show ?thesis by simp
  next
    case (move t s n)
    from move(1) assms(6) obtain z where z: "z \<in># ?M"
      and y: "y = (if z = t then z\<lparr>task_Status := s, task_UpdatedAt := n\<rparr> else z)" by auto
    from y assms(7) have "task_ID z = task_ID x" by (simp split: if_splits)
    with z assms(4) key have "z = x" by blast
    with move(4) assms(5) y show ?thesis by (auto simp: status_step_simps split: if_splits)
  qed (use assms key in auto)
qed

definition finished_world :: "mem world" where
  "finished_world = demo_world\<lparr>wdb := demo_db(''tasks'' :=
     [new_row mem_cast task_cols (task_vals (demo_task\<lparr>task_Status := TaskStatusDone\<rparr>))])\<rparr>"

lemma finished_tasks: "db_tasks mem_tbl (wdb finished_world) = {#demo_task\<lparr>task_Status := TaskStatusDone\<rparr>#}"
proof -
  have "stored_task ToLower micro_trunc (demo_task\<lparr>task_Status := TaskStatusDone\<rparr>) = demo_task\<lparr>task_Status := TaskStatusDone\<rparr>"
    by (simp add: stored_task_def demo_task_def micro_trunc_def)
  then show ?thesis by (simp add: db_tasks_def mem_tbl_def finished_world_def new_row_task)
qed

lemma finished_world_ok: "mem_ok (wdb finished_world)"
  by (simp add: finished_world_def mem_ok_def mem_defs status_defs)

lemma finished_refused:
  "wdb (post (run_op (task_service mem_pg) demo_ctx ''u1'' (OpTransition ''t1'' ''todo'')) finished_world) = wdb finished_world"
  unfolding span_sim_same(2) [OF run_op_sim]
  by (simp add: run_op_def TaskUseCase_def TaskUseCase_Transition_def TaskPgRepo_def Task_GetByID_def Let_def
      finished_world_def mem_defs Transition_def validTransitions_def status_defs)

lemma done_is_final_witness:
  "demo_task\<lparr>task_Status := TaskStatusDone\<rparr> \<in># db_tasks mem_tbl
     (wdb (post (run_op (task_service mem_pg) demo_ctx ''u1'' (OpTransition ''t1'' ''todo'')) finished_world)) \<and>
   task_Status (demo_task\<lparr>task_Status := TaskStatusDone\<rparr>) = TaskStatusDone"
  using done_is_final [OF mem.sql_db_axioms, OF finished_world_ok, of "''u1''" "demo_task\<lparr>task_Status := TaskStatusDone\<rparr>"
      "demo_task\<lparr>task_Status := TaskStatusDone\<rparr>" demo_ctx "OpTransition ''t1'' ''todo''"]
  by (simp add: finished_tasks finished_refused)

section \<open>What the single operations do\<close>

lemma task_service_run:
  assumes "span_sim m n" and "run_state m w = (r, w')"
  shows "\<exists>v. run_state n w = (r, v) \<and> wdb v = wdb w'"
  using span_sim_same [OF assms(1), of w] assms(2) by (metis fst_conv snd_conv surj_pair)

lemma created_gettable:
  assumes "sql_db pg tbl good uuid micro" and "good (wdb w)" and "uuid u = u"
    and "run_state (TaskUC_Create (task_service pg) ctx u title desc) w = (Inr t, w1)" and "wdb v = wdb w1"
    and "run_state (TaskUC_Get (task_service pg) ctx' u (task_ID t)) v = (r, w2)"
  shows "r = Inr (stored_task uuid micro t) \<or> (\<exists>e. r = Inl e \<and> foreign e)"
proof -
  note repo = sql_db.pg_task_repo [OF assms(1)]
  from task_service_run [OF task_service_sims(1) assms(4)] obtain v1 where
    v1: "run_state (TaskUseCase_Create (TaskPgRepo pg) ctx u title desc) w = (Inr t, v1)" "wdb v1 = wdb w1" by blast
  from task_service_run [OF task_service_sims(2) assms(6)] obtain v2 where
    v2: "run_state (TaskUseCase_Get (TaskPgRepo pg) ctx' u (task_ID t)) v = (r, v2)" by blast
  from task_repo.create_ok [OF repo v1(1) assms(2)] v1(2) assms(5) have v: "good (wdb v)"
    "stored_task uuid micro t \<in># db_tasks tbl (wdb v)" "task_UserID t = u" by simp_all
  show ?thesis
    by (rule task_repo.get_stored [OF repo v2 v(1,2)]) (simp add: is_task_def stored_task_def v(3) assms(3))
qed

text \<open>
  What \<open>Create\<close> returns is what \<open>Get\<close> gives back to its owner, up to the form in which the
  database keeps identifiers and times; the only other answer is a failure of the database,
  never "not found" or "forbidden".
\<close>

theorem create_then_get:
  assumes "sql_db pg tbl good uuid micro" and "good (wdb w)" and "uuid u = u"
    and "run_state (TaskUC_Create (task_service pg) ctx u title desc) w = (Inr t, w1)"
    and "run_state (TaskUC_Get (task_service pg) ctx' u (task_ID t)) w1 = (r, w2)"
  shows "r = Inr (stored_task uuid micro t) \<or> (\<exists>e. r = Inl e \<and> foreign e)"
  by (rule created_gettable [OF assms(1) _ assms(3,4) refl assms(5)]) (rule assms(2))

definition created_task :: Task where
  "created_task = \<lparr>task_ID = ''r0'', task_UserID = ''u1'', task_Title = ''a'', task_Description = ''b'',
     task_Status = TaskStatusTodo, task_CreatedAt = 5000, task_UpdatedAt = 5000\<rparr>"

lemma demo_created:
  "val (TaskUC_Create (task_service mem_pg) demo_ctx ''u1'' ''a'' ''b'') demo_world = Inr created_task"
  unfolding span_sim_same(1) [OF task_service_sims(1)]
  by (simp add: TaskUseCase_Create_def TaskPgRepo_def Task_Store_def Let_def mem_defs created_task_def)

lemma create_then_get_witness:
  "val (TaskUC_Get (task_service mem_pg) demo_ctx ''u1'' (task_ID created_task))
     (post (TaskUC_Create (task_service mem_pg) demo_ctx ''u1'' ''a'' ''b'') demo_world)
   \<in> {Inr (stored_task ToLower micro_trunc created_task)} \<union> {Inl e | e. foreign e}"
  using create_then_get [OF mem.sql_db_axioms, OF demo_world_ok, of "''u1''" demo_ctx "''a''" "''b''" created_task]
    demo_created
  by (auto simp: prod_eq_iff)

text \<open>
  C4. \<open>Transition\<close>, on every branch. It succeeds exactly along an edge of the machine and then
  changes nothing but the status and the time of the caller's task with that identifier. It
  refuses a request off the edges with \<open>ErrInvalidTransition\<close>, an unknown identifier with
  \<open>ErrTaskNotFound\<close> and the task of someone else with \<open>ErrTaskForbidden\<close>, changing nothing; any
  other error is a failure of the database.
\<close>

theorem transition_exact:
  assumes "sql_db pg tbl good uuid micro" and "good (wdb w)" and "uuid u = u"
    and "run_state (TaskUC_Transition (task_service pg) ctx u i s) w = (r, w')"
  shows "(case r of
      Inr t' \<Rightarrow> \<exists>t \<in># db_tasks tbl (wdb w). is_task u (uuid i) t \<and> status_step (task_Status t) s \<and>
        t' = t\<lparr>task_Status := s, task_UpdatedAt := clock w (ticks w)\<rparr> \<and>
        db_tasks tbl (wdb w') = image_mset (\<lambda>x. if x = t
          then x\<lparr>task_Status := s, task_UpdatedAt := micro (clock w (ticks w))\<rparr> else x) (db_tasks tbl (wdb w))
    | Inl e \<Rightarrow>
        (e = ErrInvalidTransition \<and> db_tasks tbl (wdb w') = db_tasks tbl (wdb w) \<and>
          (\<exists>t \<in># db_tasks tbl (wdb w). is_task u (uuid i) t \<and> \<not> status_step (task_Status t) s)) \<or>
        (errors_Is e ErrTaskNotFound \<and> db_tasks tbl (wdb w') = db_tasks tbl (wdb w) \<and>
          (\<forall>x \<in># db_tasks tbl (wdb w). task_ID x \<noteq> uuid i)) \<or>
        (errors_Is e ErrTaskForbidden \<and> db_tasks tbl (wdb w') = db_tasks tbl (wdb w) \<and>
          (\<exists>x \<in># db_tasks tbl (wdb w). task_ID x = uuid i \<and> task_UserID x \<noteq> u)) \<or>
        foreign e)"
proof -
  from task_service_run [OF task_service_sims(5) assms(4)] obtain v where
    v: "run_state (TaskUseCase_Transition (TaskPgRepo pg) ctx u i s) w = (r, v)" "wdb v = wdb w'" by blast
  from task_repo.transition_result [OF sql_db.pg_task_repo [OF assms(1)] v(1) assms(2,3)]
  show ?thesis unfolding v(2) .
qed

lemma transition_exact_witness:
  "case val (TaskUC_Transition (task_service mem_pg) demo_ctx ''u1'' ''t1'' ''done'') demo_world of
     Inr t' \<Rightarrow> t' = demo_task\<lparr>task_Status := ''done'', task_UpdatedAt := 5000\<rparr>
   | Inl e \<Rightarrow> foreign e"
proof -
  have "status_step TaskStatusInProgress ''done''"
    using finish by (simp add: TaskStatusDone_def)
  then show ?thesis
    using transition_exact [OF mem.sql_db_axioms, OF demo_world_ok, of "''u1''" demo_ctx "''t1''" "''done''"
        "val (TaskUC_Transition (task_service mem_pg) demo_ctx ''u1'' ''t1'' ''done'') demo_world"
        "post (TaskUC_Transition (task_service mem_pg) demo_ctx ''u1'' ''t1'' ''done'') demo_world"]
    by (auto simp: demo_tasks is_task_def demo_task_def split: sum.splits)
qed

section \<open>Two transitions at once\<close>

text \<open>
  The use case reads the task, checks the edge and writes, in two statements with no transaction
  and no check of the status in the second. \<open>transition_write\<close> is what \<open>Transition\<close> does after
  it has read the task.
\<close>

definition transition_write ::
  "'db TaskRepo \<Rightarrow> go_ctx \<Rightarrow> TaskStatus \<Rightarrow> int \<Rightarrow> Task \<Rightarrow> ('db, Task result) io"
where
  "transition_write repo ctx newStatus now task =
     (case Transition task newStatus of
        (Some err, _) \<Rightarrow> ret (Inl err)
      | (None, task) \<Rightarrow> do {
          let task = task\<lparr>task_UpdatedAt := now\<rparr>;
          err \<leftarrow> TaskRepo_Update repo ctx task;
          case err of
            Some e \<Rightarrow> ret (Inl (Errorf ''TaskUseCase - Transition - uc.repo.Update: '' e))
          | None \<Rightarrow> ret (Inr task) })"

lemma Transition_splits:
  "TaskUseCase_Transition repo ctx u i s = do {
     now \<leftarrow> time_Now;
     res \<leftarrow> TaskRepo_GetByID repo ctx u i;
     case res of
       Inl err \<Rightarrow> ret (Inl (Errorf ''TaskUseCase - Transition - uc.repo.GetByID: '' err))
     | Inr task \<Rightarrow> transition_write repo ctx s now task }"
  unfolding TaskUseCase_Transition_def transition_write_def by (rule refl)

lemma transition_write_ok:
  assumes "run_state (transition_write repo ctx s n t) w = (Inr t', w')"
  shows "t' = t\<lparr>task_Status := s, task_UpdatedAt := n\<rparr> \<and> run_state (TaskRepo_Update repo ctx t') w = (None, w')"
  using assms
  by (cases rule: Transition_cases [of t s])
    (auto simp: transition_write_def Let_def split: option.splits prod.splits)

lemma mem_transition_write:
  assumes "run_state (transition_write (TaskPgRepo mem_pg) ctx s n t) w = (Inr t', w')" and "mem_ok (wdb w)"
    and "db_tasks mem_tbl (wdb w) = {#x#}"
    and "ToLower (task_ID t) = task_ID x" and "ToLower (task_UserID t) = task_UserID x"
  shows "mem_ok (wdb w') \<and> db_tasks mem_tbl (wdb w') = {#write_task micro_trunc t' x#}"
proof -
  from transition_write_ok [OF assms(1)] have eq: "t' = t\<lparr>task_Status := s, task_UpdatedAt := n\<rparr>"
    and run: "run_state (TaskRepo_Update (TaskPgRepo mem_pg) ctx t') w = (None, w')" by blast+
  from eq have t': "task_ID t' = task_ID t" "task_UserID t' = task_UserID t" by simp_all
  from task_repo.update_ok [OF mem.pg_task_repo, OF run assms(2)] task_repo.update_inv [OF mem.pg_task_repo, OF run assms(2)]
    assms(3-5) t' show ?thesis by (simp add: update_tasks_def is_task_def)
qed

lemma demo_get:
  "run_state (TaskRepo_GetByID (TaskPgRepo mem_pg) demo_ctx ''u1'' ''t1'') demo_world = (Inr demo_task, demo_world)"
  by (simp add: TaskPgRepo_def Task_GetByID_def mem_defs Let_def)

lemmas write_defs = transition_write_def Transition_def validTransitions_def TaskPgRepo_def Task_Update_def
  mem_defs Let_def status_defs

lemma demo_finish: "val (transition_write (TaskPgRepo mem_pg) demo_ctx TaskStatusDone 6000 demo_task) demo_world =
    Inr (demo_task\<lparr>task_Status := TaskStatusDone, task_UpdatedAt := 6000\<rparr>)"
  by (simp add: write_defs)

lemma demo_reopen: "val (transition_write (TaskPgRepo mem_pg) demo_ctx TaskStatusTodo 5000 demo_task)
      (post (transition_write (TaskPgRepo mem_pg) demo_ctx TaskStatusDone 6000 demo_task) demo_world) =
    Inr (demo_task\<lparr>task_Status := TaskStatusTodo, task_UpdatedAt := 5000\<rparr>)"
  by (simp add: write_defs)

lemma no_step_reopens:
  assumes "task_Status x = TaskStatusDone" and "task_Status y = TaskStatusTodo"
  shows "\<not> task_step u {#x#} {#y#}"
proof
  assume "task_step u {#x#} {#y#}"
  then show False
    by (cases rule: task_step.cases) (use assms in \<open>auto simp: done_terminal split: if_splits\<close>)
qed

text \<open>
  C34. Two concurrent transitions of one task can take it along an edge that the machine forbids.
  Two requests read the same task in progress; one finishes it, the other moves it back to
  \<open>todo\<close>; both report success, and the finished task is reopened, which no sequence of requests
  one after the other could do.
\<close>

theorem transitions_race:
  "\<exists>w1 w2 ta tb.
     run_state (TaskRepo_GetByID (TaskPgRepo mem_pg) demo_ctx ''u1'' ''t1'') demo_world = (Inr demo_task, demo_world) \<and>
     run_state (transition_write (TaskPgRepo mem_pg) demo_ctx TaskStatusDone 6000 demo_task) demo_world = (Inr ta, w1) \<and>
     run_state (transition_write (TaskPgRepo mem_pg) demo_ctx TaskStatusTodo 5000 demo_task) w1 = (Inr tb, w2) \<and>
     db_tasks mem_tbl (wdb w1) = {#demo_task\<lparr>task_Status := TaskStatusDone, task_UpdatedAt := 6000\<rparr>#} \<and>
     db_tasks mem_tbl (wdb w2) = {#demo_task\<lparr>task_Status := TaskStatusTodo, task_UpdatedAt := 5000\<rparr>#} \<and>
     \<not> task_step ''u1'' (db_tasks mem_tbl (wdb w1)) (db_tasks mem_tbl (wdb w2))"
proof -
  let ?fin = "demo_task\<lparr>task_Status := TaskStatusDone, task_UpdatedAt := 6000\<rparr>"
  let ?re = "demo_task\<lparr>task_Status := TaskStatusTodo, task_UpdatedAt := 5000\<rparr>"
  let ?a = "transition_write (TaskPgRepo mem_pg) demo_ctx TaskStatusDone 6000 demo_task"
  let ?b = "transition_write (TaskPgRepo mem_pg) demo_ctx TaskStatusTodo 5000 demo_task"
  let ?w1 = "post ?a demo_world"
  let ?w2 = "post ?b ?w1"
  have a: "run_state ?a demo_world = (Inr ?fin, ?w1)" using demo_finish by (metis prod.collapse)
  have b: "run_state ?b ?w1 = (Inr ?re, ?w2)" using demo_reopen by (metis prod.collapse)
  have w1: "mem_ok (wdb ?w1)" "db_tasks mem_tbl (wdb ?w1) = {#?fin#}"
    using mem_transition_write [OF a, of demo_task] demo_db_ok
    by (simp_all add: demo_tasks write_task_def) (simp_all add: demo_task_def micro_trunc_def)
  have w2: "db_tasks mem_tbl (wdb ?w2) = {#?re#}"
    using mem_transition_write [OF b w1] by (simp add: write_task_def) (simp add: demo_task_def micro_trunc_def)
  have "\<not> task_step ''u1'' (db_tasks mem_tbl (wdb ?w1)) (db_tasks mem_tbl (wdb ?w2))"
    unfolding w1(2) w2 by (rule no_step_reopens) simp_all
  with a b w1(2) w2 demo_get show ?thesis by blast
qed

section \<open>Listing\<close>

lemma unat_of_positive: "0 < sint (x :: 64 word) \<Longrightarrow> unat x = nat (sint x)"
proof -
  assume pos: "0 < sint x"
  have "uint x = sint x mod 2 ^ 64" by (simp add: uint_sint take_bit_eq_mod)
  moreover have "sint x < 2 ^ 64" using sint_lt [of x] by simp
  ultimately have "uint x = sint x" using pos by simp
  then show ?thesis by (simp add: unat_eq_nat_uint)
qed

lemma clamp_limit_unat: "unat (clamp_limit l) = (if sint l \<le> 0 then 10 else nat (sint l))"
  by (simp add: clamp_limit_def unat_of_positive)

lemma clamp_offset_unat: "unat (clamp_offset l) = nat (sint l)"
proof (cases "0 < sint l")
  case False
  then have "sint l = 0 \<or> sint l < 0" by linarith
  then show ?thesis
  proof
    assume "sint l = 0"
    then have "l = 0" by (metis sint_0 signed_eq_0_iff)
    then show ?thesis by (simp add: clamp_offset_def)
  qed (simp add: clamp_offset_def)
qed (simp add: clamp_offset_def unat_of_positive)


lemma demo_listed:
  "val (TaskUC_List (task_service mem_pg) demo_ctx ''u1'' None 0 0) demo_world = Returns (Inr ([demo_task], 1))"
  unfolding span_sim_same(1) [OF task_service_sims(3)]
  by (simp add: TaskUseCase_List_def TaskPgRepo_def Task_List_def List_count_def List_data_def status_pred_def
      clamp_limit_def clamp_offset_def makeslice_panics_def task_size_def max_alloc_def Let_def mem_defs)


text \<open>
  C35. When the connection breaks while the rows are read, \<open>rows.Next\<close> stops early and \<open>rows.Err\<close>
  tells so, but \<open>List\<close> does not ask: it reports success with the rows it happened to read, next
  to the count of all of them.
\<close>

theorem list_ignores_rows_err:
  assumes "\<And>s. Builder_ToSql pg s = None" and "\<not> makeslice_panics (clamp_limit limit)"
    and "Pool_QueryRow pg ctx (List_count u \<lparr>flt_Status = st, flt_Limit = clamp_limit limit, flt_Offset = clamp_offset offset\<rparr>)
           (wdb w) = (Inr [VInt n], d1)"
    and "Pool_Query pg ctx (List_data u \<lparr>flt_Status = st, flt_Limit = clamp_limit limit, flt_Offset = clamp_offset offset\<rparr>)
           d1 = (Inr \<lparr>rows_items = map Inr vss, rows_Err = Some e\<rparr>, d2)"
  shows "val (TaskUC_List (task_service pg) ctx u st limit offset) w =
    Returns (Inr (map scan_task vss, of_int n))"
  unfolding span_sim_same(1) [OF task_service_sims(3)]
  using assms by (simp add: TaskUseCase_List_def TaskPgRepo_def Task_List_def Let_def scan_rows_all)

text \<open>A database whose connection breaks before the first row of any query.\<close>

definition broken_pg :: "mem Postgres" where
  "broken_pg = mem_pg\<lparr>Pool_Query := (\<lambda>ctx s m.
     (Inr \<lparr>rows_items = [], rows_Err = Some (LibError ''pgx'' ''conn closed'')\<rparr>, m))\<rparr>"

lemma list_ignores_rows_err_witness:
  "val (TaskUC_List (task_service broken_pg) demo_ctx ''u1'' None 0 0) demo_world = Returns (Inr ([], 1))"
proof -
  let ?f = "\<lparr>flt_Status = None, flt_Limit = clamp_limit 0, flt_Offset = clamp_offset 0\<rparr>"
  have "Pool_QueryRow broken_pg demo_ctx (List_count ''u1'' ?f) (wdb demo_world) = (Inr [VInt 1], demo_db)"
    by (simp add: broken_pg_def List_count_def status_pred_def mem_defs)
  from list_ignores_rows_err [OF _ _ this, where vss = "[]" and ?d2.0 = demo_db] show ?thesis
    by (simp add: broken_pg_def mem_pg_def clamp_limit_def makeslice_panics_def task_size_def max_alloc_def)
qed

text \<open>
  \<open>List\<close> allocates for the limit the client asks for: when the queries succeed, a limit above
  two to the power 41 makes it panic instead of returning, even for an empty table.
\<close>

theorem list_huge_limit_panics:
  assumes "\<And>s. Builder_ToSql pg s = None" and "2 ^ 41 < sint limit"
    and "Pool_QueryRow pg ctx (List_count u \<lparr>flt_Status = st, flt_Limit = clamp_limit limit, flt_Offset = clamp_offset offset\<rparr>)
           (wdb w) = (Inr vs, d1)"
    and "Pool_Query pg ctx (List_data u \<lparr>flt_Status = st, flt_Limit = clamp_limit limit, flt_Offset = clamp_offset offset\<rparr>)
           d1 = (Inr rows, d2)"
  shows "val (TaskUC_List (task_service pg) ctx u st limit offset) w =
    Panics ''runtime error: makeslice: cap out of range''"
proof -
  have "unat (clamp_limit limit) = nat (sint limit)" using assms(2) by (simp add: clamp_limit_unat)
  moreover have "2 ^ 41 < nat (sint limit)" using assms(2) by (simp add: zless_nat_eq_int_zless)
  ultimately have "makeslice_panics (clamp_limit limit)"
    by (simp add: makeslice_panics_def max_alloc_def task_size_def)
  then show ?thesis
    unfolding span_sim_same(1) [OF task_service_sims(3)]
    using assms by (simp add: TaskUseCase_List_def TaskPgRepo_def Task_List_def Let_def)
qed

lemma list_huge_limit_panics_witness:
  "val (TaskUC_List (task_service mem_pg) demo_ctx ''u1'' None 0x7FFFFFFFFFFFFFFF 0) demo_world =
   Panics ''runtime error: makeslice: cap out of range''"
proof -
  let ?f = "\<lparr>flt_Status = None, flt_Limit = clamp_limit 0x7FFFFFFFFFFFFFFF, flt_Offset = clamp_offset 0\<rparr>"
  obtain vs d1 where c: "Pool_QueryRow mem_pg demo_ctx (List_count ''u1'' ?f) (wdb demo_world) = (Inr vs, d1)"
    by (simp add: List_count_def mem_pg_def mem_row_def demo_ctx_def)
  obtain rows d2 where q: "Pool_Query mem_pg demo_ctx (List_data ''u1'' ?f) d1 = (Inr rows, d2)"
    by (simp add: List_data_def mem_pg_def mem_query_def demo_ctx_def)
  show ?thesis by (rule list_huge_limit_panics [OF _ _ c q]) (simp_all add: mem_pg_def)
qed

end
