(* ===== verification/Account_Props.thy ===== *)
theory Account_Props
  imports User_Usecase Translation_Usecase Mem_Db Task_Props
begin

text \<open>
  The properties of the user service and of the translation service, stated for the whole
  stacks \<open>NewUserUseCase (NewUserRepo pg)\<close> and \<open>NewTranslationUseCase (NewTranslationRepo pg)\<close>
  over any database that behaves like \<open>sql_db\<close>, and the transparency of tracing.
\<close>

section \<open>The stacks\<close>

definition user_service :: "bcrypt \<Rightarrow> jwtlib \<Rightarrow> Manager \<Rightarrow> 'db Postgres \<Rightarrow> 'db UserUC" where
  "user_service bc lib m pg = NewUserUseCase bc lib (NewUserRepo pg) m"

definition translation_service :: "googletrans \<Rightarrow> 'db Postgres \<Rightarrow> 'db TranslationUC" where
  "translation_service gtrans pg = NewTranslationUseCase (NewTranslationRepo pg) (NewTranslationWebAPI gtrans)"

lemma user_service_sim: "user_uc_sim (user_service bc lib m pg) (UserUseCase bc lib (UserPgRepo pg) m)"
  unfolding user_service_def NewUserUseCase_def NewUserRepo_def
  by (intro traced_user_uc_sim user_usecase_sim traced_user_repo_sim pg_user_repo_sim)

lemma translation_service_sim:
  "translation_uc_sim (translation_service gtrans pg) (TranslationUseCase (TranslationPgRepo pg) (GoogleWebAPI gtrans))"
  unfolding translation_service_def NewTranslationUseCase_def NewTranslationRepo_def NewTranslationWebAPI_def
  by (intro traced_translation_uc_sim translation_usecase_sim traced_translation_repo_sim pg_translation_repo_sim
      traced_webapi_sim google_webapi_sim)

lemma user_service_sims [span_sims]:
  "span_sim (UserUC_Register (user_service bc lib m pg) ctx a b c) (UserUseCase_Register bc (UserPgRepo pg) ctx a b c)"
  "span_sim (UserUC_Login (user_service bc lib m pg) ctx a b) (UserUseCase_Login bc lib m (UserPgRepo pg) ctx a b)"
  "span_sim (UserUC_GetUser (user_service bc lib m pg) ctx a) (UserUseCase_GetUser (UserPgRepo pg) ctx a)"
  using user_service_sim [of bc lib m pg] by (simp_all add: user_uc_sim_def UserUseCase_def)

lemma translation_service_sims [span_sims]:
  "span_sim (TranslationUC_Translate (translation_service gtrans pg) ctx u t)
     (TranslationUseCase_Translate (TranslationPgRepo pg) (GoogleWebAPI gtrans) ctx u t)"
  "span_sim (TranslationUC_History (translation_service gtrans pg) ctx u)
     (TranslationUseCase_History (TranslationPgRepo pg) ctx u)"
  using translation_service_sim [of gtrans pg] by (simp_all add: translation_uc_sim_def TranslationUseCase_def)

text \<open>
  C27. Tracing is transparent: each of the three services behind its two layers of tracing
  decorators gives the same results, writes the same log and leaves the same database as the
  use case on the bare repository; only the spans differ.
\<close>

theorem tracing_transparent:
  "task_uc_sim (task_service pg) (TaskUseCase (TaskPgRepo pg)) \<and>
   user_uc_sim (user_service bc lib m pg) (UserUseCase bc lib (UserPgRepo pg) m) \<and>
   translation_uc_sim (translation_service gtrans pg) (TranslationUseCase (TranslationPgRepo pg) (GoogleWebAPI gtrans))"
  by (simp add: task_service_sim user_service_sim translation_service_sim)

section \<open>Registration and login\<close>

lemma login_val:
  assumes "run_state (UserRepo_GetByEmail (UserPgRepo pg) ctx mail) w = (Inr x, w1)"
    and "CompareHashAndPassword bc (user_PasswordHash x) p = None"
  shows "val (UserUseCase_Login bc lib m (UserPgRepo pg) ctx mail p) w =
    (case val (GenerateToken lib m (user_ID x)) w of
       Inl e \<Rightarrow> Inl (Errorf ''UserUseCase - Login - uc.jwt.GenerateToken: '' e) | Inr s \<Rightarrow> Inr s)"
proof -
  have "clock w1 = clock w \<and> ticks w1 = ticks w"
    using assms(1) getUser_clock [of pg ctx "''email''" mail w "Inr x" w1]
    by (simp add: UserPgRepo_def User_GetByEmail_def)
  then have "val (GenerateToken lib m (user_ID x)) w = val (GenerateToken lib m (user_ID x)) w1"
    by (intro GenerateToken_val) simp
  with assms show ?thesis by (auto simp: UserUseCase_Login_def split: sum.splits prod.splits)
qed

text \<open>
  C6. Registering, logging in and presenting the token: after a successful registration, a login
  with the same e-mail and password is answered with a token that names the registered user
  to every holder of the secret until the token expires, unless the lookup in the database or
  the signing of the token fails.
\<close>

theorem register_login_parse:
  fixes pg :: "'db Postgres"
  assumes "sql_db pg tbl good uuid micro" and "bcrypt_documented bc" and "jwt_documented lib sig"
    and "good (wdb w)"
    and "run_state (UserUC_Register (user_service bc lib m pg) ctx name mail p) w = (Inr u, w1)"
    and "wdb w2 = wdb w1"
    and "val (UserUC_Login (user_service bc lib m pg) ctx' mail p) w2 = r"
  shows "(\<exists>s. r = Inr s \<and> (\<forall>v :: 'db world. val (ParseToken lib m s) v = Inr (uuid (user_ID u)) \<longleftrightarrow>
      clock v (ticks v) < (clock w2 (ticks w2) + duration m) div second * second)) \<or>
    (\<exists>e. val (UserRepo_GetByEmail (UserPgRepo pg) ctx' mail) w2 = Inl e \<and> foreign e) \<or>
    (\<exists>e. val (GenerateToken lib m (uuid (user_ID u))) w2 = Inl e)"
proof -
  note repo = sql_db.pg_user_repo [OF assms(1)]
  from task_service_run [OF user_service_sims(1) assms(5)] obtain v1 where
    v1: "run_state (UserUseCase_Register bc (UserPgRepo pg) ctx name mail p) w = (Inr u, v1)" "wdb v1 = wdb w1" by blast
  obtain salt where ok: "good (wdb w2)" and hash: "GenerateFromPassword bc salt p bcrypt_DefaultCost = Inr (user_PasswordHash u)"
    and mem: "stored_user uuid micro u \<in># db_users tbl (wdb w2)" and mail: "user_Email u = mail"
    using v1 assms(6) by (cases rule: user_repo.register_cases [OF repo v1(1) assms(4)]) auto
  have cmp: "CompareHashAndPassword bc (user_PasswordHash (stored_user uuid micro u)) p = None"
    using assms(2) hash by (auto simp: bcrypt_documented_def stored_user_def)
  have r: "r = val (UserUseCase_Login bc lib m (UserPgRepo pg) ctx' mail p) w2"
    using assms(7) span_sim_same(1) [OF user_service_sims(2)] by metis
  obtain ur w3 where get: "run_state (UserRepo_GetByEmail (UserPgRepo pg) ctx' mail) w2 = (ur, w3)" by fastforce
  show ?thesis
  proof (cases ur)
    case (Inl e)
    with user_repo.umail_err [OF repo, of ctx' mail w2 e w3] get ok mem mail have "foreign e"
      by (auto simp: stored_user_def)
    with Inl get show ?thesis by auto
  next
    case (Inr x)
    have "x = stored_user uuid micro u"
      using user_repo.mail_unique [OF repo, OF get [unfolded Inr] ok mem] mail by (simp add: stored_user_def)
    with login_val [OF get [unfolded Inr], of bc p lib m] cmp
    have "r = (case val (GenerateToken lib m (uuid (user_ID u))) w2 of
       Inl e \<Rightarrow> Inl (Errorf ''UserUseCase - Login - uc.jwt.GenerateToken: '' e) | Inr s \<Rightarrow> Inr s)"
      by (simp add: r stored_user_def)
    then show ?thesis
      using token_valid_iff [OF assms(3), of m "uuid (user_ID u)" w2 _ m]
      by (auto split: sum.splits)
  qed
qed

definition demo_manager :: Manager where
  "demo_manager = \<lparr>secret = ''k'', duration = 5 * second\<rparr>"

definition demo_bob :: User where
  "demo_bob = \<lparr>user_ID = ''r1'', user_Username = ''bob'', user_Email = ''b@b.c'',
     user_PasswordHash = field ''r0'' @ ''pw'', user_CreatedAt = 5000, user_UpdatedAt = 5000\<rparr>"

lemma demo_registered:
  "val (UserUC_Register (user_service demo_bcrypt demo_jwt demo_manager mem_pg) demo_ctx ''bob'' ''b@b.c'' ''pw'') demo_world =
   Inr demo_bob"
  unfolding span_sim_same(1) [OF user_service_sims(1)]
  by (simp add: UserUseCase_Register_def UserPgRepo_def User_Store_def Let_def mem_defs demo_bob_def demo_bcrypt_def
      bcrypt_DefaultCost_def)

lemma register_login_parse_witness:
  "let w1 = post (UserUC_Register (user_service demo_bcrypt demo_jwt demo_manager mem_pg) demo_ctx ''bob'' ''b@b.c'' ''pw'') demo_world;
       r = val (UserUC_Login (user_service demo_bcrypt demo_jwt demo_manager mem_pg) demo_ctx ''b@b.c'' ''pw'') w1
   in (\<exists>s. r = Inr s \<and> (\<forall>v :: mem world. val (ParseToken demo_jwt demo_manager s) v = Inr (ToLower (user_ID demo_bob)) \<longleftrightarrow>
      clock v (ticks v) < (clock w1 (ticks w1) + duration demo_manager) div second * second)) \<or>
    (\<exists>e. val (UserRepo_GetByEmail (UserPgRepo mem_pg) demo_ctx ''b@b.c'') w1 = Inl e \<and> foreign e)"
proof -
  let ?u = "user_service demo_bcrypt demo_jwt demo_manager mem_pg"
  let ?w1 = "post (UserUC_Register ?u demo_ctx ''bob'' ''b@b.c'' ''pw'') demo_world"
  have reg: "run_state (UserUC_Register ?u demo_ctx ''bob'' ''b@b.c'' ''pw'') demo_world = (Inr demo_bob, ?w1)"
    using demo_registered by (simp add: prod_eq_iff)
  have "val (GenerateToken demo_jwt demo_manager i) v \<noteq> Inl e" for i e and v :: "mem world"
    by (simp add: GenerateToken_def generateToken_def demo_jwt_def)
  with register_login_parse [OF mem.sql_db_axioms demo_bcrypt_documented demo_jwt_documented, OF demo_world_ok reg refl refl]
  show ?thesis by (simp add: Let_def)
qed

text \<open>
  C26. A login names no reason: an e-mail that nobody has and a password that is wrong get the
  very same answer, \<open>ErrInvalidCredentials\<close>, and no token.
\<close>

theorem login_no_enumeration:
  assumes "sql_db pg tbl good uuid micro" and "good (wdb w)"
    and "\<forall>x \<in># db_users tbl (wdb w). user_Email x = mail \<longrightarrow>
           CompareHashAndPassword bc (user_PasswordHash x) p \<noteq> None"
  shows "val (UserUC_Login (user_service bc lib m pg) ctx mail p) w = Inl ErrInvalidCredentials"
  unfolding span_sim_same(1) [OF user_service_sims(2)]
  by (rule user_repo.login_refused [OF sql_db.pg_user_repo [OF assms(1)], OF assms(2,3)])

lemma login_no_enumeration_witness:
  "val (UserUC_Login (user_service demo_bcrypt demo_jwt \<lparr>secret = ''k'', duration = 1\<rparr> mem_pg) demo_ctx ''a@b.c'' ''bad'')
     demo_world = Inl ErrInvalidCredentials \<and>
   val (UserUC_Login (user_service demo_bcrypt demo_jwt \<lparr>secret = ''k'', duration = 1\<rparr> mem_pg) demo_ctx ''x@y.z'' ''bad'')
     demo_world = Inl ErrInvalidCredentials"
proof -
  have "CompareHashAndPassword demo_bcrypt (user_PasswordHash demo_user) ''bad'' \<noteq> None"
    by (simp add: demo_bcrypt_def demo_user_def take_field_def)
  then have "\<forall>x \<in># db_users mem_tbl (wdb demo_world). user_Email x = mail \<longrightarrow>
      CompareHashAndPassword demo_bcrypt (user_PasswordHash x) ''bad'' \<noteq> None" for mail
    by (simp add: demo_users)
  from login_no_enumeration [OF mem.sql_db_axioms, OF demo_world_ok this] show ?thesis by blast
qed

text \<open>
  The price of that: when the lookup fails for any reason, a lost database included, \<open>Login\<close>
  says "invalid credentials" too, and the failure is not in the error it returns.
\<close>

theorem login_masks_failures:
  assumes "val (UserRepo_GetByEmail (UserPgRepo pg) ctx mail) w = Inl e"
  shows "val (UserUC_Login (user_service bc lib m pg) ctx mail p) w = Inl ErrInvalidCredentials"
  unfolding span_sim_same(1) [OF user_service_sims(2)]
  using assms by (simp add: UserUseCase_Login_def case_prod_beta)

definition down_pg :: "mem Postgres" where
  "down_pg = mem_pg\<lparr>Pool_QueryRow := (\<lambda>ctx s m. (Inl (LibError ''pgconn'' ''connection refused''), m))\<rparr>"

lemma login_masks_failures_witness:
  "val (UserUC_Login (user_service demo_bcrypt demo_jwt \<lparr>secret = ''k'', duration = 1\<rparr> down_pg) demo_ctx ''a@b.c'' ''x'')
     demo_world = Inl ErrInvalidCredentials"
  by (rule login_masks_failures [of _ _ _ _ "Errorf ''UserRepo - getUser - r.Pool.QueryRow: '' (LibError ''pgconn'' ''connection refused'')"])
    (simp add: UserPgRepo_def User_GetByEmail_def getUser_def down_pg_def mem_pg_def ErrNoRows_def)

lemma register_clash:
  assumes "sql_db pg tbl good uuid micro" and "bcrypt_documented bc" and "good (wdb w)"
    and "run_state (UserUC_Register (user_service bc lib m pg) ctx name mail p) w = (r, w')"
  shows "((\<exists>x \<in># db_users tbl (wdb w). user_Email x = mail \<or> user_Username x = name) \<longrightarrow>
      (\<exists>e. r = Inl e \<and> (foreign e \<or> errors_Is e ErrUserAlreadyExists \<and> db_users tbl (wdb w') = db_users tbl (wdb w)))) \<and>
    (\<forall>e. r = Inl e \<longrightarrow> errors_Is e ErrUserAlreadyExists \<longrightarrow>
      (\<exists>x \<in># db_users tbl (wdb w). user_ID x = uuid (random w (Suc (draws w))) \<or> user_Email x = mail \<or> user_Username x = name))"
proof -
  from task_service_run [OF user_service_sims(1) assms(4)] obtain v where
    v: "run_state (UserUseCase_Register bc (UserPgRepo pg) ctx name mail p) w = (r, v)" "wdb v = wdb w'" by blast
  show ?thesis
  proof (cases rule: user_repo.register_cases [OF sql_db.pg_user_repo [OF assms(1)], OF v(1) assms(3),
        case_names hash stored taken failed])
    case (hash e salt)
    with assms(2) have "foreign e" by (auto simp: bcrypt_documented_def)
    with hash foreign_sentinels(5) [of "Errorf ''UserUseCase - Register - bcrypt.GenerateFromPassword: '' e"]
    show ?thesis by auto
  next
    case (failed e u)
    with foreign_sentinels(5) [of "Errorf ''UserUseCase - Register - uc.repo.Store: '' e"] show ?thesis by auto
  qed (use v(2) in auto)
qed

text \<open>
  C25. E-mails and user names stay unique: a registration with an e-mail or a name that is taken
  fails, with \<open>ErrUserAlreadyExists\<close> and the users unchanged, or with a failure of the database
  or of the hash; and \<open>ErrUserAlreadyExists\<close> is reported only for a real clash.
\<close>

theorem register_unique:
  assumes "sql_db pg tbl good uuid micro" and "bcrypt_documented bc" and "good (wdb w)"
    and "run_state (UserUC_Register (user_service bc lib m pg) ctx name mail p) w = (r, w')"
  shows "((\<exists>x \<in># db_users tbl (wdb w). user_Email x = mail \<or> user_Username x = name) \<longrightarrow>
      (\<exists>e. r = Inl e \<and> (foreign e \<or> errors_Is e ErrUserAlreadyExists \<and> db_users tbl (wdb w') = db_users tbl (wdb w)))) \<and>
    (\<forall>e. r = Inl e \<longrightarrow> errors_Is e ErrUserAlreadyExists \<longrightarrow>
      (\<exists>x \<in># db_users tbl (wdb w). user_ID x = uuid (random w (Suc (draws w))) \<or> user_Email x = mail \<or> user_Username x = name))"
  using assms by (rule register_clash)

lemma register_unique_witness:
  "\<exists>e. val (UserUC_Register (user_service demo_bcrypt demo_jwt \<lparr>secret = ''k'', duration = 1\<rparr> mem_pg)
     demo_ctx ''bob'' ''a@b.c'' ''pw'') demo_world = Inl e"
  using register_unique [OF mem.sql_db_axioms demo_bcrypt_documented, OF demo_world_ok,
      of demo_jwt "\<lparr>secret = ''k'', duration = 1\<rparr>" demo_ctx "''bob''" "''a@b.c''" "''pw''"
      "val (UserUC_Register (user_service demo_bcrypt demo_jwt \<lparr>secret = ''k'', duration = 1\<rparr> mem_pg)
     demo_ctx ''bob'' ''a@b.c'' ''pw'') demo_world"
      "post (UserUC_Register (user_service demo_bcrypt demo_jwt \<lparr>secret = ''k'', duration = 1\<rparr> mem_pg)
     demo_ctx ''bob'' ''a@b.c'' ''pw'') demo_world"]
  by (auto simp: demo_users demo_user_def)

section \<open>Translations\<close>

text \<open>
  C28. A successful translation is in the history of the user who asked for it and in nobody
  else's, and nothing else changes in any history; the stored entry is the request with the
  translated text filled in.
\<close>

theorem translate_then_history:
  assumes "sql_db pg tbl good uuid micro" and "good (wdb w)"
    and "run_state (TranslationUC_Translate (translation_service gtrans pg) ctx u t) w = (Inr t', w1)"
    and "run_state (TranslationUC_History (translation_service gtrans pg) ctx' v) w1 = (Inr h, w2)"
  shows "mset (History h) = (if uuid v = uuid u then {#t'#} else {#}) + of_owner (uuid v) (db_history tbl (wdb w)) \<and>
    t' = t\<lparr>tr_Translation := tr_Translation t'\<rparr>"
proof -
  note repo = sql_db.pg_translation_repo [OF assms(1)]
  have sim: "span_sim (TranslationUC_Translate (translation_service gtrans pg) ctx u t)
      (TranslationUseCase_Translate (TranslationPgRepo pg) (NewTranslationWebAPI gtrans) ctx u t)"
  proof -
    have "translation_uc_sim (translation_service gtrans pg) (TranslationUseCase (TranslationPgRepo pg) (NewTranslationWebAPI gtrans))"
      unfolding translation_service_def NewTranslationUseCase_def NewTranslationRepo_def
      by (intro traced_translation_uc_sim translation_usecase_sim traced_translation_repo_sim pg_translation_repo_sim)
        (auto simp: webapi_sim_def NewTranslationWebAPI_def newTracedWebAPI_def tracedTranslationWebAPI_Translate_def
          GoogleWebAPI_def TranslationWebAPI_Translate_def startSpan_def endSpan_def intro!: span_sims span_sim_span_io)
    then show ?thesis by (simp add: translation_uc_sim_def TranslationUseCase_def)
  qed
  from task_service_run [OF sim assms(3)] obtain v1 where
    v1: "run_state (TranslationUseCase_Translate (TranslationPgRepo pg) (NewTranslationWebAPI gtrans) ctx u t) w = (Inr t', v1)"
    "wdb v1 = wdb w1" by blast
  from translation_repo.translate_effect [OF repo, OF v1(1) assms(2)] v1(2)
  have w1: "good (wdb w1)" "db_history tbl (wdb w1) = add_mset (uuid u, t') (db_history tbl (wdb w))"
    "t' = t\<lparr>tr_Translation := tr_Translation t'\<rparr>" by simp_all
  from task_service_run [OF translation_service_sims(2) assms(4)] obtain v2 where
    "run_state (TranslationUseCase_History (TranslationPgRepo pg) ctx' v) w1 = (Inr h, v2)" by blast
  then have "run_state (TranslationRepo_GetHistory (TranslationPgRepo pg) ctx' v) w1 = (Inr (History h), v2)"
    by (auto simp: TranslationUseCase_History_def split: sum.splits prod.splits)
  from translation_repo.hget_ok [OF repo, OF this w1(1)] w1(2,3) show ?thesis
    by (auto simp: of_owner_def)
qed

definition demo_text :: Translation where
  "demo_text = \<lparr>tr_Source = ''en'', tr_Destination = ''fr'', tr_Original = ''hi'', tr_Translation = []\<rparr>"

lemma demo_translated:
  "val (TranslationUC_Translate (translation_service (\<lambda>_ _ _ _. Inr ''salut'') mem_pg) demo_ctx ''u1'' demo_text) demo_world =
   Inr (demo_text\<lparr>tr_Translation := ''salut''\<rparr>)"
  unfolding span_sim_same(1) [OF translation_service_sims(1)]
  by (simp add: TranslationUseCase_Translate_def GoogleWebAPI_def TranslationWebAPI_Translate_def TranslationPgRepo_def
      Translation_Store_def Let_def mem_defs demo_text_def)

lemma demo_has_history:
  "\<exists>h. val (TranslationUC_History (translation_service gtrans mem_pg) demo_ctx u) w = Inr h"
  unfolding span_sim_same(1) [OF translation_service_sims(2)]
  by (simp add: TranslationUseCase_History_def TranslationPgRepo_def Translation_GetHistory_def Let_def
      mem_pg_def mem_query_def demo_ctx_def scan_rows_map)

lemma translate_then_history_witness:
  "\<exists>h. val (TranslationUC_History (translation_service (\<lambda>_ _ _ _. Inr ''salut'') mem_pg) demo_ctx ''u1'')
       (post (TranslationUC_Translate (translation_service (\<lambda>_ _ _ _. Inr ''salut'') mem_pg) demo_ctx ''u1'' demo_text) demo_world) =
     Inr h \<and> mset (History h) = {#demo_text\<lparr>tr_Translation := ''salut''\<rparr>#}"
proof -
  let ?t = "translation_service (\<lambda>_ _ _ _. Inr ''salut'') mem_pg"
  let ?w1 = "post (TranslationUC_Translate ?t demo_ctx ''u1'' demo_text) demo_world"
  obtain h where h: "val (TranslationUC_History ?t demo_ctx ''u1'') ?w1 = Inr h" using demo_has_history by blast
  have "run_state (TranslationUC_Translate ?t demo_ctx ''u1'' demo_text) demo_world =
      (Inr (demo_text\<lparr>tr_Translation := ''salut''\<rparr>), ?w1)" using demo_translated by (simp add: prod_eq_iff)
  moreover have "run_state (TranslationUC_History ?t demo_ctx ''u1'') ?w1 = (Inr h, post (TranslationUC_History ?t demo_ctx ''u1'') ?w1)"
    using h by (simp add: prod_eq_iff)
  ultimately have "mset (History h) = {#demo_text\<lparr>tr_Translation := ''salut''\<rparr>#}"
    using translate_then_history [OF mem.sql_db_axioms, OF demo_world_ok] by (fastforce simp: demo_history of_owner_def)
  with h show ?thesis by blast
qed

text \<open>
  Unlike the listing of tasks, the history never passes off a broken read as complete: when
  \<open>rows.Err\<close> reports an error, so does \<open>History\<close>.
\<close>

theorem history_reports_rows_err:
  assumes "\<And>s. Builder_ToSql pg s = None"
    and "Pool_Query pg ctx (Select history_cols ''history'' [SqExpr ''user_id'' (VText u)] None None None) (wdb w) =
      (Inr \<lparr>rows_items = map Inr vss, rows_Err = Some e\<rparr>, d)"
  shows "\<exists>e'. val (TranslationUC_History (translation_service gtrans pg) ctx u) w = Inl e' \<and> errors_Is e' e"
  unfolding span_sim_same(1) [OF translation_service_sims(2)]
  using assms by (simp add: TranslationUseCase_History_def TranslationPgRepo_def Translation_GetHistory_def Let_def scan_rows_all)

lemma history_reports_rows_err_witness:
  "\<exists>e'. val (TranslationUC_History (translation_service (\<lambda>_ _ _ _. Inr []) broken_pg) demo_ctx ''u1'') demo_world = Inl e' \<and>
     errors_Is e' (LibError ''pgx'' ''conn closed'')"
  by (rule history_reports_rows_err [where vss = "[]" and d = demo_db]) (simp_all add: broken_pg_def mem_pg_def)

end
