(* ===== verification/Rest_Props.thy ===== *)
theory Rest_Props
  imports Http_Body Account_Props
begin

text \<open>
  The properties of the REST controllers: authentication, what binding a body leaves of the
  request, and the status codes as a function of what the database holds.
\<close>

section \<open>Authentication\<close>

definition bearer :: "jwtlib \<Rightarrow> Manager \<Rightarrow> echo_ctx \<Rightarrow> 'db world \<Rightarrow> string \<Rightarrow> string \<Rightarrow> bool" where
  "bearer lib m c w tok u \<longleftrightarrow>
     Header_Get c ''Authorization'' = ''Bearer '' @ tok \<and> val (ParseToken lib m tok) w = Inr u"

lemma bearer_split: "SplitN2 h CHR '' '' = [''Bearer'', tok] \<longleftrightarrow> h = ''Bearer '' @ tok"
  by (simp add: SplitN2_two)

lemma SplitN2_length: "length (SplitN2 s c) = 2 \<Longrightarrow> \<exists>b a. SplitN2 s c = [b, a]"
  by (auto simp: SplitN2_def split: prod.splits if_splits)

lemma ParseToken_frame: "wdb (post (ParseToken lib m s) w) = wdb w" "logs (post (ParseToken lib m s) w) = logs w"
  by (simp_all add: ParseToken_def split: sum.splits)

lemma Auth_accepts:
  assumes "bearer lib m c w tok u"
  shows "run_state (Auth lib m next c) w =
    run_state (next (c\<lparr>ctx_values := (ctx_values c)(''userID'' \<mapsto> u)\<rparr>)) (post (ParseToken lib m tok) w)"
  using assms bearer_split [of "Header_Get c ''Authorization''" tok]
  by (simp add: bearer_def Auth_def Let_def case_prod_beta)

lemma Auth_refuses:
  assumes "\<not> (\<exists>tok u. bearer lib m c w tok u)"
  shows "\<exists>msg. val (Auth lib m next c) w = Returns (JSON 401 (JError msg)) \<and>
    wdb (post (Auth lib m next c) w) = wdb w \<and> logs (post (Auth lib m next c) w) = logs w"
proof -
  let ?h = "Header_Get c ''Authorization''"
  let ?parts = "SplitN2 ?h CHR '' ''"
  show ?thesis
  proof (cases "?h \<noteq> [] \<and> length ?parts = 2 \<and> ?parts ! 0 = ''Bearer''")
    case True
    then obtain tok where parts: "?parts = [''Bearer'', tok]" using SplitN2_length by force
    then have "?h = ''Bearer '' @ tok" by (simp add: SplitN2_two)
    with assms obtain e where "val (ParseToken lib m tok) w = Inl e"
      by (cases "val (ParseToken lib m tok) w") (auto simp: bearer_def)
    with True parts ParseToken_frame [of lib m tok w] show ?thesis
      by (simp add: Auth_def Let_def case_prod_beta)
  qed (auto simp: Auth_def Let_def)
qed

text \<open>
  C9. The middleware lets a request through exactly when its header is \<open>Bearer\<close>, one space and a
  token that the manager accepts; the handler then runs with that token's user and nothing
  else changed. Any other request is answered with 401 and leaves database and log alone.
\<close>

theorem auth_exact:
  "(\<exists>tok u. bearer lib m c w tok u \<and>
      run_state (Auth lib m next c) w =
      run_state (next (c\<lparr>ctx_values := (ctx_values c)(''userID'' \<mapsto> u)\<rparr>)) (post (ParseToken lib m tok) w)) \<or>
   ((\<nexists>tok u. bearer lib m c w tok u) \<and>
    (\<exists>msg. val (Auth lib m next c) w = Returns (JSON 401 (JError msg)) \<and>
      wdb (post (Auth lib m next c) w) = wdb w \<and> logs (post (Auth lib m next c) w) = logs w))"
proof (cases "\<exists>tok u. bearer lib m c w tok u")
  case True
  then obtain tok u where "bearer lib m c w tok u" by blast
  with Auth_accepts [of lib m c w tok u "next"] show ?thesis by blast
next
  case False
  with Auth_refuses [OF False, of "next"] show ?thesis by blast
qed

lemma protected_route:
  assumes "NewRoutes r lib m k = Some h" and "k \<notin> {(''POST'', ''/v1/auth/register''), (''POST'', ''/v1/auth/login'')}"
  shows "\<exists>next. h = Auth lib m next"
  using assms
  by (auto simp: NewRoutes_def public_routes_def protected_routes_def split: if_splits)

text \<open>
  Every route but registration and login is behind the middleware: without a valid bearer
  token the answer is 401 and the database is untouched.
\<close>

theorem routes_need_token:
  assumes "NewRoutes r lib m k = Some h"
    and "k \<notin> {(''POST'', ''/v1/auth/register''), (''POST'', ''/v1/auth/login'')}"
    and "\<nexists>tok u. bearer lib m c w tok u"
  shows "\<exists>msg. val (h c) w = Returns (JSON 401 (JError msg)) \<and> wdb (post (h c) w) = wdb w"
proof -
  from protected_route [OF assms(1,2)] obtain nxt where "h = Auth lib m nxt" by blast
  with Auth_refuses [of lib m c w nxt] assms(3) show ?thesis by blast
qed

definition demo_web :: web where
  "demo_web = \<lparr>echo_BindBody = (\<lambda>c t. (Inr (\<lambda>k. ''done''), c\<lparr>req_Body := []\<rparr>)), validate_Struct = (\<lambda>_. None)\<rparr>"

definition demo_V1 :: "mem V1" where
  "demo_V1 = \<lparr>V1_t = translation_service (\<lambda>_ _ _ _. Inr ''salut'') mem_pg,
     V1_u = user_service demo_bcrypt demo_jwt demo_manager mem_pg, V1_tk = task_service mem_pg, V1_web = demo_web\<rparr>"

lemma routes_need_token_witness:
  "\<exists>msg. val (Auth demo_jwt demo_manager (plain (deleteTask demo_V1)) demo_echo) demo_world = Returns (JSON 401 (JError msg)) \<and>
     wdb (post (Auth demo_jwt demo_manager (plain (deleteTask demo_V1)) demo_echo) demo_world) = demo_db"
  using routes_need_token [of demo_V1 demo_jwt demo_manager "(''DELETE'', ''/v1/tasks/:id'')"
      "Auth demo_jwt demo_manager (plain (deleteTask demo_V1))" demo_echo demo_world]
  by (simp add: NewRoutes_def public_routes_def protected_routes_def bearer_def demo_echo_def Header_Get_def)

section \<open>Binding the body\<close>

text \<open>
  Binding a body leaves no trace on the request: when the framework's own binding keeps header
  and URL, every header value reads as before and the URL is the old one, although the binding
  ran under the normalised content type and, for forms, without the query.
\<close>

theorem bindBody_restores:
  assumes "\<And>c t. req_Header (snd (echo_BindBody web c t)) = req_Header c"
    and "\<And>c t. req_URL (snd (echo_BindBody web c t)) = req_URL c"
  shows "Header_Get (snd (bindBody web c t)) k = Header_Get c k \<and> req_URL (snd (bindBody web c t)) = req_URL c \<and>
    (\<exists>c2. fst (bindBody web c t) = fst (echo_BindBody web c2 t) \<and>
       Header_Get c2 ''Content-Type'' = normalizedType (Header_Get c ''Content-Type'') \<and>
       (mediaType (Header_Get c ''Content-Type'') \<in> {MIMEApplicationForm, MIMEMultipartForm} \<longrightarrow>
          url_RawQuery (req_URL c2) = []))"
proof -
  let ?ct = "Header_Get c ''Content-Type''"
  let ?c1 = "if normalizedType ?ct \<noteq> ?ct then Header_Set c ''Content-Type'' (normalizedType ?ct) else c"
  let ?c2 = "if mediaType ?ct = MIMEApplicationForm \<or> mediaType ?ct = MIMEMultipartForm
      then ?c1\<lparr>req_URL := (req_URL ?c1)\<lparr>url_RawQuery := []\<rparr>\<rparr> else ?c1"
  have c2: "Header_Get ?c2 ''Content-Type'' = normalizedType ?ct"
    by (auto simp: Header_Set_def Header_Get_def)
  have "fst (bindBody web c t) = fst (echo_BindBody web ?c2 t)"
    by (simp add: bindBody_def Let_def case_prod_beta)
  moreover have "Header_Get (snd (bindBody web c t)) k = Header_Get c k"
    using assms by (auto simp: bindBody_def Let_def case_prod_beta Header_Set_def Header_Get_def)
  moreover have "req_URL (snd (bindBody web c t)) = req_URL c"
    using assms by (auto simp: bindBody_def Let_def case_prod_beta Header_Set_def)
  ultimately show ?thesis using c2 by (intro conjI exI [of _ ?c2]) auto
qed

lemma bindBody_restores_witness:
  "Header_Get (snd (bindBody demo_web (Header_Set demo_echo ''Content-Type'' ''Multipart/Form-Data; b=1'') [''status''])) ''Content-Type'' =
     ''Multipart/Form-Data; b=1'' \<and>
   req_URL (snd (bindBody demo_web (Header_Set demo_echo ''Content-Type'' ''Multipart/Form-Data; b=1'') [''status''])) = req_URL demo_echo"
  using bindBody_restores [of demo_web "Header_Set demo_echo ''Content-Type'' ''Multipart/Form-Data; b=1''" "[''status'']" "''Content-Type''"]
  by (simp add: demo_web_def Header_Set_def Header_Get_def)

section \<open>Status codes\<close>

lemma getTask_run:
  assumes "ctx_values c ''userID'' = Some u"
  shows "val (getTask r c) w =
    (case val (TaskUC_Get (V1_tk r) (req_Context c) u (Param c ''id'')) w of
       Inr t \<Rightarrow> JSON 200 (JTask t)
     | Inl e \<Rightarrow> if errors_Is e ErrTaskNotFound then JSON 404 (JError ''task not found'')
         else if errors_Is e ErrTaskForbidden then JSON 403 (JError ''forbidden'')
         else JSON 500 (JError ''internal server error''))"
  using assms by (simp add: getTask_def errorResponse_def case_prod_beta split: sum.splits)

text \<open>
  \<open>GET /tasks/:id\<close> answers from what is stored: 200 with the caller's task of that identifier,
  404 only when nobody has a task of that identifier, 403 only when someone else has it, and
  500 otherwise, when the database failed; it never shows a task of someone else.
\<close>

theorem getTask_status:
  assumes "sql_db pg tbl good uuid micro" and "good (wdb w)" and "V1_tk r = task_service pg"
    and "ctx_values c ''userID'' = Some u"
  shows "(\<exists>t \<in># db_tasks tbl (wdb w). is_task u (uuid (Param c ''id'')) t \<and> val (getTask r c) w = JSON 200 (JTask t)) \<or>
    (val (getTask r c) w = JSON 404 (JError ''task not found'') \<and>
      (\<forall>x \<in># db_tasks tbl (wdb w). task_ID x \<noteq> uuid (Param c ''id''))) \<or>
    (val (getTask r c) w = JSON 403 (JError ''forbidden'') \<and>
      (\<exists>x \<in># db_tasks tbl (wdb w). task_ID x = uuid (Param c ''id'') \<and> task_UserID x \<noteq> u)) \<or>
    val (getTask r c) w = JSON 500 (JError ''internal server error'')"
proof -
  let ?i = "Param c ''id''"
  note repo = sql_db.pg_task_repo [OF assms(1)]
  obtain tr w1 where get: "run_state (TaskRepo_GetByID (TaskPgRepo pg) (req_Context c) u ?i) w = (tr, w1)" by fastforce
  have v: "val (TaskUC_Get (V1_tk r) (req_Context c) u ?i) w =
      (case tr of Inl e \<Rightarrow> Inl (Errorf ''TaskUseCase - Get - uc.repo.GetByID: '' e) | Inr t \<Rightarrow> Inr t)"
    unfolding assms(3) span_sim_same(1) [OF task_service_sims(2)]
    by (simp add: TaskUseCase_Get_def get split: sum.splits)
  show ?thesis
  proof (cases tr)
    case (Inl e)
    with task_repo.get_err [OF repo, of "req_Context c" u ?i w e w1] get assms(2)
    consider "e = ErrTaskNotFound" "\<forall>x \<in># db_tasks tbl (wdb w). task_ID x \<noteq> uuid ?i"
      | "e = ErrTaskForbidden" "\<exists>x \<in># db_tasks tbl (wdb w). task_ID x = uuid ?i \<and> task_UserID x \<noteq> u"
      | "foreign e" by auto
    then show ?thesis
      by cases (use getTask_run [OF assms(4), of r w] v Inl in
          \<open>auto simp: ErrTaskNotFound_def ErrTaskForbidden_def dest: foreign_sentinels(1,2)\<close>)
  next
    case (Inr t)
    with task_repo.get_ok [OF repo, of "req_Context c" u ?i w t w1] get assms(2) getTask_run [OF assms(4), of r w] v
    show ?thesis by auto
  qed
qed

lemma getTask_status_witness:
  "val (getTask demo_V1 (demo_echo\<lparr>ctx_values := [''userID'' \<mapsto> ''u1'']\<rparr>)) demo_world
     \<in> {JSON 200 (JTask demo_task), JSON 500 (JError ''internal server error'')}"
  using getTask_status [OF mem.sql_db_axioms, OF demo_world_ok, of demo_V1 "demo_echo\<lparr>ctx_values := [''userID'' \<mapsto> ''u1'']\<rparr>" "''u1''"]
  by (simp add: demo_V1_def demo_tasks is_task_def) (auto simp: demo_task_def demo_echo_def)

text \<open>
  \<open>POST /auth/register\<close> for an e-mail or a user name that is taken: never 201; the answer is 409
  when the database reports the clash, 400 for a body that does not bind or validate, the
  error for 413 for one that is too large, and 500 when hashing or the database failed.
\<close>

theorem register_status:
  assumes "sql_db pg tbl good uuid micro" and "bcrypt_documented bc" and "good (wdb w)"
    and "V1_u r = user_service bc lib m pg"
    and "\<And>body. fst (bindBody (V1_web r) c (map fst Register_tags)) = Inr body \<Longrightarrow>
      \<exists>x \<in># db_users tbl (wdb w). user_Email x = body ''email'' \<or> user_Username x = body ''username''"
  shows "val (register r c) w \<in>
    {JSON 409 (JError ''user already exists''), JSON 400 (JError ''invalid request body''),
     HandlerError ErrStatusRequestEntityTooLarge, JSON 500 (JError ''internal server error'')}"
proof (cases "fst (bindBody (V1_web r) c (map fst Register_tags))")
  case (Inl e)
  then show ?thesis by (simp add: register_def bodyErrorResponse_def errorResponse_def)
next
  case (Inr body)
  show ?thesis
  proof (cases "Struct (V1_web r) Register_tags body")
    case None
    let ?m = "UserUC_Register (user_service bc lib m pg) (req_Context c) (body ''username'') (body ''email'') (body ''password'')"
    have "\<exists>e. val ?m w = Inl e"
      using register_clash [OF assms(1-3), of lib m "req_Context c" "body ''username''" "body ''email''" "body ''password''"
          "val ?m w" "post ?m w"] assms(5) [OF Inr] by (auto simp: prod_eq_iff)
    then obtain e where "val ?m w = Inl e" by blast
    with None Inr assms(4) show ?thesis
      by (simp add: register_def errorResponse_def case_prod_beta)
  qed (use Inr in \<open>simp add: register_def errorResponse_def\<close>)
qed

definition demo_taken :: "mem V1" where
  "demo_taken = demo_V1\<lparr>V1_web := demo_web\<lparr>echo_BindBody := (\<lambda>c t. (Inr (\<lambda>k. if k = ''email'' then ''a@b.c'' else ''bob''), c))\<rparr>\<rparr>"

lemma register_status_witness:
  "val (register demo_taken demo_echo) demo_world \<in>
    {JSON 409 (JError ''user already exists''), JSON 400 (JError ''invalid request body''),
     HandlerError ErrStatusRequestEntityTooLarge, JSON 500 (JError ''internal server error'')}"
  by (rule register_status [OF mem.sql_db_axioms demo_bcrypt_documented, OF demo_world_ok, of demo_taken demo_jwt demo_manager])
    (auto simp: demo_taken_def demo_V1_def demo_users demo_user_def bindBody_def Let_def demo_web_def)

end
