(* ===== verification/Logger.thy ===== *)
theory Logger
  imports Go_Prelude
begin

text \<open>
  The logger (\<^verbatim>\<open>src/pkg/logger/logger.go\<close>) with the part of \<open>fmt.Sprintf\<close> it reaches, the set-up of
  tracing (\<^verbatim>\<open>src/pkg/tracing/tracing.go\<close>) and the request log of the REST server
  (\<^verbatim>\<open>src/internal/controller/restapi/middleware/logger.go\<close>). What zerolog, the OpenTelemetry SDK and
  Echo do with what they are given is not modelled.
\<close>

section \<open>Formatting\<close>

text \<open>
  \<open>fmt.Sprintf\<close> with string arguments, for formats whose verbs are \<open>%s\<close>, \<open>%v\<close> and \<open>%%\<close>: the text and
  the arguments left over. \<open>None\<close> is a format outside this part (flags, widths, other verbs).
\<close>

fun Sprintf_verbs :: "string \<Rightarrow> string list \<Rightarrow> (string \<times> string list) option" where
  "Sprintf_verbs [] args = Some ([], args)"
| "Sprintf_verbs (c # cs) args =
     (if c \<noteq> CHR ''%'' then map_option (\<lambda>(out, rest). (c # out, rest)) (Sprintf_verbs cs args)
      else case cs of
        [] \<Rightarrow> Some (''%!(NOVERB)'', args)
      | v # cs' \<Rightarrow>
          if v = CHR ''%'' then map_option (\<lambda>(out, rest). (v # out, rest)) (Sprintf_verbs cs' args)
          else if v = CHR ''s'' \<or> v = CHR ''v'' then
            (case args of
               [] \<Rightarrow> map_option (\<lambda>(out, rest). (''%!'' @ v # ''(MISSING)'' @ out, rest)) (Sprintf_verbs cs' [])
             | a # args' \<Rightarrow> map_option (\<lambda>(out, rest). (a @ out, rest)) (Sprintf_verbs cs' args'))
          else None)"

fun extra_list :: "string list \<Rightarrow> string" where
  "extra_list [] = []"
| "extra_list [a] = ''string='' @ a"
| "extra_list (a # as) = ''string='' @ a @ '', '' @ extra_list as"

definition Sprintf :: "string \<Rightarrow> string list \<Rightarrow> string option" where
  "Sprintf fmt args =
     (case Sprintf_verbs fmt args of
        None \<Rightarrow> None
      | Some (out, rest) \<Rightarrow> Some (if rest = [] then out else out @ ''%!(EXTRA '' @ extra_list rest @ '')''))"

lemma Sprintf_verbs_plain: "CHR ''%'' \<notin> set fmt \<Longrightarrow> Sprintf_verbs fmt args = Some (fmt, args)"
  by (induction fmt) auto

section \<open>The logger\<close>

datatype level = DebugLevel | InfoLevel | WarnLevel | ErrorLevel | FatalLevel

definition Logger_level :: "string \<Rightarrow> level" where
  "Logger_level level =
     (let l = ToLower level in
      if l = ''error'' then ErrorLevel
      else if l = ''warn'' then WarnLevel
      else if l = ''info'' then InfoLevel
      else if l = ''debug'' then DebugLevel
      else InfoLevel)"

text \<open>The levels in the order of their severity, as zerolog numbers them.\<close>

primrec severity :: "level \<Rightarrow> nat" where
  "severity DebugLevel = 0"
| "severity InfoLevel = 1"
| "severity WarnLevel = 2"
| "severity ErrorLevel = 3"
| "severity FatalLevel = 4"

lemma severity_inject: "severity a = severity b \<Longrightarrow> a = b"
  by (cases a; cases b) simp_all

instantiation level :: linorder
begin

definition less_eq_level :: "level \<Rightarrow> level \<Rightarrow> bool" where
  "less_eq_level a b \<longleftrightarrow> severity a \<le> severity b"

definition less_level :: "level \<Rightarrow> level \<Rightarrow> bool" where
  "less_level a b \<longleftrightarrow> severity a < severity b"

instance
  by standard (auto simp: less_eq_level_def less_level_def severity_inject)

end

text \<open>
  \<open>SetGlobalLevel\<close>: zerolog writes an event when its level is at least the global one. No
  configuration silences errors, and the most severe text a configuration accepts is \<open>error\<close>.
\<close>

definition written :: "string \<Rightarrow> level \<Rightarrow> bool" where
  "written config l \<longleftrightarrow> Logger_level config \<le> l"

lemma errors_always_written: "ErrorLevel \<le> l \<Longrightarrow> written config l"
  by (cases l) (simp_all add: written_def Logger_level_def less_eq_level_def Let_def)

lemma unknown_level_is_info:
  "ToLower config \<notin> {''error'', ''warn'', ''info'', ''debug''} \<Longrightarrow> written config l \<longleftrightarrow> InfoLevel \<le> l"
  by (simp add: written_def Logger_level_def)

text \<open>A message is an error, a string or a value of another type, given by how \<open>%v\<close> prints it.\<close>

datatype message = MError go_error | MString string | MOther string

text \<open>
  What is handed to zerolog: the level and the text, \<open>None\<close> when the format is outside the part of
  \<open>Sprintf\<close> above. \<open>Fatal\<close> exits after it.
\<close>

definition logger_log :: "level \<Rightarrow> string \<Rightarrow> string list \<Rightarrow> level \<times> string option" where
  "logger_log level msg args = (if args = [] then (level, Some msg) else (level, Sprintf msg args))"

fun level_text :: "level \<Rightarrow> string" where
  "level_text DebugLevel = ''debug''"
| "level_text InfoLevel = ''info''"
| "level_text WarnLevel = ''warn''"
| "level_text ErrorLevel = ''error''"
| "level_text FatalLevel = ''fatal''"

fun logger_msg :: "level \<Rightarrow> message \<Rightarrow> string list \<Rightarrow> level \<times> string option" where
  "logger_msg level (MError e) args = logger_log level (error_text e) args"
| "logger_msg level (MString s) args = logger_log level s args"
| "logger_msg level (MOther v) args =
     logger_log level (level_text level @ '' message '' @ v @ '' has unknown type '' @ v) args"

definition Logger_Debug :: "message \<Rightarrow> string list \<Rightarrow> level \<times> string option" where
  "Logger_Debug m args = logger_msg DebugLevel m args"

definition Logger_Info :: "string \<Rightarrow> string list \<Rightarrow> level \<times> string option" where
  "Logger_Info m args = logger_log InfoLevel m args"

definition Logger_Warn :: "string \<Rightarrow> string list \<Rightarrow> level \<times> string option" where
  "Logger_Warn m args = logger_log WarnLevel m args"

definition Logger_Error :: "message \<Rightarrow> string list \<Rightarrow> level \<times> string option" where
  "Logger_Error m args = logger_msg ErrorLevel m args"

definition Logger_Fatal :: "message \<Rightarrow> string list \<Rightarrow> (level \<times> string option) \<times> nat" where
  "Logger_Fatal m args = (logger_msg FatalLevel m args, 1)"

text \<open>
  The text of an error is used as the format of its context: an error logged with a context
  string, as every controller and server does, comes out as the error followed by the complaint
  \<open>%!(EXTRA string=...)\<close> around the context, not as error and context; an error logged without a
  context comes out as it is, whatever percent signs it has.
\<close>

theorem log_error_context:
  assumes "CHR ''%'' \<notin> set (error_text e)"
  shows "Logger_Error (MError e) [ctxt] = (ErrorLevel, Some (error_text e @ ''%!(EXTRA string='' @ ctxt @ '')'')) \<and>
    Logger_Error (MError e') [] = (ErrorLevel, Some (error_text e'))"
  using assms by (simp add: Logger_Error_def logger_log_def Sprintf_def Sprintf_verbs_plain)

lemma log_error_context_witness:
  "Logger_Error (MError (LibError ''pgx'' ''closed pool'')) [''restapi - v1 - login''] =
     (ErrorLevel, Some ''closed pool%!(EXTRA string=restapi - v1 - login)'')"
  using log_error_context [of "LibError ''pgx'' ''closed pool''" "''restapi - v1 - login''"] by simp

section \<open>Tracing\<close>

record trace_config =
  tr_Enabled :: bool
  tr_ServiceName :: string
  tr_Version :: string
  tr_Endpoint :: string
  tr_Insecure :: bool
  tr_SampleRate :: "64 word"

text \<open>The global state of the OpenTelemetry API: the propagators and the provider's settings, if one is set.\<close>

record otel_globals =
  otel_propagators :: "string list"
  otel_provider :: "trace_config option"

record exporter_options =
  eo_endpoint :: string
  eo_insecure :: bool

text \<open>
  \<open>exporter\<close> and \<open>resource\<close> are the answers of the SDK; the shutdown function is given by what it
  makes of the provider's own error.
\<close>

definition tracing_New ::
  "(exporter_options \<Rightarrow> go_error option) \<Rightarrow> (string \<Rightarrow> string \<Rightarrow> go_error option) \<Rightarrow> trace_config \<Rightarrow> otel_globals \<Rightarrow>
   (go_error option \<Rightarrow> go_error option) result \<times> otel_globals" where
  "tracing_New exporter resource cfg g =
     (let g = g\<lparr>otel_propagators := [''tracecontext'', ''baggage'']\<rparr> in
      if \<not> tr_Enabled cfg then (Inr (\<lambda>_. None), g)
      else case exporter \<lparr>eo_endpoint = tr_Endpoint cfg, eo_insecure = tr_Insecure cfg\<rparr> of
        Some err \<Rightarrow> (Inl (Errorf ''tracing - New - otlptracegrpc.New: '' err), g)
      | None \<Rightarrow>
          (case resource (tr_ServiceName cfg) (tr_Version cfg) of
             Some err \<Rightarrow> (Inl (Errorf ''tracing - New - resource.New: '' err), g)
           | None \<Rightarrow> (Inr (map_option (Errorf ''tracing - shutdown - tp.Shutdown: '')), g\<lparr>otel_provider := Some cfg\<rparr>)))"

lemma tracing_New_provider:
  "tracing_New exporter resource cfg g = (r, g') \<Longrightarrow>
     otel_propagators g' = [''tracecontext'', ''baggage''] \<and>
     (otel_provider g' = otel_provider g \<or> (tr_Enabled cfg \<and> (\<exists>f. r = Inr f) \<and> otel_provider g' = Some cfg))"
  by (auto simp: tracing_New_def Let_def split: if_splits option.splits)

section \<open>The request log\<close>

text \<open>
  The values the middleware gets for a finished request; the error is a recovered panic (with its
  stack), another error, or none.
\<close>

datatype request_error = PanicStack go_error string | OtherError go_error

record request_values =
  rv_RequestID :: string
  rv_RemoteIP :: string
  rv_Method :: string
  rv_URI :: string
  rv_Status :: nat
  rv_ResponseSize :: int
  rv_Latency :: int
  rv_Error :: "request_error option"

record request_entry =
  re_level :: level
  re_error :: "go_error option"
  re_stack :: "string option"
  re_values :: "request_values"
  re_message :: string

definition LogValuesFunc :: "request_values \<Rightarrow> request_entry" where
  "LogValuesFunc v =
     (let level = (case rv_Error v of None \<Rightarrow> InfoLevel | Some _ \<Rightarrow> ErrorLevel);
          (err, stack) = (case rv_Error v of
             Some (PanicStack e st) \<Rightarrow> (Some e, Some st)
           | Some (OtherError e) \<Rightarrow> (Some e, None)
           | None \<Rightarrow> (None, None))
      in \<lparr>re_level = level, re_error = err, re_stack = stack, re_values = v, re_message = ''restapi request''\<rparr>)"

lemma LogValuesFunc_level: "re_level (LogValuesFunc v) = ErrorLevel \<longleftrightarrow> rv_Error v \<noteq> None"
  by (auto simp: LogValuesFunc_def Let_def split: option.splits request_error.splits)

end
