(* ===== verification/Rest_Router.thy ===== *)
theory Rest_Router
  imports Rest_Props Logger
begin

text \<open>
  The outer router of the REST server (\<^verbatim>\<open>src/internal/controller/restapi/router.go\<close>): the global
  middleware in the order it is registered, the operational routes, the metric labels, and the
  version 1 group. Echo's and its companions' middleware and handlers are parameters.
\<close>

section \<open>Labels of the metrics\<close>

definition metrics_host :: "string \<Rightarrow> string" where
  "metrics_host appName = appName"

definition metrics_method :: "string \<Rightarrow> string" where
  "metrics_method m =
     (if m \<in> {''GET'', ''HEAD'', ''POST'', ''PUT'', ''DELETE'', ''CONNECT'', ''OPTIONS'', ''TRACE'', ''PATCH''} then m
      else ''UNKNOWN'')"

section \<open>Routes\<close>

type_synonym 'db handler = "echo_ctx \<Rightarrow> ('db, response outcome) io"

record 'db echo_mw =
  mw_RemoveTrailingSlash :: "'db handler \<Rightarrow> 'db handler"
  mw_RequestID :: "'db handler \<Rightarrow> 'db handler"
  mw_RequestLogger :: "(request_values \<Rightarrow> request_entry) \<Rightarrow> 'db handler \<Rightarrow> 'db handler"
  mw_Recover :: "bool \<Rightarrow> 'db handler \<Rightarrow> 'db handler"
  mw_Prometheus :: "string \<Rightarrow> bool \<Rightarrow> (string \<Rightarrow> string) \<Rightarrow> string \<Rightarrow> 'db handler \<Rightarrow> 'db handler"
  mw_Otel :: "string \<Rightarrow> 'db handler \<Rightarrow> 'db handler"
  h_Metrics :: "'db handler"
  h_Swagger :: "string \<Rightarrow> 'db handler"
  h_Redirect :: "nat \<Rightarrow> string \<Rightarrow> 'db handler"

record router_config =
  rc_AppName :: string
  rc_Metrics :: bool
  rc_Swagger :: bool
  rc_Tracing :: bool

definition healthz :: "'db handler" where
  "healthz c = ret (Returns (NoContent StatusOK))"

text \<open>
  The swagger handler runs under the method GET for a HEAD request, and puts the request back; the
  framework's HEAD wrapper drops the body.
\<close>

definition swagger :: "'db echo_mw \<Rightarrow> string \<Rightarrow> 'db handler" where
  "swagger mw method c = h_Swagger mw (if method = ''HEAD'' then ''GET'' else method) c"

definition operational_routes :: "'db echo_mw \<Rightarrow> router_config \<Rightarrow> ((string \<times> string) \<times> 'db handler) list" where
  "operational_routes mw cfg =
     (if rc_Metrics cfg then [((''GET'', ''/metrics''), h_Metrics mw)] else []) @
     (if rc_Swagger cfg
      then [((''GET'', ''/swagger''), h_Redirect mw 301 ''/swagger/index.html''), ((''GET'', ''/swagger/*''), swagger mw ''GET'')]
      else []) @
     [((''GET'', ''/healthz''), healthz)]"

definition v1_group :: "'db echo_mw \<Rightarrow> router_config \<Rightarrow> 'db handler \<Rightarrow> 'db handler" where
  "v1_group mw cfg h = (if rc_Tracing cfg then mw_Otel mw (rc_AppName cfg) h else h)"

definition NewRouter :: "'db echo_mw \<Rightarrow> router_config \<Rightarrow> 'db V1 \<Rightarrow> jwtlib \<Rightarrow> Manager \<Rightarrow> (string \<times> string) \<rightharpoonup> 'db handler" where
  "NewRouter mw cfg r lib jwtManager =
     (\<lambda>k. case map_of (operational_routes mw cfg) k of
        Some h \<Rightarrow> Some h
      | None \<Rightarrow> map_option (v1_group mw cfg) (NewRoutes r lib jwtManager k))"

text \<open>
  The middleware of every request around the routed handler \<open>h\<close>. What \<open>Pre\<close> registers runs before
  routing, of what \<open>Use\<close> registers the first is the outermost. The flags are \<open>DisableStackAll\<close> and
  \<open>DoNotUseRequestPathFor404\<close>.
\<close>

definition global_middleware :: "'db echo_mw \<Rightarrow> router_config \<Rightarrow> 'db handler \<Rightarrow> 'db handler" where
  "global_middleware mw cfg h =
     mw_RemoveTrailingSlash mw (mw_RequestID mw (mw_RequestLogger mw LogValuesFunc (mw_Recover mw True
       (if rc_Metrics cfg then mw_Prometheus mw ''echo'' True metrics_method (metrics_host (rc_AppName cfg)) h else h))))"

section \<open>Properties\<close>

lemma NewRouter_create:
  "NewRouter mw cfg r lib m (''POST'', ''/v1/tasks'') = Some (v1_group mw cfg (Auth lib m (plain (createTask r))))"
  by (simp add: NewRouter_def operational_routes_def NewRoutes_def public_routes_def protected_routes_def)

text \<open>
  The label a request's method gets in the metrics is one of ten, whatever the client sends, and
  the label of a known method is that method: clients cannot create series.
\<close>

theorem metrics_bounded:
  "card (range metrics_method) = 10 \<and> metrics_method (metrics_method m) = metrics_method m"
proof -
  let ?known = "{''GET'', ''HEAD'', ''POST'', ''PUT'', ''DELETE'', ''CONNECT'', ''OPTIONS'', ''TRACE'', ''PATCH''}"
  have "range metrics_method = insert ''UNKNOWN'' ?known"
  proof
    show "range metrics_method \<subseteq> insert ''UNKNOWN'' ?known" by (auto simp: metrics_method_def)
    have "x \<in> range metrics_method" if "x \<in> insert ''UNKNOWN'' ?known" for x
      by (rule range_eqI [of _ _ x]) (use that in \<open>auto simp: metrics_method_def\<close>)
    then show "insert ''UNKNOWN'' ?known \<subseteq> range metrics_method" by blast
  qed
  then show ?thesis by (simp add: metrics_method_def)
qed

text \<open>
  C40. What a client can reach without a token: of the routes of the whole server, only the health
  check, registration and login, and the metrics and the API description where they are enabled.
  Any other route answers 401 to a request without a valid bearer token and leaves the database
  alone, when the tracing middleware of the group hands the request on.
\<close>

theorem router_open_routes:
  assumes "NewRouter mw cfg r lib m k = Some h"
    and "k \<notin> {(''GET'', ''/healthz''), (''POST'', ''/v1/auth/register''), (''POST'', ''/v1/auth/login'')}"
    and "rc_Metrics cfg \<longrightarrow> k \<noteq> (''GET'', ''/metrics'')"
    and "rc_Swagger cfg \<longrightarrow> k \<notin> {(''GET'', ''/swagger''), (''GET'', ''/swagger/*'')}"
    and otel: "\<And>h c w. val (mw_Otel mw (rc_AppName cfg) h c) w = val (h c) w \<and> wdb (post (mw_Otel mw (rc_AppName cfg) h c) w) = wdb (post (h c) w)"
    and "\<nexists>tok u. bearer lib m c w tok u"
  shows "\<exists>msg. val (h c) w = Returns (JSON 401 (JError msg)) \<and> wdb (post (h c) w) = wdb w"
proof -
  from assms(2-4) have "map_of (operational_routes mw cfg) k = None"
    by (auto simp: operational_routes_def)
  with assms(1) obtain h' where h': "NewRoutes r lib m k = Some h'" "h = v1_group mw cfg h'" by (auto simp: NewRouter_def)
  from assms(2) have k: "k \<notin> {(''POST'', ''/v1/auth/register''), (''POST'', ''/v1/auth/login'')}" by auto
  from protected_route [OF h'(1) k] obtain nxt where "h' = Auth lib m nxt" by blast
  with Auth_refuses [of lib m c w nxt] assms(6) obtain msg
    where "val (h' c) w = Returns (JSON 401 (JError msg))" "wdb (post (h' c) w) = wdb w" by blast
  with otel [of h' c w] h'(2) show ?thesis by (auto simp: v1_group_def)
qed

definition demo_mw :: "mem echo_mw" where
  "demo_mw = \<lparr>mw_RemoveTrailingSlash = id, mw_RequestID = id, mw_RequestLogger = (\<lambda>_ h. h), mw_Recover = (\<lambda>_ h. h),
     mw_Prometheus = (\<lambda>_ _ _ _ h. h), mw_Otel = (\<lambda>_ h. h),
     h_Metrics = healthz, h_Swagger = (\<lambda>_. healthz), h_Redirect = (\<lambda>_ _. healthz)\<rparr>"

lemma router_open_routes_witness:
  "\<exists>msg. val (Auth demo_jwt demo_manager (plain (deleteTask demo_V1)) demo_echo) demo_world = Returns (JSON 401 (JError msg)) \<and>
     wdb (post (Auth demo_jwt demo_manager (plain (deleteTask demo_V1)) demo_echo) demo_world) = wdb demo_world"
  by (rule router_open_routes [of demo_mw "\<lparr>rc_AppName = ''app'', rc_Metrics = True, rc_Swagger = True, rc_Tracing = True\<rparr>" demo_V1
        demo_jwt demo_manager "(''DELETE'', ''/v1/tasks/:id'')"])
     (simp_all add: NewRouter_def operational_routes_def v1_group_def demo_mw_def NewRoutes_def public_routes_def
        protected_routes_def bearer_def demo_echo_def Header_Get_def)

end
