(* ===== verification/Grpc.thy ===== *)
theory Grpc
  imports Task_Usecase User_Usecase Translation_Usecase
begin

text \<open>
  The gRPC controllers (\<^verbatim>\<open>src/internal/controller/grpc\<close>): the authentication interceptor, the
  handlers of the three services, the response messages, and the server that puts them together.
  The messages are those of \<^verbatim>\<open>src/docs/proto/v1\<close>, from which the Go code of the messages is generated.
\<close>

section \<open>Messages\<close>

datatype grpc_request =
    RegisterRequest string string string
  | LoginRequest string string
  | GetProfileRequest
  | CreateTaskRequest string string
  | GetTaskRequest string
  | ListTasksRequest string "32 word" "32 word"
  | UpdateTaskRequest string string string
  | TransitionTaskRequest string string
  | DeleteTaskRequest string
  | GetHistoryRequest
  | TranslateRequest string string string

record TaskResponse =
  pb_Id :: string
  pb_UserId :: string
  pb_Title :: string
  pb_Description :: string
  pb_Status :: string
  pb_CreatedAt :: string
  pb_UpdatedAt :: string

datatype grpc_response =
    RegisterResponse string string string string string
  | LoginResponse string
  | GetProfileResponse string string string string string
  | TaskResponse TaskResponse
  | ListTasksResponse "TaskResponse list" "32 word"
  | DeleteTaskResponse
  | GetHistoryResponse "Translation list"
  | TranslateResponse string string string string

datatype grpc_code = InvalidArgument | NotFound | AlreadyExists | PermissionDenied | Internal | Unauthenticated | Unimplemented

datatype grpc_status = Status grpc_code string

type_synonym 'a grpc_result = "grpc_status + 'a"

section \<open>Formatting times\<close>

text \<open>
  \<open>t.Format("2006-01-02T15:04:05Z")\<close> for a time in UTC: the date of a day count since the epoch in
  the proleptic Gregorian calendar, and decimal fields padded with zeros.
\<close>

fun decimal :: "nat \<Rightarrow> string" where
  "decimal n = (if n < 10 then [char_of (48 + n)] else decimal (n div 10) @ [char_of (48 + n mod 10)])"

declare decimal.simps [simp del]

definition padded :: "nat \<Rightarrow> int \<Rightarrow> string" where
  "padded w n = (let d = decimal (nat \<bar>n\<bar>) in (if n < 0 then ''-'' else []) @ replicate (w - length d) CHR ''0'' @ d)"

definition civil_date :: "int \<Rightarrow> int \<times> int \<times> int" where
  "civil_date days =
     (let z = days + 719468; era = z div 146097; doe = z mod 146097;
          yoe = (doe - doe div 1460 + doe div 36524 - doe div 146096) div 365;
          doy = doe - (365 * yoe + yoe div 4 - yoe div 100);
          mp = (5 * doy + 2) div 153;
          d = doy - (153 * mp + 2) div 5 + 1;
          m = (if mp < 10 then mp + 3 else mp - 9);
          y = yoe + era * 400 + (if m \<le> 2 then 1 else 0)
      in (y, m, d))"

definition time_Format :: "int \<Rightarrow> string" where
  "time_Format t =
     (let s = t div second; (y, m, d) = civil_date (s div 86400); r = s mod 86400 in
      padded 4 y @ ''-'' @ padded 2 m @ ''-'' @ padded 2 d @ ''T'' @
      padded 2 (r div 3600) @ '':'' @ padded 2 (r div 60 mod 60) @ '':'' @ padded 2 (r mod 60) @ ''Z'')"

section \<open>Responses\<close>

definition NewTaskResponse :: "Task \<Rightarrow> TaskResponse" where
  "NewTaskResponse task =
     \<lparr>pb_Id = task_ID task, pb_UserId = task_UserID task, pb_Title = task_Title task,
      pb_Description = task_Description task, pb_Status = task_Status task,
      pb_CreatedAt = time_Format (task_CreatedAt task), pb_UpdatedAt = time_Format (task_UpdatedAt task)\<rparr>"

definition MaxInt32 :: int where
  "MaxInt32 = 2147483647"

definition NewListTasksResponse :: "Task list \<Rightarrow> 64 word \<Rightarrow> grpc_response" where
  "NewListTasksResponse tasks cnt =
     (let pbTasks = map NewTaskResponse tasks;
          cnt = (if sint cnt > MaxInt32 then word_of_int MaxInt32 else cnt)
      in ListTasksResponse pbTasks (word_of_int (sint cnt)))"

definition NewTranslationHistory :: "TranslationHistory \<Rightarrow> grpc_response" where
  "NewTranslationHistory h =
     GetHistoryResponse (map (\<lambda>t. \<lparr>tr_Source = tr_Source t, tr_Destination = tr_Destination t,
       tr_Original = tr_Original t, tr_Translation = tr_Translation t\<rparr>) (History h))"

definition NewRegisterResponse :: "User \<Rightarrow> grpc_response" where
  "NewRegisterResponse user = RegisterResponse (user_ID user) (user_Username user) (user_Email user)
     (time_Format (user_CreatedAt user)) (time_Format (user_UpdatedAt user))"

definition NewGetProfileResponse :: "User \<Rightarrow> grpc_response" where
  "NewGetProfileResponse user = GetProfileResponse (user_ID user) (user_Username user) (user_Email user)
     (time_Format (user_CreatedAt user)) (time_Format (user_UpdatedAt user))"

section \<open>The user service\<close>

definition UserIDFromContext :: "go_ctx \<Rightarrow> string option" where
  "UserIDFromContext ctx = ctx_userID ctx"

definition AuthController_Register ::
  "'db UserUC \<Rightarrow> go_ctx \<Rightarrow> string \<Rightarrow> string \<Rightarrow> string \<Rightarrow> ('db, grpc_response grpc_result) io"
where
  "AuthController_Register u ctx username email password = do {
     res \<leftarrow> UserUC_Register u ctx username email password;
     case res of
       Inl err \<Rightarrow> do {
         log_io (LogError err ''grpc - v1 - Register'');
         if errors_Is err ErrUserAlreadyExists
         then ret (Inl (Status AlreadyExists ''user already exists''))
         else ret (Inl (Status Internal ''internal server error'')) }
     | Inr user \<Rightarrow> ret (Inr (NewRegisterResponse user)) }"

definition AuthController_Login ::
  "'db UserUC \<Rightarrow> go_ctx \<Rightarrow> string \<Rightarrow> string \<Rightarrow> ('db, grpc_response grpc_result) io"
where
  "AuthController_Login u ctx email password = do {
     res \<leftarrow> UserUC_Login u ctx email password;
     case res of
       Inl err \<Rightarrow> do {
         log_io (LogError err ''grpc - v1 - Login'');
         if errors_Is err ErrInvalidCredentials
         then ret (Inl (Status Unauthenticated ''invalid credentials''))
         else ret (Inl (Status Internal ''internal server error'')) }
     | Inr token \<Rightarrow> ret (Inr (LoginResponse token)) }"

definition AuthController_GetProfile :: "'db UserUC \<Rightarrow> go_ctx \<Rightarrow> ('db, grpc_response grpc_result) io" where
  "AuthController_GetProfile u ctx =
     (case UserIDFromContext ctx of
        None \<Rightarrow> ret (Inl (Status Unauthenticated ''unauthorized''))
      | Some userID \<Rightarrow> do {
          res \<leftarrow> UserUC_GetUser u ctx userID;
          case res of
            Inl err \<Rightarrow> do {
              log_io (LogError err ''grpc - v1 - GetProfile'');
              if errors_Is err ErrUserNotFound
              then ret (Inl (Status NotFound ''user not found''))
              else ret (Inl (Status Internal ''internal server error'')) }
          | Inr user \<Rightarrow> ret (Inr (NewGetProfileResponse user)) })"

section \<open>The task service\<close>

definition TaskController_CreateTask ::
  "'db TaskUC \<Rightarrow> go_ctx \<Rightarrow> string \<Rightarrow> string \<Rightarrow> ('db, grpc_response grpc_result) io"
where
  "TaskController_CreateTask tk ctx title description =
     (case UserIDFromContext ctx of
        None \<Rightarrow> ret (Inl (Status Unauthenticated ''unauthorized''))
      | Some userID \<Rightarrow> do {
          res \<leftarrow> TaskUC_Create tk ctx userID title description;
          case res of
            Inl err \<Rightarrow> do {
              log_io (LogError err ''grpc - v1 - CreateTask'');
              ret (Inl (Status Internal ''internal server error'')) }
          | Inr task \<Rightarrow> ret (Inr (TaskResponse (NewTaskResponse task))) })"

definition TaskController_GetTask :: "'db TaskUC \<Rightarrow> go_ctx \<Rightarrow> string \<Rightarrow> ('db, grpc_response grpc_result) io" where
  "TaskController_GetTask tk ctx i =
     (case UserIDFromContext ctx of
        None \<Rightarrow> ret (Inl (Status Unauthenticated ''unauthorized''))
      | Some userID \<Rightarrow> do {
          res \<leftarrow> TaskUC_Get tk ctx userID i;
          case res of
            Inl err \<Rightarrow> do {
              log_io (LogError err ''grpc - v1 - GetTask'');
              if errors_Is err ErrTaskNotFound
              then ret (Inl (Status NotFound ''task not found''))
              else if errors_Is err ErrTaskForbidden
              then ret (Inl (Status PermissionDenied ''forbidden''))
              else ret (Inl (Status Internal ''internal server error'')) }
          | Inr task \<Rightarrow> ret (Inr (TaskResponse (NewTaskResponse task))) })"

text \<open>\<open>int(req.GetLimit())\<close> extends the sign of an \<open>int32\<close>.\<close>

definition int_of_int32 :: "32 word \<Rightarrow> 64 word" where
  "int_of_int32 n = word_of_int (sint n)"

definition TaskController_ListTasks ::
  "'db TaskUC \<Rightarrow> go_ctx \<Rightarrow> string \<Rightarrow> 32 word \<Rightarrow> 32 word \<Rightarrow> ('db, grpc_response grpc_result outcome) io"
where
  "TaskController_ListTasks tk ctx status limit offset =
     (case UserIDFromContext ctx of
        None \<Rightarrow> ret (Returns (Inl (Status Unauthenticated ''unauthorized'')))
      | Some userID \<Rightarrow>
          if status \<noteq> [] \<and> \<not> Valid status
          then ret (Returns (Inl (Status InvalidArgument ''invalid task status'')))
          else do {
            let statusFilter = (if status \<noteq> [] then Some status else None);
            res \<leftarrow> TaskUC_List tk ctx userID statusFilter (int_of_int32 limit) (int_of_int32 offset);
            case res of
              Panics m \<Rightarrow> ret (Panics m)
            | Returns (Inl err) \<Rightarrow> do {
                log_io (LogError err ''grpc - v1 - ListTasks'');
                ret (Returns (Inl (Status Internal ''internal server error''))) }
            | Returns (Inr (tasks, cnt)) \<Rightarrow> ret (Returns (Inr (NewListTasksResponse tasks cnt))) })"

definition TaskController_UpdateTask ::
  "'db TaskUC \<Rightarrow> go_ctx \<Rightarrow> string \<Rightarrow> string \<Rightarrow> string \<Rightarrow> ('db, grpc_response grpc_result) io"
where
  "TaskController_UpdateTask tk ctx i title description =
     (case UserIDFromContext ctx of
        None \<Rightarrow> ret (Inl (Status Unauthenticated ''unauthorized''))
      | Some userID \<Rightarrow> do {
          res \<leftarrow> TaskUC_Update tk ctx userID i title description;
          case res of
            Inl err \<Rightarrow> do {
              log_io (LogError err ''grpc - v1 - UpdateTask'');
              if errors_Is err ErrTaskNotFound
              then ret (Inl (Status NotFound ''task not found''))
              else if errors_Is err ErrTaskForbidden
              then ret (Inl (Status PermissionDenied ''forbidden''))
              else ret (Inl (Status Internal ''internal server error'')) }
          | Inr task \<Rightarrow> ret (Inr (TaskResponse (NewTaskResponse task))) })"

definition TaskController_TransitionTask ::
  "'db TaskUC \<Rightarrow> go_ctx \<Rightarrow> string \<Rightarrow> string \<Rightarrow> ('db, grpc_response grpc_result) io"
where
  "TaskController_TransitionTask tk ctx i status =
     (case UserIDFromContext ctx of
        None \<Rightarrow> ret (Inl (Status Unauthenticated ''unauthorized''))
      | Some userID \<Rightarrow> do {
          res \<leftarrow> TaskUC_Transition tk ctx userID i status;
          case res of
            Inl err \<Rightarrow> do {
              log_io (LogError err ''grpc - v1 - TransitionTask'');
              if errors_Is err ErrTaskNotFound
              then ret (Inl (Status NotFound ''task not found''))
              else if errors_Is err ErrTaskForbidden
              then ret (Inl (Status PermissionDenied ''forbidden''))
              else if errors_Is err ErrInvalidTransition
              then ret (Inl (Status InvalidArgument ''invalid status transition''))
              else ret (Inl (Status Internal ''internal server error'')) }
          | Inr task \<Rightarrow> ret (Inr (TaskResponse (NewTaskResponse task))) })"

definition TaskController_DeleteTask :: "'db TaskUC \<Rightarrow> go_ctx \<Rightarrow> string \<Rightarrow> ('db, grpc_response grpc_result) io" where
  "TaskController_DeleteTask tk ctx i =
     (case UserIDFromContext ctx of
        None \<Rightarrow> ret (Inl (Status Unauthenticated ''unauthorized''))
      | Some userID \<Rightarrow> do {
          res \<leftarrow> TaskUC_Delete tk ctx userID i;
          case res of
            Some err \<Rightarrow> do {
              log_io (LogError err ''grpc - v1 - DeleteTask'');
              if errors_Is err ErrTaskNotFound
              then ret (Inl (Status NotFound ''task not found''))
              else ret (Inl (Status Internal ''internal server error'')) }
          | None \<Rightarrow> ret (Inr DeleteTaskResponse) })"

section \<open>The translation service\<close>

definition TranslationController_GetHistory ::
  "'db TranslationUC \<Rightarrow> go_ctx \<Rightarrow> ('db, grpc_response grpc_result) io"
where
  "TranslationController_GetHistory t ctx =
     (case UserIDFromContext ctx of
        None \<Rightarrow> ret (Inl (Status Unauthenticated ''unauthorized''))
      | Some userID \<Rightarrow> do {
          res \<leftarrow> TranslationUC_History t ctx userID;
          case res of
            Inl err \<Rightarrow> do {
              log_io (LogError err ''grpc - v1 - GetHistory'');
              ret (Inl (Status Internal ''internal server error'')) }
          | Inr h \<Rightarrow> ret (Inr (NewTranslationHistory h)) })"

definition TranslationController_Translate ::
  "'db TranslationUC \<Rightarrow> go_ctx \<Rightarrow> string \<Rightarrow> string \<Rightarrow> string \<Rightarrow> ('db, grpc_response grpc_result) io"
where
  "TranslationController_Translate t ctx source destination original =
     (case UserIDFromContext ctx of
        None \<Rightarrow> ret (Inl (Status Unauthenticated ''unauthorized''))
      | Some userID \<Rightarrow> do {
          res \<leftarrow> TranslationUC_Translate t ctx userID
            \<lparr>tr_Source = source, tr_Destination = destination, tr_Original = original, tr_Translation = []\<rparr>;
          case res of
            Inl err \<Rightarrow> do {
              log_io (LogError err ''grpc - v1 - Translate'');
              ret (Inl (Status Internal ''translation service problems'')) }
          | Inr x \<Rightarrow>
              ret (Inr (TranslateResponse (tr_Source x) (tr_Destination x) (tr_Original x) (tr_Translation x))) })"

section \<open>The interceptor and the server\<close>

definition skipAuthMethods :: "string \<Rightarrow> bool" where
  "skipAuthMethods m \<longleftrightarrow> m = ''/grpc.v1.AuthService/Register'' \<or> m = ''/grpc.v1.AuthService/Login''"

text \<open>\<open>md\<close> is what \<open>metadata.FromIncomingContext\<close> finds.\<close>

definition AuthInterceptor ::
  "jwtlib \<Rightarrow> Manager \<Rightarrow> go_ctx \<Rightarrow> (string \<Rightarrow> string list) option \<Rightarrow> string \<Rightarrow>
   (go_ctx \<Rightarrow> ('db, 'a grpc_result outcome) io) \<Rightarrow> ('db, 'a grpc_result outcome) io"
where
  "AuthInterceptor lib jwtManager ctx md fullMethod handler =
     (if skipAuthMethods fullMethod then handler ctx
      else case md of
        None \<Rightarrow> ret (Returns (Inl (Status Unauthenticated ''missing metadata'')))
      | Some get \<Rightarrow>
          (case get ''authorization'' of
             [] \<Rightarrow> ret (Returns (Inl (Status Unauthenticated ''missing authorization token'')))
           | v # _ \<Rightarrow> do {
               res \<leftarrow> ParseToken lib jwtManager v;
               case res of
                 Inl err \<Rightarrow> ret (Returns (Inl (Status Unauthenticated ''invalid or expired token'')))
               | Inr userID \<Rightarrow> handler (ctx\<lparr>ctx_userID := Some userID\<rparr>) }))"

record 'db grpc_server =
  srv_u :: "'db UserUC"
  srv_tk :: "'db TaskUC"
  srv_t :: "'db TranslationUC"

fun full_method :: "grpc_request \<Rightarrow> string" where
  "full_method (RegisterRequest _ _ _) = ''/grpc.v1.AuthService/Register''"
| "full_method (LoginRequest _ _) = ''/grpc.v1.AuthService/Login''"
| "full_method GetProfileRequest = ''/grpc.v1.AuthService/GetProfile''"
| "full_method (CreateTaskRequest _ _) = ''/grpc.v1.TaskService/CreateTask''"
| "full_method (GetTaskRequest _) = ''/grpc.v1.TaskService/GetTask''"
| "full_method (ListTasksRequest _ _ _) = ''/grpc.v1.TaskService/ListTasks''"
| "full_method (UpdateTaskRequest _ _ _) = ''/grpc.v1.TaskService/UpdateTask''"
| "full_method (TransitionTaskRequest _ _) = ''/grpc.v1.TaskService/TransitionTask''"
| "full_method (DeleteTaskRequest _) = ''/grpc.v1.TaskService/DeleteTask''"
| "full_method GetHistoryRequest = ''/grpc.v1.Translation/GetHistory''"
| "full_method (TranslateRequest _ _ _) = ''/grpc.v1.Translation/Translate''"

definition unary :: "('db, 'a) io \<Rightarrow> ('db, 'a outcome) io" where
  "unary m = do { r \<leftarrow> m; ret (Returns r) }"

text \<open>\<open>NewRouter\<close> registers the three controllers: a request goes to the handler of its method.\<close>

fun grpc_handler :: "'db grpc_server \<Rightarrow> grpc_request \<Rightarrow> go_ctx \<Rightarrow> ('db, grpc_response grpc_result outcome) io" where
  "grpc_handler s (RegisterRequest a b c) ctx = unary (AuthController_Register (srv_u s) ctx a b c)"
| "grpc_handler s (LoginRequest a b) ctx = unary (AuthController_Login (srv_u s) ctx a b)"
| "grpc_handler s GetProfileRequest ctx = unary (AuthController_GetProfile (srv_u s) ctx)"
| "grpc_handler s (CreateTaskRequest a b) ctx = unary (TaskController_CreateTask (srv_tk s) ctx a b)"
| "grpc_handler s (GetTaskRequest i) ctx = unary (TaskController_GetTask (srv_tk s) ctx i)"
| "grpc_handler s (ListTasksRequest st l off) ctx = TaskController_ListTasks (srv_tk s) ctx st l off"
| "grpc_handler s (UpdateTaskRequest i a b) ctx = unary (TaskController_UpdateTask (srv_tk s) ctx i a b)"
| "grpc_handler s (TransitionTaskRequest i st) ctx = unary (TaskController_TransitionTask (srv_tk s) ctx i st)"
| "grpc_handler s (DeleteTaskRequest i) ctx = unary (TaskController_DeleteTask (srv_tk s) ctx i)"
| "grpc_handler s GetHistoryRequest ctx = unary (TranslationController_GetHistory (srv_t s) ctx)"
| "grpc_handler s (TranslateRequest a b c) ctx = unary (TranslationController_Translate (srv_t s) ctx a b c)"

definition grpc_serve ::
  "jwtlib \<Rightarrow> Manager \<Rightarrow> 'db grpc_server \<Rightarrow> go_ctx \<Rightarrow> (string \<Rightarrow> string list) option \<Rightarrow> grpc_request \<Rightarrow>
   ('db, grpc_response grpc_result outcome) io"
where
  "grpc_serve lib m s ctx md req = AuthInterceptor lib m ctx md (full_method req) (grpc_handler s req)"

end
