(* ===== verification/Amqp_Rpc.thy ===== *)
theory Amqp_Rpc
  imports Rpc_Types
begin

text \<open>
  The RabbitMQ RPC controllers (\<^verbatim>\<open>src/internal/controller/amqp_rpc\<close>): the envelope that carries
  the token, a handler per routing key, and the route table. A handler returns the value to
  marshal or an error; only the listing of tasks can panic.
\<close>

section \<open>Authentication\<close>

definition amqp_extractUserID ::
  "json_lib \<Rightarrow> jwtlib \<Rightarrow> Manager \<Rightarrow> string \<Rightarrow> ('db, (string \<times> string) result) io"
where
  "amqp_extractUserID js lib jwtManager body =
     (case Unmarshal_envelope js body of
        Inl err \<Rightarrow> ret (Inl (Errorf ''invalid request format: '' err))
      | Inr (token, data) \<Rightarrow> do {
          res \<leftarrow> ParseToken lib jwtManager token;
          case res of
            Inl err \<Rightarrow> ret (Inl (Errorf ''invalid or expired token: '' err))
          | Inr userID \<Rightarrow> ret (Inr (userID, data)) })"

section \<open>Users\<close>

definition amqp_register :: "'db rpc_V1 \<Rightarrow> go_ctx \<Rightarrow> string \<Rightarrow> ('db, rpc_value result) io" where
  "amqp_register r ctx body =
     (case Unmarshal (rpc_json r) body (map fst rpc_Register_tags) of
        Inl err \<Rightarrow> do {
          log_io (LogError err ''amqp_rpc - V1 - register'');
          ret (Inl (Errorf ''amqp_rpc - V1 - register - json.Unmarshal: '' err)) }
      | Inr req \<Rightarrow>
          (case rpc_Struct r rpc_Register_tags req of
             Some err \<Rightarrow> ret (Inl (Errorf ''amqp_rpc - V1 - register - validation: '' err))
           | None \<Rightarrow> do {
               res \<leftarrow> UserUC_Register (rpc_u r) ctx (req ''username'') (req ''email'') (req ''password'');
               case res of
                 Inl err \<Rightarrow> do {
                   log_io (LogError err ''amqp_rpc - V1 - register'');
                   ret (Inl (Errorf ''amqp_rpc - V1 - register: '' err)) }
               | Inr user \<Rightarrow> ret (Inr (RUser user)) }))"

definition amqp_login :: "'db rpc_V1 \<Rightarrow> go_ctx \<Rightarrow> string \<Rightarrow> ('db, rpc_value result) io" where
  "amqp_login r ctx body =
     (case Unmarshal (rpc_json r) body (map fst rpc_Login_tags) of
        Inl err \<Rightarrow> do {
          log_io (LogError err ''amqp_rpc - V1 - login'');
          ret (Inl (Errorf ''amqp_rpc - V1 - login - json.Unmarshal: '' err)) }
      | Inr req \<Rightarrow>
          (case rpc_Struct r rpc_Login_tags req of
             Some err \<Rightarrow> ret (Inl (Errorf ''amqp_rpc - V1 - login - validation: '' err))
           | None \<Rightarrow> do {
               res \<leftarrow> UserUC_Login (rpc_u r) ctx (req ''email'') (req ''password'');
               case res of
                 Inl err \<Rightarrow> do {
                   log_io (LogError err ''amqp_rpc - V1 - login'');
                   ret (Inl (Errorf ''amqp_rpc - V1 - login: '' err)) }
               | Inr token \<Rightarrow> ret (Inr (RToken token)) }))"

section \<open>Translations\<close>

definition amqp_getHistory :: "'db rpc_V1 \<Rightarrow> go_ctx \<Rightarrow> string \<Rightarrow> ('db, rpc_value result) io" where
  "amqp_getHistory r ctx body = do {
     auth \<leftarrow> amqp_extractUserID (rpc_json r) (rpc_jwtlib r) (rpc_j r) body;
     case auth of
       Inl err \<Rightarrow> ret (Inl (Errorf ''amqp_rpc - V1 - getHistory - auth: '' err))
     | Inr (userID, _) \<Rightarrow> do {
         res \<leftarrow> TranslationUC_History (rpc_t r) ctx userID;
         case res of
           Inl err \<Rightarrow> do {
             log_io (LogError err ''amqp_rpc - V1 - getHistory'');
             ret (Inl (Errorf ''amqp_rpc - V1 - getHistory: '' err)) }
         | Inr h \<Rightarrow> ret (Inr (RHistory h)) } }"

definition amqp_translate :: "'db rpc_V1 \<Rightarrow> go_ctx \<Rightarrow> string \<Rightarrow> ('db, rpc_value result) io" where
  "amqp_translate r ctx body = do {
     auth \<leftarrow> amqp_extractUserID (rpc_json r) (rpc_jwtlib r) (rpc_j r) body;
     case auth of
       Inl err \<Rightarrow> ret (Inl (Errorf ''amqp_rpc - V1 - translate - auth: '' err))
     | Inr (userID, data) \<Rightarrow>
         (case Unmarshal (rpc_json r) data (map fst rpc_Translate_tags) of
            Inl err \<Rightarrow> ret (Inl (Errorf ''amqp_rpc - V1 - translate - json.Unmarshal: '' err))
          | Inr req \<Rightarrow>
              (case rpc_Struct r rpc_Translate_tags req of
                 Some err \<Rightarrow> ret (Inl (Errorf ''amqp_rpc - V1 - translate - validation: '' err))
               | None \<Rightarrow> do {
                   res \<leftarrow> TranslationUC_Translate (rpc_t r) ctx userID
                     \<lparr>tr_Source = req ''source'', tr_Destination = req ''destination'',
                      tr_Original = req ''original'', tr_Translation = []\<rparr>;
                   case res of
                     Inl err \<Rightarrow> do {
                       log_io (LogError err ''amqp_rpc - V1 - translate'');
                       ret (Inl (Errorf ''amqp_rpc - V1 - translate: '' err)) }
                   | Inr x \<Rightarrow> ret (Inr (RTranslation x)) })) }"

section \<open>Tasks\<close>

definition amqp_createTask :: "'db rpc_V1 \<Rightarrow> go_ctx \<Rightarrow> string \<Rightarrow> ('db, rpc_value result) io" where
  "amqp_createTask r ctx body = do {
     auth \<leftarrow> amqp_extractUserID (rpc_json r) (rpc_jwtlib r) (rpc_j r) body;
     case auth of
       Inl err \<Rightarrow> ret (Inl (Errorf ''amqp_rpc - V1 - createTask - auth: '' err))
     | Inr (userID, data) \<Rightarrow>
         (case Unmarshal (rpc_json r) data (map fst rpc_CreateTask_tags) of
            Inl err \<Rightarrow> ret (Inl (Errorf ''amqp_rpc - V1 - createTask - json.Unmarshal: '' err))
          | Inr req \<Rightarrow>
              (case rpc_Struct r rpc_CreateTask_tags req of
                 Some err \<Rightarrow> ret (Inl (Errorf ''amqp_rpc - V1 - createTask - validation: '' err))
               | None \<Rightarrow> do {
                   res \<leftarrow> TaskUC_Create (rpc_tk r) ctx userID (req ''title'') (req ''description'');
                   case res of
                     Inl err \<Rightarrow> do {
                       log_io (LogError err ''amqp_rpc - V1 - createTask'');
                       ret (Inl (Errorf ''amqp_rpc - V1 - createTask: '' err)) }
                   | Inr task \<Rightarrow> ret (Inr (RTask task)) })) }"

definition amqp_getTask :: "'db rpc_V1 \<Rightarrow> go_ctx \<Rightarrow> string \<Rightarrow> ('db, rpc_value result) io" where
  "amqp_getTask r ctx body = do {
     auth \<leftarrow> amqp_extractUserID (rpc_json r) (rpc_jwtlib r) (rpc_j r) body;
     case auth of
       Inl err \<Rightarrow> ret (Inl (Errorf ''amqp_rpc - V1 - getTask - auth: '' err))
     | Inr (userID, data) \<Rightarrow>
         (case Unmarshal (rpc_json r) data (map fst rpc_GetTask_tags) of
            Inl err \<Rightarrow> ret (Inl (Errorf ''amqp_rpc - V1 - getTask - json.Unmarshal: '' err))
          | Inr req \<Rightarrow>
              (case rpc_Struct r rpc_GetTask_tags req of
                 Some err \<Rightarrow> ret (Inl (Errorf ''amqp_rpc - V1 - getTask - validation: '' err))
               | None \<Rightarrow> do {
                   res \<leftarrow> TaskUC_Get (rpc_tk r) ctx userID (req ''id'');
                   case res of
                     Inl err \<Rightarrow> do {
                       log_io (LogError err ''amqp_rpc - V1 - getTask'');
                       ret (Inl (Errorf ''amqp_rpc - V1 - getTask: '' err)) }
                   | Inr task \<Rightarrow> ret (Inr (RTask task)) })) }"

definition amqp_listTasks :: "'db rpc_V1 \<Rightarrow> go_ctx \<Rightarrow> string \<Rightarrow> ('db, rpc_value result outcome) io" where
  "amqp_listTasks r ctx body = do {
     auth \<leftarrow> amqp_extractUserID (rpc_json r) (rpc_jwtlib r) (rpc_j r) body;
     case auth of
       Inl err \<Rightarrow> ret (Returns (Inl (Errorf ''amqp_rpc - V1 - listTasks - auth: '' err)))
     | Inr (userID, data) \<Rightarrow>
         (case Unmarshal_ListTasks (rpc_json r) data of
            Inl err \<Rightarrow> ret (Returns (Inl (Errorf ''amqp_rpc - V1 - listTasks - json.Unmarshal: '' err)))
          | Inr (st, limit, offset) \<Rightarrow>
              (case rpc_Struct r rpc_ListTasks_tags (\<lambda>_. st) of
                 Some err \<Rightarrow> ret (Returns (Inl (Errorf ''amqp_rpc - V1 - listTasks - validation: '' err)))
               | None \<Rightarrow> do {
                   let status = (if st \<noteq> [] then Some st else None);
                   res \<leftarrow> TaskUC_List (rpc_tk r) ctx userID status limit offset;
                   case res of
                     Panics m \<Rightarrow> ret (Panics m)
                   | Returns (Inl err) \<Rightarrow> do {
                       log_io (LogError err ''amqp_rpc - V1 - listTasks'');
                       ret (Returns (Inl (Errorf ''amqp_rpc - V1 - listTasks: '' err))) }
                   | Returns (Inr (tasks, cnt)) \<Rightarrow> ret (Returns (Inr (RTaskList tasks cnt))) })) }"

definition amqp_updateTask :: "'db rpc_V1 \<Rightarrow> go_ctx \<Rightarrow> string \<Rightarrow> ('db, rpc_value result) io" where
  "amqp_updateTask r ctx body = do {
     auth \<leftarrow> amqp_extractUserID (rpc_json r) (rpc_jwtlib r) (rpc_j r) body;
     case auth of
       Inl err \<Rightarrow> ret (Inl (Errorf ''amqp_rpc - V1 - updateTask - auth: '' err))
     | Inr (userID, data) \<Rightarrow>
         (case Unmarshal (rpc_json r) data (map fst rpc_UpdateTask_tags) of
            Inl err \<Rightarrow> ret (Inl (Errorf ''amqp_rpc - V1 - updateTask - json.Unmarshal: '' err))
          | Inr req \<Rightarrow>
              (case rpc_Struct r rpc_UpdateTask_tags req of
                 Some err \<Rightarrow> ret (Inl (Errorf ''amqp_rpc - V1 - updateTask - validation: '' err))
               | None \<Rightarrow> do {
                   res \<leftarrow> TaskUC_Update (rpc_tk r) ctx userID (req ''id'') (req ''title'') (req ''description'');
                   case res of
                     Inl err \<Rightarrow> do {
                       log_io (LogError err ''amqp_rpc - V1 - updateTask'');
                       ret (Inl (Errorf ''amqp_rpc - V1 - updateTask: '' err)) }
                   | Inr task \<Rightarrow> ret (Inr (RTask task)) })) }"

definition amqp_transitionTask :: "'db rpc_V1 \<Rightarrow> go_ctx \<Rightarrow> string \<Rightarrow> ('db, rpc_value result) io" where
  "amqp_transitionTask r ctx body = do {
     auth \<leftarrow> amqp_extractUserID (rpc_json r) (rpc_jwtlib r) (rpc_j r) body;
     case auth of
       Inl err \<Rightarrow> ret (Inl (Errorf ''amqp_rpc - V1 - transitionTask - auth: '' err))
     | Inr (userID, data) \<Rightarrow>
         (case Unmarshal (rpc_json r) data (map fst rpc_TransitionTask_tags) of
            Inl err \<Rightarrow> ret (Inl (Errorf ''amqp_rpc - V1 - transitionTask - json.Unmarshal: '' err))
          | Inr req \<Rightarrow>
              (case rpc_Struct r rpc_TransitionTask_tags req of
                 Some err \<Rightarrow> ret (Inl (Errorf ''amqp_rpc - V1 - transitionTask - validation: '' err))
               | None \<Rightarrow> do {
                   res \<leftarrow> TaskUC_Transition (rpc_tk r) ctx userID (req ''id'') (req ''status'');
                   case res of
                     Inl err \<Rightarrow> do {
                       log_io (LogError err ''amqp_rpc - V1 - transitionTask'');
                       ret (Inl (Errorf ''amqp_rpc - V1 - transitionTask: '' err)) }
                   | Inr task \<Rightarrow> ret (Inr (RTask task)) })) }"

definition amqp_deleteTask :: "'db rpc_V1 \<Rightarrow> go_ctx \<Rightarrow> string \<Rightarrow> ('db, rpc_value result) io" where
  "amqp_deleteTask r ctx body = do {
     auth \<leftarrow> amqp_extractUserID (rpc_json r) (rpc_jwtlib r) (rpc_j r) body;
     case auth of
       Inl err \<Rightarrow> ret (Inl (Errorf ''amqp_rpc - V1 - deleteTask - auth: '' err))
     | Inr (userID, data) \<Rightarrow>
         (case Unmarshal (rpc_json r) data (map fst rpc_DeleteTask_tags) of
            Inl err \<Rightarrow> ret (Inl (Errorf ''amqp_rpc - V1 - deleteTask - json.Unmarshal: '' err))
          | Inr req \<Rightarrow>
              (case rpc_Struct r rpc_DeleteTask_tags req of
                 Some err \<Rightarrow> ret (Inl (Errorf ''amqp_rpc - V1 - deleteTask - validation: '' err))
               | None \<Rightarrow> do {
                   res \<leftarrow> TaskUC_Delete (rpc_tk r) ctx userID (req ''id'');
                   case res of
                     Some err \<Rightarrow> do {
                       log_io (LogError err ''amqp_rpc - V1 - deleteTask'');
                       ret (Inl (Errorf ''amqp_rpc - V1 - deleteTask: '' err)) }
                   | None \<Rightarrow> ret (Inr (RDeleteStatus ''deleted'')) })) }"

section \<open>The routes\<close>

definition amqp_NewRoutes :: "(string \<rightharpoonup> 'db CallHandler) \<Rightarrow> 'db rpc_V1 \<Rightarrow> string \<rightharpoonup> 'db CallHandler" where
  "amqp_NewRoutes routes r = routes(
      ''v1.auth.register'' \<mapsto> simple (amqp_register r),
      ''v1.auth.login'' \<mapsto> simple (amqp_login r),
      ''v1.translation.getHistory'' \<mapsto> simple (amqp_getHistory r),
      ''v1.translation.translate'' \<mapsto> simple (amqp_translate r),
      ''v1.task.create'' \<mapsto> simple (amqp_createTask r),
      ''v1.task.get'' \<mapsto> simple (amqp_getTask r),
      ''v1.task.list'' \<mapsto> amqp_listTasks r,
      ''v1.task.update'' \<mapsto> simple (amqp_updateTask r),
      ''v1.task.transition'' \<mapsto> simple (amqp_transitionTask r),
      ''v1.task.delete'' \<mapsto> simple (amqp_deleteTask r))"

definition amqp_NewRouter :: "'db rpc_V1 \<Rightarrow> string \<rightharpoonup> 'db CallHandler" where
  "amqp_NewRouter r = amqp_NewRoutes Map.empty r"

end
