(* ===== verification/Nats_Rpc.thy ===== *)
theory Nats_Rpc
  imports Rpc_Types
begin

text \<open>
  The NATS RPC controllers (\<^verbatim>\<open>src/internal/controller/nats_rpc\<close>): the envelope that carries
  the token, a handler per subject, and the route table. A handler returns the value to
  marshal or an error; only the listing of tasks can panic.
\<close>

section \<open>The request structures\<close>

definition nats_Register_tags :: "(string \<times> string) list" where
  "nats_Register_tags = [(''username'', ''required,min=3,max=255''), (''email'', ''required,email''),
     (''password'', ''required,min=6'')]"

definition nats_Login_tags :: "(string \<times> string) list" where
  "nats_Login_tags = [(''email'', ''required,email''), (''password'', ''required'')]"

definition nats_Translate_tags :: "(string \<times> string) list" where
  "nats_Translate_tags = [(''source'', ''required''), (''destination'', ''required''), (''original'', ''required'')]"

definition nats_CreateTask_tags :: "(string \<times> string) list" where
  "nats_CreateTask_tags = [(''title'', ''required,max=255''), (''description'', ''max=1000'')]"

definition nats_GetTask_tags :: "(string \<times> string) list" where
  "nats_GetTask_tags = [(''id'', ''required'')]"

definition nats_ListTasks_tags :: "(string \<times> string) list" where
  "nats_ListTasks_tags = [(''status'', ''omitempty,oneof=todo in_progress done'')]"

definition nats_UpdateTask_tags :: "(string \<times> string) list" where
  "nats_UpdateTask_tags = [(''id'', ''required''), (''title'', ''required,max=255''), (''description'', ''max=1000'')]"

definition nats_TransitionTask_tags :: "(string \<times> string) list" where
  "nats_TransitionTask_tags = [(''id'', ''required''), (''status'', ''required,oneof=todo in_progress done'')]"

definition nats_DeleteTask_tags :: "(string \<times> string) list" where
  "nats_DeleteTask_tags = [(''id'', ''required'')]"

section \<open>Authentication\<close>

definition nats_extractUserID ::
  "json_lib \<Rightarrow> jwtlib \<Rightarrow> Manager \<Rightarrow> string \<Rightarrow> ('db, (string \<times> string) result) io"
where
  "nats_extractUserID js lib jwtManager body =
     (case Unmarshal_envelope js body of
        Inl err \<Rightarrow> ret (Inl (Errorf ''invalid request format: '' err))
      | Inr (token, data) \<Rightarrow> do {
          res \<leftarrow> ParseToken lib jwtManager token;
          case res of
            Inl err \<Rightarrow> ret (Inl (Errorf ''invalid or expired token: '' err))
          | Inr userID \<Rightarrow> ret (Inr (userID, data)) })"

section \<open>Users\<close>

definition nats_register :: "'db rpc_V1 \<Rightarrow> go_ctx \<Rightarrow> string \<Rightarrow> ('db, rpc_value result) io" where
  "nats_register r ctx body =
     (case Unmarshal (rpc_json r) body (map fst nats_Register_tags) of
        Inl err \<Rightarrow> do {
          log_io (LogError err ''nats_rpc - V1 - register'');
          ret (Inl (Errorf ''nats_rpc - V1 - register - json.Unmarshal: '' err)) }
      | Inr req \<Rightarrow>
          (case rpc_Struct r nats_Register_tags req of
             Some err \<Rightarrow> ret (Inl (Errorf ''nats_rpc - V1 - register - validation: '' err))
           | None \<Rightarrow> do {
               res \<leftarrow> UserUC_Register (rpc_u r) ctx (req ''username'') (req ''email'') (req ''password'');
               case res of
                 Inl err \<Rightarrow> do {
                   log_io (LogError err ''nats_rpc - V1 - register'');
                   ret (Inl (Errorf ''nats_rpc - V1 - register: '' err)) }
               | Inr user \<Rightarrow> ret (Inr (RUser user)) }))"

definition nats_login :: "'db rpc_V1 \<Rightarrow> go_ctx \<Rightarrow> string \<Rightarrow> ('db, rpc_value result) io" where
  "nats_login r ctx body =
     (case Unmarshal (rpc_json r) body (map fst nats_Login_tags) of
        Inl err \<Rightarrow> do {
          log_io (LogError err ''nats_rpc - V1 - login'');
          ret (Inl (Errorf ''nats_rpc - V1 - login - json.Unmarshal: '' err)) }
      | Inr req \<Rightarrow>
          (case rpc_Struct r nats_Login_tags req of
             Some err \<Rightarrow> ret (Inl (Errorf ''nats_rpc - V1 - login - validation: '' err))
           | None \<Rightarrow> do {
               res \<leftarrow> UserUC_Login (rpc_u r) ctx (req ''email'') (req ''password'');
               case res of
                 Inl err \<Rightarrow> do {
                   log_io (LogError err ''nats_rpc - V1 - login'');
                   ret (Inl (Errorf ''nats_rpc - V1 - login: '' err)) }
               | Inr token \<Rightarrow> ret (Inr (RToken token)) }))"

section \<open>Translations\<close>

definition nats_getHistory :: "'db rpc_V1 \<Rightarrow> go_ctx \<Rightarrow> string \<Rightarrow> ('db, rpc_value result) io" where
  "nats_getHistory r ctx body = do {
     auth \<leftarrow> nats_extractUserID (rpc_json r) (rpc_jwtlib r) (rpc_j r) body;
     case auth of
       Inl err \<Rightarrow> ret (Inl (Errorf ''nats_rpc - V1 - getHistory - auth: '' err))
     | Inr (userID, _) \<Rightarrow> do {
         res \<leftarrow> TranslationUC_History (rpc_t r) ctx userID;
         case res of
           Inl err \<Rightarrow> do {
             log_io (LogError err ''nats_rpc - V1 - getHistory'');
             ret (Inl (Errorf ''nats_rpc - V1 - getHistory: '' err)) }
         | Inr h \<Rightarrow> ret (Inr (RHistory h)) } }"

definition nats_translate :: "'db rpc_V1 \<Rightarrow> go_ctx \<Rightarrow> string \<Rightarrow> ('db, rpc_value result) io" where
  "nats_translate r ctx body = do {
     auth \<leftarrow> nats_extractUserID (rpc_json r) (rpc_jwtlib r) (rpc_j r) body;
     case auth of
       Inl err \<Rightarrow> ret (Inl (Errorf ''nats_rpc - V1 - translate - auth: '' err))
     | Inr (userID, data) \<Rightarrow>
         (case Unmarshal (rpc_json r) data (map fst nats_Translate_tags) of
            Inl err \<Rightarrow> ret (Inl (Errorf ''nats_rpc - V1 - translate - json.Unmarshal: '' err))
          | Inr req \<Rightarrow>
              (case rpc_Struct r nats_Translate_tags req of
                 Some err \<Rightarrow> ret (Inl (Errorf ''nats_rpc - V1 - translate - validation: '' err))
               | None \<Rightarrow> do {
                   res \<leftarrow> TranslationUC_Translate (rpc_t r) ctx userID
                     \<lparr>tr_Source = req ''source'', tr_Destination = req ''destination'',
                      tr_Original = req ''original'', tr_Translation = []\<rparr>;
                   case res of
                     Inl err \<Rightarrow> do {
                       log_io (LogError err ''nats_rpc - V1 - translate'');
                       ret (Inl (Errorf ''nats_rpc - V1 - translate: '' err)) }
                   | Inr x \<Rightarrow> ret (Inr (RTranslation x)) })) }"

section \<open>Tasks\<close>

definition nats_createTask :: "'db rpc_V1 \<Rightarrow> go_ctx \<Rightarrow> string \<Rightarrow> ('db, rpc_value result) io" where
  "nats_createTask r ctx body = do {
     auth \<leftarrow> nats_extractUserID (rpc_json r) (rpc_jwtlib r) (rpc_j r) body;
     case auth of
       Inl err \<Rightarrow> ret (Inl (Errorf ''nats_rpc - V1 - createTask - auth: '' err))
     | Inr (userID, data) \<Rightarrow>
         (case Unmarshal (rpc_json r) data (map fst nats_CreateTask_tags) of
            Inl err \<Rightarrow> ret (Inl (Errorf ''nats_rpc - V1 - createTask - json.Unmarshal: '' err))
          | Inr req \<Rightarrow>
              (case rpc_Struct r nats_CreateTask_tags req of
                 Some err \<Rightarrow> ret (Inl (Errorf ''nats_rpc - V1 - createTask - validation: '' err))
               | None \<Rightarrow> do {
                   res \<leftarrow> TaskUC_Create (rpc_tk r) ctx userID (req ''title'') (req ''description'');
                   case res of
                     Inl err \<Rightarrow> do {
                       log_io (LogError err ''nats_rpc - V1 - createTask'');
                       ret (Inl (Errorf ''nats_rpc - V1 - createTask: '' err)) }
                   | Inr task \<Rightarrow> ret (Inr (RTask task)) })) }"

definition nats_getTask :: "'db rpc_V1 \<Rightarrow> go_ctx \<Rightarrow> string \<Rightarrow> ('db, rpc_value result) io" where
  "nats_getTask r ctx body = do {
     auth \<leftarrow> nats_extractUserID (rpc_json r) (rpc_jwtlib r) (rpc_j r) body;
     case auth of
       Inl err \<Rightarrow> ret (Inl (Errorf ''nats_rpc - V1 - getTask - auth: '' err))
     | Inr (userID, data) \<Rightarrow>
         (case Unmarshal (rpc_json r) data (map fst nats_GetTask_tags) of
            Inl err \<Rightarrow> ret (Inl (Errorf ''nats_rpc - V1 - getTask - json.Unmarshal: '' err))
          | Inr req \<Rightarrow>
              (case rpc_Struct r nats_GetTask_tags req of
                 Some err \<Rightarrow> ret (Inl (Errorf ''nats_rpc - V1 - getTask - validation: '' err))
               | None \<Rightarrow> do {
                   res \<leftarrow> TaskUC_Get (rpc_tk r) ctx userID (req ''id'');
                   case res of
                     Inl err \<Rightarrow> do {
                       log_io (LogError err ''nats_rpc - V1 - getTask'');
                       ret (Inl (Errorf ''nats_rpc - V1 - getTask: '' err)) }
                   | Inr task \<Rightarrow> ret (Inr (RTask task)) })) }"

definition nats_listTasks :: "'db rpc_V1 \<Rightarrow> go_ctx \<Rightarrow> string \<Rightarrow> ('db, rpc_value result outcome) io" where
  "nats_listTasks r ctx body = do {
     auth \<leftarrow> nats_extractUserID (rpc_json r) (rpc_jwtlib r) (rpc_j r) body;
     case auth of
       Inl err \<Rightarrow> ret (Returns (Inl (Errorf ''nats_rpc - V1 - listTasks - auth: '' err)))
     | Inr (userID, data) \<Rightarrow>
         (case Unmarshal_ListTasks (rpc_json r) data of
            Inl err \<Rightarrow> ret (Returns (Inl (Errorf ''nats_rpc - V1 - listTasks - json.Unmarshal: '' err)))
          | Inr (st, limit, offset) \<Rightarrow>
              (case rpc_Struct r nats_ListTasks_tags (\<lambda>_. st) of
                 Some err \<Rightarrow> ret (Returns (Inl (Errorf ''nats_rpc - V1 - listTasks - validation: '' err)))
               | None \<Rightarrow> do {
                   let status = (if st \<noteq> [] then Some st else None);
                   res \<leftarrow> TaskUC_List (rpc_tk r) ctx userID status limit offset;
                   case res of
                     Panics m \<Rightarrow> ret (Panics m)
                   | Returns (Inl err) \<Rightarrow> do {
                       log_io (LogError err ''nats_rpc - V1 - listTasks'');
                       ret (Returns (Inl (Errorf ''nats_rpc - V1 - listTasks: '' err))) }
                   | Returns (Inr (tasks, cnt)) \<Rightarrow> ret (Returns (Inr (RTaskList tasks cnt))) })) }"

definition nats_updateTask :: "'db rpc_V1 \<Rightarrow> go_ctx \<Rightarrow> string \<Rightarrow> ('db, rpc_value result) io" where
  "nats_updateTask r ctx body = do {
     auth \<leftarrow> nats_extractUserID (rpc_json r) (rpc_jwtlib r) (rpc_j r) body;
     case auth of
       Inl err \<Rightarrow> ret (Inl (Errorf ''nats_rpc - V1 - updateTask - auth: '' err))
     | Inr (userID, data) \<Rightarrow>
         (case Unmarshal (rpc_json r) data (map fst nats_UpdateTask_tags) of
            Inl err \<Rightarrow> ret (Inl (Errorf ''nats_rpc - V1 - updateTask - json.Unmarshal: '' err))
          | Inr req \<Rightarrow>
              (case rpc_Struct r nats_UpdateTask_tags req of
                 Some err \<Rightarrow> ret (Inl (Errorf ''nats_rpc - V1 - updateTask - validation: '' err))
               | None \<Rightarrow> do {
                   res \<leftarrow> TaskUC_Update (rpc_tk r) ctx userID (req ''id'') (req ''title'') (req ''description'');
                   case res of
                     Inl err \<Rightarrow> do {
                       log_io (LogError err ''nats_rpc - V1 - updateTask'');
                       ret (Inl (Errorf ''nats_rpc - V1 - updateTask: '' err)) }
                   | Inr task \<Rightarrow> ret (Inr (RTask task)) })) }"

definition nats_transitionTask :: "'db rpc_V1 \<Rightarrow> go_ctx \<Rightarrow> string \<Rightarrow> ('db, rpc_value result) io" where
  "nats_transitionTask r ctx body = do {
     auth \<leftarrow> nats_extractUserID (rpc_json r) (rpc_jwtlib r) (rpc_j r) body;
     case auth of
       Inl err \<Rightarrow> ret (Inl (Errorf ''nats_rpc - V1 - transitionTask - auth: '' err))
     | Inr (userID, data) \<Rightarrow>
         (case Unmarshal (rpc_json r) data (map fst nats_TransitionTask_tags) of
            Inl err \<Rightarrow> ret (Inl (Errorf ''nats_rpc - V1 - transitionTask - json.Unmarshal: '' err))
          | Inr req \<Rightarrow>
              (case rpc_Struct r nats_TransitionTask_tags req of
                 Some err \<Rightarrow> ret (Inl (Errorf ''nats_rpc - V1 - transitionTask - validation: '' err))
               | None \<Rightarrow> do {
                   res \<leftarrow> TaskUC_Transition (rpc_tk r) ctx userID (req ''id'') (req ''status'');
                   case res of
                     Inl err \<Rightarrow> do {
                       log_io (LogError err ''nats_rpc - V1 - transitionTask'');
                       ret (Inl (Errorf ''nats_rpc - V1 - transitionTask: '' err)) }
                   | Inr task \<Rightarrow> ret (Inr (RTask task)) })) }"

definition nats_deleteTask :: "'db rpc_V1 \<Rightarrow> go_ctx \<Rightarrow> string \<Rightarrow> ('db, rpc_value result) io" where
  "nats_deleteTask r ctx body = do {
     auth \<leftarrow> nats_extractUserID (rpc_json r) (rpc_jwtlib r) (rpc_j r) body;
     case auth of
       Inl err \<Rightarrow> ret (Inl (Errorf ''nats_rpc - V1 - deleteTask - auth: '' err))
     | Inr (userID, data) \<Rightarrow>
         (case Unmarshal (rpc_json r) data (map fst nats_DeleteTask_tags) of
            Inl err \<Rightarrow> ret (Inl (Errorf ''nats_rpc - V1 - deleteTask - json.Unmarshal: '' err))
          | Inr req \<Rightarrow>
              (case rpc_Struct r nats_DeleteTask_tags req of
                 Some err \<Rightarrow> ret (Inl (Errorf ''nats_rpc - V1 - deleteTask - validation: '' err))
               | None \<Rightarrow> do {
                   res \<leftarrow> TaskUC_Delete (rpc_tk r) ctx userID (req ''id'');
                   case res of
                     Some err \<Rightarrow> do {
                       log_io (LogError err ''nats_rpc - V1 - deleteTask'');
                       ret (Inl (Errorf ''nats_rpc - V1 - deleteTask: '' err)) }
                   | None \<Rightarrow> ret (Inr (RDeleteStatus ''deleted'')) })) }"

section \<open>The routes\<close>

definition nats_NewRoutes :: "(string \<rightharpoonup> 'db CallHandler) \<Rightarrow> 'db rpc_V1 \<Rightarrow> string \<rightharpoonup> 'db CallHandler" where
  "nats_NewRoutes routes r = routes(
      ''v1.auth.register'' \<mapsto> simple (nats_register r),
      ''v1.auth.login'' \<mapsto> simple (nats_login r),
      ''v1.translation.getHistory'' \<mapsto> simple (nats_getHistory r),
      ''v1.translation.translate'' \<mapsto> simple (nats_translate r),
      ''v1.task.create'' \<mapsto> simple (nats_createTask r),
      ''v1.task.get'' \<mapsto> simple (nats_getTask r),
      ''v1.task.list'' \<mapsto> nats_listTasks r,
      ''v1.task.update'' \<mapsto> simple (nats_updateTask r),
      ''v1.task.transition'' \<mapsto> simple (nats_transitionTask r),
      ''v1.task.delete'' \<mapsto> simple (nats_deleteTask r))"

definition nats_NewRouter :: "'db rpc_V1 \<Rightarrow> string \<rightharpoonup> 'db CallHandler" where
  "nats_NewRouter r = nats_NewRoutes Map.empty r"

end
