(* ===== verification/App.thy ===== *)
theory App
  imports Servers Pg_Connect Rest_Router Grpc Amqp_Rpc Nats_Rpc
begin

text \<open>
  The application (\<^verbatim>\<open>src/internal/app/app.go\<close>, \<^verbatim>\<open>src/cmd/app/main.go\<close>, \<^verbatim>\<open>src/config/config.go\<close>): how the
  components are put together, and in which order everything is opened, started, stopped and
  closed. What each dependency answers is given; the run is the list of what is done.
\<close>

section \<open>Configuration\<close>

record Config =
  App_Name :: string
  App_Version :: string
  HTTP_Port :: string
  Log_Level :: string
  PG_PoolMax :: "64 word"
  PG_URL :: string
  GRPC_Port :: string
  RMQ_ServerExchange :: string
  RMQ_ClientExchange :: string
  RMQ_URL :: string
  NATS_ServerExchange :: string
  NATS_URL :: string
  JWT_Secret :: string
  JWT_TokenExpiry :: int
  Metrics_Enabled :: bool
  Swagger_Enabled :: bool
  Tracing_Enabled :: bool
  Tracing_OTLPEndpoint :: string
  Tracing_OTLPInsecure :: bool
  Tracing_SampleRate :: "64 word"

text \<open>\<open>parse\<close> is what the package env makes of the environment and the tags.\<close>

definition NewConfig :: "Config result \<Rightarrow> Config result" where
  "NewConfig parse = (case parse of Inl err \<Rightarrow> Inl (Errorf ''config error: '' err) | Inr cfg \<Rightarrow> Inr cfg)"

definition tracing_config :: "Config \<Rightarrow> trace_config" where
  "tracing_config cfg = \<lparr>tr_Enabled = Tracing_Enabled cfg, tr_ServiceName = App_Name cfg, tr_Version = App_Version cfg,
     tr_Endpoint = Tracing_OTLPEndpoint cfg, tr_Insecure = Tracing_OTLPInsecure cfg, tr_SampleRate = Tracing_SampleRate cfg\<rparr>"

section \<open>Wiring\<close>

record 'db useCases =
  uc_translation :: "'db TranslationUC"
  uc_user :: "'db UserUC"
  uc_task :: "'db TaskUC"

definition initUseCases :: "bcrypt \<Rightarrow> jwtlib \<Rightarrow> googletrans \<Rightarrow> 'db Postgres \<Rightarrow> Manager \<Rightarrow> 'db useCases" where
  "initUseCases bc lib gtrans pg jwtManager =
     (let translationRepo = NewTranslationRepo pg;
          taskRepo = NewTaskRepo pg;
          userRepo = NewUserRepo pg
      in \<lparr>uc_translation = NewTranslationUseCase translationRepo (NewTranslationWebAPI gtrans),
          uc_user = NewUserUseCase bc lib userRepo jwtManager,
          uc_task = NewTaskUseCase taskRepo\<rparr>)"

text \<open>What the servers are given: the routers and the settings.\<close>

record 'db wiring =
  wi_rmq :: "string \<rightharpoonup> 'db CallHandler"
  wi_nats :: "string \<rightharpoonup> 'db CallHandler"
  wi_grpc :: "'db grpc_server"
  wi_grpc_settings :: "string grpc_settings"
  wi_http :: "(string \<times> string) \<rightharpoonup> 'db handler"
  wi_http_settings :: http_settings

definition wire ::
  "jwtlib \<Rightarrow> json_lib \<Rightarrow> ((string \<times> string) list \<Rightarrow> go_error option) \<Rightarrow> web \<Rightarrow> 'db echo_mw \<Rightarrow> Config \<Rightarrow> 'db useCases \<Rightarrow> Manager \<Rightarrow> 'db wiring" where
  "wire lib json validate web mw cfg uc jwtManager =
     (let rpc = \<lparr>rpc_t = uc_translation uc, rpc_u = uc_user uc, rpc_tk = uc_task uc, rpc_j = jwtManager, rpc_jwtlib = lib,
            rpc_json = json, rpc_validate = validate\<rparr>
      in \<lparr>wi_rmq = amqp_NewRouter rpc,
          wi_nats = nats_NewRouter rpc,
          wi_grpc = \<lparr>srv_u = uc_user uc, srv_tk = uc_task uc, srv_t = uc_translation uc\<rparr>,
          wi_grpc_settings = grpc_New [grpc_Port (GRPC_Port cfg), grpc_ServerOptions [''UnaryInterceptor'', ''StatsHandler'']],
          wi_http = NewRouter mw \<lparr>rc_AppName = App_Name cfg, rc_Metrics = Metrics_Enabled cfg, rc_Swagger = Swagger_Enabled cfg,
             rc_Tracing = Tracing_Enabled cfg\<rparr>
             \<lparr>V1_t = uc_translation uc, V1_u = uc_user uc, V1_tk = uc_task uc, V1_web = web\<rparr> lib jwtManager,
          wi_http_settings = http_New [http_Port (HTTP_Port cfg)]\<rparr>)"

section \<open>The run\<close>

datatype server_name = RMQ | NATS | GRPC | HTTP

datatype app_action =
    TracingNew
  | PostgresNew
  | Construct server_name
  | Start server_name
  | Shutdown server_name
  | PostgresClose
  | TracingShutdown
  | LogE go_error
  | LogI string
  | LogF go_error
  | Exit nat

datatype app_event = Signal string | Notified server_name "go_error option"

record dependencies =
  dep_tracing :: "unit result"
  dep_tracing_shutdown :: "go_error option"
  dep_postgres :: "unit result"
  dep_rmq :: "unit result"
  dep_nats :: "unit result"
  dep_event :: app_event
  dep_shutdown :: "server_name \<Rightarrow> go_error option"

text \<open>\<open>l.Fatal\<close> ends the process: no deferred call runs.\<close>

definition fatal :: "string \<Rightarrow> go_error \<Rightarrow> app_action list" where
  "fatal step err = [LogF (Errorf step err), Exit 1]"

text \<open>\<open>initServersWith\<close>: the actions, and whether it returned.\<close>

definition initServersWith :: "dependencies \<Rightarrow> app_action list \<times> bool" where
  "initServersWith deps =
     (case dep_rmq deps of
        Inl err \<Rightarrow> (Construct RMQ # fatal ''app - Run - rmqServer - server.New: '' err, False)
      | Inr _ \<Rightarrow>
          (case dep_nats deps of
             Inl err \<Rightarrow> ([Construct RMQ, Construct NATS] @ fatal ''app - Run - natsServer - server.New: '' err, False)
           | Inr _ \<Rightarrow> ([Construct RMQ, Construct NATS, Construct GRPC, Construct HTTP], True)))"

definition startServers :: "app_action list" where
  "startServers = [Start RMQ, Start NATS, Start GRPC, Start HTTP]"

fun server_text :: "server_name \<Rightarrow> string" where
  "server_text HTTP = ''httpServer''"
| "server_text GRPC = ''grpcServer''"
| "server_text RMQ = ''rmqServer''"
| "server_text NATS = ''natsServer''"

definition shutdownServer :: "dependencies \<Rightarrow> server_name \<Rightarrow> app_action list" where
  "shutdownServer deps srv =
     Shutdown srv # (case dep_shutdown deps srv of
        None \<Rightarrow> []
      | Some err \<Rightarrow> [LogE (Errorf (''app - Run - '' @ server_text srv @ ''.Shutdown: '') err)])"

definition shutdownServers :: "dependencies \<Rightarrow> app_action list" where
  "shutdownServers deps = shutdownServer deps HTTP @ shutdownServer deps GRPC @ shutdownServer deps RMQ @ shutdownServer deps NATS"

text \<open>\<open>Notified srv None\<close> is a closed channel; \<open>fmt.Errorf\<close> makes an error of the missing one.\<close>

definition waitForShutdownSignal :: "dependencies \<Rightarrow> app_action list" where
  "waitForShutdownSignal deps =
     (case dep_event deps of
        Signal sig \<Rightarrow> [LogI (''app - Run - signal: '' @ sig)]
      | Notified srv err \<Rightarrow> [LogE (Errorf (''app - Run - '' @ server_text srv @ ''.Notify: '')
          (case err of None \<Rightarrow> LibError ''fmt'' ''%!w(<nil>)'' | Some e \<Rightarrow> e))]) @
     shutdownServers deps"

definition run_app :: "dependencies \<Rightarrow> app_action list" where
  "run_app deps = TracingNew #
     (case dep_tracing deps of
        Inl err \<Rightarrow> fatal ''app - Run - tracing.New: '' err
      | Inr _ \<Rightarrow> PostgresNew #
          (case dep_postgres deps of
             Inl err \<Rightarrow> fatal ''app - Run - postgres.New: '' err
           | Inr _ \<Rightarrow>
               (case initServersWith deps of
                  (actions, False) \<Rightarrow> actions
                | (actions, True) \<Rightarrow> actions @ startServers @ waitForShutdownSignal deps @
                    [PostgresClose] @ TracingShutdown #
                    (case dep_tracing_shutdown deps of
                       None \<Rightarrow> []
                     | Some err \<Rightarrow> [LogE (Errorf ''app - Run - shutdownTracing: '' err)]))))"

text \<open>\<open>main\<close>: migrations first, then the configuration, then the run.\<close>

datatype main_action = Migrate | ReadConfig | FatalConfig go_error | Run Config

definition main :: "Config result \<Rightarrow> main_action list" where
  "main parse = Migrate # ReadConfig # (case NewConfig parse of Inl err \<Rightarrow> [FatalConfig err] | Inr cfg \<Rightarrow> [Run cfg])"

section \<open>Order\<close>

fun lifecycle_action :: "app_action \<Rightarrow> bool" where
  "lifecycle_action (LogE _) = False"
| "lifecycle_action (LogI _) = False"
| "lifecycle_action (LogF _) = False"
| "lifecycle_action _ = True"

definition full_run :: "app_action list" where
  "full_run = [TracingNew, PostgresNew, Construct RMQ, Construct NATS, Construct GRPC, Construct HTTP,
     Start RMQ, Start NATS, Start GRPC, Start HTTP,
     Shutdown HTTP, Shutdown GRPC, Shutdown RMQ, Shutdown NATS, PostgresClose, TracingShutdown]"

lemma shutdown_actions [simp]: "filter lifecycle_action (shutdownServer deps srv) = [Shutdown srv]"
  by (auto simp: shutdownServer_def split: option.splits)

text \<open>
  C38. A run of the application has one of two shapes. Either everything opens, and then the servers
  are started after all of them are built, each is shut down once whatever ended the wait and
  whatever the other shutdowns returned, the pool is closed after the last server and tracing is
  flushed at the very end. Or a dependency fails, and then the process exits with status 1 having
  done a prefix of that and started nothing; nothing that was opened is closed.
\<close>

theorem app_run_order:
  "(filter lifecycle_action (run_app deps) = full_run \<and>
    dep_tracing deps = Inr () \<and> dep_postgres deps = Inr () \<and> dep_rmq deps = Inr () \<and> dep_nats deps = Inr ()) \<or>
   (\<exists>n. 1 \<le> n \<and> n \<le> 4 \<and> filter lifecycle_action (run_app deps) = take n full_run @ [Exit 1])"
proof (cases "dep_tracing deps")
  case (Inl err)
  then have "filter lifecycle_action (run_app deps) = take 1 full_run @ [Exit 1]"
    by (simp add: run_app_def fatal_def full_run_def)
  then show ?thesis by (intro disjI2 exI [of _ 1]) simp
next
  case tracing: (Inr u)
  show ?thesis
  proof (cases "dep_postgres deps")
    case (Inl err)
    with tracing have "filter lifecycle_action (run_app deps) = take 2 full_run @ [Exit 1]"
      by (simp add: run_app_def fatal_def full_run_def)
    then show ?thesis by (intro disjI2 exI [of _ 2]) simp
  next
    case pg: (Inr v)
    show ?thesis
    proof (cases "dep_rmq deps")
      case (Inl err)
      with tracing pg have "filter lifecycle_action (run_app deps) = take 3 full_run @ [Exit 1]"
        by (simp add: run_app_def initServersWith_def fatal_def full_run_def)
      then show ?thesis by (intro disjI2 exI [of _ 3]) simp
    next
      case rmq: (Inr x)
      show ?thesis
      proof (cases "dep_nats deps")
        case (Inl err)
        with tracing pg rmq have "filter lifecycle_action (run_app deps) = take 4 full_run @ [Exit 1]"
          by (simp add: run_app_def initServersWith_def fatal_def full_run_def)
        then show ?thesis by (intro disjI2 exI [of _ 4]) simp
      next
        case (Inr y)
        with tracing pg rmq show ?thesis
          by (intro disjI1) (auto simp: run_app_def initServersWith_def startServers_def waitForShutdownSignal_def shutdownServers_def
                full_run_def split: app_event.splits option.splits)
      qed
    qed
  qed
qed

end
