(* ===== verification/Rpc_Props.thy ===== *)
theory Rpc_Props
  imports Amqp_Rpc Nats_Rpc Rest_Props
begin

text \<open>
  The properties of the two message-based transports: they are the same service under two
  names, and every route but registration and login needs a token.
\<close>

section \<open>RabbitMQ and NATS\<close>

text \<open>What a handler returns without the transport's own prefix, and a log entry without its context.\<close>

fun unprefixed :: "rpc_value result \<Rightarrow> rpc_value result" where
  "unprefixed (Inl (Errorf p e)) = Inl e"
| "unprefixed r = r"

fun logged :: "log_entry \<Rightarrow> go_error option" where
  "logged (LogError e msg) = Some e"
| "logged (LogInfo msg) = None"

definition same_service :: "'db CallHandler \<Rightarrow> 'db CallHandler \<Rightarrow> bool" where
  "same_service h h' \<longleftrightarrow> (\<forall>ctx body w.
     map_outcome unprefixed (val (h ctx body) w) = map_outcome unprefixed (val (h' ctx body) w) \<and>
     (post (h ctx body) w)\<lparr>logs := []\<rparr> = (post (h' ctx body) w)\<lparr>logs := []\<rparr> \<and>
     map logged (logs (post (h ctx body) w)) = map logged (logs (post (h' ctx body) w)))"

lemma extract_same: "nats_extractUserID js lib m body = amqp_extractUserID js lib m body"
  by (simp add: amqp_extractUserID_def nats_extractUserID_def)

text \<open>The request structures of the two transports have the same fields and tags.\<close>

lemma tags_same:
  "nats_Register_tags = rpc_Register_tags"
  "nats_Login_tags = rpc_Login_tags"
  "nats_Translate_tags = rpc_Translate_tags"
  "nats_CreateTask_tags = rpc_CreateTask_tags"
  "nats_GetTask_tags = rpc_GetTask_tags"
  "nats_ListTasks_tags = rpc_ListTasks_tags"
  "nats_UpdateTask_tags = rpc_UpdateTask_tags"
  "nats_TransitionTask_tags = rpc_TransitionTask_tags"
  "nats_DeleteTask_tags = rpc_DeleteTask_tags"
  by (simp_all add: nats_Register_tags_def rpc_Register_tags_def
      nats_Login_tags_def rpc_Login_tags_def
      nats_Translate_tags_def rpc_Translate_tags_def
      nats_CreateTask_tags_def rpc_CreateTask_tags_def
      nats_GetTask_tags_def rpc_GetTask_tags_def
      nats_ListTasks_tags_def rpc_ListTasks_tags_def
      nats_UpdateTask_tags_def rpc_UpdateTask_tags_def
      nats_TransitionTask_tags_def rpc_TransitionTask_tags_def
      nats_DeleteTask_tags_def rpc_DeleteTask_tags_def)

lemmas pair_defs = same_service_def simple_def extract_same tags_same case_prod_beta

lemma same_register: "same_service (simple (amqp_register r)) (simple (nats_register r))"
  by (simp add: pair_defs amqp_register_def nats_register_def split: sum.splits option.splits)

lemma same_login: "same_service (simple (amqp_login r)) (simple (nats_login r))"
  by (simp add: pair_defs amqp_login_def nats_login_def split: sum.splits option.splits)

lemma same_getHistory: "same_service (simple (amqp_getHistory r)) (simple (nats_getHistory r))"
  by (simp add: pair_defs amqp_getHistory_def nats_getHistory_def split: sum.splits option.splits)

lemma same_translate: "same_service (simple (amqp_translate r)) (simple (nats_translate r))"
  by (simp add: pair_defs amqp_translate_def nats_translate_def split: sum.splits option.splits)

lemma same_createTask: "same_service (simple (amqp_createTask r)) (simple (nats_createTask r))"
  by (simp add: pair_defs amqp_createTask_def nats_createTask_def split: sum.splits option.splits)

lemma same_getTask: "same_service (simple (amqp_getTask r)) (simple (nats_getTask r))"
  by (simp add: pair_defs amqp_getTask_def nats_getTask_def split: sum.splits option.splits)

lemma same_listTasks: "same_service (amqp_listTasks r) (nats_listTasks r)"
  by (simp add: pair_defs amqp_listTasks_def nats_listTasks_def Let_def split: sum.splits option.splits outcome.splits)

lemma same_updateTask: "same_service (simple (amqp_updateTask r)) (simple (nats_updateTask r))"
  by (simp add: pair_defs amqp_updateTask_def nats_updateTask_def split: sum.splits option.splits)

lemma same_transitionTask: "same_service (simple (amqp_transitionTask r)) (simple (nats_transitionTask r))"
  by (simp add: pair_defs amqp_transitionTask_def nats_transitionTask_def split: sum.splits option.splits)

lemma same_deleteTask: "same_service (simple (amqp_deleteTask r)) (simple (nats_deleteTask r))"
  by (simp add: pair_defs amqp_deleteTask_def nats_deleteTask_def split: sum.splits option.splits)

text \<open>
  C22. RabbitMQ and NATS offer the same service: the same names are routed, and for each of them the
  two handlers give the same value or the same error behind their own prefixes, log the same
  errors and leave the same world behind.
\<close>

theorem amqp_nats_same:
  "rel_option same_service (amqp_NewRouter r k) (nats_NewRouter r k)"
  by (simp add: amqp_NewRouter_def amqp_NewRoutes_def nats_NewRouter_def nats_NewRoutes_def same_register same_login same_getHistory same_translate
      same_createTask same_getTask same_listTasks same_updateTask same_transitionTask same_deleteTask)

section \<open>Authentication\<close>

lemma extract_refuses:
  assumes "\<nexists>tok data u. Unmarshal_envelope js body = Inr (tok, data) \<and> val (ParseToken lib m tok) w = Inr u"
  shows "\<exists>e. val (amqp_extractUserID js lib m body) w = Inl e \<and> wdb (post (amqp_extractUserID js lib m body) w) = wdb w"
proof (cases "Unmarshal_envelope js body")
  case (Inr td)
  obtain tok data where td: "td = (tok, data)" by fastforce
  with assms Inr obtain e where "val (ParseToken lib m tok) w = Inl e"
    by (cases "val (ParseToken lib m tok) w") auto
  with Inr td ParseToken_frame(1) [of lib m tok w] show ?thesis
    by (simp add: amqp_extractUserID_def case_prod_beta)
qed (simp add: amqp_extractUserID_def)

lemma rpc_refuses:
  assumes "val (amqp_extractUserID (rpc_json r) (rpc_jwtlib r) (rpc_j r) body) w = Inl e"
    and "amqp_NewRouter r k = Some h" and "k \<notin> {''v1.auth.register'', ''v1.auth.login''}"
  shows "\<exists>p. run_state (h ctx body) w =
    (Returns (Inl (Errorf p e)), post (amqp_extractUserID (rpc_json r) (rpc_jwtlib r) (rpc_j r) body) w)"
proof -
  from assms(2,3) have "h \<in> {simple (amqp_getHistory r), simple (amqp_translate r), simple (amqp_createTask r),
      simple (amqp_getTask r), amqp_listTasks r, simple (amqp_updateTask r), simple (amqp_transitionTask r),
      simple (amqp_deleteTask r)}"
    by (auto simp: amqp_NewRouter_def amqp_NewRoutes_def split: if_splits)
  then show ?thesis
    by (elim insertE emptyE)
      (simp_all add: simple_def amqp_getHistory_def amqp_translate_def amqp_createTask_def amqp_getTask_def
        amqp_listTasks_def amqp_updateTask_def amqp_transitionTask_def amqp_deleteTask_def assms(1) case_prod_beta)
qed

text \<open>
  C23. Over RabbitMQ, every route but registration and login needs an envelope with a token that the
  manager accepts; any other message is answered with an error and leaves the database alone.
\<close>

theorem amqp_routes_need_token:
  assumes "amqp_NewRouter r k = Some h" and "k \<notin> {''v1.auth.register'', ''v1.auth.login''}"
    and "\<nexists>tok data u. Unmarshal_envelope (rpc_json r) body = Inr (tok, data) \<and>
           val (ParseToken (rpc_jwtlib r) (rpc_j r) tok) w = Inr u"
  shows "\<exists>e. val (h ctx body) w = Returns (Inl e) \<and> wdb (post (h ctx body) w) = wdb w"
proof -
  from extract_refuses [OF assms(3)] obtain e where
    "val (amqp_extractUserID (rpc_json r) (rpc_jwtlib r) (rpc_j r) body) w = Inl e"
    "wdb (post (amqp_extractUserID (rpc_json r) (rpc_jwtlib r) (rpc_j r) body) w) = wdb w" by blast
  with rpc_refuses [OF this(1) assms(1,2), of ctx] show ?thesis by auto
qed

definition demo_json :: json_lib where
  "demo_json = \<lparr>Unmarshal_envelope = (\<lambda>s. Inr (s, s)), Unmarshal = (\<lambda>s names. Inr (\<lambda>_. s)),
     Unmarshal_ListTasks = (\<lambda>s. Inr ([], 10, 0))\<rparr>"

definition demo_rpc :: "mem rpc_V1" where
  "demo_rpc = \<lparr>rpc_t = V1_t demo_V1, rpc_u = V1_u demo_V1, rpc_tk = V1_tk demo_V1, rpc_j = demo_manager,
     rpc_jwtlib = demo_jwt, rpc_json = demo_json, rpc_validate = (\<lambda>_. None)\<rparr>"

lemma amqp_routes_need_token_witness:
  "\<exists>e. val (simple (amqp_deleteTask demo_rpc) demo_ctx []) demo_world = Returns (Inl e) \<and>
     wdb (post (simple (amqp_deleteTask demo_rpc) demo_ctx []) demo_world) = demo_db"
  using amqp_routes_need_token [of demo_rpc "''v1.task.delete''" "simple (amqp_deleteTask demo_rpc)" "[]" demo_world demo_ctx]
  by (simp add: amqp_NewRouter_def amqp_NewRoutes_def demo_rpc_def demo_json_def ParseToken_def demo_jwt_def demo_read_def take_field_def
      keyfunc_def)

end
