(* ===== verification/Rmq_Server.thy ===== *)
theory Rmq_Server
  imports Rmq_Connection Rpc_Types
begin

text \<open>
  The RabbitMQ RPC server (\<^verbatim>\<open>src/pkg/rabbitmq/rmq_rpc/server/server.go\<close>): its delivery loop, the
  dispatch of one delivery to the handler of the router, the reply and the acknowledgement.
  The state of a run is that of the broker (what the AMQP library keeps and what was asked of
  it) beside the world of the handlers.
\<close>

section \<open>Messages and what is asked of the broker\<close>

record Delivery =
  d_Type :: string
  d_ReplyTo :: string
  d_CorrelationId :: string
  d_Body :: string
  d_Headers :: amqp_table

record Publishing =
  p_ContentType :: string
  p_CorrelationId :: string
  p_Type :: string
  p_Body :: string
  p_ReplyTo :: string
  p_Headers :: amqp_table

text \<open>A \<open>nil\<close> body is the empty string: the wire does not tell them apart.\<close>

datatype broker_action =
    Publish string Publishing
  | Ack Delivery

record 's broker =
  br_lib :: 's
  br_actions :: "broker_action list"

type_synonym ('s, 'db, 'a) rmq = "('s broker \<times> 'db world, 'a) state"

definition on_lib :: "('s, 'a) state \<Rightarrow> ('s, 'db, 'a) rmq" where
  "on_lib m = State (\<lambda>(b, w). case run_state m (br_lib b) of (x, l) \<Rightarrow> (x, (b\<lparr>br_lib := l\<rparr>, w)))"

definition on_actions :: "(broker_action list \<Rightarrow> 'a) \<Rightarrow> broker_action \<Rightarrow> ('s, 'db, 'a) rmq" where
  "on_actions answer a = State (\<lambda>(b, w). (answer (br_actions b), (b\<lparr>br_actions := br_actions b @ [a]\<rparr>, w)))"

lemma run_on_lib [simp]:
  "run_state (on_lib m) (b, w) = (fst (run_state m (br_lib b)), (b\<lparr>br_lib := snd (run_state m (br_lib b))\<rparr>, w))"
  by (simp add: on_lib_def split: prod.splits)

lemma run_on_actions [simp]:
  "run_state (on_actions f a) (b, w) = (f (br_actions b), (b\<lparr>br_actions := br_actions b @ [a]\<rparr>, w))"
  by (simp add: on_actions_def)

section \<open>The server\<close>

text \<open>
  \<open>srv_publishMessage\<close> and \<open>srv_Ack\<close> are the answers of the broker to a publication and to an
  acknowledgement, given all that was asked before; \<open>srv_Marshal\<close> is the JSON encoder.
\<close>

record ('s, 'db) Server =
  srv_ctx :: go_ctx
  srv_lib :: "'s amqp_lib"
  srv_router :: "string \<rightharpoonup> 'db CallHandler"
  srv_publishMessage :: "broker_action list \<Rightarrow> string \<Rightarrow> Publishing \<Rightarrow> go_error option"
  srv_Ack :: "broker_action list \<Rightarrow> Delivery \<Rightarrow> bool \<Rightarrow> go_error option"
  srv_Marshal :: "rpc_value \<Rightarrow> string result"

definition rmq_ack :: "('s, 'db) Server \<Rightarrow> Delivery \<Rightarrow> bool \<Rightarrow> ('s, 'db, unit) rmq" where
  "rmq_ack s d multiple = do {
     err \<leftarrow> on_actions (\<lambda>as. srv_Ack s as d multiple) (Ack d);
     case err of
       None \<Rightarrow> State_Monad.return ()
     | Some e \<Rightarrow> on_world (log_io (LogError e ''rmq_rpc server - Server - ack - d.Ack'')) }"

definition rmq_publish :: "('s, 'db) Server \<Rightarrow> Delivery \<Rightarrow> string \<Rightarrow> string \<Rightarrow> ('s, 'db, unit) rmq" where
  "rmq_publish s d body status = do {
     let message = \<lparr>p_ContentType = ''application/json'', p_CorrelationId = d_CorrelationId d, p_Type = status,
       p_Body = body, p_ReplyTo = [], p_Headers = Map.empty\<rparr>;
     err \<leftarrow> on_actions (\<lambda>as. srv_publishMessage s as (d_ReplyTo d) message) (Publish (d_ReplyTo d) message);
     case err of
       None \<Rightarrow> State_Monad.return ()
     | Some e \<Rightarrow> on_world (log_io (LogError e ''rmq_rpc server - Server - publish - s.conn.Channel.Publish'')) }"

text \<open>
  \<open>serveCall\<close>. The two deferred calls, \<open>span.End\<close> and then \<open>ack\<close>, run on every way out, a panic of
  the handler included. The propagator adds a span context that the program never reads.
\<close>

definition rmq_serveCall :: "('s, 'db) Server \<Rightarrow> Delivery \<Rightarrow> ('s, 'db, unit outcome) rmq" where
  "rmq_serveCall s d = do {
     on_world (span_io [SpanStart ''rmq-rpc.server'' (''rmq_rpc.process '' @ d_Type d) [(''rpc.method'', AString (d_Type d))]]);
     out \<leftarrow> (case srv_router s (d_Type d) of
         None \<Rightarrow> do {
           on_world (span_io [SpanStatusError (error_text rmq_ErrBadHandler)]);
           rmq_publish s d [] (error_text rmq_ErrBadHandler);
           State_Monad.return (Returns ()) }
       | Some callHandler \<Rightarrow> do {
           response \<leftarrow> on_world (callHandler (srv_ctx s) (d_Body d));
           case response of
             Panics msg \<Rightarrow> State_Monad.return (Panics msg)
           | Returns (Inl err) \<Rightarrow> do {
               on_world (span_io [SpanRecordError err, SpanStatusError (error_text err)]);
               rmq_publish s d [] (error_text rmq_ErrInternalServer);
               on_world (log_io (LogError err ''rmq_rpc server - Server - serveCall - callHandler''));
               State_Monad.return (Returns ()) }
           | Returns (Inr response) \<Rightarrow> do {
               body \<leftarrow> (case srv_Marshal s response of
                   Inl err \<Rightarrow> do {
                     on_world (log_io (LogError err ''rmq_rpc server - Server - serveCall - json.Marshal''));
                     State_Monad.return [] }
                 | Inr body \<Rightarrow> State_Monad.return body);
               rmq_publish s d body rmq_Success;
               State_Monad.return (Returns ()) } });
     on_world (span_io [SpanEnd]);
     rmq_ack s d False;
     State_Monad.return out }"

text \<open>
  The loop selects among the cancelled context, the stop channel and the deliveries; the schedule
  \<open>events\<close> lists what it selects, one after the other. The value is \<open>None\<close> while it still waits.
\<close>

datatype event = CtxDone go_error | Stop | Arrives Delivery | DeliveriesClosed

fun rmq_handleMessages ::
  "('s, 'db) Server \<Rightarrow> Connection \<Rightarrow> event list \<Rightarrow> ('s, 'db, go_error option outcome option) rmq" where
  "rmq_handleMessages s c [] = State_Monad.return None"
| "rmq_handleMessages s c (CtxDone err # es) = State_Monad.return (Some (Returns (Some err)))"
| "rmq_handleMessages s c (Stop # es) = State_Monad.return (Some (Returns None))"
| "rmq_handleMessages s c (DeliveriesClosed # es) = do {
     (err, c) \<leftarrow> on_lib (AttemptConnect (srv_lib s) c);
     case err of
       Some e \<Rightarrow> State_Monad.return (Some (Returns (Some e)))
     | None \<Rightarrow> rmq_handleMessages s c es }"
| "rmq_handleMessages s c (Arrives d # es) = do {
     out \<leftarrow> rmq_serveCall s d;
     case out of
       Panics msg \<Rightarrow> State_Monad.return (Some (Panics msg))
     | Returns _ \<Rightarrow> rmq_handleMessages s c es }"

section \<open>One delivery\<close>

text \<open>The status and the body of the reply to a handler's result.\<close>

definition reply_of :: "(rpc_value \<Rightarrow> string result) \<Rightarrow> rpc_value result option \<Rightarrow> string \<times> string" where
  "reply_of marshal r =
     (case r of
        None \<Rightarrow> (''unregistered handler'', [])
      | Some (Inl _) \<Rightarrow> (''internal server error'', [])
      | Some (Inr v) \<Rightarrow> (''success'', case marshal v of Inl _ \<Rightarrow> [] | Inr body \<Rightarrow> body))"

definition the_reply :: "Delivery \<Rightarrow> string \<times> string \<Rightarrow> broker_action" where
  "the_reply d r = Publish (d_ReplyTo d) \<lparr>p_ContentType = ''application/json'', p_CorrelationId = d_CorrelationId d,
     p_Type = fst r, p_Body = snd r, p_ReplyTo = [], p_Headers = Map.empty\<rparr>"

abbreviation rmq_handled :: "('s, 'db) Server \<Rightarrow> Delivery \<Rightarrow> 'db world \<Rightarrow> rpc_value result option outcome" where
  "rmq_handled s d w \<equiv> handled ''rmq-rpc.server'' ''rmq_rpc.process '' (srv_router s) (srv_ctx s) (d_Type d) (d_Body d) w"

lemma run_publish [simp]:
  "run_state (rmq_publish s d body status) (b, w) =
     ((), (b\<lparr>br_actions := br_actions b @ [the_reply d (status, body)]\<rparr>,
       logged (srv_publishMessage s (br_actions b) (d_ReplyTo d)
         \<lparr>p_ContentType = ''application/json'', p_CorrelationId = d_CorrelationId d, p_Type = status,
          p_Body = body, p_ReplyTo = [], p_Headers = Map.empty\<rparr>)
         ''rmq_rpc server - Server - publish - s.conn.Channel.Publish'' w))"
  by (simp add: rmq_publish_def the_reply_def logged_def Let_def split: option.splits)

lemma run_ack [simp]:
  "run_state (rmq_ack s d m) (b, w) =
     ((), (b\<lparr>br_actions := br_actions b @ [Ack d]\<rparr>,
       logged (srv_Ack s (br_actions b) d m) ''rmq_rpc server - Server - ack - d.Ack'' w))"
  by (simp add: rmq_ack_def logged_def split: option.splits)

lemma rmq_texts [simp]:
  "error_text rmq_ErrBadHandler = ''unregistered handler''"
  "error_text rmq_ErrInternalServer = ''internal server error''"
  by (simp_all add: err_defs)


lemma serveCall_actions: \<comment> \<open>in the form the loop uses\<close>
  "\<exists>w'. run_state (rmq_serveCall s d) (b, w) =
     (case rmq_handled s d w of
        Panics msg \<Rightarrow> (Panics msg, (b\<lparr>br_actions := br_actions b @ [Ack d]\<rparr>, w'))
      | Returns r \<Rightarrow> (Returns (), (b\<lparr>br_actions := br_actions b @ [the_reply d (reply_of (srv_Marshal s) r), Ack d]\<rparr>, w')))"
  by (auto simp: rmq_serveCall_def handled_def reply_of_def rmq_Success_def
        split: option.splits outcome.splits sum.splits)

text \<open>
  What the server does with one delivery. Unless the handler panics, it publishes exactly one
  message, to the reply exchange and with the correlation ID of the delivery, and then
  acknowledges the delivery. The status is ``unregistered handler'' when the router has no handler
  of that name, ``internal server error'' (and no text of the error) when the handler fails, and
  ``success'' otherwise. The body of a success is the encoded value, and empty when the encoder
  fails: that failure is reported as a success.
\<close>

theorem rmq_serveCall_replies:
  "case run_state (rmq_serveCall s d) (b, w) of (out, (b', w')) \<Rightarrow>
     (case rmq_handled s d w of
        Panics msg \<Rightarrow> out = Panics msg \<and> br_actions b' = br_actions b @ [Ack d]
      | Returns r \<Rightarrow> out = Returns () \<and>
          (\<exists>m. br_actions b' = br_actions b @ [Publish (d_ReplyTo d) m, Ack d] \<and> p_CorrelationId m = d_CorrelationId d \<and>
             (p_Type m, p_Body m) =
               (case r of
                  None \<Rightarrow> (''unregistered handler'', [])
                | Some (Inl _) \<Rightarrow> (''internal server error'', [])
                | Some (Inr v) \<Rightarrow> (''success'', case srv_Marshal s v of Inl _ \<Rightarrow> [] | Inr body \<Rightarrow> body))))"
proof -
  from serveCall_actions [of s d b w] obtain w' where
    "run_state (rmq_serveCall s d) (b, w) =
     (case rmq_handled s d w of
        Panics msg \<Rightarrow> (Panics msg, (b\<lparr>br_actions := br_actions b @ [Ack d]\<rparr>, w'))
      | Returns r \<Rightarrow> (Returns (), (b\<lparr>br_actions := br_actions b @ [the_reply d (reply_of (srv_Marshal s) r), Ack d]\<rparr>, w')))" ..
  then show ?thesis by (auto simp: the_reply_def reply_of_def split: outcome.splits)
qed

section \<open>The loop\<close>

fun arrivals :: "event list \<Rightarrow> Delivery list" where
  "arrivals [] = []"
| "arrivals (Arrives d # es) = d # arrivals es"
| "arrivals (_ # es) = arrivals es"

text \<open>
  C12. Whatever the schedule, the server answers the deliveries in their order, each with exactly one
  reply that goes to its reply exchange and carries its correlation ID and one of the three
  statuses, and then acknowledges it. A handler that panics ends the loop; its delivery is the
  last one, acknowledged and never answered.
\<close>

theorem rmq_handleMessages_replies:
  assumes "run_state (rmq_handleMessages s c es) (b, w) = (out, (b', w'))"
  shows "\<exists>rs rest. br_actions b' = br_actions b @ concat (map (\<lambda>(d, r). [the_reply d r, Ack d]) rs) @ map Ack rest \<and>
    prefix (map fst rs @ rest) (arrivals es) \<and>
    (case out of Some (Panics _) \<Rightarrow> length rest = 1 | _ \<Rightarrow> rest = []) \<and>
    (out = None \<longrightarrow> map fst rs = arrivals es) \<and>
    set (map (fst \<circ> snd) rs) \<subseteq> {''success'', ''internal server error'', ''unregistered handler''}"
  using assms
proof (induction s c es arbitrary: b w rule: rmq_handleMessages.induct)
  case (4 s c es)
  obtain err c1 l where con: "run_state (AttemptConnect (srv_lib s) c) (br_lib b) = ((err, c1), l)" by (metis surj_pair)
  show ?case
  proof (cases err)
    case None
    with con 4(2) have "run_state (rmq_handleMessages s c1 es) (b\<lparr>br_lib := l\<rparr>, w) = (out, (b', w'))" by simp
    from 4(1) [OF None this] show ?thesis by simp
  next
    case (Some e)
    with con 4(2) show ?thesis by (intro exI [of _ "[]"]) auto
  qed
next
  case (5 s c d es)
  obtain w1 where serve: "run_state (rmq_serveCall s d) (b, w) =
     (case rmq_handled s d w of
        Panics msg \<Rightarrow> (Panics msg, (b\<lparr>br_actions := br_actions b @ [Ack d]\<rparr>, w1))
      | Returns r \<Rightarrow> (Returns (), (b\<lparr>br_actions := br_actions b @ [the_reply d (reply_of (srv_Marshal s) r), Ack d]\<rparr>, w1)))"
    using serveCall_actions by blast
  show ?case
  proof (cases "rmq_handled s d w")
    case (Returns r)
    let ?b = "b\<lparr>br_actions := br_actions b @ [the_reply d (reply_of (srv_Marshal s) r), Ack d]\<rparr>"
    from Returns serve 5(2) have "run_state (rmq_handleMessages s c es) (?b, w1) = (out, (b', w'))" by simp
    from 5(1) [OF this] obtain rs rest where
      "br_actions b' = br_actions ?b @ concat (map (\<lambda>(d, r). [the_reply d r, Ack d]) rs) @ map Ack rest \<and>
       prefix (map fst rs @ rest) (arrivals es) \<and>
       (case out of Some (Panics _) \<Rightarrow> length rest = 1 | _ \<Rightarrow> rest = []) \<and>
       (out = None \<longrightarrow> map fst rs = arrivals es) \<and>
       set (map (fst \<circ> snd) rs) \<subseteq> {''success'', ''internal server error'', ''unregistered handler''}"
      by blast
    moreover have "fst (reply_of (srv_Marshal s) r) \<in> {''success'', ''internal server error'', ''unregistered handler''}"
      by (auto simp: reply_of_def split: option.splits sum.splits)
    ultimately show ?thesis
      by (intro exI [of _ "(d, reply_of (srv_Marshal s) r) # rs"] exI [of _ rest]) simp
  next
    case (Panics msg)
    with serve 5(2) show ?thesis by (intro exI [of _ "[]"] exI [of _ "[d]"]) auto
  qed
qed (auto intro!: exI [of _ "[]"])

text \<open>A server with one handler, which refuses an empty body and panics on another one.\<close>

definition demo_handler :: "'db CallHandler" where
  "demo_handler ctx body = ret (if body = [] then Returns (Inl (LibError ''json'' ''EOF''))
     else if body = ''!'' then Panics ''makeslice: cap out of range'' else Returns (Inr (RToken body)))"

definition demo_server :: "(unit, 'db) Server" where
  "demo_server = \<lparr>srv_ctx = \<lparr>ctx_err = None, ctx_userID = None\<rparr>,
     srv_lib = \<lparr>amqp_Dial = (\<lambda>_. State_Monad.return (Inr 1)), amqp_Channel = (\<lambda>_. State_Monad.return (Inr 2)),
       amqp_ExchangeDeclare = (\<lambda>_ _ _. State_Monad.return None), amqp_QueueDeclare = (\<lambda>_. State_Monad.return (Inr ''q'')),
       amqp_QueueBind = (\<lambda>_ _ _. State_Monad.return None), amqp_Consume = (\<lambda>_ _. State_Monad.return (Inr 3)),
       time_Sleep = (\<lambda>_. State_Monad.return ())\<rparr>,
     srv_router = [''v1.echo'' \<mapsto> demo_handler],
     srv_publishMessage = (\<lambda>_ _ _. None), srv_Ack = (\<lambda>_ _ _. None),
     srv_Marshal = (\<lambda>v. case v of RToken t \<Rightarrow> Inr t | _ \<Rightarrow> Inl (LibError ''json'' ''unsupported''))\<rparr>"

definition demo_delivery :: "string \<Rightarrow> Delivery" where
  "demo_delivery body = \<lparr>d_Type = ''v1.echo'', d_ReplyTo = ''client'', d_CorrelationId = ''id'', d_Body = body, d_Headers = Map.empty\<rparr>"

definition demo_state :: "unit broker \<times> unit world" where
  "demo_state = (\<lparr>br_lib = (), br_actions = []\<rparr>,
     \<lparr>wdb = (), clock = (\<lambda>_. 0), ticks = 0, random = (\<lambda>_. []), draws = 0, logs = [], spans = []\<rparr>)"

lemma rmq_handleMessages_replies_witness:
  "\<exists>rs rest b' w'. run_state (rmq_handleMessages demo_server (NewConnection ''rpc'' ''amqp'' 5 2)
      [Arrives (demo_delivery ''x''), Arrives (demo_delivery ''!''), Stop]) demo_state =
      (Some (Panics ''makeslice: cap out of range''), (b', w')) \<and>
    br_actions b' = concat (map (\<lambda>(d, r). [the_reply d r, Ack d]) rs) @ map Ack rest \<and> length rest = 1 \<and>
    prefix (map fst rs @ rest) [demo_delivery ''x'', demo_delivery ''!'']"
proof -
  let ?run = "run_state (rmq_handleMessages demo_server (NewConnection ''rpc'' ''amqp'' 5 2)
      [Arrives (demo_delivery ''x''), Arrives (demo_delivery ''!''), Stop]) demo_state"
  have out: "fst ?run = Some (Panics ''makeslice: cap out of range'')"
    by (simp add: rmq_serveCall_def demo_server_def demo_delivery_def demo_handler_def demo_state_def)
  obtain b' w' where "?run = (Some (Panics ''makeslice: cap out of range''), (b', w'))"
    using out by (metis prod.collapse)
  moreover from this [unfolded demo_state_def] rmq_handleMessages_replies [OF this [unfolded demo_state_def]]
  obtain rs rest where "br_actions b' = concat (map (\<lambda>(d, r). [the_reply d r, Ack d]) rs) @ map Ack rest"
    "prefix (map fst rs @ rest) [demo_delivery ''x'', demo_delivery ''!'']" "length rest = 1" by auto
  ultimately show ?thesis by blast
qed

end
