(* ===== verification/Rmq_Client.thy ===== *)
theory Rmq_Client
  imports Rmq_Server
begin

text \<open>
  The RabbitMQ RPC client (\<^verbatim>\<open>src/pkg/rabbitmq/rmq_rpc/client/client.go\<close>): the table of pending
  calls, the worker that hands replies to it, and the callers that publish, wait and read. The
  callers and the worker run concurrently; a step relation interleaves them.
\<close>

section \<open>The client's state\<close>

text \<open>
  A \<open>pendingCall\<close> is shared by pointer between its caller and the worker: \<open>cl_heap\<close> is the
  store. \<open>pc_done\<close> says whether the channel \<open>done\<close> is closed.
\<close>

record pendingCall =
  pc_done :: bool
  pc_status :: string
  pc_body :: string

record Client =
  cl_serverExchange :: string
  cl_consumerExchange :: string
  cl_calls :: "string \<rightharpoonup> nat"
  cl_heap :: "nat \<rightharpoonup> pendingCall"
  cl_actions :: "broker_action list"

definition ErrConnectionClosed :: go_error where
  [err_defs]: "ErrConnectionClosed = ErrorsNew ''rmqrpc/client'' ''rmq_rpc client - Client - RemoteCall - Connection closed''"

definition getCall :: "Client \<Rightarrow> string \<Rightarrow> nat option" where
  "getCall c corrID = cl_calls c corrID"

definition addCall :: "Client \<Rightarrow> string \<Rightarrow> nat \<Rightarrow> Client" where
  "addCall c corrID call = c\<lparr>cl_calls := (cl_calls c)(corrID \<mapsto> call)\<rparr>"

definition deleteCall :: "Client \<Rightarrow> string \<Rightarrow> Client" where
  "deleteCall c corrID = c\<lparr>cl_calls := (cl_calls c)(corrID := None)\<rparr>"

text \<open>The answer of \<open>d.Ack\<close> is only printed to the standard logger.\<close>

definition cl_ack :: "Client \<Rightarrow> Delivery \<Rightarrow> Client" where
  "cl_ack c d = c\<lparr>cl_actions := cl_actions c @ [Ack d]\<rparr>"

text \<open>
  \<open>serveCall\<close> of the worker: a reply nobody waits for is dropped; closing a closed channel panics,
  with the acknowledgement deferred either way.
\<close>

definition cl_serveCall :: "Client \<Rightarrow> Delivery \<Rightarrow> Client \<times> unit outcome" where
  "cl_serveCall c d =
     (case getCall c (d_CorrelationId d) of
        None \<Rightarrow> (cl_ack c d, Returns ())
      | Some p \<Rightarrow>
          (case cl_heap c p of
             None \<Rightarrow> (cl_ack c d, Panics ''invalid memory address or nil pointer dereference'')
           | Some call \<Rightarrow>
               (let call' = call\<lparr>pc_status := d_Type d, pc_body := d_Body d\<rparr> in
                if pc_done call
                then (cl_ack (c\<lparr>cl_heap := (cl_heap c)(p \<mapsto> call')\<rparr>) d, Panics ''close of closed channel'')
                else (cl_ack (c\<lparr>cl_heap := (cl_heap c)(p \<mapsto> call'\<lparr>pc_done := True\<rparr>)\<rparr>) d, Returns ()))))"

text \<open>The worker's loop, on a schedule of what it selects as for the server.\<close>

fun cl_handleMessages ::
  "'s amqp_lib \<Rightarrow> Connection \<Rightarrow> event list \<Rightarrow> Client \<Rightarrow> ('s, go_error option outcome option \<times> Client) state" where
  "cl_handleMessages lib conn [] c = State_Monad.return (None, c)"
| "cl_handleMessages lib conn (CtxDone err # es) c = State_Monad.return (Some (Returns (Some err)), c)"
| "cl_handleMessages lib conn (Stop # es) c = State_Monad.return (Some (Returns None), c)"
| "cl_handleMessages lib conn (DeliveriesClosed # es) c = do {
     (err, conn) \<leftarrow> AttemptConnect lib conn;
     case err of
       Some e \<Rightarrow> State_Monad.return (Some (Returns (Some e)), c)
     | None \<Rightarrow> cl_handleMessages lib conn es c }"
| "cl_handleMessages lib conn (Arrives d # es) c =
     (case cl_serveCall c d of
        (c, Panics msg) \<Rightarrow> State_Monad.return (Some (Panics msg), c)
      | (c, Returns _) \<Rightarrow> cl_handleMessages lib conn es c)"

text \<open>Every delivery the loop takes is acknowledged, in order, whether or not a call waits for it.\<close>

lemma cl_serveCall_ack: "cl_actions (fst (cl_serveCall c d)) = cl_actions c @ [Ack d]"
  by (simp add: cl_serveCall_def cl_ack_def Let_def split: option.splits)

lemma cl_handleMessages_acks:
  "run_state (cl_handleMessages lib conn es c) s = ((out, c'), s') \<Longrightarrow>
   \<exists>ds. prefix ds (arrivals es) \<and> cl_actions c' = cl_actions c @ map Ack ds"
proof (induction lib conn es c arbitrary: s rule: cl_handleMessages.induct)
  case (4 lib conn es c)
  obtain err conn1 s1 where con: "run_state (AttemptConnect lib conn) s = ((err, conn1), s1)" by (metis surj_pair)
  show ?case
  proof (cases err)
    case None
    with con 4(2) have "run_state (cl_handleMessages lib conn1 es c) s1 = ((out, c'), s')" by simp
    from 4(1) [OF None this] show ?thesis by simp
  next
    case (Some e)
    with con 4(2) show ?thesis by (auto intro: exI [of _ "[]"])
  qed
next
  case (5 lib conn d es c)
  obtain c1 o1 where serve: "cl_serveCall c d = (c1, o1)" by (metis surj_pair)
  then have ack: "cl_actions c1 = cl_actions c @ [Ack d]" using cl_serveCall_ack [of c d] by simp
  show ?case
  proof (cases o1)
    case (Returns u)
    with serve 5(2) have "run_state (cl_handleMessages lib conn es c1) s = ((out, c'), s')" by simp
    from 5(1) [OF serve [symmetric] Returns this] obtain ds
      where "prefix ds (arrivals es)" "cl_actions c' = cl_actions c1 @ map Ack ds" by blast
    with ack show ?thesis by (intro exI [of _ "d # ds"]) simp
  next
    case (Panics msg)
    with serve 5(2) ack show ?thesis by (intro exI [of _ "[d]"]) auto
  qed
qed (auto intro!: exI [of _ "[]"])

text \<open>
  \<open>publish\<close>: \<open>None\<close> for a \<open>nil\<close> request. \<open>marshal\<close> is the JSON encoder, \<open>inject\<close> the propagator that
  adds the trace headers, \<open>answer\<close> the broker's answer to the publication.
\<close>

definition cl_publish ::
  "('q \<Rightarrow> string result) \<Rightarrow> (amqp_table \<Rightarrow> amqp_table) \<Rightarrow> (string \<Rightarrow> Publishing \<Rightarrow> go_error option) \<Rightarrow>
   Client \<Rightarrow> string \<Rightarrow> string \<Rightarrow> 'q option \<Rightarrow> Client \<times> go_error option" where
  "cl_publish marshal inject answer c corrID handler request =
     (case (case request of None \<Rightarrow> Inr [] | Some q \<Rightarrow> marshal q) of
        Inl err \<Rightarrow> (c, Some err)
      | Inr requestBody \<Rightarrow>
          (let message = \<lparr>p_ContentType = ''application/json'', p_CorrelationId = corrID, p_Type = handler,
               p_Body = requestBody, p_ReplyTo = cl_consumerExchange c, p_Headers = inject Map.empty\<rparr>;
             c = c\<lparr>cl_actions := cl_actions c @ [Publish (cl_serverExchange c) message]\<rparr>
           in case answer (cl_serverExchange c) message of
                None \<Rightarrow> (c, None)
              | Some err \<Rightarrow> (c, Some (Errorf ''c.Channel.Publish: '' err))))"

section \<open>Waiting\<close>

text \<open>
  The channels a caller can find ready: the cancelled context, the worker's error, the stop
  channel, its timer, and its own call. \<open>None\<close> from \<open>notify\<close> is what a closed channel delivers;
  \<open>fmt.Errorf\<close> makes an error of it too.
\<close>

datatype ready = RCtxDone go_error | RNotify "go_error option" | RStop | RTimeout | RDone

definition notify_error :: "go_error option \<Rightarrow> go_error" where
  "notify_error err = Errorf ''rmq_rpc client - Client - RemoteCall - c.notify: ''
     (case err of None \<Rightarrow> LibError ''fmt'' ''%!w(<nil>)'' | Some e \<Rightarrow> e)"

text \<open>\<open>preRemoteCallWait\<close> does not wait: \<open>None\<close> is its default branch.\<close>

fun preRemoteCallWait :: "ready option \<Rightarrow> go_error option" where
  "preRemoteCallWait (Some (RCtxDone err)) = Some err"
| "preRemoteCallWait (Some (RNotify err)) = Some (notify_error err)"
| "preRemoteCallWait (Some RStop) = Some ErrConnectionClosed"
| "preRemoteCallWait _ = None"

fun remoteCallWait :: "ready \<Rightarrow> go_error option" where
  "remoteCallWait (RCtxDone err) = Some err"
| "remoteCallWait (RNotify err) = Some (notify_error err)"
| "remoteCallWait RStop = Some ErrConnectionClosed"
| "remoteCallWait RTimeout = Some rmq_ErrTimeout"
| "remoteCallWait RDone = None"

text \<open>
  The end of \<open>remoteCall\<close>, after the wait: the error, or \<open>Inr (Some v)\<close> for a decoded response, or
  \<open>Inr None\<close> for a return that left \<open>response\<close> as it was.
\<close>

definition finishCall :: "(string \<Rightarrow> 'v result) \<Rightarrow> pendingCall \<Rightarrow> ready \<Rightarrow> 'v option result" where
  "finishCall unmarshal call r =
     (case remoteCallWait r of
        Some err \<Rightarrow> Inl (Errorf ''rmq_rpc client - Client - RemoteCall - c.remoteCallWait: '' err)
      | None \<Rightarrow>
          if pc_status call = rmq_Success
          then (case unmarshal (pc_body call) of
                  Inl err \<Rightarrow> Inl (Errorf ''rmq_rpc client - Client - RemoteCall - json.Unmarshal: '' err)
                | Inr v \<Rightarrow> Inr (Some v))
          else if pc_status call = error_text rmq_ErrBadHandler then Inl rmq_ErrBadHandler
          else if pc_status call = error_text rmq_ErrInternalServer then Inl rmq_ErrInternalServer
          else Inr None)"

text \<open>\<open>RemoteCall\<close> wraps the call in a span, which records the error it returns.\<close>

definition RemoteCall_spans :: "string \<Rightarrow> 'v option result \<Rightarrow> span_event list" where
  "RemoteCall_spans handler r =
     SpanStart ''rmq-rpc.client'' (''rmq_rpc.publish '' @ handler) [(''rpc.method'', AString handler)] #
     (case r of Inl e \<Rightarrow> [SpanRecordError e, SpanStatusError (error_text e)] | Inr _ \<Rightarrow> []) @ [SpanEnd]"

section \<open>Callers and worker, interleaved\<close>

text \<open>
  \<open>remoteCall\<close> is cut where another goroutine can run between two of its effects:
  \<open>preRemoteCallWait\<close> with the publication, \<open>addCall\<close>, and the wake-up from \<open>remoteCallWait\<close> with the
  deferred \<open>deleteCall\<close>. Each caller is known by its correlation ID. \<open>served\<close> records the deliveries
  the worker has handed out, \<open>crashed\<close> the panic that ended the process.
\<close>

datatype 'v phase =
    Published                \<comment> \<open>before \<open>addCall\<close>\<close>
  | Waiting nat              \<comment> \<open>in \<open>remoteCallWait\<close>, on this \<open>pendingCall\<close>\<close>
  | Returned "'v option result"

record 'v system =
  sys_client :: Client
  sys_phase :: "string \<rightharpoonup> 'v phase"
  served :: "Delivery list"
  crashed :: bool

definition call_published ::
  "('q \<Rightarrow> string result) \<Rightarrow> (amqp_table \<Rightarrow> amqp_table) \<Rightarrow> (string \<Rightarrow> Publishing \<Rightarrow> go_error option) \<Rightarrow>
   string \<Rightarrow> string \<Rightarrow> 'q option \<Rightarrow> ready option \<Rightarrow> 'v system \<Rightarrow> 'v system" where
  "call_published marshal inject answer corrID handler request r sys =
     (case preRemoteCallWait r of
        Some err \<Rightarrow> sys\<lparr>sys_phase := (sys_phase sys)(corrID \<mapsto>
            Returned (Inl (Errorf ''rmq_rpc client - Client - RemoteCall - c.preWait: '' err)))\<rparr>
      | None \<Rightarrow>
          (case cl_publish marshal inject answer (sys_client sys) corrID handler request of
             (c, Some err) \<Rightarrow> sys\<lparr>sys_client := c, sys_phase := (sys_phase sys)(corrID \<mapsto>
                 Returned (Inl (Errorf ''rmq_rpc client - Client - RemoteCall - c.publish: '' err)))\<rparr>
           | (c, None) \<Rightarrow> sys\<lparr>sys_client := c, sys_phase := (sys_phase sys)(corrID \<mapsto> Published)\<rparr>))"

definition call_added :: "string \<Rightarrow> nat \<Rightarrow> 'v system \<Rightarrow> 'v system" where
  "call_added corrID p sys =
     (let c = sys_client sys;
          c = c\<lparr>cl_heap := (cl_heap c)(p \<mapsto> \<lparr>pc_done = False, pc_status = [], pc_body = []\<rparr>)\<rparr>
      in sys\<lparr>sys_client := addCall c corrID p, sys_phase := (sys_phase sys)(corrID \<mapsto> Waiting p)\<rparr>)"

definition call_returned :: "(string \<Rightarrow> 'v result) \<Rightarrow> string \<Rightarrow> pendingCall \<Rightarrow> ready \<Rightarrow> 'v system \<Rightarrow> 'v system" where
  "call_returned unmarshal corrID call r sys =
     sys\<lparr>sys_client := deleteCall (sys_client sys) corrID,
         sys_phase := (sys_phase sys)(corrID \<mapsto> Returned (finishCall unmarshal call r))\<rparr>"

definition delivered :: "Delivery \<Rightarrow> 'v system \<Rightarrow> 'v system" where
  "delivered d sys =
     (case cl_serveCall (sys_client sys) d of
        (c, Returns _) \<Rightarrow> sys\<lparr>sys_client := c, served := served sys @ [d]\<rparr>
      | (c, Panics _) \<Rightarrow> sys\<lparr>sys_client := c, served := served sys @ [d], crashed := True\<rparr>)"

inductive step :: "('q \<Rightarrow> string result) \<Rightarrow> (amqp_table \<Rightarrow> amqp_table) \<Rightarrow> (string \<Rightarrow> 'v result) \<Rightarrow>
    'v system \<Rightarrow> 'v system \<Rightarrow> bool"
  for marshal inject unmarshal where
  publish: "step marshal inject unmarshal sys (call_published marshal inject answer corrID handler request r sys)"
    if "\<not> crashed sys" "sys_phase sys corrID = None"
| add: "step marshal inject unmarshal sys (call_added corrID p sys)"
    if "\<not> crashed sys" "sys_phase sys corrID = Some Published" "cl_heap (sys_client sys) p = None"
| wake: "step marshal inject unmarshal sys (call_returned unmarshal corrID call r sys)"
    if "\<not> crashed sys" "sys_phase sys corrID = Some (Waiting p)" "cl_heap (sys_client sys) p = Some call"
       "r = RDone \<longrightarrow> pc_done call"
| deliver: "step marshal inject unmarshal sys (delivered d sys)"
    if "\<not> crashed sys"

definition start :: "string \<Rightarrow> string \<Rightarrow> 'v system" where
  "start serverExchange clientExchange =
     \<lparr>sys_client = \<lparr>cl_serverExchange = serverExchange, cl_consumerExchange = clientExchange, cl_calls = Map.empty,
        cl_heap = Map.empty, cl_actions = []\<rparr>,
      sys_phase = Map.empty, served = [], crashed = False\<rparr>"


inductive_cases stepE: "step marshal inject unmarshal sys sys'"

inductive reachable :: "('q \<Rightarrow> string result) \<Rightarrow> (amqp_table \<Rightarrow> amqp_table) \<Rightarrow> (string \<Rightarrow> 'v result) \<Rightarrow> 'v system \<Rightarrow> bool"
  for marshal inject unmarshal where
  start: "reachable marshal inject unmarshal (start serverExchange clientExchange)"
| step: "reachable marshal inject unmarshal sys \<Longrightarrow> step marshal inject unmarshal sys sys' \<Longrightarrow>
    reachable marshal inject unmarshal sys'"

section \<open>The invariant\<close>

text \<open>
  The table holds exactly the waiting calls, each on a \<open>pendingCall\<close> of its own; a finished one was
  finished by a served delivery with its correlation ID.
\<close>

definition table_inv :: "'v system \<Rightarrow> bool" where
  "table_inv sys \<longleftrightarrow>
     (\<forall>corrID p. cl_calls (sys_client sys) corrID = Some p \<longleftrightarrow> sys_phase sys corrID = Some (Waiting p)) \<and>
     (\<forall>c1 c2 p. sys_phase sys c1 = Some (Waiting p) \<longrightarrow> sys_phase sys c2 = Some (Waiting p) \<longrightarrow> c1 = c2) \<and>
     (\<forall>corrID p. sys_phase sys corrID = Some (Waiting p) \<longrightarrow> cl_heap (sys_client sys) p \<noteq> None)"

definition answered_by :: "'v system \<Rightarrow> string \<Rightarrow> string \<Rightarrow> string \<Rightarrow> bool" where
  "answered_by sys corrID status body \<longleftrightarrow>
     (\<exists>d\<in>set (served sys). d_CorrelationId d = corrID \<and> d_Type d = status \<and> d_Body d = body)"

definition done_inv :: "'v system \<Rightarrow> bool" where
  "done_inv sys \<longleftrightarrow>
     (\<forall>corrID p call. sys_phase sys corrID = Some (Waiting p) \<longrightarrow> cl_heap (sys_client sys) p = Some call \<longrightarrow>
        pc_done call \<longrightarrow> answered_by sys corrID (pc_status call) (pc_body call))"

definition result_inv :: "(string \<Rightarrow> 'v result) \<Rightarrow> 'v system \<Rightarrow> bool" where
  "result_inv unmarshal sys \<longleftrightarrow>
     (\<forall>corrID v. sys_phase sys corrID = Some (Returned (Inr (Some v))) \<longrightarrow>
        (\<exists>body. answered_by sys corrID ''success'' body \<and> unmarshal body = Inr v))"

definition crash_inv :: "'v system \<Rightarrow> bool" where
  "crash_inv sys \<longleftrightarrow> crashed sys \<longrightarrow> \<not> distinct (map d_CorrelationId (served sys))"

lemmas client_ops = getCall_def addCall_def deleteCall_def cl_ack_def cl_serveCall_def cl_publish_def Let_def
lemmas system_ops = call_published_def call_added_def call_returned_def delivered_def

lemma cl_publish_keeps [simp]:
  "cl_publish marshal inject answer c corrID handler request = (c', err) \<Longrightarrow>
     cl_calls c' = cl_calls c \<and> cl_heap c' = cl_heap c"
  by (auto simp: client_ops split: option.splits sum.splits)

lemma start_inv: "table_inv (start se ce) \<and> done_inv (start se ce) \<and> result_inv unmarshal (start se ce) \<and> crash_inv (start se ce)"
  by (simp add: start_def table_inv_def done_inv_def result_inv_def crash_inv_def)

lemma published_cases:
  obtains (returned) c err where "call_published marshal inject answer corrID handler request r sys =
      sys\<lparr>sys_client := c, sys_phase := (sys_phase sys)(corrID \<mapsto> Returned (Inl err))\<rparr>"
      "cl_calls c = cl_calls (sys_client sys)" "cl_heap c = cl_heap (sys_client sys)"
  | (published) c where "call_published marshal inject answer corrID handler request r sys =
      sys\<lparr>sys_client := c, sys_phase := (sys_phase sys)(corrID \<mapsto> Published)\<rparr>"
      "cl_calls c = cl_calls (sys_client sys)" "cl_heap c = cl_heap (sys_client sys)"
proof -
  obtain c e where pub: "cl_publish marshal inject answer (sys_client sys) corrID handler request = (c, e)" by (metis surj_pair)
  then have keep: "cl_calls c = cl_calls (sys_client sys)" "cl_heap c = cl_heap (sys_client sys)" by simp_all
  show ?thesis
  proof (cases "preRemoteCallWait r")
    case None
    with pub keep that show ?thesis by (cases e) (auto simp: call_published_def)
  next
    case (Some err)
    have "sys = sys\<lparr>sys_client := sys_client sys\<rparr>" by simp
    with Some returned [where c = "sys_client sys"] show ?thesis by (simp add: call_published_def)
  qed
qed

text \<open>What a delivery does: it is dropped, or handed to the call that waits for it.\<close>

lemma delivered_cases:
  assumes "table_inv sys"
  obtains (dropped) "\<And>p. sys_phase sys (d_CorrelationId d) \<noteq> Some (Waiting p)"
      "delivered d sys = sys\<lparr>sys_client := cl_ack (sys_client sys) d, served := served sys @ [d]\<rparr>"
  | (handed) p call b where "sys_phase sys (d_CorrelationId d) = Some (Waiting p)" "cl_heap (sys_client sys) p = Some call"
      "delivered d sys = sys\<lparr>sys_client := cl_ack ((sys_client sys)\<lparr>cl_heap := (cl_heap (sys_client sys))(p \<mapsto>
         \<lparr>pc_done = True, pc_status = d_Type d, pc_body = d_Body d\<rparr>)\<rparr>) d, served := served sys @ [d], crashed := b\<rparr>"
      "b = (pc_done call \<or> crashed sys)"
proof (cases "cl_calls (sys_client sys) (d_CorrelationId d)")
  case None
  with assms have "\<And>p. sys_phase sys (d_CorrelationId d) \<noteq> Some (Waiting p)"
    by (metis table_inv_def option.distinct(1))
  with None show ?thesis by (intro dropped) (auto simp: delivered_def client_ops)
next
  case (Some p)
  with assms obtain call where call: "sys_phase sys (d_CorrelationId d) = Some (Waiting p)" "cl_heap (sys_client sys) p = Some call"
    unfolding table_inv_def by (metis not_None_eq)
  obtain dn st bo where "call = \<lparr>pc_done = dn, pc_status = st, pc_body = bo\<rparr>" by (cases call)
  with call Some show ?thesis by (intro handed [OF call]) (auto simp: delivered_def client_ops)
qed

lemma step_table_inv:
  assumes "step marshal inject unmarshal sys sys'" and "table_inv sys"
  shows "table_inv sys'"
  using assms
proof cases
  case (publish corrID answer handler request r)
  with assms(2) show ?thesis
    by (cases rule: published_cases [of marshal inject answer corrID handler request r sys])
       (auto simp: table_inv_def split: if_splits)
next
  case (add corrID p)
  have fresh: "sys_phase sys c \<noteq> Some (Waiting p)" for c
    using assms(2) add(4) unfolding table_inv_def by metis
  from assms(2) have calls: "(cl_calls (sys_client sys) c = Some q) = (sys_phase sys c = Some (Waiting q))"
    and own: "sys_phase sys c = Some (Waiting q) \<Longrightarrow> sys_phase sys c' = Some (Waiting q) \<Longrightarrow> c = c'"
    and alloc: "sys_phase sys c = Some (Waiting q) \<Longrightarrow> cl_heap (sys_client sys) q \<noteq> None" for c c' q
    unfolding table_inv_def by blast+
  show ?thesis
    unfolding table_inv_def add(1)
    by (intro conjI allI impI)
       (auto simp: call_added_def client_ops calls fresh split: if_splits dest: own alloc)
next
  case (wake corrID p call r)
  with assms(2) show ?thesis by (auto simp: table_inv_def call_returned_def client_ops split: if_splits)
next
  case (deliver d)
  with assms(2) show ?thesis
    by (cases rule: delivered_cases [OF assms(2), of d]) (simp_all add: table_inv_def cl_ack_def)
qed


lemma answered_mono [intro]: "answered_by sys c st bo \<Longrightarrow> set (served sys) \<subseteq> set (served sys') \<Longrightarrow> answered_by sys' c st bo"
  by (auto simp: answered_by_def)


lemma step_done_inv:
  assumes "step marshal inject unmarshal sys sys'" and table: "table_inv sys" and inv: "done_inv sys"
  shows "done_inv sys'"
  using assms(1)
proof cases
  case (publish corrID answer handler request r)
  with inv show ?thesis
    by (cases rule: published_cases [of marshal inject answer corrID handler request r sys])
       (auto simp: done_inv_def answered_by_def split: if_splits)
next
  case (add corrID p)
  have fresh: "sys_phase sys c \<noteq> Some (Waiting p)" for c
    using table add(4) unfolding table_inv_def by metis
  with add(1) inv show ?thesis
    by (auto simp: done_inv_def answered_by_def call_added_def client_ops split: if_splits)
next
  case (wake corrID p call r)
  with inv show ?thesis by (auto simp: done_inv_def answered_by_def call_returned_def client_ops split: if_splits)
next
  case (deliver d)
  show ?thesis
  proof (cases rule: delivered_cases [OF table, of d, case_names dropped handed])
    case dropped
    with inv deliver(1) show ?thesis by (fastforce simp: done_inv_def answered_by_def cl_ack_def)
  next
    case (handed p call b)
    from table handed(1) have own: "sys_phase sys c = Some (Waiting p) \<Longrightarrow> c = d_CorrelationId d" for c
      unfolding table_inv_def by blast
    show ?thesis
      unfolding done_inv_def
    proof (intro allI impI)
      fix c q call'
      assume new: "sys_phase sys' c = Some (Waiting q)" "cl_heap (sys_client sys') q = Some call'" "pc_done call'"
      show "answered_by sys' c (pc_status call') (pc_body call')"
      proof (cases "q = p")
        case True
        with new handed(3) deliver(1) own [of c] show ?thesis by (auto simp: answered_by_def cl_ack_def)
      next
        case False
        with new handed(3) deliver(1) have "answered_by sys c (pc_status call') (pc_body call')"
          by (intro inv [unfolded done_inv_def, rule_format, of c q]) (auto simp: cl_ack_def)
        then show ?thesis by (rule answered_mono) (auto simp: deliver(1) handed(3))
      qed
    qed
  qed
qed

lemma finishCall_value:
  "finishCall unmarshal call r = Inr (Some v) \<Longrightarrow> r = RDone \<and> pc_status call = ''success'' \<and> unmarshal (pc_body call) = Inr v"
  by (cases r) (auto simp: finishCall_def rmq_Success_def split: if_splits sum.splits)

lemma step_result_inv:
  assumes "step marshal inject unmarshal sys sys'" and "table_inv sys" and "done_inv sys" and "result_inv unmarshal sys"
  shows "result_inv unmarshal sys'"
  using assms(1)
proof cases
  case (publish corrID answer handler request r)
  with assms(4) show ?thesis
    by (cases rule: published_cases [of marshal inject answer corrID handler request r sys])
       (auto simp: result_inv_def answered_by_def split: if_splits)
next
  case (add corrID p)
  with assms(4) show ?thesis by (auto simp: result_inv_def answered_by_def call_added_def client_ops split: if_splits)
next
  case (wake corrID p call r)
  show ?thesis
    unfolding result_inv_def
  proof (intro allI impI)
    fix c v
    assume ret: "sys_phase sys' c = Some (Returned (Inr (Some v)))"
    have same: "answered_by sys' = answered_by sys" by (simp add: wake(1) call_returned_def answered_by_def fun_eq_iff)
    show "\<exists>body. answered_by sys' c ''success'' body \<and> unmarshal body = Inr v"
    proof (cases "c = corrID")
      case True
      with ret wake(1) have "finishCall unmarshal call r = Inr (Some v)" by (simp add: call_returned_def)
      then have r: "r = RDone" "pc_status call = ''success''" "unmarshal (pc_body call) = Inr v" by (auto dest: finishCall_value)
      with wake(5) have "pc_done call" by simp
      with assms(3) wake(3,4) have "answered_by sys corrID (pc_status call) (pc_body call)" by (simp add: done_inv_def)
      with r True same show ?thesis by auto
    next
      case False
      with ret wake(1) assms(4) same show ?thesis by (simp add: result_inv_def call_returned_def)
    qed
  qed
next
  case (deliver d)
  show ?thesis
    by (cases rule: delivered_cases [OF assms(2), of d])
       (use assms(4) deliver(1) in \<open>fastforce simp: result_inv_def answered_by_def\<close>)+
qed

lemma step_crash_inv:
  assumes "step marshal inject unmarshal sys sys'" and "table_inv sys" and "done_inv sys"
  shows "crash_inv sys'"
  using assms(1)
proof cases
  case (publish corrID answer handler request r)
  then show ?thesis
    by (cases rule: published_cases [of marshal inject answer corrID handler request r sys]) (auto simp: crash_inv_def)
next
  case (deliver d)
  show ?thesis
  proof (cases rule: delivered_cases [OF assms(2), of d, case_names dropped handed])
    case dropped
    with deliver show ?thesis by (simp add: crash_inv_def)
  next
    case (handed p call b)
    with deliver assms(3) have "b \<Longrightarrow> answered_by sys (d_CorrelationId d) (pc_status call) (pc_body call)"
      by (simp add: done_inv_def)
    then have "b \<Longrightarrow> d_CorrelationId d \<in> d_CorrelationId ` set (served sys)"
      unfolding answered_by_def by (metis imageI)
    with handed(3) deliver(1) show ?thesis by (simp add: crash_inv_def)
  qed
qed (simp_all add: crash_inv_def call_added_def call_returned_def Let_def)

lemma reachable_inv:
  "reachable marshal inject unmarshal sys \<Longrightarrow> table_inv sys \<and> done_inv sys \<and> result_inv unmarshal sys \<and> crash_inv sys"
proof (induction rule: reachable.induct)
  case (start serverExchange clientExchange)
  then show ?case by (rule start_inv)
next
  case (step sys sys')
  then show ?case using step_table_inv step_done_inv step_result_inv step_crash_inv by metis
qed


section \<open>What callers can rely on\<close>

text \<open>
  C5. However the callers and the worker interleave, a call that returns a value returns the decoded
  body of a successful reply that carries its own correlation ID: replies are never mixed up
  between concurrent calls. The table holds exactly the calls that wait, so none is left behind,
  and two calls never share a \<open>pendingCall\<close>.
\<close>

theorem rmq_client_agreement:
  assumes "reachable marshal inject unmarshal sys"
  shows "(sys_phase sys corrID = Some (Returned (Inr (Some v))) \<longrightarrow>
      (\<exists>d. d \<in> set (served sys) \<and> d_CorrelationId d = corrID \<and> d_Type d = ''success'' \<and> unmarshal (d_Body d) = Inr v)) \<and>
    dom (cl_calls (sys_client sys)) = {c. \<exists>p. sys_phase sys c = Some (Waiting p)} \<and>
    inj_on (cl_calls (sys_client sys)) (dom (cl_calls (sys_client sys)))"
proof -
  from reachable_inv [OF assms] have t: "table_inv sys" and r: "result_inv unmarshal sys" by auto
  have "inj_on (cl_calls (sys_client sys)) (dom (cl_calls (sys_client sys)))"
  proof (rule inj_onI)
    fix x y
    assume x: "x \<in> dom (cl_calls (sys_client sys))" and eq: "cl_calls (sys_client sys) x = cl_calls (sys_client sys) y"
    from x obtain p where "cl_calls (sys_client sys) x = Some p" by blast
    with t eq show "x = y" unfolding table_inv_def by metis
  qed
  with t r show ?thesis
    by (auto simp: table_inv_def result_inv_def answered_by_def)
qed

text \<open>
  The client process panics only when the worker was handed two replies with one correlation
  ID. A server that answers each request once never makes it panic.
\<close>

theorem rmq_client_no_panic:
  assumes "reachable marshal inject unmarshal sys" and "distinct (map d_CorrelationId (served sys))"
  shows "\<not> crashed sys"
  using reachable_inv [OF assms(1)] assms(2) by (auto simp: crash_inv_def)

text \<open>
  The request is published before the call is entered in the table. A reply that arrives in
  between is acknowledged and dropped: the state is otherwise unchanged, and once the call is
  entered it cannot return anything but an error until a second reply comes.
\<close>

theorem rmq_client_early_reply_lost:
  assumes "reachable marshal inject unmarshal sys"
    and "sys_phase sys corrID = Some Published" and "d_CorrelationId d = corrID"
  shows "delivered d sys = sys\<lparr>sys_client := cl_ack (sys_client sys) d, served := served sys @ [d]\<rparr> \<and>
    pc_done (the (cl_heap (sys_client (call_added corrID p (delivered d sys))) p)) = False \<and>
    (\<forall>call r. cl_heap (sys_client (call_added corrID p (delivered d sys))) p = Some call \<and> (r = RDone \<longrightarrow> pc_done call) \<longrightarrow>
       (\<exists>err. finishCall unmarshal call r = Inl (Errorf ''rmq_rpc client - Client - RemoteCall - c.remoteCallWait: '' err)))"
proof -
  from reachable_inv [OF assms(1)] have t: "table_inv sys" by auto
  have drop: "delivered d sys = sys\<lparr>sys_client := cl_ack (sys_client sys) d, served := served sys @ [d]\<rparr>"
    by (cases rule: delivered_cases [OF t, of d]) (use assms(2,3) in auto)
  have "\<exists>err. finishCall unmarshal call r = Inl (Errorf ''rmq_rpc client - Client - RemoteCall - c.remoteCallWait: '' err)"
    if "r \<noteq> RDone" for call r
    using that by (cases r) (auto simp: finishCall_def)
  with drop show ?thesis by (auto simp: call_added_def client_ops)
qed

section \<open>Runs\<close>

definition plain_marshal :: "string \<Rightarrow> string result" where
  "plain_marshal s = Inr s"

abbreviation client_reachable :: "string system \<Rightarrow> bool" where
  "client_reachable \<equiv> reachable plain_marshal (\<lambda>h. h) plain_marshal"

definition demo_reply :: Delivery where
  "demo_reply = \<lparr>d_Type = ''success'', d_ReplyTo = [], d_CorrelationId = ''id'', d_Body = ''ok'', d_Headers = Map.empty\<rparr>"

definition demo_published :: "string system" where
  "demo_published = call_published plain_marshal (\<lambda>h. h) (\<lambda>_ _. None) ''id'' ''v1.echo'' (Some ''x'') None (start ''server'' ''client'')"

lemmas demo_run_defs = demo_published_def plain_marshal_def call_published_def call_added_def call_returned_def
  delivered_def client_ops start_def demo_reply_def finishCall_def rmq_Success_def

lemma demo_published_reachable: "client_reachable demo_published"
  unfolding demo_published_def
  by (rule reachable.step [OF reachable.start step.publish]) (simp_all add: start_def)

lemma demo_waiting_reachable: "client_reachable (call_added ''id'' 0 demo_published)"
  by (rule reachable.step [OF demo_published_reachable step.add]) (simp_all add: demo_run_defs)

lemma demo_answered_reachable: "client_reachable (delivered demo_reply (call_added ''id'' 0 demo_published))"
  by (rule reachable.step [OF demo_waiting_reachable step.deliver]) (simp add: demo_run_defs)

lemma demo_returned_reachable:
  "client_reachable (call_returned plain_marshal ''id'' \<lparr>pc_done = True, pc_status = ''success'', pc_body = ''ok''\<rparr> RDone
     (delivered demo_reply (call_added ''id'' 0 demo_published)))"
  by (rule reachable.step [OF demo_answered_reachable step.wake [where p = 0]]) (simp_all add: demo_run_defs)

text \<open>Two replies with one correlation ID, both before the caller wakes, do panic.\<close>

lemma rmq_client_duplicate_panics:
  "client_reachable (delivered demo_reply (delivered demo_reply (call_added ''id'' 0 demo_published))) \<and>
   crashed (delivered demo_reply (delivered demo_reply (call_added ''id'' 0 demo_published)))"
proof
  show "client_reachable (delivered demo_reply (delivered demo_reply (call_added ''id'' 0 demo_published)))"
    by (rule reachable.step [OF demo_answered_reachable step.deliver]) (simp add: demo_run_defs)
  show "crashed (delivered demo_reply (delivered demo_reply (call_added ''id'' 0 demo_published)))"
    by (simp add: demo_run_defs)
qed

lemma rmq_client_agreement_witness:
  "\<exists>d. d \<in> set (served (delivered demo_reply (call_added ''id'' 0 demo_published))) \<and>
     d_CorrelationId d = ''id'' \<and> d_Type d = ''success'' \<and> plain_marshal (d_Body d) = Inr ''ok''"
proof -
  let ?sys = "call_returned plain_marshal ''id'' \<lparr>pc_done = True, pc_status = ''success'', pc_body = ''ok''\<rparr> RDone
     (delivered demo_reply (call_added ''id'' 0 demo_published))"
  have "sys_phase ?sys ''id'' = Some (Returned (Inr (Some ''ok'')))"
    and served: "served ?sys = served (delivered demo_reply (call_added ''id'' 0 demo_published))"
    by (simp_all add: call_returned_def finishCall_def rmq_Success_def plain_marshal_def)
  with rmq_client_agreement [OF demo_returned_reachable, of "''id''" "''ok''"] show ?thesis
    unfolding served by blast
qed

lemma rmq_client_no_panic_witness:
  "\<not> crashed (delivered demo_reply (call_added ''id'' 0 demo_published))"
  using rmq_client_no_panic [OF demo_answered_reachable] by (simp add: demo_run_defs)

lemma rmq_client_early_reply_lost_witness:
  "pc_done (the (cl_heap (sys_client (call_added ''id'' 0 (delivered demo_reply demo_published))) 0)) = False"
  using rmq_client_early_reply_lost [OF demo_published_reachable, of "''id''" demo_reply 0]
  by (simp add: demo_run_defs)

end
