(* ===== verification/Transport_Props.thy ===== *)
theory Transport_Props
  imports Rmq_Client Nats_Transport
begin

text \<open>
  A remote call from end to end, over each of the two message transports: what the caller gets in
  terms of what the handler on the other side returned.
\<close>

section \<open>NATS\<close>


definition demo_nats :: "unit NatsServer" where
  "demo_nats = \<lparr>ns_ctx = \<lparr>ctx_err = None, ctx_userID = None\<rparr>, ns_lib = carrier_lib, ns_router = [''v1.echo'' \<mapsto> demo_handler],
     ns_PublishMsg = (\<lambda>_ _. None),
     ns_Marshal = (\<lambda>v. case v of RToken t \<Rightarrow> Inr t | _ \<Rightarrow> Inl (LibError ''json'' ''unsupported''))\<rparr>"

definition demo_nats_client :: "(NatsMsg list \<times> unit world) NatsClient" where
  "demo_nats_client = \<lparr>nc_lib = carrier_lib, nc_subject = ''rpc'', nc_timeout = 2, nc_RequestMsg = loopback demo_nats ''inbox''\<rparr>"


section \<open>RabbitMQ\<close>

text \<open>
  C37. A RabbitMQ call that waits and whose reply the worker hands over: the server's reply to the
  delivery \<open>d\<close> with the call's correlation ID wakes the call, and its caller gets \<open>ErrBadHandler\<close>,
  \<open>ErrInternalServer\<close> or the decoded value as the handler decided. Where the value cannot be
  encoded the server still says success and the caller decodes an empty body.
\<close>

theorem rmq_call_result:
  assumes "reachable marshal inject unmarshal sys" and "sys_phase sys corrID = Some (Waiting p)"
    and "d_CorrelationId d = corrID" and "rmq_handled s d w = Returns r"
    and sent: "br_actions (fst (snd (run_state (rmq_serveCall s d) (b, w)))) = br_actions b @ [Publish (d_ReplyTo d) m, Ack d]"
    and got: "d_CorrelationId d' = p_CorrelationId m" "d_Type d' = p_Type m" "d_Body d' = p_Body m"
  shows "\<exists>call. cl_heap (sys_client (delivered d' sys)) p = Some call \<and> pc_done call \<and>
    finishCall unmarshal call RDone =
      (case r of
         None \<Rightarrow> Inl rmq_ErrBadHandler
       | Some (Inl _) \<Rightarrow> Inl rmq_ErrInternalServer
       | Some (Inr v) \<Rightarrow>
           (case unmarshal (case srv_Marshal s v of Inl _ \<Rightarrow> [] | Inr body \<Rightarrow> body) of
              Inl e \<Rightarrow> Inl (Errorf ''rmq_rpc client - Client - RemoteCall - json.Unmarshal: '' e)
            | Inr x \<Rightarrow> Inr (Some x)))"
proof -
  from reachable_inv [OF assms(1)] have t: "table_inv sys" by auto
  from serveCall_actions [of s d b w] assms(4) sent
  have "Publish (d_ReplyTo d) m = the_reply d (reply_of (srv_Marshal s) r)" by auto
  then have m: "p_CorrelationId m = corrID" "p_Type m = fst (reply_of (srv_Marshal s) r)" "p_Body m = snd (reply_of (srv_Marshal s) r)"
    using assms(3) by (auto simp: the_reply_def)
  have "cl_heap (sys_client (delivered d' sys)) p = Some \<lparr>pc_done = True, pc_status = p_Type m, pc_body = p_Body m\<rparr>"
    by (cases rule: delivered_cases [OF t, of d']) (use assms(2) got m(1) in \<open>auto simp: cl_ack_def\<close>)
  then show ?thesis
    by (auto simp: finishCall_def reply_of_def rmq_Success_def m(2,3) split: option.splits sum.splits)
qed

lemma rmq_call_result_witness:
  "\<exists>call. cl_heap (sys_client (delivered demo_reply (call_added ''id'' 0 demo_published))) 0 = Some call \<and> pc_done call \<and>
     finishCall plain_marshal call RDone = Inr (Some ''ok'')"
proof -
  let ?d = "demo_delivery ''ok''"
  have h: "rmq_handled (demo_server :: (unit, unit) Server) ?d (snd demo_state) = Returns (Some (Inr (RToken ''ok'')))"
    by (simp add: handled_def demo_server_def demo_delivery_def demo_handler_def)
  obtain m where m: "br_actions (fst (snd (run_state (rmq_serveCall (demo_server :: (unit, unit) Server) ?d) (fst demo_state, snd demo_state)))) =
      br_actions (fst demo_state) @ [Publish (d_ReplyTo ?d) m, Ack ?d]"
    "m = \<lparr>p_ContentType = ''application/json'', p_CorrelationId = ''id'', p_Type = ''success'', p_Body = ''ok'', p_ReplyTo = [], p_Headers = Map.empty\<rparr>"
    using serveCall_actions [of "demo_server :: (unit, unit) Server" ?d "fst demo_state" "snd demo_state"]
    by (auto simp: h the_reply_def reply_of_def) (simp add: demo_server_def demo_delivery_def)
  have w: "sys_phase (call_added ''id'' 0 demo_published) ''id'' = Some (Waiting 0)" by (simp add: demo_run_defs)
  from rmq_call_result [OF demo_waiting_reachable w _ h m(1), of demo_reply] show ?thesis
    by (simp add: m(2) demo_reply_def demo_delivery_def demo_server_def plain_marshal_def)
qed

end
