(* ===== verification/App_Props.thy ===== *)
theory App_Props
  imports App Rpc_Props Transport_Props
begin

text \<open>Properties of the application as it is wired, across its transports.\<close>

lemma wired_task_service [simp]: "uc_task (initUseCases bc lib gtrans pg m) = task_service pg"
  by (simp add: initUseCases_def task_service_def Let_def)

lemma val_simple: "val (simple h ctx body) w = Returns (val (h ctx body) w)"
  by (simp add: simple_def case_prod_beta)

lemma createTask_created:
  assumes "run_state (createTask r c) w = (JSON 201 (JTask t), w1)"
  shows "\<exists>u a b. ctx_values c ''userID'' = Some u \<and> run_state (TaskUC_Create (V1_tk r) (req_Context c) u a b) w = (Inr t, w1)"
  using assms
  by (auto simp: createTask_def errorResponse_def bodyErrorResponse_def split: option.splits sum.splits prod.splits if_splits)

lemma amqp_getTask_result:
  assumes "Unmarshal_envelope (rpc_json r) body = Inr (tok, data)" and "val (ParseToken (rpc_jwtlib r) (rpc_j r) tok) w = Inr u"
    and "Unmarshal (rpc_json r) data [''id''] = Inr req" and "rpc_validate r [(''required'', req ''id'')] = None"
  shows "\<exists>w1. wdb w1 = wdb w \<and> val (amqp_getTask r ctx body) w =
    (case val (TaskUC_Get (rpc_tk r) ctx u (req ''id'')) w1 of
       Inl e \<Rightarrow> Inl (Errorf ''amqp_rpc - V1 - getTask: '' e)
     | Inr t \<Rightarrow> Inr (RTask t))"
proof (intro exI conjI)
  let ?w = "post (ParseToken (rpc_jwtlib r) (rpc_j r) tok) w"
  show "wdb ?w = wdb w" by (rule ParseToken_frame)
  show "val (amqp_getTask r ctx body) w =
    (case val (TaskUC_Get (rpc_tk r) ctx u (req ''id'')) ?w of
       Inl e \<Rightarrow> Inl (Errorf ''amqp_rpc - V1 - getTask: '' e)
     | Inr t \<Rightarrow> Inr (RTask t))"
    using assms
    by (auto simp: amqp_getTask_def amqp_extractUserID_def rpc_GetTask_tags_def rpc_Struct_def split: prod.splits sum.splits)
qed

text \<open>A task that the REST route has answered with 201 can be read through the task service by its user.\<close>

lemma rest_created_gettable:
  assumes "sql_db pg tbl good uuid micro" and "good (wdb w)" and "uuid u = u" and "\<not> Tracing_Enabled cfg"
    and "wi_http (wire lib json validate web mw cfg (initUseCases bc lib gtrans pg m) m) (''POST'', ''/v1/tasks'') = Some h"
    and "bearer lib m c w tok u" and created: "run_state (h c) w = (Returns (JSON 201 (JTask t)), w1)" and "wdb w2 = wdb w1"
  shows "val (TaskUC_Get (task_service pg) ctx u (task_ID t)) w2 = Inr (stored_task uuid micro t) \<or>
      (\<exists>e. val (TaskUC_Get (task_service pg) ctx u (task_ID t)) w2 = Inl e \<and> foreign e)"
proof -
  let ?uc = "initUseCases bc lib gtrans pg m"
  let ?r = "\<lparr>V1_t = uc_translation ?uc, V1_u = uc_user ?uc, V1_tk = uc_task ?uc, V1_web = web\<rparr>"
  from assms(4,5) have h: "h = Auth lib m (plain (createTask ?r))"
    by (auto simp: wire_def v1_group_def NewRouter_create Let_def)
  let ?c = "c\<lparr>ctx_values := (ctx_values c)(''userID'' \<mapsto> u)\<rparr>" and ?w = "post (ParseToken lib m tok) w"
  from created [unfolded h Auth_accepts [OF assms(6)]] have "run_state (createTask ?r ?c) ?w = (JSON 201 (JTask t), w1)"
    by (auto simp: plain_def split: prod.splits)
  from createTask_created [OF this] obtain a b where
    made: "run_state (TaskUC_Create (task_service pg) (req_Context ?c) u a b) ?w = (Inr t, w1)" by auto
  have good: "good (wdb ?w)" using assms(2) by (simp add: ParseToken_frame)
  show ?thesis
    by (rule created_gettable [OF assms(1) _ assms(3) made assms(8) prod.collapse [symmetric]]) (rule good)
qed


text \<open>A library whose tokens are the user's name, and a decoder that reads the identifier off the body.\<close>

definition plain_jwt :: jwtlib where
  "plain_jwt = demo_jwt\<lparr>Parse := (\<lambda>_ s _. Inr \<lparr>Method = SigningMethodHS256, Claims = \<lparr>Subject = s, ExpiresAt = 5\<rparr>\<rparr>)\<rparr>"

definition id_json :: json_lib where
  "id_json = \<lparr>Unmarshal_envelope = (\<lambda>s. Inr (''u1'', s)), Unmarshal = (\<lambda>s names. Inr (\<lambda>_. s)),
     Unmarshal_ListTasks = (\<lambda>s. Inr (s, 0, 0))\<rparr>"

definition demo_cfg :: Config where
  "demo_cfg = \<lparr>App_Name = ''app'', App_Version = ''1'', HTTP_Port = ''8080'', Log_Level = ''info'', PG_PoolMax = 2, PG_URL = ''pg'',
     GRPC_Port = ''8081'', RMQ_ServerExchange = ''rpc_server'', RMQ_ClientExchange = ''rpc_client'', RMQ_URL = ''amqp'',
     NATS_ServerExchange = ''rpc_server'', NATS_URL = ''nats'', JWT_Secret = ''key'', JWT_TokenExpiry = 5, Metrics_Enabled = True,
     Swagger_Enabled = False, Tracing_Enabled = False, Tracing_OTLPEndpoint = [], Tracing_OTLPInsecure = True, Tracing_SampleRate = 0\<rparr>"

definition bearing :: echo_ctx where
  "bearing = demo_echo\<lparr>req_Header := (\<lambda>k. if k = ''Authorization'' then [''Bearer u1''] else [])\<rparr>"

definition demo_wiring :: "mem wiring" where
  "demo_wiring = wire plain_jwt id_json (\<lambda>_. None) demo_web demo_mw demo_cfg
     (initUseCases demo_bcrypt plain_jwt (\<lambda>_ _ _ _. Inr ''salut'') mem_pg demo_manager) demo_manager"

definition demo_created :: Task where
  "demo_created = \<lparr>task_ID = ''r0'', task_UserID = ''u1'', task_Title = ''done'', task_Description = ''done'',
     task_Status = TaskStatusTodo, task_CreatedAt = 6000, task_UpdatedAt = 6000\<rparr>"

lemma plain_parse: "run_state (ParseToken plain_jwt demo_manager tok) w = (Inr tok, w\<lparr>ticks := Suc (ticks w)\<rparr>)"
  by (simp add: ParseToken_def plain_jwt_def demo_jwt_def)

lemma demo_bearer: "bearer plain_jwt demo_manager bearing demo_world ''u1'' ''u1''"
  by (simp add: bearer_def bearing_def Header_Get_def plain_parse)

lemma demo_stored: "val (TaskUC_Create (task_service mem_pg) demo_ctx ''u1'' ''done'' ''done'') (demo_world\<lparr>ticks := Suc 0\<rparr>) = Inr demo_created"
  unfolding span_sim_same(1) [OF task_service_sims(1)]
  by (simp add: TaskUseCase_Create_def TaskPgRepo_def Task_Store_def Let_def mem_defs demo_created_def)

lemma demo_201:
  assumes "wi_http demo_wiring (''POST'', ''/v1/tasks'') = Some h"
  shows "val (h bearing) demo_world = Returns (JSON 201 (JTask demo_created))"
proof -
  obtain a b where h: "h = Auth plain_jwt demo_manager (plain (createTask \<lparr>V1_t = a, V1_u = b, V1_tk = task_service mem_pg, V1_web = demo_web\<rparr>))"
    using assms by (auto simp: demo_wiring_def wire_def NewRouter_create v1_group_def demo_cfg_def Let_def)
  have ctx: "\<lparr>ctx_err = None, ctx_userID = None\<rparr> = demo_ctx" by (simp add: demo_ctx_def)
  show ?thesis
    unfolding h Auth_accepts [OF demo_bearer]
    using demo_stored
    by (simp add: plain_parse plain_def createTask_def demo_web_def bindBody_def Struct_def Let_def bearing_def demo_echo_def ctx
        case_prod_beta)
qed


end
