(* ===== verification/Grpc_Service.thy ===== *)
theory Grpc_Service
  imports Grpc_Props
begin

text \<open>
  The code generated from the protocol definitions (\<^verbatim>\<open>src/docs/proto/v1/*_grpc.pb.go\<close>): the names of the
  methods, the interfaces of the services with their unimplemented servers, which the controllers
  embed, the handlers the library calls, the service descriptions, and the client stubs. The
  library between the two, \<^verbatim>\<open>google.golang.org/grpc\<close>, is a parameter with the laws of the locale
  \<open>grpc_transport\<close>.
\<close>

section \<open>Names of the methods\<close>

definition AuthService_Register_FullMethodName :: string where
  "AuthService_Register_FullMethodName = ''/grpc.v1.AuthService/Register''"

definition AuthService_Login_FullMethodName :: string where
  "AuthService_Login_FullMethodName = ''/grpc.v1.AuthService/Login''"

definition AuthService_GetProfile_FullMethodName :: string where
  "AuthService_GetProfile_FullMethodName = ''/grpc.v1.AuthService/GetProfile''"

definition TaskService_CreateTask_FullMethodName :: string where
  "TaskService_CreateTask_FullMethodName = ''/grpc.v1.TaskService/CreateTask''"

definition TaskService_GetTask_FullMethodName :: string where
  "TaskService_GetTask_FullMethodName = ''/grpc.v1.TaskService/GetTask''"

definition TaskService_ListTasks_FullMethodName :: string where
  "TaskService_ListTasks_FullMethodName = ''/grpc.v1.TaskService/ListTasks''"

definition TaskService_UpdateTask_FullMethodName :: string where
  "TaskService_UpdateTask_FullMethodName = ''/grpc.v1.TaskService/UpdateTask''"

definition TaskService_TransitionTask_FullMethodName :: string where
  "TaskService_TransitionTask_FullMethodName = ''/grpc.v1.TaskService/TransitionTask''"

definition TaskService_DeleteTask_FullMethodName :: string where
  "TaskService_DeleteTask_FullMethodName = ''/grpc.v1.TaskService/DeleteTask''"

definition Translation_GetHistory_FullMethodName :: string where
  "Translation_GetHistory_FullMethodName = ''/grpc.v1.Translation/GetHistory''"

definition Translation_Translate_FullMethodName :: string where
  "Translation_Translate_FullMethodName = ''/grpc.v1.Translation/Translate''"

lemmas FullMethodName_defs =
  AuthService_Register_FullMethodName_def
  AuthService_Login_FullMethodName_def
  AuthService_GetProfile_FullMethodName_def
  TaskService_CreateTask_FullMethodName_def
  TaskService_GetTask_FullMethodName_def
  TaskService_ListTasks_FullMethodName_def
  TaskService_UpdateTask_FullMethodName_def
  TaskService_TransitionTask_FullMethodName_def
  TaskService_DeleteTask_FullMethodName_def
  Translation_GetHistory_FullMethodName_def
  Translation_Translate_FullMethodName_def

section \<open>The library's types\<close>

text \<open>
  A request is decoded into an empty message of the type the handler asks for; an interceptor
  gets the context, the message, the name of the method and the handler to continue with.
\<close>

type_synonym 'db rpc = "('db, grpc_response grpc_result outcome) io"
type_synonym decoder = "grpc_request \<Rightarrow> grpc_status + grpc_request"
type_synonym 'db interceptor = "go_ctx \<Rightarrow> grpc_request \<Rightarrow> string \<Rightarrow> (go_ctx \<Rightarrow> grpc_request \<Rightarrow> 'db rpc) \<Rightarrow> 'db rpc"
type_synonym 'db method_handler = "go_ctx \<Rightarrow> decoder \<Rightarrow> 'db interceptor option \<Rightarrow> 'db rpc"

record ('srv, 'db) ServiceDesc =
  ServiceName :: string
  Methods :: "(string \<times> ('srv \<Rightarrow> 'db method_handler)) list"
  Metadata :: string

section \<open>Service interfaces and unimplemented servers\<close>

record 'db AuthServiceServer =
  Auth_Register :: "go_ctx \<Rightarrow> string \<Rightarrow> string \<Rightarrow> string \<Rightarrow> 'db rpc"
  Auth_Login :: "go_ctx \<Rightarrow> string \<Rightarrow> string \<Rightarrow> 'db rpc"
  Auth_GetProfile :: "go_ctx \<Rightarrow> 'db rpc"

record 'db TaskServiceServer =
  Tasks_CreateTask :: "go_ctx \<Rightarrow> string \<Rightarrow> string \<Rightarrow> 'db rpc"
  Tasks_GetTask :: "go_ctx \<Rightarrow> string \<Rightarrow> 'db rpc"
  Tasks_ListTasks :: "go_ctx \<Rightarrow> string \<Rightarrow> 32 word \<Rightarrow> 32 word \<Rightarrow> 'db rpc"
  Tasks_UpdateTask :: "go_ctx \<Rightarrow> string \<Rightarrow> string \<Rightarrow> string \<Rightarrow> 'db rpc"
  Tasks_TransitionTask :: "go_ctx \<Rightarrow> string \<Rightarrow> string \<Rightarrow> 'db rpc"
  Tasks_DeleteTask :: "go_ctx \<Rightarrow> string \<Rightarrow> 'db rpc"

record 'db TranslationServer =
  Tr_GetHistory :: "go_ctx \<Rightarrow> 'db rpc"
  Tr_Translate :: "go_ctx \<Rightarrow> string \<Rightarrow> string \<Rightarrow> string \<Rightarrow> 'db rpc"

definition unimplemented :: "string \<Rightarrow> 'db rpc" where
  "unimplemented name = ret (Returns (Inl (Status Unimplemented (''method '' @ name @ '' not implemented''))))"

definition UnimplementedAuthServiceServer :: "'db AuthServiceServer" where
  "UnimplementedAuthServiceServer =
     \<lparr>Auth_Register = (\<lambda>_ _ _ _. unimplemented ''Register''),
      Auth_Login = (\<lambda>_ _ _. unimplemented ''Login''),
      Auth_GetProfile = (\<lambda>_. unimplemented ''GetProfile'')\<rparr>"

definition UnimplementedTaskServiceServer :: "'db TaskServiceServer" where
  "UnimplementedTaskServiceServer =
     \<lparr>Tasks_CreateTask = (\<lambda>_ _ _. unimplemented ''CreateTask''),
      Tasks_GetTask = (\<lambda>_ _. unimplemented ''GetTask''),
      Tasks_ListTasks = (\<lambda>_ _ _ _. unimplemented ''ListTasks''),
      Tasks_UpdateTask = (\<lambda>_ _ _ _. unimplemented ''UpdateTask''),
      Tasks_TransitionTask = (\<lambda>_ _ _. unimplemented ''TransitionTask''),
      Tasks_DeleteTask = (\<lambda>_ _. unimplemented ''DeleteTask'')\<rparr>"

definition UnimplementedTranslationServer :: "'db TranslationServer" where
  "UnimplementedTranslationServer =
     \<lparr>Tr_GetHistory = (\<lambda>_. unimplemented ''GetHistory''),
      Tr_Translate = (\<lambda>_ _ _ _. unimplemented ''Translate'')\<rparr>"

section \<open>Handlers\<close>

text \<open>
  Every generated handler has the same body: decode, then call the method, directly or through the
  interceptor; \<open>req.(*T)\<close> panics on a message of another type.
\<close>

definition unary_handler :: "grpc_request \<Rightarrow> string \<Rightarrow> (go_ctx \<Rightarrow> grpc_request \<Rightarrow> 'db rpc) \<Rightarrow> 'db method_handler" where
  "unary_handler new fullMethod call ctx dec interceptor =
     (case dec new of
        Inl err \<Rightarrow> ret (Returns (Inl err))
      | Inr req \<Rightarrow>
          (case interceptor of
             None \<Rightarrow> call ctx req
           | Some icpt \<Rightarrow> icpt ctx req fullMethod call))"

definition conversion_panic :: "'db rpc" where
  "conversion_panic = ret (Panics ''interface conversion'')"

definition AuthService_Register_Handler :: "'db AuthServiceServer \<Rightarrow> 'db method_handler" where
  "AuthService_Register_Handler srv = unary_handler (RegisterRequest [] [] []) AuthService_Register_FullMethodName
     (\<lambda>ctx req. case req of RegisterRequest a b c \<Rightarrow> Auth_Register srv ctx a b c | _ \<Rightarrow> conversion_panic)"

definition AuthService_Login_Handler :: "'db AuthServiceServer \<Rightarrow> 'db method_handler" where
  "AuthService_Login_Handler srv = unary_handler (LoginRequest [] []) AuthService_Login_FullMethodName
     (\<lambda>ctx req. case req of LoginRequest a b \<Rightarrow> Auth_Login srv ctx a b | _ \<Rightarrow> conversion_panic)"

definition AuthService_GetProfile_Handler :: "'db AuthServiceServer \<Rightarrow> 'db method_handler" where
  "AuthService_GetProfile_Handler srv = unary_handler GetProfileRequest AuthService_GetProfile_FullMethodName
     (\<lambda>ctx req. case req of GetProfileRequest \<Rightarrow> Auth_GetProfile srv ctx | _ \<Rightarrow> conversion_panic)"

definition TaskService_CreateTask_Handler :: "'db TaskServiceServer \<Rightarrow> 'db method_handler" where
  "TaskService_CreateTask_Handler srv = unary_handler (CreateTaskRequest [] []) TaskService_CreateTask_FullMethodName
     (\<lambda>ctx req. case req of CreateTaskRequest a b \<Rightarrow> Tasks_CreateTask srv ctx a b | _ \<Rightarrow> conversion_panic)"

definition TaskService_GetTask_Handler :: "'db TaskServiceServer \<Rightarrow> 'db method_handler" where
  "TaskService_GetTask_Handler srv = unary_handler (GetTaskRequest []) TaskService_GetTask_FullMethodName
     (\<lambda>ctx req. case req of GetTaskRequest a \<Rightarrow> Tasks_GetTask srv ctx a | _ \<Rightarrow> conversion_panic)"

definition TaskService_ListTasks_Handler :: "'db TaskServiceServer \<Rightarrow> 'db method_handler" where
  "TaskService_ListTasks_Handler srv = unary_handler (ListTasksRequest [] 0 0) TaskService_ListTasks_FullMethodName
     (\<lambda>ctx req. case req of ListTasksRequest a b c \<Rightarrow> Tasks_ListTasks srv ctx a b c | _ \<Rightarrow> conversion_panic)"

definition TaskService_UpdateTask_Handler :: "'db TaskServiceServer \<Rightarrow> 'db method_handler" where
  "TaskService_UpdateTask_Handler srv = unary_handler (UpdateTaskRequest [] [] []) TaskService_UpdateTask_FullMethodName
     (\<lambda>ctx req. case req of UpdateTaskRequest a b c \<Rightarrow> Tasks_UpdateTask srv ctx a b c | _ \<Rightarrow> conversion_panic)"

definition TaskService_TransitionTask_Handler :: "'db TaskServiceServer \<Rightarrow> 'db method_handler" where
  "TaskService_TransitionTask_Handler srv = unary_handler (TransitionTaskRequest [] []) TaskService_TransitionTask_FullMethodName
     (\<lambda>ctx req. case req of TransitionTaskRequest a b \<Rightarrow> Tasks_TransitionTask srv ctx a b | _ \<Rightarrow> conversion_panic)"

definition TaskService_DeleteTask_Handler :: "'db TaskServiceServer \<Rightarrow> 'db method_handler" where
  "TaskService_DeleteTask_Handler srv = unary_handler (DeleteTaskRequest []) TaskService_DeleteTask_FullMethodName
     (\<lambda>ctx req. case req of DeleteTaskRequest a \<Rightarrow> Tasks_DeleteTask srv ctx a | _ \<Rightarrow> conversion_panic)"

definition Translation_GetHistory_Handler :: "'db TranslationServer \<Rightarrow> 'db method_handler" where
  "Translation_GetHistory_Handler srv = unary_handler GetHistoryRequest Translation_GetHistory_FullMethodName
     (\<lambda>ctx req. case req of GetHistoryRequest \<Rightarrow> Tr_GetHistory srv ctx | _ \<Rightarrow> conversion_panic)"

definition Translation_Translate_Handler :: "'db TranslationServer \<Rightarrow> 'db method_handler" where
  "Translation_Translate_Handler srv = unary_handler (TranslateRequest [] [] []) Translation_Translate_FullMethodName
     (\<lambda>ctx req. case req of TranslateRequest a b c \<Rightarrow> Tr_Translate srv ctx a b c | _ \<Rightarrow> conversion_panic)"

lemmas Handler_defs =
  AuthService_Register_Handler_def
  AuthService_Login_Handler_def
  AuthService_GetProfile_Handler_def
  TaskService_CreateTask_Handler_def
  TaskService_GetTask_Handler_def
  TaskService_ListTasks_Handler_def
  TaskService_UpdateTask_Handler_def
  TaskService_TransitionTask_Handler_def
  TaskService_DeleteTask_Handler_def
  Translation_GetHistory_Handler_def
  Translation_Translate_Handler_def

section \<open>Service descriptions\<close>

definition AuthService_ServiceDesc :: "('db AuthServiceServer, 'db) ServiceDesc" where
  "AuthService_ServiceDesc =
     \<lparr>ServiceName = ''grpc.v1.AuthService'',
      Methods =
        [(''Register'', AuthService_Register_Handler),
         (''Login'', AuthService_Login_Handler),
         (''GetProfile'', AuthService_GetProfile_Handler)],
      Metadata = ''docs/proto/v1/auth.proto''\<rparr>"

definition TaskService_ServiceDesc :: "('db TaskServiceServer, 'db) ServiceDesc" where
  "TaskService_ServiceDesc =
     \<lparr>ServiceName = ''grpc.v1.TaskService'',
      Methods =
        [(''CreateTask'', TaskService_CreateTask_Handler),
         (''GetTask'', TaskService_GetTask_Handler),
         (''ListTasks'', TaskService_ListTasks_Handler),
         (''UpdateTask'', TaskService_UpdateTask_Handler),
         (''TransitionTask'', TaskService_TransitionTask_Handler),
         (''DeleteTask'', TaskService_DeleteTask_Handler)],
      Metadata = ''docs/proto/v1/task.proto''\<rparr>"

definition Translation_ServiceDesc :: "('db TranslationServer, 'db) ServiceDesc" where
  "Translation_ServiceDesc =
     \<lparr>ServiceName = ''grpc.v1.Translation'',
      Methods =
        [(''GetHistory'', Translation_GetHistory_Handler),
         (''Translate'', Translation_Translate_Handler)],
      Metadata = ''docs/proto/v1/translation.history.proto''\<rparr>"

text \<open>A service as the library keeps it after \<open>RegisterService\<close>: its name and its methods, bound to the server.\<close>

type_synonym 'db service = "string \<times> (string \<times> 'db method_handler) list"

definition RegisterService :: "('srv, 'db) ServiceDesc \<Rightarrow> 'srv \<Rightarrow> 'db service" where
  "RegisterService desc srv = (ServiceName desc, map (\<lambda>(name, h). (name, h srv)) (Methods desc))"

section \<open>Client stubs\<close>

text \<open>
  Every stub passes an empty response for \<open>Invoke\<close> to fill, and returns no response with an error.
\<close>

type_synonym 'db invoker = "go_ctx \<Rightarrow> string \<Rightarrow> grpc_request \<Rightarrow> grpc_response \<Rightarrow> ('db, grpc_response grpc_result) io"

definition invoke_stub :: "string \<Rightarrow> grpc_response \<Rightarrow> 'db invoker \<Rightarrow> go_ctx \<Rightarrow> grpc_request \<Rightarrow> ('db, grpc_response grpc_result) io" where
  "invoke_stub fullMethod out cc ctx req = do {
     res \<leftarrow> cc ctx fullMethod req out;
     case res of Inl err \<Rightarrow> ret (Inl err) | Inr out \<Rightarrow> ret (Inr out) }"

definition empty_TaskResponse :: TaskResponse where
  "empty_TaskResponse =
     \<lparr>pb_Id = [], pb_UserId = [], pb_Title = [], pb_Description = [], pb_Status = [], pb_CreatedAt = [], pb_UpdatedAt = []\<rparr>"

definition authServiceClient_Register :: "'db invoker \<Rightarrow> go_ctx \<Rightarrow> string \<Rightarrow> string \<Rightarrow> string \<Rightarrow> ('db, grpc_response grpc_result) io" where
  "authServiceClient_Register cc ctx a b c =
     invoke_stub AuthService_Register_FullMethodName (RegisterResponse [] [] [] [] []) cc ctx (RegisterRequest a b c)"

definition authServiceClient_Login :: "'db invoker \<Rightarrow> go_ctx \<Rightarrow> string \<Rightarrow> string \<Rightarrow> ('db, grpc_response grpc_result) io" where
  "authServiceClient_Login cc ctx a b =
     invoke_stub AuthService_Login_FullMethodName (LoginResponse []) cc ctx (LoginRequest a b)"

definition authServiceClient_GetProfile :: "'db invoker \<Rightarrow> go_ctx \<Rightarrow> ('db, grpc_response grpc_result) io" where
  "authServiceClient_GetProfile cc ctx =
     invoke_stub AuthService_GetProfile_FullMethodName (GetProfileResponse [] [] [] [] []) cc ctx GetProfileRequest"

definition taskServiceClient_CreateTask :: "'db invoker \<Rightarrow> go_ctx \<Rightarrow> string \<Rightarrow> string \<Rightarrow> ('db, grpc_response grpc_result) io" where
  "taskServiceClient_CreateTask cc ctx a b =
     invoke_stub TaskService_CreateTask_FullMethodName (TaskResponse empty_TaskResponse) cc ctx (CreateTaskRequest a b)"

definition taskServiceClient_GetTask :: "'db invoker \<Rightarrow> go_ctx \<Rightarrow> string \<Rightarrow> ('db, grpc_response grpc_result) io" where
  "taskServiceClient_GetTask cc ctx a =
     invoke_stub TaskService_GetTask_FullMethodName (TaskResponse empty_TaskResponse) cc ctx (GetTaskRequest a)"

definition taskServiceClient_ListTasks :: "'db invoker \<Rightarrow> go_ctx \<Rightarrow> string \<Rightarrow> 32 word \<Rightarrow> 32 word \<Rightarrow> ('db, grpc_response grpc_result) io" where
  "taskServiceClient_ListTasks cc ctx a b c =
     invoke_stub TaskService_ListTasks_FullMethodName (ListTasksResponse [] 0) cc ctx (ListTasksRequest a b c)"

definition taskServiceClient_UpdateTask :: "'db invoker \<Rightarrow> go_ctx \<Rightarrow> string \<Rightarrow> string \<Rightarrow> string \<Rightarrow> ('db, grpc_response grpc_result) io" where
  "taskServiceClient_UpdateTask cc ctx a b c =
     invoke_stub TaskService_UpdateTask_FullMethodName (TaskResponse empty_TaskResponse) cc ctx (UpdateTaskRequest a b c)"

definition taskServiceClient_TransitionTask :: "'db invoker \<Rightarrow> go_ctx \<Rightarrow> string \<Rightarrow> string \<Rightarrow> ('db, grpc_response grpc_result) io" where
  "taskServiceClient_TransitionTask cc ctx a b =
     invoke_stub TaskService_TransitionTask_FullMethodName (TaskResponse empty_TaskResponse) cc ctx (TransitionTaskRequest a b)"

definition taskServiceClient_DeleteTask :: "'db invoker \<Rightarrow> go_ctx \<Rightarrow> string \<Rightarrow> ('db, grpc_response grpc_result) io" where
  "taskServiceClient_DeleteTask cc ctx a =
     invoke_stub TaskService_DeleteTask_FullMethodName DeleteTaskResponse cc ctx (DeleteTaskRequest a)"

definition translationClient_GetHistory :: "'db invoker \<Rightarrow> go_ctx \<Rightarrow> ('db, grpc_response grpc_result) io" where
  "translationClient_GetHistory cc ctx =
     invoke_stub Translation_GetHistory_FullMethodName (GetHistoryResponse []) cc ctx GetHistoryRequest"

definition translationClient_Translate :: "'db invoker \<Rightarrow> go_ctx \<Rightarrow> string \<Rightarrow> string \<Rightarrow> string \<Rightarrow> ('db, grpc_response grpc_result) io" where
  "translationClient_Translate cc ctx a b c =
     invoke_stub Translation_Translate_FullMethodName (TranslateResponse [] [] [] []) cc ctx (TranslateRequest a b c)"

lemmas stub_defs =
  authServiceClient_Register_def
  authServiceClient_Login_def
  authServiceClient_GetProfile_def
  taskServiceClient_CreateTask_def
  taskServiceClient_GetTask_def
  taskServiceClient_ListTasks_def
  taskServiceClient_UpdateTask_def
  taskServiceClient_TransitionTask_def
  taskServiceClient_DeleteTask_def
  translationClient_GetHistory_def
  translationClient_Translate_def

text \<open>The stub of a request's method, as a caller of the client chooses it.\<close>

fun client_call :: "'db invoker \<Rightarrow> go_ctx \<Rightarrow> grpc_request \<Rightarrow> ('db, grpc_response grpc_result) io" where
  "client_call cc ctx (RegisterRequest a b c) = authServiceClient_Register cc ctx a b c"
| "client_call cc ctx (LoginRequest a b) = authServiceClient_Login cc ctx a b"
| "client_call cc ctx GetProfileRequest = authServiceClient_GetProfile cc ctx"
| "client_call cc ctx (CreateTaskRequest a b) = taskServiceClient_CreateTask cc ctx a b"
| "client_call cc ctx (GetTaskRequest a) = taskServiceClient_GetTask cc ctx a"
| "client_call cc ctx (ListTasksRequest a b c) = taskServiceClient_ListTasks cc ctx a b c"
| "client_call cc ctx (UpdateTaskRequest a b c) = taskServiceClient_UpdateTask cc ctx a b c"
| "client_call cc ctx (TransitionTaskRequest a b) = taskServiceClient_TransitionTask cc ctx a b"
| "client_call cc ctx (DeleteTaskRequest a) = taskServiceClient_DeleteTask cc ctx a"
| "client_call cc ctx GetHistoryRequest = translationClient_GetHistory cc ctx"
| "client_call cc ctx (TranslateRequest a b c) = translationClient_Translate cc ctx a b c"

section \<open>The controllers behind the services\<close>

text \<open>
  A controller embeds the unimplemented server of its service and declares methods of its own,
  which hide the embedded ones: a record update.
\<close>

definition AuthController_server :: "'db UserUC \<Rightarrow> 'db AuthServiceServer" where
  "AuthController_server u = UnimplementedAuthServiceServer
     \<lparr>Auth_Register := (\<lambda>ctx a b c. unary (AuthController_Register u ctx a b c)),
      Auth_Login := (\<lambda>ctx a b. unary (AuthController_Login u ctx a b)),
      Auth_GetProfile := (\<lambda>ctx. unary (AuthController_GetProfile u ctx))\<rparr>"

definition TaskController_server :: "'db TaskUC \<Rightarrow> 'db TaskServiceServer" where
  "TaskController_server tk = UnimplementedTaskServiceServer
     \<lparr>Tasks_CreateTask := (\<lambda>ctx a b. unary (TaskController_CreateTask tk ctx a b)),
      Tasks_GetTask := (\<lambda>ctx a. unary (TaskController_GetTask tk ctx a)),
      Tasks_ListTasks := (\<lambda>ctx a b c. TaskController_ListTasks tk ctx a b c),
      Tasks_UpdateTask := (\<lambda>ctx a b c. unary (TaskController_UpdateTask tk ctx a b c)),
      Tasks_TransitionTask := (\<lambda>ctx a b. unary (TaskController_TransitionTask tk ctx a b)),
      Tasks_DeleteTask := (\<lambda>ctx a. unary (TaskController_DeleteTask tk ctx a))\<rparr>"

definition TranslationController_server :: "'db TranslationUC \<Rightarrow> 'db TranslationServer" where
  "TranslationController_server t = UnimplementedTranslationServer
     \<lparr>Tr_GetHistory := (\<lambda>ctx. unary (TranslationController_GetHistory t ctx)),
      Tr_Translate := (\<lambda>ctx a b c. unary (TranslationController_Translate t ctx a b c))\<rparr>"

text \<open>\<open>NewRouter\<close> registers the three services in this order; the reflection service is the library's own.\<close>

definition grpc_services :: "'db grpc_server \<Rightarrow> 'db service list" where
  "grpc_services s =
     [RegisterService AuthService_ServiceDesc (AuthController_server (srv_u s)),
      RegisterService TaskService_ServiceDesc (TaskController_server (srv_tk s)),
      RegisterService Translation_ServiceDesc (TranslationController_server (srv_t s))]"

text \<open>\<open>pbgrpc.UnaryInterceptor(grpcmw.AuthInterceptor(jwtManager))\<close>, for a call with the metadata \<open>md\<close>.\<close>

definition auth_interceptor :: "jwtlib \<Rightarrow> Manager \<Rightarrow> (string \<Rightarrow> string list) option \<Rightarrow> 'db interceptor" where
  "auth_interceptor lib m md ctx req fullMethod handler = AuthInterceptor lib m ctx md fullMethod (\<lambda>ctx. handler ctx req)"

section \<open>What the registered methods do\<close>

lemma unary_handler_error: "dec new = Inl err \<Longrightarrow> unary_handler new fm call ctx dec icpt = ret (Returns (Inl err))"
  by (simp add: unary_handler_def)

lemma unary_handler_serves:
  assumes "\<And>ctx req. full_method req = full_method new \<Longrightarrow> call ctx req = grpc_handler s req ctx"
    and "fm = full_method new" and "dec new = Inr req" and "full_method req = full_method new"
  shows "unary_handler new fm call ctx dec (Some (auth_interceptor lib m md)) = grpc_serve lib m s ctx md req"
  using assms by (simp add: unary_handler_def auth_interceptor_def grpc_serve_def)

text \<open>What a registered method does with an empty message \<open>new\<close> of its type: decoding comes before the interceptor.\<close>

definition serves :: "'db grpc_server \<Rightarrow> grpc_request \<Rightarrow> 'db method_handler \<Rightarrow> bool" where
  "serves s new h \<longleftrightarrow>
     (\<forall>ctx dec err icpt. dec new = Inl err \<longrightarrow> h ctx dec icpt = ret (Returns (Inl err))) \<and>
     (\<forall>ctx dec req lib m md. dec new = Inr req \<longrightarrow> full_method req = full_method new \<longrightarrow>
        h ctx dec (Some (auth_interceptor lib m md)) = grpc_serve lib m s ctx md req)"

lemma unary_handler_serves_new:
  assumes "\<And>ctx req. full_method req = full_method new \<Longrightarrow> call ctx req = grpc_handler s req ctx"
    and "fm = full_method new"
  shows "serves s new (unary_handler new fm call)"
  unfolding serves_def using unary_handler_serves [OF assms] unary_handler_error by blast

lemma auth_handlers_serve:
  defines "srv \<equiv> \<lambda>s. AuthController_server (srv_u s)"
  shows "serves s (RegisterRequest [] [] []) (AuthService_Register_Handler (srv s))"
    and "serves s (LoginRequest [] []) (AuthService_Login_Handler (srv s))"
    and "serves s GetProfileRequest (AuthService_GetProfile_Handler (srv s))"
  unfolding Handler_defs FullMethodName_defs srv_def
  by (rule unary_handler_serves_new, auto simp: AuthController_server_def split: grpc_request.splits)+

lemma task_handlers_serve:
  defines "srv \<equiv> \<lambda>s. TaskController_server (srv_tk s)"
  shows "serves s (CreateTaskRequest [] []) (TaskService_CreateTask_Handler (srv s))"
    and "serves s (GetTaskRequest []) (TaskService_GetTask_Handler (srv s))"
    and "serves s (ListTasksRequest [] 0 0) (TaskService_ListTasks_Handler (srv s))"
    and "serves s (UpdateTaskRequest [] [] []) (TaskService_UpdateTask_Handler (srv s))"
    and "serves s (TransitionTaskRequest [] []) (TaskService_TransitionTask_Handler (srv s))"
    and "serves s (DeleteTaskRequest []) (TaskService_DeleteTask_Handler (srv s))"
  unfolding Handler_defs FullMethodName_defs srv_def
  by (rule unary_handler_serves_new, auto simp: TaskController_server_def split: grpc_request.splits)+

lemma translation_handlers_serve:
  defines "srv \<equiv> \<lambda>s. TranslationController_server (srv_t s)"
  shows "serves s GetHistoryRequest (Translation_GetHistory_Handler (srv s))"
    and "serves s (TranslateRequest [] [] []) (Translation_Translate_Handler (srv s))"
  unfolding Handler_defs FullMethodName_defs srv_def
  by (rule unary_handler_serves_new, auto simp: TranslationController_server_def split: grpc_request.splits)+

lemmas handlers_serve = auth_handlers_serve task_handlers_serve translation_handlers_serve

lemmas registered_defs = grpc_services_def RegisterService_def
  AuthService_ServiceDesc_def TaskService_ServiceDesc_def Translation_ServiceDesc_def

text \<open>Every registered method serves the requests of its full name, and every request has one.\<close>

lemma registered_serves:
  assumes "(name, ms) \<in> set (grpc_services s)" and "(mth, h) \<in> set ms"
  shows "\<exists>new. full_method new = ''/'' @ name @ ''/'' @ mth \<and> serves s new h"
proof -
  have "\<forall>(name, ms) \<in> set (grpc_services s). \<forall>(mth, h) \<in> set ms. \<exists>new. full_method new = ''/'' @ name @ ''/'' @ mth \<and> serves s new h"
    unfolding registered_defs
    by (simp, intro conjI; rule exI, rule conjI [rotated], rule handlers_serve, simp)
  with assms show ?thesis by blast
qed

lemma request_registered:
  "\<exists>name ms mth h. (name, ms) \<in> set (grpc_services s) \<and> (mth, h) \<in> set ms \<and> CHR ''/'' \<notin> set mth \<and>
     full_method req = ''/'' @ name @ ''/'' @ mth"
proof -
  have "\<exists>(name, ms) \<in> set (grpc_services s). \<exists>(mth, h) \<in> set ms. CHR ''/'' \<notin> set mth \<and>
     full_method req = ''/'' @ name @ ''/'' @ mth"
    unfolding registered_defs by (cases req) simp_all
  then show ?thesis by blast
qed

lemma services_distinct:
  "distinct (map fst (grpc_services s))"
  "(name, ms) \<in> set (grpc_services s) \<Longrightarrow> distinct (map fst ms)"
  by (auto simp: registered_defs)

section \<open>No call panics\<close>

lemma grpc_handler_returns:
  assumes "srv_tk s = task_service pg"
  shows "\<exists>r. val (grpc_handler s req ctx) w = Returns r"
  using grpc_list_returns [of pg] assms by (cases req) (simp_all add: unary_def case_prod_beta)

lemma interceptor_returns:
  assumes "\<And>ctx w. \<exists>r. val (handler ctx) w = Returns r"
  shows "\<exists>r. val (AuthInterceptor lib m ctx md fm handler) w = Returns r"
  using assms by (auto simp: AuthInterceptor_def case_prod_beta split: option.splits list.splits sum.splits)

lemma grpc_serve_returns:
  assumes "srv_tk s = task_service pg"
  shows "\<exists>r. val (grpc_serve lib m s ctx md req) w = Returns r"
  unfolding grpc_serve_def by (rule interceptor_returns) (rule grpc_handler_returns [OF assms])

section \<open>From the stub to the handler\<close>

text \<open>
  What the library promises: \<open>dispatch\<close> finds a registered method by its full name, which it cuts at
  the last slash; \<open>decode\<close> gives back the message that was sent when it is read into one of its type;
  \<open>invoke\<close>, over a connection that is up, has the method run with the server's interceptor in the
  context \<open>sctx\<close> of the server, and brings back what it returned.
\<close>

locale grpc_transport =
  fixes dispatch :: "'db service list \<Rightarrow> string \<Rightarrow> 'db method_handler option"
    and decode :: "grpc_request \<Rightarrow> decoder"
    and invoke :: "'db service list \<Rightarrow> 'db interceptor \<Rightarrow> go_ctx \<Rightarrow> 'db invoker"
  assumes dispatch_registered: "distinct (map fst ss) \<Longrightarrow> (name, ms) \<in> set ss \<Longrightarrow> distinct (map fst ms) \<Longrightarrow>
      (mth, h) \<in> set ms \<Longrightarrow> CHR ''/'' \<notin> set mth \<Longrightarrow> dispatch ss (''/'' @ name @ ''/'' @ mth) = Some h"
    and decode_same: "full_method new = full_method req \<Longrightarrow> decode req new = Inr req"
    and invoke_delivers: "dispatch ss fm = Some h \<Longrightarrow>
      run_state (h sctx (decode req) (Some icpt)) w = (Returns r, w') \<Longrightarrow>
      run_state (invoke ss icpt sctx ctx fm req out) w = (r, w')"
begin

lemma dispatch_request:
  "\<exists>h. dispatch (grpc_services s) (full_method req) = Some h \<and>
     (\<forall>ctx lib m md. h ctx (decode req) (Some (auth_interceptor lib m md)) = grpc_serve lib m s ctx md req)"
proof -
  obtain name ms mth h where reg: "(name, ms) \<in> set (grpc_services s)" "(mth, h) \<in> set ms" "CHR ''/'' \<notin> set mth"
    and fm: "full_method req = ''/'' @ name @ ''/'' @ mth"
    using request_registered by blast
  obtain new where new: "full_method new = full_method req" "serves s new h"
    using registered_serves [OF reg(1,2)] fm by auto
  from dispatch_registered [OF services_distinct(1) reg(1) services_distinct(2) [OF reg(1)] reg(2,3)] fm
  have "dispatch (grpc_services s) (full_method req) = Some h" by simp
  with new decode_same [OF new(1)] show ?thesis unfolding serves_def by metis
qed

lemma invoke_served:
  assumes "srv_tk s = task_service pg"
  shows "\<exists>r. val (grpc_serve lib m s sctx md req) w = Returns r \<and>
    run_state (invoke (grpc_services s) (auth_interceptor lib m md) sctx ctx (full_method req) req out) w =
      (r, post (grpc_serve lib m s sctx md req) w)"
proof -
  obtain r where r: "val (grpc_serve lib m s sctx md req) w = Returns r"
    using grpc_serve_returns [OF assms] by blast
  obtain h where h: "dispatch (grpc_services s) (full_method req) = Some h"
    and serve: "h sctx (decode req) (Some (auth_interceptor lib m md)) = grpc_serve lib m s sctx md req"
    using dispatch_request by blast
  have "run_state (h sctx (decode req) (Some (auth_interceptor lib m md))) w = (Returns r, post (grpc_serve lib m s sctx md req) w)"
    unfolding serve using r by (metis prod.collapse)
  from invoke_delivers [OF h this] r show ?thesis by blast
qed

end

text \<open>A transport that keeps the promises: the name is cut at its last slash and looked up in the two tables.\<close>

definition cut_method :: "string \<Rightarrow> string \<times> string" where
  "cut_method fm = (let r = rev fm in
     (rev (tl (dropWhile (\<lambda>c. c \<noteq> CHR ''/'') r)), rev (takeWhile (\<lambda>c. c \<noteq> CHR ''/'') r)))"

definition table_dispatch :: "'db service list \<Rightarrow> string \<Rightarrow> 'db method_handler option" where
  "table_dispatch ss fm = (let (name, mth) = cut_method (tl fm) in Option.bind (map_of ss name) (\<lambda>ms. map_of ms mth))"

definition typed_decode :: "grpc_request \<Rightarrow> decoder" where
  "typed_decode req new = (if full_method new = full_method req then Inr req
     else Inl (Status Internal ''grpc: error unmarshalling request''))"

definition direct_invoke :: "'db service list \<Rightarrow> 'db interceptor \<Rightarrow> go_ctx \<Rightarrow> 'db invoker" where
  "direct_invoke ss icpt sctx ctx fm req out =
     (case table_dispatch ss fm of
        None \<Rightarrow> ret (Inl (Status Unimplemented (''unknown method '' @ fm)))
      | Some h \<Rightarrow> do {
          res \<leftarrow> h sctx (typed_decode req) (Some icpt);
          case res of Returns r \<Rightarrow> ret r | Panics msg \<Rightarrow> ret (Inl (Status Internal msg)) })"

lemma cut_method_join:
  assumes "CHR ''/'' \<notin> set mth"
  shows "cut_method (name @ CHR ''/'' # mth) = (name, mth)"
proof -
  have no: "c \<noteq> CHR ''/''" if "c \<in> set (rev mth)" for c using assms that by auto
  show ?thesis
    unfolding cut_method_def Let_def using takeWhile_append2 [of "rev mth", OF no] dropWhile_append2 [of "rev mth", OF no]
    by simp
qed

interpretation direct: grpc_transport table_dispatch typed_decode direct_invoke
  by unfold_locales (simp_all add: table_dispatch_def cut_method_join typed_decode_def direct_invoke_def)

lemma invoke_stub_run: "run_state (invoke_stub fm out cc ctx req) w = run_state (cc ctx fm req out) w"
  by (auto simp: invoke_stub_def case_prod_beta split: sum.split prod.split intro: prod_eqI)

lemma client_call_stub: "\<exists>out. run_state (client_call cc ctx req) w = run_state (cc ctx (full_method req) req out) w"
  by (cases req) (auto simp: stub_defs FullMethodName_defs invoke_stub_run)

text \<open>
  C21. A call of a generated client stub runs the controller's method behind the authentication
  interceptor: for every method and every request, over any transport that keeps the library's
  promises, the caller gets exactly what \<open>grpc_serve\<close> answers, with its effect on the state, and the
  server does not panic. No method is left to the unimplemented server it embeds.
\<close>

theorem client_call_served:
  assumes "grpc_transport dispatch decode invoke" and "srv_tk s = task_service pg"
  shows "\<exists>r. val (grpc_serve lib m s sctx md req) w = Returns r \<and>
    run_state (client_call (invoke (grpc_services s) (auth_interceptor lib m md) sctx) ctx req) w =
      (r, post (grpc_serve lib m s sctx md req) w)"
proof -
  obtain out where "run_state (client_call (invoke (grpc_services s) (auth_interceptor lib m md) sctx) ctx req) w =
      run_state (invoke (grpc_services s) (auth_interceptor lib m md) sctx ctx (full_method req) req out) w"
    using client_call_stub by blast
  with grpc_transport.invoke_served [OF assms] show ?thesis by metis
qed

definition demo_server :: "mem grpc_server" where
  "demo_server = \<lparr>srv_u = user_service demo_bcrypt demo_jwt demo_manager mem_pg, srv_tk = task_service mem_pg,
     srv_t = translation_service (\<lambda>_ _ _ _. Inr ''salut'') mem_pg\<rparr>"

lemma client_call_served_witness:
  "val (client_call (direct_invoke (grpc_services demo_server) (auth_interceptor demo_jwt demo_manager None) demo_ctx)
     demo_ctx (RegisterRequest ''bob'' ''b@b.c'' ''pw'')) demo_world = Inr (NewRegisterResponse demo_bob) \<and>
   val (client_call (direct_invoke (grpc_services demo_server) (auth_interceptor demo_jwt demo_manager None) demo_ctx)
     demo_ctx (DeleteTaskRequest ''t1'')) demo_world = Inl (Status Unauthenticated ''missing metadata'')"
proof -
  have tk: "srv_tk demo_server = task_service mem_pg" by (simp add: demo_server_def)
  have u: "srv_u demo_server = user_service demo_bcrypt demo_jwt demo_manager mem_pg" by (simp add: demo_server_def)
  have "val (grpc_serve demo_jwt demo_manager demo_server demo_ctx None (RegisterRequest ''bob'' ''b@b.c'' ''pw'')) demo_world =
      Returns (Inr (NewRegisterResponse demo_bob))"
    by (simp add: grpc_serve_def AuthInterceptor_def skipAuthMethods_def unary_def AuthController_Register_def u
        demo_registered case_prod_beta)
  moreover have "val (grpc_serve demo_jwt demo_manager demo_server demo_ctx None (DeleteTaskRequest ''t1'')) demo_world =
      Returns (Inl (Status Unauthenticated ''missing metadata''))"
    by (simp add: grpc_serve_def AuthInterceptor_def skipAuthMethods_def)
  ultimately show ?thesis
    using client_call_served [OF direct.grpc_transport_axioms tk, of demo_jwt demo_manager demo_ctx None _ demo_world demo_ctx]
    by (metis fst_conv outcome.inject(1))
qed

end
