(* ===== verification/App_Grpc.thy ===== *)
theory App_Grpc
  imports App_Props Grpc_Service
begin

text \<open>
  The application as it is wired, reached through the generated gRPC client: what REST has created
  is what the client reads.
\<close>

lemma wired_grpc:
  "srv_tk (wi_grpc (wire lib json validate web mw cfg (initUseCases bc lib gtrans pg m) m)) = task_service pg"
  by (simp add: wire_def Let_def)

lemma grpc_getTask_result:
  assumes "authorization lib m md w tok u" and "srv_tk s = task_service pg"
  shows "\<exists>w1 ctx'. wdb w1 = wdb w \<and> val (grpc_serve lib m s ctx md (GetTaskRequest i)) w =
    Returns (case val (TaskUC_Get (task_service pg) ctx' u i) w1 of
       Inl e \<Rightarrow> Inl (if errors_Is e ErrTaskNotFound then Status NotFound ''task not found''
           else if errors_Is e ErrTaskForbidden then Status PermissionDenied ''forbidden''
           else Status Internal ''internal server error'')
     | Inr t \<Rightarrow> Inr (TaskResponse (NewTaskResponse t)))"
proof (intro exI conjI)
  let ?w = "post (ParseToken lib m tok) w" and ?ctx = "ctx\<lparr>ctx_userID := Some u\<rparr>"
  show "wdb ?w = wdb w" by (rule ParseToken_frame)
  have "\<not> skipAuthMethods (full_method (GetTaskRequest i))" by (simp add: skipAuthMethods_def)
  from interceptor_accepts [OF this assms(1), of ctx "grpc_handler s (GetTaskRequest i)"]
  show "val (grpc_serve lib m s ctx md (GetTaskRequest i)) w =
    Returns (case val (TaskUC_Get (task_service pg) ?ctx u i) ?w of
       Inl e \<Rightarrow> Inl (if errors_Is e ErrTaskNotFound then Status NotFound ''task not found''
           else if errors_Is e ErrTaskForbidden then Status PermissionDenied ''forbidden''
           else Status Internal ''internal server error'')
     | Inr t \<Rightarrow> Inr (TaskResponse (NewTaskResponse t)))"
    unfolding grpc_serve_def
    by (simp add: unary_def TaskController_GetTask_def UserIDFromContext_def assms(2) case_prod_beta split: sum.splits)
qed


definition demo_md :: "string \<Rightarrow> string list" where
  "demo_md k = (if k = ''authorization'' then [''u1''] else [])"


end
