(* ===== verification/Span_Balance.thy ===== *)
theory Span_Balance
  imports Account_Props
begin

text \<open>
  The spans a request leaves behind: they are properly nested and every one that was started is
  ended. The use cases start one span per operation and the repositories another one inside it
  (\<^verbatim>\<open>tracing.go\<close> of the packages under \<^verbatim>\<open>src/internal/usecase\<close> and \<^verbatim>\<open>src/internal/repo\<close>).
\<close>

named_theorems emit_rules \<open>rules for computations that leave no span open\<close>

text \<open>The number of open spans after some events; \<open>None\<close> when an event has no span to belong to.\<close>

fun open_spans :: "span_event list \<Rightarrow> nat \<Rightarrow> nat option" where
  "open_spans [] n = Some n"
| "open_spans (SpanStart _ _ _ # es) n = open_spans es (Suc n)"
| "open_spans (SpanRecordError _ # es) n = (if n = 0 then None else open_spans es n)"
| "open_spans (SpanStatusError _ # es) n = (if n = 0 then None else open_spans es n)"
| "open_spans (SpanEnd # es) n = (case n of 0 \<Rightarrow> None | Suc m \<Rightarrow> open_spans es m)"

lemma open_spans_append: "open_spans (xs @ ys) n = Option.bind (open_spans xs n) (open_spans ys)"
  by (induction xs n rule: open_spans.induct) (auto split: nat.splits)

lemma open_spans_shift: "open_spans es n = Some m \<Longrightarrow> open_spans es (n + k) = Some (m + k)"
proof (induction es n rule: open_spans.induct)
  case (5 es n)
  then show ?case by (cases n) auto
qed (auto split: if_splits)

text \<open>\<open>leaves k m\<close>: whatever the world, \<open>m\<close> appends span events, and leaves \<open>k r\<close> of them open when its result is \<open>r\<close>.\<close>

definition leaves :: "('a \<Rightarrow> nat) \<Rightarrow> ('db, 'a) io \<Rightarrow> bool" where
  "leaves k m \<longleftrightarrow> (\<forall>w. \<exists>es. spans (post m w) = spans w @ es \<and> open_spans es 0 = Some (k (val m w)))"

abbreviation balanced :: "('db, 'a) io \<Rightarrow> bool" where
  "balanced \<equiv> leaves (\<lambda>_. 0)"

text \<open>A panic leaves \<open>n\<close> spans open, a return none.\<close>

definition on_panic :: "nat \<Rightarrow> 'a outcome \<Rightarrow> nat" where
  "on_panic n r = (case r of Panics _ \<Rightarrow> n | Returns _ \<Rightarrow> 0)"

lemma on_panic_simps [simp]: "on_panic n (Panics m) = n" "on_panic n (Returns x) = 0" "on_panic 0 r = 0"
  by (simp_all add: on_panic_def split: outcome.split)

lemma on_panic_0: "on_panic 0 = (\<lambda>_. 0)"
  by auto

lemma balanced_quiet: "(\<And>w. spans (post m w) = spans w) \<Longrightarrow> balanced m"
  unfolding leaves_def by (intro allI exI [of _ "[]"]) simp

lemma balanced_basic [emit_rules, intro, simp]:
  "balanced (ret x)" "balanced time_Now" "balanced uuid_New" "balanced (log_io l)" "balanced (on_db f)"
  by (auto intro!: balanced_quiet split: prod.splits)

lemma leaves_ret [emit_rules]: "k x = 0 \<Longrightarrow> leaves k (ret x)"
  by (auto simp: leaves_def)

lemma leaves_bind [emit_rules]:
  assumes "balanced m" and "\<And>x. leaves k (f x)"
  shows "leaves k (m \<bind> f)"
  unfolding leaves_def
proof
  fix w
  obtain x w1 where run: "run_state m w = (x, w1)" by (metis surj_pair)
  from assms(1) run obtain es where es: "spans w1 = spans w @ es" "open_spans es 0 = Some 0"
    unfolding leaves_def by (metis fst_conv snd_conv)
  from assms(2) obtain fs where fs: "spans (post (f x) w1) = spans w1 @ fs" "open_spans fs 0 = Some (k (val (f x) w1))"
    unfolding leaves_def by blast
  show "\<exists>es. spans (post (m \<bind> f) w) = spans w @ es \<and> open_spans es 0 = Some (k (val (m \<bind> f) w))"
    using run es fs by (intro exI [of _ "es @ fs"]) (simp add: open_spans_append)
qed

text \<open>A computation between \<open>startSpan\<close> and \<open>endSpan\<close>, and the form the listing has.\<close>

lemma spanned:
  fixes m :: "go_ctx \<Rightarrow> ('db, 'a) io"
  assumes "\<And>ctx. balanced (m ctx)"
  shows "balanced (do { ctx \<leftarrow> startSpan tr ctx name attrs; r \<leftarrow> m ctx; endSpan (e r); ret r })"
  unfolding leaves_def
proof
  fix w :: "'db world"
  let ?w = "w\<lparr>spans := spans w @ [SpanStart tr name attrs]\<rparr>"
  obtain x w1 where run: "run_state (m ctx) ?w = (x, w1)" by (metis surj_pair)
  from assms [of ctx] run obtain es where es: "spans w1 = spans ?w @ es" "open_spans es 0 = Some 0"
    unfolding leaves_def by (metis fst_conv snd_conv)
  have inner: "open_spans es (Suc 0) = Some (Suc 0)" using open_spans_shift [OF es(2), of 1] by simp
  show "\<exists>es. spans (post (do { ctx \<leftarrow> startSpan tr ctx name attrs; r \<leftarrow> m ctx; endSpan (e r); ret r }) w) = spans w @ es \<and>
      open_spans es 0 = Some 0"
    using run es inner
    by (cases "e x") (auto simp: startSpan_def endSpan_def open_spans_append)
qed

lemma spanned_outcome:
  fixes m :: "go_ctx \<Rightarrow> ('db, 'a outcome) io"
  assumes "\<And>ctx. leaves (on_panic n) (m ctx)"
  shows "leaves (on_panic (Suc n)) (do { ctx \<leftarrow> startSpan tr ctx name attrs; res \<leftarrow> m ctx;
    case res of Panics msg \<Rightarrow> ret (Panics msg) | Returns r \<Rightarrow> do { endSpan (e r); ret (Returns r) } })"
  unfolding leaves_def
proof
  fix w :: "'db world"
  let ?w = "w\<lparr>spans := spans w @ [SpanStart tr name attrs]\<rparr>"
  obtain x w1 where run: "run_state (m ctx) ?w = (x, w1)" by (metis surj_pair)
  from assms [of ctx] run obtain es where es: "spans w1 = spans ?w @ es" "open_spans es 0 = Some (on_panic n x)"
    unfolding leaves_def by (metis fst_conv snd_conv)
  have inner: "open_spans es (Suc 0) = Some (Suc (on_panic n x))" using open_spans_shift [OF es(2), of 1] by simp
  show "\<exists>es. spans (post (do { ctx \<leftarrow> startSpan tr ctx name attrs; res \<leftarrow> m ctx;
      case res of Panics msg \<Rightarrow> ret (Panics msg) | Returns r \<Rightarrow> do { endSpan (e r); ret (Returns r) } }) w) = spans w @ es \<and>
      open_spans es 0 = Some (on_panic (Suc n) (val (do { ctx \<leftarrow> startSpan tr ctx name attrs; res \<leftarrow> m ctx;
      case res of Panics msg \<Rightarrow> ret (Panics msg) | Returns r \<Rightarrow> do { endSpan (e r); ret (Returns r) } }) w))"
  proof (cases x)
    case (Panics msg)
    with run es inner show ?thesis by (simp add: startSpan_def)
  next
    case (Returns r)
    with run es inner show ?thesis by (cases "e r") (auto simp: startSpan_def endSpan_def open_spans_append)
  qed
qed

section \<open>The bare layers emit nothing of their own\<close>

lemmas branch_splits = option.split sum.split prod.split outcome.split if_split

lemma task_repo_balanced:
  "balanced (Task_Store pg ctx t)" "balanced (Task_GetByID pg ctx u i)" "balanced (Task_Update pg ctx t)"
  "balanced (Task_Delete pg ctx u i)" "balanced (Task_List pg ctx u f)"
  unfolding Task_Store_def Task_GetByID_def Task_Update_def Task_Delete_def Task_List_def Let_def
  by (auto intro!: leaves_bind split: branch_splits)

lemma user_repo_balanced:
  "balanced (User_Store pg ctx t)" "balanced (getUser pg ctx c v)"
  unfolding User_Store_def getUser_def Let_def by (auto intro!: leaves_bind split: branch_splits)

lemma translation_repo_balanced:
  "balanced (Translation_Store pg ctx u t)" "balanced (Translation_GetHistory pg ctx u)"
  unfolding Translation_Store_def Translation_GetHistory_def Let_def
  by (auto intro!: leaves_bind split: branch_splits)

lemma webapi_balanced: "balanced (TranslationWebAPI_Translate gtrans ctx t)"
  unfolding TranslationWebAPI_Translate_def by (auto intro!: leaves_bind split: branch_splits)

lemma GenerateToken_balanced [simp]: "balanced (GenerateToken lib m u)"
  unfolding GenerateToken_def generateToken_def Let_def by (auto intro!: leaves_bind split: branch_splits)

section \<open>The layers above them\<close>

lemma leaves_bind_outcome:
  assumes m: "leaves (on_panic n) m" and panic: "\<And>msg. f (Panics msg) = ret (Panics msg)"
    and go: "\<And>r. leaves (on_panic n) (f (Returns r))"
  shows "leaves (on_panic n) (m \<bind> f)"
  unfolding leaves_def
proof
  fix w
  obtain x w1 where run: "run_state m w = (x, w1)" by (metis surj_pair)
  from m run obtain es where es: "spans w1 = spans w @ es" "open_spans es 0 = Some (on_panic n x)"
    unfolding leaves_def by (metis fst_conv snd_conv)
  show "\<exists>es. spans (post (m \<bind> f) w) = spans w @ es \<and> open_spans es 0 = Some (on_panic n (val (m \<bind> f) w))"
  proof (cases x)
    case (Panics msg)
    with run es panic show ?thesis by simp
  next
    case (Returns r)
    from go obtain fs where
      "spans (post (f x) w1) = spans w1 @ fs" "open_spans fs 0 = Some (on_panic n (val (f x) w1))"
      unfolding leaves_def Returns by blast
    with run es Returns show ?thesis
      by (intro exI [of _ "es @ fs"]) (simp add: open_spans_append)
  qed
qed

text \<open>The interfaces: every operation is balanced, and a panic of the listing leaves \<open>n\<close> spans open.\<close>

definition task_repo_spans :: "nat \<Rightarrow> 'db TaskRepo \<Rightarrow> bool" where
  "task_repo_spans n r \<longleftrightarrow>
     (\<forall>ctx t. balanced (TaskRepo_Store r ctx t)) \<and> (\<forall>ctx u i. balanced (TaskRepo_GetByID r ctx u i)) \<and>
     (\<forall>ctx u f. leaves (on_panic n) (TaskRepo_List r ctx u f)) \<and>
     (\<forall>ctx t. balanced (TaskRepo_Update r ctx t)) \<and> (\<forall>ctx u i. balanced (TaskRepo_Delete r ctx u i))"

definition task_uc_spans :: "nat \<Rightarrow> 'db TaskUC \<Rightarrow> bool" where
  "task_uc_spans n r \<longleftrightarrow>
     (\<forall>ctx u a b. balanced (TaskUC_Create r ctx u a b)) \<and> (\<forall>ctx u i. balanced (TaskUC_Get r ctx u i)) \<and>
     (\<forall>ctx u st l off. leaves (on_panic n) (TaskUC_List r ctx u st l off)) \<and>
     (\<forall>ctx u i a b. balanced (TaskUC_Update r ctx u i a b)) \<and>
     (\<forall>ctx u i s. balanced (TaskUC_Transition r ctx u i s)) \<and> (\<forall>ctx u i. balanced (TaskUC_Delete r ctx u i))"

lemma task_repo_spans_pg: "task_repo_spans 0 (TaskPgRepo pg)"
  by (simp add: task_repo_spans_def TaskPgRepo_def task_repo_balanced on_panic_0)

lemma task_repo_spans_traced: "task_repo_spans n r \<Longrightarrow> task_repo_spans (Suc n) (newTracedTaskRepo r)"
  unfolding task_repo_spans_def newTracedTaskRepo_def TaskRepo.select_convs tracedRepo_Store_def
    tracedRepo_GetByID_def tracedRepo_List_def tracedRepo_Update_def tracedRepo_Delete_def Let_def
  by (intro conjI allI spanned spanned_outcome) simp_all

lemma task_uc_spans_bare:
  assumes "task_repo_spans n r"
  shows "task_uc_spans n (TaskUseCase r)"
  using assms
  unfolding task_repo_spans_def task_uc_spans_def TaskUseCase_def TaskUC.select_convs TaskUseCase_Create_def
    TaskUseCase_Get_def TaskUseCase_List_def TaskUseCase_Update_def TaskUseCase_Transition_def TaskUseCase_Delete_def Let_def
  by (intro conjI allI leaves_bind leaves_bind_outcome) (auto intro!: leaves_bind leaves_ret split: branch_splits)

lemma task_uc_spans_traced: "task_uc_spans n r \<Longrightarrow> task_uc_spans (Suc n) (newTracedTask r)"
  unfolding task_uc_spans_def newTracedTask_def TaskUC.select_convs tracedTask_Create_def tracedTask_Get_def
    tracedTask_List_def tracedTask_Update_def tracedTask_Transition_def tracedTask_Delete_def Let_def
  by (intro conjI allI spanned spanned_outcome) simp_all

lemma task_service_spans: "task_uc_spans 2 (task_service pg)"
  unfolding task_service_def NewTaskUseCase_def NewTaskRepo_def numeral_2_eq_2
  by (intro task_uc_spans_traced task_uc_spans_bare task_repo_spans_traced task_repo_spans_pg)

definition user_uc_spans :: "'db UserUC \<Rightarrow> bool" where
  "user_uc_spans r \<longleftrightarrow>
     (\<forall>ctx a b c. balanced (UserUC_Register r ctx a b c)) \<and> (\<forall>ctx a b. balanced (UserUC_Login r ctx a b)) \<and>
     (\<forall>ctx a. balanced (UserUC_GetUser r ctx a))"

lemma user_repo_spans:
  "balanced (UserRepo_Store (NewUserRepo pg) ctx x)" "balanced (UserRepo_GetByID (NewUserRepo pg) ctx i)"
  "balanced (UserRepo_GetByEmail (NewUserRepo pg) ctx i)"
  unfolding NewUserRepo_def newTracedUserRepo_def UserPgRepo_def UserRepo.select_convs tracedUserRepo_Store_def
    tracedUserRepo_GetByID_def tracedUserRepo_GetByEmail_def User_GetByID_def User_GetByEmail_def
  by (intro spanned user_repo_balanced)+

lemma user_uc_spans_bare:
  assumes "\<And>ctx x. balanced (UserRepo_Store r ctx x)" "\<And>ctx i. balanced (UserRepo_GetByID r ctx i)"
    "\<And>ctx i. balanced (UserRepo_GetByEmail r ctx i)"
  shows "user_uc_spans (UserUseCase bc lib r m)"
  unfolding user_uc_spans_def UserUseCase_def UserUC.select_convs UserUseCase_Register_def UserUseCase_Login_def
    UserUseCase_GetUser_def Let_def
  by (auto intro!: leaves_bind assms split: branch_splits)

lemma user_service_spans: "user_uc_spans (user_service bc lib m pg)"
  using user_uc_spans_bare [OF user_repo_spans, of bc lib pg m]
  unfolding user_service_def NewUserUseCase_def newTracedUser_def user_uc_spans_def UserUC.select_convs
    tracedUser_Register_def tracedUser_Login_def tracedUser_GetUser_def
  by (intro conjI allI spanned) simp_all

definition translation_uc_spans :: "'db TranslationUC \<Rightarrow> bool" where
  "translation_uc_spans r \<longleftrightarrow>
     (\<forall>ctx u t. balanced (TranslationUC_Translate r ctx u t)) \<and> (\<forall>ctx u. balanced (TranslationUC_History r ctx u))"

lemma translation_repo_spans:
  "balanced (TranslationRepo_Store (NewTranslationRepo pg) ctx u t)"
  "balanced (TranslationRepo_GetHistory (NewTranslationRepo pg) ctx u)"
  "balanced (WebAPI_Translate (NewTranslationWebAPI gtrans) ctx t)"
  unfolding NewTranslationRepo_def newTracedTranslationRepo_def TranslationPgRepo_def TranslationRepo.select_convs
    tracedTranslationRepo_Store_def tracedTranslationRepo_GetHistory_def NewTranslationWebAPI_def newTracedWebAPI_def
    GoogleWebAPI_def TranslationWebAPI.select_convs tracedTranslationWebAPI_Translate_def
  by (intro spanned translation_repo_balanced webapi_balanced)+

lemma translation_uc_spans_bare:
  assumes "\<And>ctx u t. balanced (TranslationRepo_Store r ctx u t)" "\<And>ctx u. balanced (TranslationRepo_GetHistory r ctx u)"
    "\<And>ctx t. balanced (WebAPI_Translate a ctx t)"
  shows "translation_uc_spans (TranslationUseCase r a)"
  unfolding translation_uc_spans_def TranslationUseCase_def TranslationUC.select_convs
    TranslationUseCase_Translate_def TranslationUseCase_History_def
  by (auto intro!: leaves_bind assms split: branch_splits)

lemma translation_service_spans: "translation_uc_spans (translation_service gtrans pg)"
  using translation_uc_spans_bare [OF translation_repo_spans, of pg gtrans]
  unfolding translation_service_def NewTranslationUseCase_def newTracedTranslation_def translation_uc_spans_def
    TranslationUC.select_convs tracedTranslation_Translate_def tracedTranslation_History_def
  by (intro conjI allI spanned) simp_all

text \<open>
  C29. Every span is ended, innermost first, and errors are recorded only on an open one: whatever
  the database and the libraries answer, an operation of the three services leaves no span open.
  The one exception is a listing that panics, which leaves the two spans of its layers open,
  because \<open>endSpan\<close> is called after the wrapped call and not deferred.
\<close>

theorem spans_balanced:
  "task_uc_spans 2 (task_service pg) \<and> user_uc_spans (user_service bc lib m pg) \<and>
   translation_uc_spans (translation_service gtrans pg)"
  by (simp add: task_service_spans user_service_spans translation_service_spans)

end
