(* ===== verification/Api_Docs.thy ===== *)
theory Api_Docs
  imports Rest_Router
begin

text \<open>
  The API description that the server publishes under \<^verbatim>\<open>/swagger\<close> (\<^verbatim>\<open>src/docs/docs.go\<close>): every operation
  with its parameters, responses and security, and every schema. The JSON form of what the
  handlers answer, from the tags of the response structures and entities, and what it means that
  a document conforms to a schema. Examples and the descriptions of parameters are left out.
\<close>

section \<open>Documents and schemas\<close>

datatype jdoc =
    DString string
  | DInteger int
  | DArray "jdoc list"
  | DObject "(string \<times> jdoc) list"

text \<open>\<open>SString\<close> has the bounds on the length; \<open>SStringMap\<close> is an object with any keys and strings as values.\<close>

datatype schema =
    SRef string
  | SString "nat option" "nat option"
  | SEnum "string list"
  | SInteger
  | SArray schema
  | SObject "string list" "(string \<times> schema) list"
  | SStringMap
  | SAllOf "schema list"

text \<open>
  Lengths are numbers of characters, as \<open>utf8.RuneCountInString\<close> counts them: a well-formed sequence of
  up to four bytes is one, a byte that starts none is one.
\<close>

definition byte_in :: "nat \<Rightarrow> nat \<Rightarrow> char \<Rightarrow> bool" where
  "byte_in lo hi ch \<longleftrightarrow> lo \<le> of_char ch \<and> of_char ch \<le> hi"

definition rune_size :: "string \<Rightarrow> nat" where
  "rune_size s =
     (case s of
        b0 # b1 # rest \<Rightarrow>
          if byte_in 194 223 b0 \<and> byte_in 128 191 b1 then 2
          else (case rest of
             b2 # rest' \<Rightarrow>
               if byte_in 224 239 b0 \<and> byte_in (if byte_in 224 224 b0 then 160 else 128) (if byte_in 237 237 b0 then 159 else 191) b1 \<and>
                  byte_in 128 191 b2 then 3
               else (case rest' of
                  b3 # _ \<Rightarrow>
                    if byte_in 240 244 b0 \<and> byte_in (if byte_in 240 240 b0 then 144 else 128) (if byte_in 244 244 b0 then 143 else 191) b1 \<and>
                       byte_in 128 191 b2 \<and> byte_in 128 191 b3 then 4 else 1
                | [] \<Rightarrow> 1)
           | [] \<Rightarrow> 1)
      | _ \<Rightarrow> 1)"

lemma rune_size_pos: "0 < rune_size s"
  by (auto simp: rune_size_def split: list.split)

function RuneCount :: "string \<Rightarrow> nat" where
  "RuneCount [] = 0"
| "RuneCount (b # bs) = Suc (RuneCount (drop (rune_size (b # bs)) (b # bs)))"
  by pat_completeness auto
termination
  by (relation "measure length") (simp_all add: rune_size_pos)

lemma RuneCount_le: "RuneCount s \<le> length s"
proof (induction s rule: RuneCount.induct)
  case (2 b bs)
  have "0 < rune_size (b # bs)" by (rule rune_size_pos)
  with 2 show ?case by simp
qed simp

lemma rune_size_ascii: "byte_in 0 127 b \<Longrightarrow> rune_size (b # bs) = 1"
  by (auto simp: rune_size_def byte_in_def split: list.split)

lemma RuneCount_ascii: "list_all (byte_in 0 127) s \<Longrightarrow> RuneCount s = length s"
  by (induction s) (simp_all add: rune_size_ascii)

lemma RuneCount_pos: "s \<noteq> [] \<Longrightarrow> 0 < RuneCount s"
  by (cases s) simp_all

text \<open>
  Conformance, under the named schemas. An object has the required fields and no
  field that is not documented, so that nothing leaks beside the description.
\<close>

inductive conforms :: "(string \<rightharpoonup> schema) \<Rightarrow> schema \<Rightarrow> jdoc \<Rightarrow> bool" for defs where
  conf_ref: "defs n = Some s \<Longrightarrow> conforms defs s d \<Longrightarrow> conforms defs (SRef n) d"
| conf_string: "(\<forall>n. lo = Some n \<longrightarrow> n \<le> RuneCount t) \<Longrightarrow> (\<forall>n. hi = Some n \<longrightarrow> RuneCount t \<le> n) \<Longrightarrow>
     conforms defs (SString lo hi) (DString t)"
| conf_enum: "t \<in> set ts \<Longrightarrow> conforms defs (SEnum ts) (DString t)"
| conf_integer: "conforms defs SInteger (DInteger i)"
| conf_array: "\<forall>d \<in> set ds. conforms defs s d \<Longrightarrow> conforms defs (SArray s) (DArray ds)"
| conf_object: "distinct (map fst fs) \<Longrightarrow> set (map fst fs) \<subseteq> set (map fst props) \<Longrightarrow> set req \<subseteq> set (map fst fs) \<Longrightarrow>
     \<forall>(k, d) \<in> set fs. \<exists>s. map_of props k = Some s \<and> conforms defs s d \<Longrightarrow>
     conforms defs (SObject req props) (DObject fs)"
| conf_map: "\<forall>(k, d) \<in> set fs. \<exists>t. d = DString t \<Longrightarrow> conforms defs SStringMap (DObject fs)"
| conf_all: "\<forall>s \<in> set ss. conforms defs s d \<Longrightarrow> conforms defs (SAllOf ss) d"

inductive_simps conforms_simps:
  "conforms defs (SRef n) d" "conforms defs (SString lo hi) d" "conforms defs (SEnum ts) d"
  "conforms defs SInteger d" "conforms defs (SArray s) d" "conforms defs (SObject req props) d"
  "conforms defs SStringMap d" "conforms defs (SAllOf ss) d"

section \<open>The operations\<close>

datatype location = InBody | InPath | InQuery

record parameter =
  par_Name :: string
  par_In :: location
  par_Required :: bool
  par_Default :: "int option"
  par_Schema :: schema

abbreviation body_par :: "string \<Rightarrow> parameter" where
  "body_par ref \<equiv> \<lparr>par_Name = ''request'', par_In = InBody, par_Required = True, par_Default = None, par_Schema = SRef ref\<rparr>"

abbreviation path_par :: "string \<Rightarrow> parameter" where
  "path_par name \<equiv> \<lparr>par_Name = name, par_In = InPath, par_Required = True, par_Default = None, par_Schema = SString None None\<rparr>"

abbreviation query_par :: "string \<Rightarrow> int option \<Rightarrow> schema \<Rightarrow> parameter" where
  "query_par name dflt s \<equiv> \<lparr>par_Name = name, par_In = InQuery, par_Required = False, par_Default = dflt, par_Schema = s\<rparr>"

record operation =
  op_Path :: string
  op_Method :: string
  op_Description :: string
  op_Consumes :: "string list"
  op_Produces :: "string list"
  op_Tags :: "string list"
  op_Summary :: string
  op_ID :: string
  op_Parameters :: "parameter list"
  op_Responses :: "(nat \<times> string \<times> schema option) list"
  op_Security :: "string list"

definition op_login :: operation where
  "op_login = \<lparr>
     op_Path = ''/auth/login'', op_Method = ''POST'',
     op_Description = ''Authenticate user and get JWT token'',
     op_Consumes = [''application/json'', ''text/xml'', ''application/x-www-form-urlencoded'', ''multipart/form-data''],
     op_Produces = [''application/json''],
     op_Tags = [''auth''], op_Summary = ''Login'', op_ID = ''login'',
     op_Parameters = [body_par ''v1.Login''],
     op_Responses =
       [(200, ''OK'', Some (SRef ''v1.Token'')),
        (400, ''Bad Request'', Some (SRef ''v1.Error'')),
        (401, ''Unauthorized'', Some (SRef ''v1.Error'')),
        (413, ''Request body exceeds 4 MiB'', Some SStringMap),
        (500, ''Internal Server Error'', Some (SRef ''v1.Error''))],
     op_Security = []\<rparr>"

definition op_register :: operation where
  "op_register = \<lparr>
     op_Path = ''/auth/register'', op_Method = ''POST'',
     op_Description = ''Register a new user'',
     op_Consumes = [''application/json'', ''text/xml'', ''application/x-www-form-urlencoded'', ''multipart/form-data''],
     op_Produces = [''application/json''],
     op_Tags = [''auth''], op_Summary = ''Register'', op_ID = ''register'',
     op_Parameters = [body_par ''v1.Register''],
     op_Responses =
       [(201, ''Created'', Some (SRef ''entity.User'')),
        (400, ''Bad Request'', Some (SRef ''v1.Error'')),
        (409, ''Conflict'', Some (SRef ''v1.Error'')),
        (413, ''Request body exceeds 4 MiB'', Some SStringMap),
        (500, ''Internal Server Error'', Some (SRef ''v1.Error''))],
     op_Security = []\<rparr>"

definition op_list_tasks :: operation where
  "op_list_tasks = \<lparr>
     op_Path = ''/tasks'', op_Method = ''GET'',
     op_Description = ''List tasks for the current user with optional filtering'',
     op_Consumes = [],
     op_Produces = [''application/json''],
     op_Tags = [''tasks''], op_Summary = ''List tasks'', op_ID = ''list-tasks'',
     op_Parameters = [query_par ''status'' None (SEnum [''todo'', ''in_progress'', ''done'']),
       query_par ''limit'' (Some 10) (SInteger),
       query_par ''offset'' (Some 0) (SInteger)],
     op_Responses =
       [(200, ''OK'', Some (SRef ''v1.TaskList'')),
        (401, ''Unauthorized'', Some (SRef ''v1.Error'')),
        (500, ''Internal Server Error'', Some (SRef ''v1.Error''))],
     op_Security = [''BearerAuth'']\<rparr>"

definition op_create_task :: operation where
  "op_create_task = \<lparr>
     op_Path = ''/tasks'', op_Method = ''POST'',
     op_Description = ''Create a new task for the current user'',
     op_Consumes = [''application/json'', ''text/xml'', ''application/x-www-form-urlencoded'', ''multipart/form-data''],
     op_Produces = [''application/json''],
     op_Tags = [''tasks''], op_Summary = ''Create task'', op_ID = ''create-task'',
     op_Parameters = [body_par ''v1.CreateTask''],
     op_Responses =
       [(201, ''Created'', Some (SRef ''entity.Task'')),
        (400, ''Bad Request'', Some (SRef ''v1.Error'')),
        (401, ''Unauthorized'', Some (SRef ''v1.Error'')),
        (413, ''Request body exceeds 4 MiB'', Some SStringMap),
        (500, ''Internal Server Error'', Some (SRef ''v1.Error''))],
     op_Security = [''BearerAuth'']\<rparr>"

definition op_get_task :: operation where
  "op_get_task = \<lparr>
     op_Path = ''/tasks/{id}'', op_Method = ''GET'',
     op_Description = ''Get a task by ID'',
     op_Consumes = [],
     op_Produces = [''application/json''],
     op_Tags = [''tasks''], op_Summary = ''Get task'', op_ID = ''get-task'',
     op_Parameters = [path_par ''id''],
     op_Responses =
       [(200, ''OK'', Some (SRef ''entity.Task'')),
        (401, ''Unauthorized'', Some (SRef ''v1.Error'')),
        (403, ''Forbidden'', Some (SRef ''v1.Error'')),
        (404, ''Not Found'', Some (SRef ''v1.Error'')),
        (500, ''Internal Server Error'', Some (SRef ''v1.Error''))],
     op_Security = [''BearerAuth'']\<rparr>"

definition op_update_task :: operation where
  "op_update_task = \<lparr>
     op_Path = ''/tasks/{id}'', op_Method = ''PUT'',
     op_Description = ''Update task title and description'',
     op_Consumes = [''application/json'', ''text/xml'', ''application/x-www-form-urlencoded'', ''multipart/form-data''],
     op_Produces = [''application/json''],
     op_Tags = [''tasks''], op_Summary = ''Update task'', op_ID = ''update-task'',
     op_Parameters = [path_par ''id'',
       body_par ''v1.UpdateTask''],
     op_Responses =
       [(200, ''OK'', Some (SRef ''entity.Task'')),
        (400, ''Bad Request'', Some (SRef ''v1.Error'')),
        (401, ''Unauthorized'', Some (SRef ''v1.Error'')),
        (403, ''Forbidden'', Some (SRef ''v1.Error'')),
        (404, ''Not Found'', Some (SRef ''v1.Error'')),
        (413, ''Request body exceeds 4 MiB'', Some SStringMap),
        (500, ''Internal Server Error'', Some (SRef ''v1.Error''))],
     op_Security = [''BearerAuth'']\<rparr>"

definition op_delete_task :: operation where
  "op_delete_task = \<lparr>
     op_Path = ''/tasks/{id}'', op_Method = ''DELETE'',
     op_Description = ''Delete a task by ID'',
     op_Consumes = [],
     op_Produces = [],
     op_Tags = [''tasks''], op_Summary = ''Delete task'', op_ID = ''delete-task'',
     op_Parameters = [path_par ''id''],
     op_Responses =
       [(204, ''No Content'', None),
        (401, ''Unauthorized'', Some (SRef ''v1.Error'')),
        (404, ''Not Found'', Some (SRef ''v1.Error'')),
        (500, ''Internal Server Error'', Some (SRef ''v1.Error''))],
     op_Security = [''BearerAuth'']\<rparr>"

definition op_transition_task :: operation where
  "op_transition_task = \<lparr>
     op_Path = ''/tasks/{id}/status'', op_Method = ''PATCH'',
     op_Description = ''Change task status (todo -> in_progress -> done, or in_progress -> todo)'',
     op_Consumes = [''application/json'', ''text/xml'', ''application/x-www-form-urlencoded'', ''multipart/form-data''],
     op_Produces = [''application/json''],
     op_Tags = [''tasks''], op_Summary = ''Transition task status'', op_ID = ''transition-task'',
     op_Parameters = [path_par ''id'',
       body_par ''v1.TransitionTask''],
     op_Responses =
       [(200, ''OK'', Some (SRef ''entity.Task'')),
        (400, ''Bad Request'', Some (SRef ''v1.Error'')),
        (401, ''Unauthorized'', Some (SRef ''v1.Error'')),
        (403, ''Forbidden'', Some (SRef ''v1.Error'')),
        (404, ''Not Found'', Some (SRef ''v1.Error'')),
        (413, ''Request body exceeds 4 MiB'', Some SStringMap),
        (500, ''Internal Server Error'', Some (SRef ''v1.Error''))],
     op_Security = [''BearerAuth'']\<rparr>"

definition op_do_translate :: operation where
  "op_do_translate = \<lparr>
     op_Path = ''/translation/do-translate'', op_Method = ''POST'',
     op_Description = ''Translate a text'',
     op_Consumes = [''application/json'', ''text/xml'', ''application/x-www-form-urlencoded'', ''multipart/form-data''],
     op_Produces = [''application/json''],
     op_Tags = [''translation''], op_Summary = ''Translate'', op_ID = ''do-translate'',
     op_Parameters = [body_par ''v1.Translate''],
     op_Responses =
       [(200, ''OK'', Some (SRef ''entity.Translation'')),
        (400, ''Bad Request'', Some (SRef ''v1.Error'')),
        (401, ''Unauthorized'', Some (SRef ''v1.Error'')),
        (413, ''Request body exceeds 4 MiB'', Some SStringMap),
        (500, ''Internal Server Error'', Some (SRef ''v1.Error''))],
     op_Security = [''BearerAuth'']\<rparr>"

definition op_history :: operation where
  "op_history = \<lparr>
     op_Path = ''/translation/history'', op_Method = ''GET'',
     op_Description = ''Show all translation history for current user'',
     op_Consumes = [],
     op_Produces = [''application/json''],
     op_Tags = [''translation''], op_Summary = ''Show history'', op_ID = ''history'',
     op_Parameters = [],
     op_Responses =
       [(200, ''OK'', Some (SRef ''entity.TranslationHistory'')),
        (401, ''Unauthorized'', Some (SRef ''v1.Error'')),
        (500, ''Internal Server Error'', Some (SRef ''v1.Error''))],
     op_Security = [''BearerAuth'']\<rparr>"

definition op_profile :: operation where
  "op_profile = \<lparr>
     op_Path = ''/user/profile'', op_Method = ''GET'',
     op_Description = ''Get current user profile'',
     op_Consumes = [],
     op_Produces = [''application/json''],
     op_Tags = [''user''], op_Summary = ''Get profile'', op_ID = ''profile'',
     op_Parameters = [],
     op_Responses =
       [(200, ''OK'', Some (SRef ''entity.User'')),
        (401, ''Unauthorized'', Some (SRef ''v1.Error'')),
        (404, ''Not Found'', Some (SRef ''v1.Error'')),
        (500, ''Internal Server Error'', Some (SRef ''v1.Error''))],
     op_Security = [''BearerAuth'']\<rparr>"

section \<open>The schemas\<close>

definition schema_entity_Task :: schema where
  "schema_entity_Task = SObject []
     [(''created_at'', SString None None),
      (''description'', SString None None),
      (''id'', SString None None),
      (''status'', SAllOf [SRef ''entity.TaskStatus'']),
      (''title'', SString None None),
      (''updated_at'', SString None None),
      (''user_id'', SString None None)]"

definition schema_entity_TaskStatus :: schema where
  "schema_entity_TaskStatus = SEnum [''todo'', ''in_progress'', ''done'']"

definition schema_entity_Translation :: schema where
  "schema_entity_Translation = SObject []
     [(''destination'', SString None None),
      (''original'', SString None None),
      (''source'', SString None None),
      (''translation'', SString None None)]"

definition schema_entity_TranslationHistory :: schema where
  "schema_entity_TranslationHistory = SObject []
     [(''history'', SArray (SRef ''entity.Translation''))]"

definition schema_entity_User :: schema where
  "schema_entity_User = SObject []
     [(''created_at'', SString None None),
      (''email'', SString None None),
      (''id'', SString None None),
      (''updated_at'', SString None None),
      (''username'', SString None None)]"

definition schema_v1_CreateTask :: schema where
  "schema_v1_CreateTask = SObject [''title'']
     [(''description'', SString None (Some 1000)),
      (''title'', SString None (Some 255))]"

definition schema_v1_Error :: schema where
  "schema_v1_Error = SObject []
     [(''error'', SString None None)]"

definition schema_v1_Login :: schema where
  "schema_v1_Login = SObject [''email'', ''password'']
     [(''email'', SString None None),
      (''password'', SString None None)]"

definition schema_v1_Register :: schema where
  "schema_v1_Register = SObject [''email'', ''password'', ''username'']
     [(''email'', SString None None),
      (''password'', SString (Some 6) None),
      (''username'', SString (Some 3) (Some 255))]"

definition schema_v1_TaskList :: schema where
  "schema_v1_TaskList = SObject []
     [(''tasks'', SArray (SRef ''entity.Task'')),
      (''total'', SInteger)]"

definition schema_v1_Token :: schema where
  "schema_v1_Token = SObject []
     [(''token'', SString None None)]"

definition schema_v1_TransitionTask :: schema where
  "schema_v1_TransitionTask = SObject [''status'']
     [(''status'', SAllOf [SEnum [''todo'', ''in_progress'', ''done''], SRef ''entity.TaskStatus''])]"

definition schema_v1_Translate :: schema where
  "schema_v1_Translate = SObject [''destination'', ''original'', ''source'']
     [(''destination'', SString None None),
      (''original'', SString None None),
      (''source'', SString None None)]"

definition schema_v1_UpdateTask :: schema where
  "schema_v1_UpdateTask = SObject [''title'']
     [(''description'', SString None (Some 1000)),
      (''title'', SString None (Some 255))]"

definition doc_definitions :: "(string \<times> schema) list" where
  "doc_definitions =
     [(''entity.Task'', schema_entity_Task),
      (''entity.TaskStatus'', schema_entity_TaskStatus),
      (''entity.Translation'', schema_entity_Translation),
      (''entity.TranslationHistory'', schema_entity_TranslationHistory),
      (''entity.User'', schema_entity_User),
      (''v1.CreateTask'', schema_v1_CreateTask),
      (''v1.Error'', schema_v1_Error),
      (''v1.Login'', schema_v1_Login),
      (''v1.Register'', schema_v1_Register),
      (''v1.TaskList'', schema_v1_TaskList),
      (''v1.Token'', schema_v1_Token),
      (''v1.TransitionTask'', schema_v1_TransitionTask),
      (''v1.Translate'', schema_v1_Translate),
      (''v1.UpdateTask'', schema_v1_UpdateTask)]"

definition doc_operations :: "operation list" where
  "doc_operations =
     [op_login, op_register, op_list_tasks, op_create_task, op_get_task, op_update_task,
      op_delete_task, op_transition_task, op_do_translate, op_history, op_profile]"

text \<open>\<open>SwaggerInfo\<close> and the security scheme: the base path, and the header that carries the key.\<close>

definition BasePath :: string where
  "BasePath = ''/v1''"

definition BearerAuth_header :: string where
  "BearerAuth_header = ''Authorization''"

lemmas doc_operation_defs = op_login_def op_register_def op_list_tasks_def op_create_task_def op_get_task_def
  op_update_task_def op_delete_task_def op_transition_task_def op_do_translate_def op_history_def op_profile_def

lemmas schema_defs = schema_entity_Task_def schema_entity_TaskStatus_def schema_entity_Translation_def
  schema_entity_TranslationHistory_def schema_entity_User_def schema_v1_CreateTask_def schema_v1_Error_def
  schema_v1_Login_def schema_v1_Register_def schema_v1_TaskList_def schema_v1_Token_def
  schema_v1_TransitionTask_def schema_v1_Translate_def schema_v1_UpdateTask_def

section \<open>The JSON form of the answers\<close>

text \<open>
  \<open>ctx.JSON\<close> by the tags of the structures, in the order of their fields. \<open>tj\<close> is how a \<open>time.Time\<close>
  prints in JSON, which depends on its location; the lists of the repositories are made, never nil.
\<close>

definition json_Error :: "string \<Rightarrow> jdoc" where
  "json_Error msg = DObject [(''error'', DString msg)]"

definition json_Token :: "string \<Rightarrow> jdoc" where
  "json_Token token = DObject [(''token'', DString token)]"

definition json_User :: "(int \<Rightarrow> string) \<Rightarrow> User \<Rightarrow> jdoc" where
  "json_User tj u = DObject
     [(''id'', DString (user_ID u)), (''username'', DString (user_Username u)), (''email'', DString (user_Email u)),
      (''created_at'', DString (tj (user_CreatedAt u))), (''updated_at'', DString (tj (user_UpdatedAt u)))]"

definition json_Task :: "(int \<Rightarrow> string) \<Rightarrow> Task \<Rightarrow> jdoc" where
  "json_Task tj t = DObject
     [(''id'', DString (task_ID t)), (''user_id'', DString (task_UserID t)), (''title'', DString (task_Title t)),
      (''description'', DString (task_Description t)), (''status'', DString (task_Status t)),
      (''created_at'', DString (tj (task_CreatedAt t))), (''updated_at'', DString (tj (task_UpdatedAt t)))]"

definition json_TaskList :: "(int \<Rightarrow> string) \<Rightarrow> Task list \<Rightarrow> 64 word \<Rightarrow> jdoc" where
  "json_TaskList tj tasks cnt = DObject [(''tasks'', DArray (map (json_Task tj) tasks)), (''total'', DInteger (sint cnt))]"

definition json_Translation :: "Translation \<Rightarrow> jdoc" where
  "json_Translation t = DObject
     [(''source'', DString (tr_Source t)), (''destination'', DString (tr_Destination t)),
      (''original'', DString (tr_Original t)), (''translation'', DString (tr_Translation t))]"

definition json_History :: "TranslationHistory \<Rightarrow> jdoc" where
  "json_History h = DObject [(''history'', DArray (map json_Translation (History h)))]"

fun json_doc :: "(int \<Rightarrow> string) \<Rightarrow> json \<Rightarrow> jdoc" where
  "json_doc tj (JError msg) = json_Error msg"
| "json_doc tj (JUser u) = json_User tj u"
| "json_doc tj (JToken token) = json_Token token"
| "json_doc tj (JTask t) = json_Task tj t"
| "json_doc tj (JTaskList ts cnt) = json_TaskList tj ts cnt"
| "json_doc tj (JTranslation t) = json_Translation t"
| "json_doc tj (JHistory h) = json_History h"

lemmas json_doc_defs = json_Error_def json_Token_def json_User_def json_Task_def json_TaskList_def
  json_Translation_def json_History_def

section \<open>Conformance of the answers\<close>

abbreviation doc_conforms :: "schema \<Rightarrow> jdoc \<Rightarrow> bool" where
  "doc_conforms \<equiv> conforms (map_of doc_definitions)"

text \<open>
  A response is documented for an operation: its status is listed and its body conforms to the
  schema listed with it. The framework answers the error for a body that is too large with 413 and
  an object of strings.
\<close>

fun documented :: "(int \<Rightarrow> string) \<Rightarrow> operation \<Rightarrow> response \<Rightarrow> bool" where
  "documented tj op (JSON code j) \<longleftrightarrow>
     (\<exists>desc s. (code, desc, Some s) \<in> set (op_Responses op) \<and> doc_conforms s (json_doc tj j))"
| "documented tj op (NoContent code) \<longleftrightarrow> (\<exists>desc. (code, desc, None) \<in> set (op_Responses op))"
| "documented tj op (HandlerError e) \<longleftrightarrow>
     e = ErrStatusRequestEntityTooLarge \<and> (\<exists>desc. (413, desc, Some SStringMap) \<in> set (op_Responses op))"

lemma conforms_error [simp]: "doc_conforms (SRef ''v1.Error'') (json_Error msg)"
  by (simp add: conforms_simps doc_definitions_def schema_defs json_doc_defs)

lemma conforms_token [simp]: "doc_conforms (SRef ''v1.Token'') (json_Token tok)"
  by (simp add: conforms_simps doc_definitions_def schema_defs json_doc_defs)

lemma conforms_user [simp]: "doc_conforms (SRef ''entity.User'') (json_User tj u)"
  by (simp add: conforms_simps doc_definitions_def schema_defs json_doc_defs)

lemma conforms_translation [simp]: "doc_conforms (SRef ''entity.Translation'') (json_Translation t)"
  by (simp add: conforms_simps doc_definitions_def schema_defs json_doc_defs)

lemma conforms_history [simp]: "doc_conforms (SRef ''entity.TranslationHistory'') (json_History h)"
  using conforms_translation by (simp add: conforms_simps doc_definitions_def schema_defs json_History_def)

text \<open>A task conforms exactly when its status is a known one.\<close>

lemma conforms_task [simp]: "doc_conforms (SRef ''entity.Task'') (json_Task tj t) \<longleftrightarrow> Valid (task_Status t)"
  by (simp add: conforms_simps doc_definitions_def schema_defs json_doc_defs Valid_iff TaskStatusTodo_def TaskStatusInProgress_def TaskStatusDone_def)

lemma conforms_list [simp]:
  "doc_conforms (SRef ''v1.TaskList'') (json_TaskList tj ts n) \<longleftrightarrow> (\<forall>t \<in> set ts. Valid (task_Status t))"
  using conforms_task by (simp add: conforms_simps doc_definitions_def schema_defs json_TaskList_def)

end
