(* ===== verification/Api_Conform.thy ===== *)
theory Api_Conform
  imports Api_Docs
begin

text \<open>
  The server keeps to its description (\<^verbatim>\<open>src/docs/docs.go\<close>): the documented operations are the routes,
  the ones marked as secured are those behind the middleware, every answer has a documented status
  and a body of the documented schema, and the documented constraints on requests are those that
  are validated. One answer of the listing is not documented.
\<close>

section \<open>Routes\<close>

text \<open>A path of the description in the form of the framework: \<open>{id}\<close> is \<open>:id\<close>.\<close>

fun echo_path :: "string \<Rightarrow> string" where
  "echo_path [] = []"
| "echo_path (ch # cs) =
     (if ch = CHR ''{'' then CHR '':'' # echo_path cs else if ch = CHR ''}'' then echo_path cs else ch # echo_path cs)"

definition route_of :: "operation \<Rightarrow> string \<times> string" where
  "route_of op = (op_Method op, BasePath @ echo_path (op_Path op))"

definition secured :: "operation \<Rightarrow> bool" where
  "secured op \<longleftrightarrow> ''BearerAuth'' \<in> set (op_Security op)"

lemma route_simps [simp]:
  "route_of op_login = (''POST'', ''/v1/auth/login'')" "route_of op_register = (''POST'', ''/v1/auth/register'')"
  "route_of op_list_tasks = (''GET'', ''/v1/tasks'')" "route_of op_create_task = (''POST'', ''/v1/tasks'')"
  "route_of op_get_task = (''GET'', ''/v1/tasks/:id'')" "route_of op_update_task = (''PUT'', ''/v1/tasks/:id'')"
  "route_of op_delete_task = (''DELETE'', ''/v1/tasks/:id'')"
  "route_of op_transition_task = (''PATCH'', ''/v1/tasks/:id/status'')"
  "route_of op_do_translate = (''POST'', ''/v1/translation/do-translate'')"
  "route_of op_history = (''GET'', ''/v1/translation/history'')" "route_of op_profile = (''GET'', ''/v1/user/profile'')"
  by (simp_all add: route_of_def BasePath_def doc_operation_defs)

lemma secured_simps [simp]:
  "\<not> secured op_login" "\<not> secured op_register" "secured op_list_tasks" "secured op_create_task" "secured op_get_task"
  "secured op_update_task" "secured op_delete_task" "secured op_transition_task" "secured op_do_translate"
  "secured op_history" "secured op_profile"
  by (simp_all add: secured_def doc_operation_defs)


section \<open>Answers of the handlers\<close>

text \<open>The use case returns tasks of a known status only, from the databases in \<open>ok\<close>.\<close>

locale known_tasks =
  fixes tk :: "'db TaskUC" and ok :: "'db \<Rightarrow> bool"
  assumes create_known: "ok (wdb w) \<Longrightarrow> val (TaskUC_Create tk ctx u a b) w = Inr t \<Longrightarrow> Valid (task_Status t)"
    and get_known: "ok (wdb w) \<Longrightarrow> val (TaskUC_Get tk ctx u i) w = Inr t \<Longrightarrow> Valid (task_Status t)"
    and list_known: "ok (wdb w) \<Longrightarrow> val (TaskUC_List tk ctx u st l off) w = Returns (Inr (ts, n)) \<Longrightarrow>
      t \<in> set ts \<Longrightarrow> Valid (task_Status t)"
    and update_known: "ok (wdb w) \<Longrightarrow> val (TaskUC_Update tk ctx u i a b) w = Inr t \<Longrightarrow> Valid (task_Status t)"
    and transition_known: "ok (wdb w) \<Longrightarrow> val (TaskUC_Transition tk ctx u i s) w = Inr t \<Longrightarrow> Valid (task_Status t)"

named_theorems handler_defs \<open>the handlers and what they answer with\<close>

lemmas [handler_defs] = errorResponse_def bodyErrorResponse_def case_prod_beta Let_def

lemma register_documented: "documented tj op_register (val (register r c) w)"
  by (auto simp: register_def handler_defs op_register_def split: sum.splits option.splits)

lemma login_documented: "documented tj op_login (val (login r c) w)"
  by (auto simp: login_def handler_defs op_login_def split: sum.splits option.splits)

lemma profile_documented: "documented tj op_profile (val (profile r c) w)"
  by (auto simp: profile_def handler_defs op_profile_def split: sum.splits option.splits)

lemma history_documented: "documented tj op_history (val (Rest.history r c) w)"
  by (auto simp: Rest.history_def handler_defs op_history_def split: sum.splits option.splits)

lemma doTranslate_documented: "documented tj op_do_translate (val (doTranslate r c) w)"
  by (auto simp: doTranslate_def handler_defs op_do_translate_def split: sum.splits option.splits)

lemma deleteTask_documented: "documented tj op_delete_task (val (deleteTask r c) w)"
  by (auto simp: deleteTask_def handler_defs op_delete_task_def split: option.splits)

lemma listTasks_answers:
  assumes "val (listTasks r c) w = Returns resp"
  shows "resp \<in> {JSON 401 (JError ''unauthorized''), JSON 500 (JError ''internal server error'')} \<or>
    resp = JSON 400 (JError ''invalid task status'') \<or>
    (\<exists>u st l off ts n. val (TaskUC_List (V1_tk r) (req_Context c) u st l off) w = Returns (Inr (ts, n)) \<and>
       resp = JSON 200 (JTaskList ts n))"
proof (cases "ctx_values c ''userID''")
  case (Some u)
  let ?s = "QueryParam c ''status''"
  let ?st = "if ?s \<noteq> [] then Some ?s else None"
  let ?l = "case Atoi (QueryParam c ''limit'') of None \<Rightarrow> 10 | Some n \<Rightarrow> n"
  let ?o = "case Atoi (QueryParam c ''offset'') of None \<Rightarrow> 0 | Some n \<Rightarrow> n"
  define v where "v = val (TaskUC_List (V1_tk r) (req_Context c) u ?st ?l ?o) w"
  show ?thesis
  proof (cases "?s \<noteq> [] \<and> \<not> Valid ?s")
    case False
    then have "val (listTasks r c) w = (case v of Panics m \<Rightarrow> Panics m
        | Returns (Inl err) \<Rightarrow> Returns (JSON 500 (JError ''internal server error''))
        | Returns (Inr (tasks, cnt)) \<Rightarrow> Returns (JSON 200 (JTaskList tasks cnt)))"
      unfolding listTasks_def v_def Let_def Some option.case
      by (simp only: if_False) (simp add: errorResponse_def case_prod_beta split: outcome.split sum.split)
    with assms show ?thesis
      by (auto simp: v_def split: outcome.splits sum.splits prod.splits)
  qed (use Some assms in \<open>simp add: listTasks_def errorResponse_def\<close>)
qed (use assms in \<open>simp add: listTasks_def errorResponse_def\<close>)

context known_tasks
begin

lemma createTask_documented:
  assumes "V1_tk r = tk" and "ok (wdb w)"
  shows "documented tj op_create_task (val (createTask r c) w)"
  using create_known [OF assms(2)] assms(1)
  by (auto simp: createTask_def handler_defs op_create_task_def split: sum.splits option.splits)

lemma getTask_documented:
  assumes "V1_tk r = tk" and "ok (wdb w)"
  shows "documented tj op_get_task (val (getTask r c) w)"
  using get_known [OF assms(2)] assms(1)
  by (auto simp: getTask_def handler_defs op_get_task_def split: sum.splits option.splits)

lemma updateTask_documented:
  assumes "V1_tk r = tk" and "ok (wdb w)"
  shows "documented tj op_update_task (val (updateTask r c) w)"
  using update_known [OF assms(2)] assms(1)
  by (auto simp: updateTask_def handler_defs op_update_task_def split: sum.splits option.splits)

lemma transitionTask_documented:
  assumes "V1_tk r = tk" and "ok (wdb w)"
  shows "documented tj op_transition_task (val (transitionTask r c) w)"
  using transition_known [OF assms(2)] assms(1)
  by (auto simp: transitionTask_def handler_defs op_transition_task_def split: sum.splits option.splits)

lemma listTasks_documented:
  assumes "V1_tk r = tk" and "ok (wdb w)" and "val (listTasks r c) w = Returns resp"
  shows "documented tj op_list_tasks resp \<or> resp = JSON 400 (JError ''invalid task status'')"
  using listTasks_answers [OF assms(3)]
proof (elim disjE exE conjE)
  fix u st l off ts n
  assume "val (TaskUC_List (V1_tk r) (req_Context c) u st l off) w = Returns (Inr (ts, n))"
    and "resp = JSON 200 (JTaskList ts n)"
  with list_known [OF assms(2), of "req_Context c" u st l off ts n] assms(1) show ?thesis
    by (simp add: op_list_tasks_def)
qed (auto simp: op_list_tasks_def)

end

section \<open>The service returns known statuses\<close>

context task_repo
begin

lemma uc_get_ok:
  assumes "val (TaskUseCase_Get repo ctx u i) w = Inr t" and "ok (wdb w)"
  shows "t \<in># tasks (wdb w)"
proof -
  obtain tr w1 where get: "run_state (TaskRepo_GetByID repo ctx u i) w = (tr, w1)" by fastforce
  with assms(1) have "tr = Inr t" by (auto simp: TaskUseCase_Get_def split: sum.splits)
  with get_ok [of ctx u i w t w1] get assms(2) show ?thesis by simp
qed

lemma uc_list_ok:
  assumes "val (TaskUseCase_List repo ctx u st l off) w = Returns (Inr (ts, n))" and "ok (wdb w)" and "t \<in> set ts"
  shows "t \<in># tasks (wdb w)"
proof -
  let ?flt = "\<lparr>flt_Status = st, flt_Limit = clamp_limit l, flt_Offset = clamp_offset off\<rparr>"
  obtain lr w1 where run: "run_state (TaskRepo_List repo ctx u ?flt) w = (lr, w1)" by fastforce
  with assms(1) have "lr = Returns (Inr (ts, n))"
    by (auto simp: TaskUseCase_List_def split: outcome.splits sum.splits prod.splits)
  with list_ok [of ctx u ?flt w ts n w1] run assms(2) obtain ys where
    ys: "mset ys = filter_mset (wanted uuid u st) (tasks (wdb w))" "prefix ts (cut (Some (clamp_limit l)) (Some (clamp_offset off)) ys)"
    by auto
  then have "t \<in> set ys" using assms(3) by (auto simp: cut_def dest!: set_mono_prefix in_set_takeD in_set_dropD)
  then have "t \<in># mset ys" by simp
  with ys(1) show ?thesis by simp
qed

lemma uc_update_ok:
  assumes "val (TaskUseCase_Update repo ctx u i a b) w = Inr t" and "ok (wdb w)"
  shows "\<exists>x \<in># tasks (wdb w). task_Status t = task_Status x"
proof -
  let ?w = "w\<lparr>ticks := Suc (ticks w)\<rparr>"
  obtain tr w1 where get: "run_state (TaskRepo_GetByID repo ctx u i) ?w = (tr, w1)" by fastforce
  with assms(1) obtain x where x: "tr = Inr x" "task_Status t = task_Status x"
    by (auto simp: TaskUseCase_Update_def Let_def case_prod_beta split: sum.splits option.splits)
  with get_ok [of ctx u i ?w x w1] get assms(2) show ?thesis by auto
qed

lemma uc_transition_ok:
  assumes "val (TaskUseCase_Transition repo ctx u i s) w = Inr t"
  shows "Valid (task_Status t)"
proof -
  let ?w = "w\<lparr>ticks := Suc (ticks w)\<rparr>"
  obtain tr w1 where get: "run_state (TaskRepo_GetByID repo ctx u i) ?w = (tr, w1)" by fastforce
  with assms obtain x where x: "tr = Inr x" by (auto simp: TaskUseCase_Transition_def split: sum.splits)
  show ?thesis
  proof (cases rule: Transition_cases [of x s])
    case err
    with get x assms show ?thesis by (auto simp: TaskUseCase_Transition_def)
  next
    case ok
    with get x assms show ?thesis
      by (auto simp: TaskUseCase_Transition_def Let_def case_prod_beta dest: status_step_Valid split: option.splits)
  qed
qed

lemma uc_create_ok:
  "val (TaskUseCase_Create repo ctx u a b) w = Inr t \<Longrightarrow> task_Status t = TaskStatusTodo"
  by (auto simp: TaskUseCase_Create_def Let_def case_prod_beta split: option.splits)

end

text \<open>The contract for the traced service over every database that obeys \<open>sql_db\<close> and holds known statuses.\<close>

lemma task_service_known:
  fixes pg :: "'db Postgres"
  assumes "sql_db pg tbl good uuid micro"
  shows "known_tasks (task_service pg) (\<lambda>d. good d \<and> statuses_known (db_tasks tbl d))"
proof
  note repo = sql_db.pg_task_repo [OF assms]
  note same = task_service_sims [THEN span_sim_same(1)]
  fix w :: "'db world" and ctx u t
  assume w: "good (wdb w) \<and> statuses_known (db_tasks tbl (wdb w))"
  then have good: "good (wdb w)" and known: "x \<in># db_tasks tbl (wdb w) \<Longrightarrow> Valid (task_Status x)" for x
    by (simp_all add: statuses_known_def)
  show "val (TaskUC_Create (task_service pg) ctx u a b) w = Inr t \<Longrightarrow> Valid (task_Status t)" for a b
    unfolding same using task_repo.uc_create_ok [OF repo] by fastforce
  show "val (TaskUC_Get (task_service pg) ctx u i) w = Inr t \<Longrightarrow> Valid (task_Status t)" for i
    unfolding same using task_repo.uc_get_ok [OF repo _ good] known by blast
  show "val (TaskUC_List (task_service pg) ctx u st l off) w = Returns (Inr (ts, n)) \<Longrightarrow> t \<in> set ts \<Longrightarrow> Valid (task_Status t)" for st l off ts n
    unfolding same using task_repo.uc_list_ok [OF repo _ good] known by blast
  show "val (TaskUC_Update (task_service pg) ctx u i a b) w = Inr t \<Longrightarrow> Valid (task_Status t)" for i a b
    unfolding same using task_repo.uc_update_ok [OF repo _ good] known by fastforce
  show "val (TaskUC_Transition (task_service pg) ctx u i s) w = Inr t \<Longrightarrow> Valid (task_Status t)" for i s
    unfolding same by (rule task_repo.uc_transition_ok [OF repo])
qed

interpretation mem_known: known_tasks "task_service mem_pg" "\<lambda>d. mem_ok d \<and> statuses_known (db_tasks mem_tbl d)"
  by (rule task_service_known [OF mem.sql_db_axioms])

section \<open>Answers of the routes\<close>

lemma Auth_documented:
  assumes "\<And>c w. ok (wdb w) \<Longrightarrow> val (nxt c) w = Returns resp \<Longrightarrow> documented tj op resp \<or> Q"
    and "(401, ''Unauthorized'', Some (SRef ''v1.Error'')) \<in> set (op_Responses op)"
    and "ok (wdb w)" and "val (Auth lib m nxt c) w = Returns resp"
  shows "documented tj op resp \<or> Q"
proof (cases "\<exists>tok u. bearer lib m c w tok u")
  case True
  then obtain tok u where b: "bearer lib m c w tok u" by blast
  have "val (nxt (c\<lparr>ctx_values := (ctx_values c)(''userID'' \<mapsto> u)\<rparr>)) (post (ParseToken lib m tok) w) = Returns resp"
    using Auth_accepts [OF b, of nxt] assms(4) by simp
  then show ?thesis by (rule assms(1) [rotated]) (simp add: ParseToken_frame assms(3))
next
  case False
  from Auth_refuses [OF this, of nxt] assms(4) obtain msg where "resp = JSON 401 (JError msg)" by auto
  with assms(2) conforms_error [of msg] show ?thesis by (auto simp del: conforms_error)
qed

lemma plain_documented: "val (plain h c) w = Returns resp \<Longrightarrow> resp = val (h c) w"
  by (simp add: plain_def case_prod_beta)

context known_tasks
begin

lemma next_documented:
  assumes r: "V1_tk r = tk" and op: "op \<in> set doc_operations" "secured op"
    and nxt: "map_of (protected_routes r) (route_of op) = Some nxt"
    and w: "ok (wdb w)" and run: "val (nxt c) w = Returns resp"
  shows "documented tj op resp \<or> (op = op_list_tasks \<and> resp = JSON 400 (JError ''invalid task status''))"
proof -
  note docs = createTask_documented [OF r w] getTask_documented [OF r w] updateTask_documented [OF r w]
    transitionTask_documented [OF r w] deleteTask_documented doTranslate_documented history_documented profile_documented
  consider "op = op_list_tasks" | "op = op_create_task" | "op = op_get_task" | "op = op_update_task" | "op = op_delete_task"
    | "op = op_transition_task" | "op = op_do_translate" | "op = op_history" | "op = op_profile"
    using op by (auto simp: doc_operations_def)
  then show ?thesis
    using nxt run listTasks_documented [OF r w, of c resp tj]
    by cases (auto simp: protected_routes_def docs dest!: plain_documented)
qed

lemma route_documented:
  assumes r: "V1_tk r = tk" and w: "ok (wdb w)" and op: "op \<in> set doc_operations"
    and h: "NewRoutes r lib m (route_of op) = Some h" and run: "val (h c) w = Returns resp"
  shows "documented tj op resp \<or> (op = op_list_tasks \<and> resp = JSON 400 (JError ''invalid task status''))"
proof (cases "secured op")
  case False
  with op consider "op = op_login" | "op = op_register" by (auto simp: doc_operations_def)
  then show ?thesis
    by cases (use h run in \<open>auto simp: NewRoutes_def public_routes_def login_documented register_documented
        dest!: plain_documented\<close>)
next
  case True
  have unauth: "(401, ''Unauthorized'', Some (SRef ''v1.Error'')) \<in> set (op_Responses op)"
    using op True by (auto simp: doc_operations_def op_list_tasks_def op_create_task_def op_get_task_def
        op_update_task_def op_delete_task_def op_transition_task_def op_do_translate_def op_history_def op_profile_def)
  have "map_of (public_routes r) (route_of op) = None"
    using op True by (auto simp: doc_operations_def public_routes_def)
  with h obtain nxt where nxt: "map_of (protected_routes r) (route_of op) = Some nxt" "h = Auth lib m nxt"
    by (auto simp: NewRoutes_def map_add_def map_of_map split: option.splits)
  show ?thesis
    by (rule Auth_documented [where ok = ok, OF next_documented [OF r op True nxt(1)] unauth w run [unfolded nxt(2)]])
qed

end

text \<open>
  C14. Type soundness of the API: on a database of known statuses, whatever a route answers has a
  status that the description lists for its operation and a body of the schema listed with it,
  without any field beyond it (the hash of a password is in none). The one exception is the answer
  400 of the listing to an unknown status, which the description does not have. (The wrapper that
  bounds bodies stands before the routes; its own answers are below.)
\<close>

theorem api_conforms:
  assumes "sql_db pg tbl good uuid micro" and "good (wdb w)" and "statuses_known (db_tasks tbl (wdb w))"
    and "V1_tk r = task_service pg" and "op \<in> set doc_operations" and "NewRoutes r lib m (route_of op) = Some h"
    and "val (h c) w = Returns resp"
  shows "documented tj op resp \<or> (op = op_list_tasks \<and> resp = JSON 400 (JError ''invalid task status''))"
  using assms(2-7)
  by (intro known_tasks.route_documented [OF task_service_known [OF assms(1)], of r w op lib m h c resp tj]) simp_all

lemma api_conforms_witness:
  "\<exists>resp. val (Auth demo_jwt demo_manager (plain (getTask demo_V1)) demo_echo) demo_world = Returns resp \<and>
     documented (\<lambda>_. ''2026-01-01T00:00:00Z'') op_get_task resp"
proof -
  let ?h = "Auth demo_jwt demo_manager (plain (getTask demo_V1))"
  obtain msg where msg: "val (?h demo_echo) demo_world = Returns (JSON 401 (JError msg))"
    using Auth_refuses [of demo_jwt demo_manager demo_echo demo_world "plain (getTask demo_V1)"]
    by (auto simp: bearer_def demo_echo_def Header_Get_def)
  have "documented (\<lambda>_. ''2026-01-01T00:00:00Z'') op_get_task (JSON 401 (JError msg)) \<or>
      (op_get_task = op_list_tasks \<and> JSON 401 (JError msg) = JSON 400 (JError ''invalid task status''))"
    by (rule api_conforms [OF mem.sql_db_axioms, OF demo_world_ok, of demo_V1 op_get_task demo_jwt demo_manager ?h demo_echo])
      (simp_all add: msg demo_tasks statuses_known_def doc_operations_def NewRoutes_def public_routes_def protected_routes_def,
       simp_all add: demo_task_def demo_V1_def)
  with msg show ?thesis by simp
qed

text \<open>
  The listing's 400 is not in the description: a request with a token and a status that is none of
  the three gets it, whatever is stored.
\<close>

theorem list_status_undocumented:
  assumes "ctx_values c ''userID'' = Some u" and "QueryParam c ''status'' \<noteq> []" and "\<not> Valid (QueryParam c ''status'')"
  shows "val (listTasks r c) w = Returns (JSON 400 (JError ''invalid task status'')) \<and>
    \<not> documented tj op_list_tasks (JSON 400 (JError ''invalid task status''))"
  using assms by (simp add: listTasks_def errorResponse_def op_list_tasks_def)

text \<open>
  The wrapper that bounds bodies stands before every route. What it answers itself is an error for
  the framework's handler, whose answer has the field \<open>message\<close>: for 400 the description has the
  field \<open>error\<close>, and for the operations without a body it has no 413 at all.
\<close>

lemma bodyLimit_answers:
  assumes "val (bodyLimit codecs h n wire c) w = Returns resp"
  shows "(\<exists>b. val (h (c\<lparr>req_Body := b\<rparr>)) w = Returns resp) \<or> (\<exists>e. resp = HandlerError e)"
  using assms unfolding bodyLimit_def by (auto split: if_splits sum.splits)

theorem served_conforms:
  assumes "sql_db pg tbl good uuid micro" and "good (wdb w)" and "statuses_known (db_tasks tbl (wdb w))"
    and "V1_tk r = task_service pg" and "op \<in> set doc_operations" and "NewRoutes r lib m (route_of op) = Some (route c)"
    and "val (bodyLimitRouter_Route codecs route n wire c) w = Returns resp"
  shows "documented tj op resp \<or> (op = op_list_tasks \<and> resp = JSON 400 (JError ''invalid task status'')) \<or>
    (\<exists>e. resp = HandlerError e)"
proof -
  have "documented tj op resp \<or> (op = op_list_tasks \<and> resp = JSON 400 (JError ''invalid task status''))"
    if "val (route c (c\<lparr>req_Body := b\<rparr>)) w = Returns resp" for b
    using assms(2-6) that
    by (intro known_tasks.route_documented [OF task_service_known [OF assms(1)], of r w op lib m "route c"]) simp_all
  with bodyLimit_answers [OF assms(7) [unfolded bodyLimitRouter_Route_def]] show ?thesis by blast
qed

lemma large_body_undocumented:
  assumes "int defaultBodyLimit < n"
  shows "val (bodyLimitRouter_Route codecs route n wire c) w = Returns (HandlerError ErrStatusRequestEntityTooLarge) \<and>
    \<not> documented tj op_get_task (HandlerError ErrStatusRequestEntityTooLarge)"
  using assms by (simp add: bodyLimitRouter_Route_def bodyLimit_def op_get_task_def)

end
