(* ===== verification/Api_Requests.thy ===== *)
theory Api_Requests
  imports Api_Conform
begin

text \<open>
  The constraints on requests: the validation tags of the request structures
  (\<^verbatim>\<open>src/internal/controller/restapi/v1/request\<close>) against the schemas that the API description
  (\<^verbatim>\<open>src/docs/docs.go\<close>) publishes for them. The package \<open>validator\<close> is a parameter, with
  \<open>validator_documented\<close> for the tags the structures use.
\<close>

section \<open>The tags\<close>

fun split_on :: "char \<Rightarrow> string \<Rightarrow> string list" where
  "split_on sep [] = [[]]"
| "split_on sep (ch # cs) =
     (if ch = sep then [] # split_on sep cs
      else case split_on sep cs of [] \<Rightarrow> [[ch]] | p # ps \<Rightarrow> (ch # p) # ps)"

definition tag_parts :: "string \<Rightarrow> string list" where
  "tag_parts tag = split_on CHR '','' tag"

definition argument :: "string \<Rightarrow> string \<Rightarrow> string option" where
  "argument key part = (if prefix key part then Some (drop (length key) part) else None)"

text \<open>\<open>isemail\<close> stands for the pattern that the tag \<open>email\<close> matches.\<close>

definition part_ok :: "(string \<Rightarrow> bool) \<Rightarrow> string \<Rightarrow> string \<Rightarrow> bool" where
  "part_ok isemail v part =
     (if part = ''required'' then v \<noteq> []
      else if part = ''email'' then isemail v
      else case argument ''min='' part of
        Some n \<Rightarrow> digits_value n 0 \<le> int (RuneCount v)
      | None \<Rightarrow>
          (case argument ''max='' part of
             Some n \<Rightarrow> int (RuneCount v) \<le> digits_value n 0
           | None \<Rightarrow>
               (case argument ''oneof='' part of
                  Some ws \<Rightarrow> v \<in> set (split_on CHR '' '' ws)
                | None \<Rightarrow> True)))"

definition tags_used :: "string list" where
  "tags_used = map snd (Register_tags @ Login_tags @ CreateTask_tags @ UpdateTask_tags @ TransitionTask_tags @ Translate_tags)"

text \<open>What is relied on of \<open>validator.Struct\<close>: for these tags, it accepts when every part of every tag holds.\<close>

definition validator_documented :: "(string \<Rightarrow> bool) \<Rightarrow> web \<Rightarrow> bool" where
  "validator_documented isemail web \<longleftrightarrow>
     (\<forall>fs. set (map fst fs) \<subseteq> set tags_used \<longrightarrow>
        (validate_Struct web fs = None \<longleftrightarrow> (\<forall>(tag, v) \<in> set fs. list_all (part_ok isemail v) (tag_parts tag))))"

section \<open>Validation and the schemas\<close>

text \<open>The request structures with the names of their schemas, and a bound body as a document.\<close>

definition request_structs :: "((string \<times> string) list \<times> string) list" where
  "request_structs = [(Register_tags, ''v1.Register''), (Login_tags, ''v1.Login''), (CreateTask_tags, ''v1.CreateTask''),
     (UpdateTask_tags, ''v1.UpdateTask''), (TransitionTask_tags, ''v1.TransitionTask''), (Translate_tags, ''v1.Translate'')]"

definition json_body :: "(string \<times> string) list \<Rightarrow> fields \<Rightarrow> jdoc" where
  "json_body tags body = DObject (map (\<lambda>(f, _). (f, DString (body f))) tags)"

lemmas tags_defs = Register_tags_def Login_tags_def CreateTask_tags_def UpdateTask_tags_def TransitionTask_tags_def
  Translate_tags_def

lemma parts_simps [simp]:
  "tag_parts ''required,min=3,max=255'' = [''required'', ''min=3'', ''max=255'']"
  "tag_parts ''required,email'' = [''required'', ''email'']"
  "tag_parts ''required,min=6'' = [''required'', ''min=6'']"
  "tag_parts ''required'' = [''required'']"
  "tag_parts ''required,max=255'' = [''required'', ''max=255'']"
  "tag_parts ''max=1000'' = [''max=1000'']"
  "tag_parts ''required,oneof=todo in_progress done'' = [''required'', ''oneof=todo in_progress done'']"
  by (simp_all add: tag_parts_def)

lemma part_ok_simps [simp]:
  "part_ok isemail v ''required'' \<longleftrightarrow> v \<noteq> []"
  "part_ok isemail v ''email'' \<longleftrightarrow> isemail v"
  "part_ok isemail v ''min=3'' \<longleftrightarrow> 3 \<le> RuneCount v"
  "part_ok isemail v ''min=6'' \<longleftrightarrow> 6 \<le> RuneCount v"
  "part_ok isemail v ''max=255'' \<longleftrightarrow> RuneCount v \<le> 255"
  "part_ok isemail v ''max=1000'' \<longleftrightarrow> RuneCount v \<le> 1000"
  "part_ok isemail v ''oneof=todo in_progress done'' \<longleftrightarrow> v \<in> {''todo'', ''in_progress'', ''done''}"
  by (simp_all add: part_ok_def argument_def of_char_def)

lemma Struct_accepts:
  assumes "validator_documented isemail web" and "set (map snd tags) \<subseteq> set tags_used"
  shows "Struct web tags body = None \<longleftrightarrow> (\<forall>(f, tag) \<in> set tags. list_all (part_ok isemail (body f)) (tag_parts tag))"
proof -
  let ?fs = "map (\<lambda>(name, tag). (tag, body name)) tags"
  have "set (map fst ?fs) \<subseteq> set tags_used" using assms(2) by auto
  with assms(1) have "validate_Struct web ?fs = None \<longleftrightarrow> (\<forall>(tag, v) \<in> set ?fs. list_all (part_ok isemail v) (tag_parts tag))"
    unfolding validator_documented_def by blast
  then show ?thesis unfolding Struct_def by auto
qed

definition request_ok :: "(string \<Rightarrow> bool) \<Rightarrow> (string \<times> string) list \<Rightarrow> fields \<Rightarrow> bool" where
  "request_ok isemail tags body \<longleftrightarrow>
     list_all (\<lambda>(f, tag). (''required'' \<in> set (tag_parts tag) \<longrightarrow> body f \<noteq> []) \<and>
       (''email'' \<in> set (tag_parts tag) \<longrightarrow> isemail (body f))) tags"

lemmas schema_evals = json_body_def conforms_simps doc_definitions_def schema_defs tags_defs request_ok_def

text \<open>One line per structure: what its tags check is what its schema and the two other conditions say.\<close>

definition same_constraints :: "(string \<Rightarrow> bool) \<Rightarrow> fields \<Rightarrow> (string \<times> string) list \<times> string \<Rightarrow> bool" where
  "same_constraints isemail body = (\<lambda>(tags, name).
     (\<forall>(f, tag) \<in> set tags. list_all (part_ok isemail (body f)) (tag_parts tag)) \<longleftrightarrow>
     doc_conforms (SRef name) (json_body tags body) \<and> request_ok isemail tags body)"

lemma same_constraints_each:
  "same_constraints isemail body (Register_tags, ''v1.Register'')"
  "same_constraints isemail body (Login_tags, ''v1.Login'')"
  "same_constraints isemail body (CreateTask_tags, ''v1.CreateTask'')"
  "same_constraints isemail body (UpdateTask_tags, ''v1.UpdateTask'')"
  "same_constraints isemail body (TransitionTask_tags, ''v1.TransitionTask'')"
  "same_constraints isemail body (Translate_tags, ''v1.Translate'')"
  by (auto simp: same_constraints_def schema_evals)

lemma same_constraints_all: "x \<in> set request_structs \<Longrightarrow> same_constraints isemail body x"
  unfolding request_structs_def list.set by (elim insertE emptyE) (simp_all only: same_constraints_each)

text \<open>
  C18. The server validates what it documents: a bound body passes the validation of its handler
  exactly when it conforms to the schema that the description publishes for it (lengths in
  characters, the enumerated statuses), its required fields are not empty and its e-mail is one.
\<close>

theorem validation_matches_schema:
  assumes "validator_documented isemail web" and "(tags, name) \<in> set request_structs"
  shows "Struct web tags body = None \<longleftrightarrow> doc_conforms (SRef name) (json_body tags body) \<and> request_ok isemail tags body"
proof -
  have "tags \<in> set (map fst request_structs)" using assms(2) by (force intro: rev_image_eqI)
  then have "set (map snd tags) \<subseteq> set tags_used" by (auto simp: request_structs_def tags_used_def)
  from Struct_accepts [OF assms(1) this, of body] same_constraints_all [OF assms(2), of isemail body]
  show ?thesis by (simp add: same_constraints_def)
qed

definition demo_validator :: web where
  "demo_validator = demo_web\<lparr>validate_Struct := (\<lambda>fs.
     if list_all (\<lambda>(tag, v). list_all (part_ok (\<lambda>v. CHR ''@'' \<in> set v) v) (tag_parts tag)) fs then None
     else Some (LibError ''validator'' ''invalid''))\<rparr>"

lemma demo_validator_documented: "validator_documented (\<lambda>v. CHR ''@'' \<in> set v) demo_validator"
  by (auto simp: validator_documented_def demo_validator_def list_all_iff)

lemma validation_matches_schema_witness:
  "Struct demo_validator TransitionTask_tags (\<lambda>_. ''done'') = None \<and>
   Struct demo_validator TransitionTask_tags (\<lambda>_. ''finished'') \<noteq> None"
  using validation_matches_schema [OF demo_validator_documented, of TransitionTask_tags "''v1.TransitionTask''" "\<lambda>_. ''done''"]
    validation_matches_schema [OF demo_validator_documented, of TransitionTask_tags "''v1.TransitionTask''" "\<lambda>_. ''finished''"]
  by (simp add: request_structs_def schema_evals)

section \<open>Documented requests that fail\<close>

text \<open>
  The schema of a registration has no longest password, while bcrypt takes at most 72 bytes: a
  registration that the description allows is answered with 500 and stores nothing.
\<close>

theorem long_password_fails:
  assumes "\<And>salt c. GenerateFromPassword bc salt (body ''password'') c = Inl e" and "foreign e"
    and "fst (bindBody (V1_web r) c (map fst Register_tags)) = Inr body"
    and "Struct (V1_web r) Register_tags body = None"
    and "V1_u r = user_service bc lib m pg"
  shows "val (register r c) w = JSON 500 (JError ''internal server error'') \<and> wdb (post (register r c) w) = wdb w"
proof -
  let ?m = "UserUC_Register (user_service bc lib m pg) (req_Context c) (body ''username'') (body ''email'') (body ''password'')"
  have "val ?m w = Inl (Errorf ''UserUseCase - Register - bcrypt.GenerateFromPassword: '' e)"
    unfolding span_sim_same(1) [OF user_service_sims(1)] using assms(1) by (simp add: UserUseCase_Register_def)
  moreover have "wdb (post ?m w) = wdb w"
    unfolding span_sim_same(2) [OF user_service_sims(1)] using assms(1) by (simp add: UserUseCase_Register_def)
  moreover have "\<not> errors_Is (Errorf ''UserUseCase - Register - bcrypt.GenerateFromPassword: '' e) ErrUserAlreadyExists"
    using assms(2) by (auto simp: ErrUserAlreadyExists_def dest: foreign_sentinels)
  ultimately show ?thesis
    using assms(3-5) by (simp add: register_def errorResponse_def case_prod_beta)
qed

end
