(* ===== verification/Migrations.thy ===== *)
theory Migrations
  imports Task_Repo User_Repo Translation_Repo Mem_Db
begin

text \<open>
  The database schema as the migrations build it (\<^verbatim>\<open>src/migrations\<close>): their statements as data, what
  they do to a catalogue of tables and indexes, the schema they end in, and that the constraints and
  the statements of the repositories fit it.
\<close>

section \<open>Statements and the catalogue\<close>

datatype sqltype = UUID | VARCHAR nat | TEXT | TIMESTAMP | SERIAL

record column =
  col_Name :: string
  col_Type :: sqltype
  col_NotNull :: bool
  col_Unique :: bool
  col_Default :: "string option"
  col_References :: "(string \<times> string) option"

abbreviation plain_col :: "string \<Rightarrow> sqltype \<Rightarrow> column" where
  "plain_col n t \<equiv> \<lparr>col_Name = n, col_Type = t, col_NotNull = False, col_Unique = False, col_Default = None, col_References = None\<rparr>"

abbreviation primary_key :: "column \<Rightarrow> column" where
  "primary_key c \<equiv> c\<lparr>col_NotNull := True, col_Unique := True\<rparr>"

abbreviation not_null :: "column \<Rightarrow> column" where
  "not_null c \<equiv> c\<lparr>col_NotNull := True\<rparr>"

text \<open>\<open>CREATE TABLE IF NOT EXISTS\<close>, \<open>DROP TABLE IF EXISTS\<close>, \<open>CREATE INDEX\<close>.\<close>

datatype ddl =
    CreateTable string "column list"
  | DropTable string
  | CreateIndex string string "string list"

record catalog =
  cat_Tables :: "(string \<times> column list) list"
  cat_Indexes :: "(string \<times> string \<times> string list) list"

definition empty_catalog :: catalog where
  "empty_catalog = \<lparr>cat_Tables = [], cat_Indexes = []\<rparr>"

definition refers_to :: "string \<Rightarrow> column list \<Rightarrow> bool" where
  "refers_to t cs \<longleftrightarrow> list_ex (\<lambda>c. map_option fst (col_References c) = Some t) cs"

definition has_column :: "catalog \<Rightarrow> string \<Rightarrow> string \<Rightarrow> bool" where
  "has_column cat t c = (case map_of (cat_Tables cat) t of None \<Rightarrow> False | Some cs \<Rightarrow> c \<in> set (map col_Name cs))"

text \<open>
  One statement, as PostgreSQL documents it: a table that exists is not created again, a referenced
  column has to exist, a table that another one refers to is not dropped, an index name is used once
  and its columns exist, and the indexes of a table go with it.
\<close>

fun ddl_exec :: "ddl \<Rightarrow> catalog \<Rightarrow> catalog result" where
  "ddl_exec (CreateTable t cs) cat =
     (if map_of (cat_Tables cat) t \<noteq> None then Inr cat
      else if list_all (\<lambda>c. case col_References c of None \<Rightarrow> True | Some (t', c') \<Rightarrow> has_column cat t' c') cs
      then Inr (cat\<lparr>cat_Tables := (t, cs) # cat_Tables cat\<rparr>)
      else Inl (PgError ''42P01'' ''relation does not exist''))"
| "ddl_exec (DropTable t) cat =
     (if list_ex (\<lambda>(t', cs). t' \<noteq> t \<and> refers_to t cs) (cat_Tables cat)
      then Inl (PgError ''2BP01'' ''cannot drop table because other objects depend on it'')
      else Inr (cat\<lparr>cat_Tables := filter (\<lambda>(t', _). t' \<noteq> t) (cat_Tables cat),
                    cat_Indexes := filter (\<lambda>(_, t', _). t' \<noteq> t) (cat_Indexes cat)\<rparr>))"
| "ddl_exec (CreateIndex i t cs) cat =
     (if map_of (cat_Indexes cat) i \<noteq> None then Inl (PgError ''42P07'' ''relation already exists'')
      else if list_all (has_column cat t) cs then Inr (cat\<lparr>cat_Indexes := (i, t, cs) # cat_Indexes cat\<rparr>)
      else Inl (PgError ''42703'' ''column does not exist''))"

fun ddl_run :: "ddl list \<Rightarrow> catalog \<Rightarrow> catalog result" where
  "ddl_run [] cat = Inr cat"
| "ddl_run (s # ss) cat = (case ddl_exec s cat of Inl e \<Rightarrow> Inl e | Inr cat' \<Rightarrow> ddl_run ss cat')"

section \<open>The migrations\<close>

definition history_texts :: "column list" where
  "history_texts = [plain_col ''source'' (VARCHAR 255), plain_col ''destination'' (VARCHAR 255),
     plain_col ''original'' (VARCHAR 255), plain_col ''translation'' (VARCHAR 255)]"

definition migrate_name_up :: "ddl list" where
  "migrate_name_up = [CreateTable ''history'' (primary_key (plain_col ''id'' SERIAL) # history_texts)]"

definition migrate_name_down :: "ddl list" where
  "migrate_name_down = [DropTable ''history'']"

definition timestamps :: "column list" where
  "timestamps = [not_null (plain_col ''created_at'' TIMESTAMP)\<lparr>col_Default := Some ''now()''\<rparr>,
     not_null (plain_col ''updated_at'' TIMESTAMP)\<lparr>col_Default := Some ''now()''\<rparr>]"

definition users_columns :: "column list" where
  "users_columns =
     [primary_key (plain_col ''id'' UUID),
      not_null (plain_col ''username'' (VARCHAR 255))\<lparr>col_Unique := True\<rparr>,
      not_null (plain_col ''email'' (VARCHAR 255))\<lparr>col_Unique := True\<rparr>,
      not_null (plain_col ''password_hash'' (VARCHAR 255))] @ timestamps"

definition create_users_up :: "ddl list" where
  "create_users_up = [CreateTable ''users'' users_columns]"

definition create_users_down :: "ddl list" where
  "create_users_down = [DropTable ''users'']"

definition user_reference :: column where
  "user_reference = not_null (plain_col ''user_id'' UUID)\<lparr>col_References := Some (''users'', ''id'')\<rparr>"

definition tasks_columns :: "column list" where
  "tasks_columns =
     [primary_key (plain_col ''id'' UUID), user_reference,
      not_null (plain_col ''title'' (VARCHAR 255)),
      (plain_col ''description'' TEXT)\<lparr>col_Default := Some []\<rparr>,
      not_null (plain_col ''status'' (VARCHAR 20))\<lparr>col_Default := Some ''todo''\<rparr>] @ timestamps"

definition create_tasks_up :: "ddl list" where
  "create_tasks_up =
     [CreateTable ''tasks'' tasks_columns,
      CreateIndex ''idx_tasks_user_id'' ''tasks'' [''user_id''],
      CreateIndex ''idx_tasks_user_status'' ''tasks'' [''user_id'', ''status'']]"

definition create_tasks_down :: "ddl list" where
  "create_tasks_down = [DropTable ''tasks'']"

definition history_columns :: "column list" where
  "history_columns = [primary_key (plain_col ''id'' SERIAL), user_reference] @ history_texts"

definition add_user_id_to_history_up :: "ddl list" where
  "add_user_id_to_history_up =
     [DropTable ''history'',
      CreateTable ''history'' history_columns,
      CreateIndex ''idx_history_user_id'' ''history'' [''user_id'']]"

definition add_user_id_to_history_down :: "ddl list" where
  "add_user_id_to_history_down =
     [DropTable ''history'', CreateTable ''history'' (primary_key (plain_col ''id'' SERIAL) # history_texts)]"

text \<open>The directory, in the order of the version numbers, as pairs of the two directions.\<close>

definition migrations :: "(ddl list \<times> ddl list) list" where
  "migrations = [(migrate_name_up, migrate_name_down), (create_users_up, create_users_down),
     (create_tasks_up, create_tasks_down), (add_user_id_to_history_up, add_user_id_to_history_down)]"

definition migrate_to :: "nat \<Rightarrow> catalog result" where
  "migrate_to n = ddl_run (concat (map fst (take n migrations))) empty_catalog"

definition migrated :: catalog where
  "migrated = (case migrate_to 4 of Inr cat \<Rightarrow> cat | Inl _ \<Rightarrow> empty_catalog)"

lemmas migration_defs = migrations_def migrate_name_up_def migrate_name_down_def create_users_up_def create_users_down_def
  create_tasks_up_def create_tasks_down_def add_user_id_to_history_up_def add_user_id_to_history_down_def
  empty_catalog_def refers_to_def has_column_def

lemmas column_defs = users_columns_def tasks_columns_def history_columns_def history_texts_def timestamps_def user_reference_def

text \<open>Two catalogues are the same when they have the same tables and indexes, in any order.\<close>

definition same_catalog :: "catalog \<Rightarrow> catalog \<Rightarrow> bool" where
  "same_catalog a b \<longleftrightarrow> set (cat_Tables a) = set (cat_Tables b) \<and> set (cat_Indexes a) = set (cat_Indexes b)"

definition result_holds :: "('a \<Rightarrow> bool) \<Rightarrow> 'a result \<Rightarrow> bool" where
  "result_holds P r = (case r of Inl _ \<Rightarrow> False | Inr x \<Rightarrow> P x)"

lemma migrated_eq: "migrate_to 4 = Inr migrated"
  by (simp add: migrated_def migrate_to_def migration_defs column_defs)


section \<open>The constraints of the migrated schema\<close>

text \<open>
  What a catalogue demands of the rows of its tables, widths apart. A \<open>SERIAL\<close> column is filled and
  kept unique by the server and is not in the rows of the model.
\<close>

definition cell_ok :: "column \<Rightarrow> row \<Rightarrow> bool" where
  "cell_ok c r =
     (case r (col_Name c) of
        Some (VText _) \<Rightarrow> col_Type c \<noteq> TIMESTAMP
      | Some (VTime _) \<Rightarrow> col_Type c = TIMESTAMP
      | Some VNull \<Rightarrow> \<not> col_NotNull c
      | _ \<Rightarrow> False)"

definition stored_cols :: "column list \<Rightarrow> column list" where
  "stored_cols = filter (\<lambda>c. col_Type c \<noteq> SERIAL)"

definition table_ok :: "tables \<Rightarrow> string \<times> column list \<Rightarrow> bool" where
  "table_ok T = (\<lambda>(t, cs).
     list_all (\<lambda>c. (\<forall>r \<in># T t. cell_ok c r) \<and> (col_Unique c \<longrightarrow> unique_col (col_Name c) (T t)) \<and>
       (case col_References c of None \<Rightarrow> True | Some (t', k) \<Rightarrow> references (T t) (col_Name c) (T t') k)) (stored_cols cs))"

definition catalog_ok :: "catalog \<Rightarrow> tables \<Rightarrow> bool" where
  "catalog_ok cat T \<longleftrightarrow> list_all (table_ok T) (cat_Tables cat)"

lemma cell_ok_simps:
  "col_Type c = TIMESTAMP \<Longrightarrow> col_NotNull c \<Longrightarrow> cell_ok c r \<longleftrightarrow> time_col (col_Name c) r"
  "col_Type c \<noteq> TIMESTAMP \<Longrightarrow> col_NotNull c \<Longrightarrow> cell_ok c r \<longleftrightarrow> text_col (col_Name c) r"
  "col_Type c \<noteq> TIMESTAMP \<Longrightarrow> \<not> col_NotNull c \<Longrightarrow> cell_ok c r \<longleftrightarrow> null_col (col_Name c) r"
  by (auto simp: cell_ok_def text_col_def time_col_def null_col_def split: option.splits sqlval.splits)

lemma migrated_tables:
  "cat_Tables migrated = [(''history'', history_columns), (''tasks'', tasks_columns), (''users'', users_columns)]"
  by (simp add: migrated_def migrate_to_def migration_defs column_defs)

lemmas table_evals = table_ok_def stored_cols_def column_defs cell_ok_simps

lemma tasks_table_ok:
  "table_ok T (''tasks'', tasks_columns) \<longleftrightarrow>
     (\<forall>r \<in># T ''tasks''. task_row r) \<and> unique_col ''id'' (T ''tasks'') \<and> references (T ''tasks'') ''user_id'' (T ''users'') ''id''"
  by (auto simp: table_evals task_row_def)

lemma users_table_ok:
  "table_ok T (''users'', users_columns) \<longleftrightarrow>
     (\<forall>r \<in># T ''users''. user_row r) \<and> unique_col ''id'' (T ''users'') \<and> unique_col ''username'' (T ''users'') \<and>
     unique_col ''email'' (T ''users'')"
  by (auto simp: table_evals user_row_def)

lemma history_table_ok:
  "table_ok T (''history'', history_columns) \<longleftrightarrow>
     (\<forall>r \<in># T ''history''. history_row r) \<and> references (T ''history'') ''user_id'' (T ''users'') ''id''"
  by (auto simp: table_evals history_row_def)


section \<open>The statements of the repositories\<close>

text \<open>
  A statement fits a catalogue: its table and columns exist, the values have the types of their
  columns, and an insertion gives every column that must not be null and has no default.
\<close>

fun value_fits :: "sqltype \<Rightarrow> sqlval \<Rightarrow> bool" where
  "value_fits TIMESTAMP (VTime _) = True"
| "value_fits TIMESTAMP _ = False"
| "value_fits SERIAL _ = False"
| "value_fits _ (VText _) = True"
| "value_fits _ _ = False"

definition column_of :: "catalog \<Rightarrow> string \<Rightarrow> string \<Rightarrow> column option" where
  "column_of cat t c = Option.bind (map_of (cat_Tables cat) t) (List.find (\<lambda>x. col_Name x = c))"

definition assigns :: "catalog \<Rightarrow> string \<Rightarrow> string \<times> sqlval \<Rightarrow> bool" where
  "assigns cat t = (\<lambda>(c, v). case column_of cat t c of None \<Rightarrow> False | Some col \<Rightarrow> value_fits (col_Type col) v)"

fun pred_fits :: "catalog \<Rightarrow> string \<Rightarrow> sql_pred \<Rightarrow> bool" where
  "pred_fits cat t (SqEq kvs) = list_all (assigns cat t) kvs"
| "pred_fits cat t (SqExpr c v) = assigns cat t (c, v)"

definition inserts_all :: "catalog \<Rightarrow> string \<Rightarrow> string list \<Rightarrow> bool" where
  "inserts_all cat t cs =
     (case map_of (cat_Tables cat) t of
        None \<Rightarrow> False
      | Some cols \<Rightarrow> list_all (\<lambda>c. col_NotNull c \<and> col_Default c = None \<and> col_Type c \<noteq> SERIAL \<longrightarrow> col_Name c \<in> set cs) cols)"

fun stmt_fits :: "catalog \<Rightarrow> stmt \<Rightarrow> bool" where
  "stmt_fits cat (Insert t cs vs) \<longleftrightarrow>
     length cs = length vs \<and> distinct cs \<and> list_all (assigns cat t) (zip cs vs) \<and> inserts_all cat t cs"
| "stmt_fits cat (Update t sets ps) \<longleftrightarrow> list_all (assigns cat t) sets \<and> list_all (pred_fits cat t) ps"
| "stmt_fits cat (Delete t ps) \<longleftrightarrow> map_of (cat_Tables cat) t \<noteq> None \<and> list_all (pred_fits cat t) ps"
| "stmt_fits cat (Select cs t ps ord lim off) \<longleftrightarrow>
     (cs = [''COUNT(*)''] \<or> list_all (has_column cat t) cs) \<and> list_all (pred_fits cat t) ps \<and>
     (case ord of None \<Rightarrow> True | Some c \<Rightarrow> has_column cat t c)"

text \<open>Two databases that behave alike on the statements that fit.\<close>

definition agree_on :: "(stmt \<Rightarrow> bool) \<Rightarrow> 'db Postgres \<Rightarrow> 'db Postgres \<Rightarrow> bool" where
  "agree_on P pg pg' \<longleftrightarrow>
     (\<forall>s. P s \<longrightarrow> Builder_ToSql pg s = Builder_ToSql pg' s \<and>
        (\<forall>ctx. Pool_Exec pg ctx s = Pool_Exec pg' ctx s \<and> Pool_QueryRow pg ctx s = Pool_QueryRow pg' ctx s \<and>
           Pool_Query pg ctx s = Pool_Query pg' ctx s))"

lemma agree_onD:
  assumes "agree_on P pg pg'" and "P s"
  shows "Builder_ToSql pg s = Builder_ToSql pg' s" "Pool_Exec pg ctx s = Pool_Exec pg' ctx s"
    "Pool_QueryRow pg ctx s = Pool_QueryRow pg' ctx s" "Pool_Query pg ctx s = Pool_Query pg' ctx s"
  using assms by (auto simp: agree_on_def)

lemmas fit_evals = column_of_def assigns_def inserts_all_def has_column_def migrated_tables column_defs

lemma task_statements_fit:
  "stmt_fits migrated (Insert ''tasks'' task_cols (task_vals t))"
  "stmt_fits migrated (Select task_cols ''tasks'' [SqEq [(''id'', VText i)]] None None None)"
  "stmt_fits migrated (List_count u f)" "stmt_fits migrated (List_data u f)"
  "stmt_fits migrated (Update ''tasks'' [(''title'', VText a), (''description'', VText b), (''status'', VText s), (''updated_at'', VTime n)]
     [SqEq [(''id'', VText i), (''user_id'', VText u)]])"
  "stmt_fits migrated (Delete ''tasks'' [SqEq [(''id'', VText i), (''user_id'', VText u)]])"
  by (simp_all add: fit_evals task_cols_def task_vals_def List_count_def List_data_def status_pred_def split: option.split)

lemma account_statements_fit:
  "stmt_fits migrated (Insert ''users'' user_cols (user_vals x))"
  "stmt_fits migrated (Select user_cols ''users'' [SqEq [(''id'', VText i)]] None None None)"
  "stmt_fits migrated (Select user_cols ''users'' [SqEq [(''email'', VText i)]] None None None)"
  "stmt_fits migrated (Insert ''history'' (''user_id'' # history_cols) (history_vals u tr))"
  "stmt_fits migrated (Select history_cols ''history'' [SqExpr ''user_id'' (VText u)] None None None)"
  by (simp_all add: fit_evals user_cols_def user_vals_def history_cols_def history_vals_def)



end
