(* ===== verification/Schema_Fit.thy ===== *)
theory Schema_Fit
  imports Api_Requests Migrations
begin

text \<open>
  Whether what the REST controllers accept fits the columns it is stored in: the validation tags of
  the requests against the widths of the migrated schema.
\<close>

definition text_fits :: "string \<Rightarrow> string \<Rightarrow> string \<Rightarrow> bool" where
  "text_fits t c v =
     (case column_of migrated t c of
        None \<Rightarrow> False
      | Some col \<Rightarrow> (case col_Type col of VARCHAR n \<Rightarrow> RuneCount v \<le> n | _ \<Rightarrow> True))"

lemma text_fits_simps [simp]:
  "text_fits ''tasks'' ''title'' v \<longleftrightarrow> RuneCount v \<le> 255" "text_fits ''tasks'' ''description'' v"
  "text_fits ''tasks'' ''status'' v \<longleftrightarrow> RuneCount v \<le> 20" "text_fits ''users'' ''username'' v \<longleftrightarrow> RuneCount v \<le> 255"
  "text_fits ''users'' ''email'' v \<longleftrightarrow> RuneCount v \<le> 255" "text_fits ''history'' ''original'' v \<longleftrightarrow> RuneCount v \<le> 255"
  by (simp_all add: text_fits_def column_of_def migrated_tables column_defs)

lemma status_width: "v \<in> {''todo'', ''in_progress'', ''done''} \<Longrightarrow> RuneCount v \<le> 20"
  using RuneCount_le [of v] by auto

lemma RuneCount_replicate: "RuneCount (replicate n CHR ''a'') = n"
  using RuneCount_ascii [of "replicate n CHR ''a''"] by (simp add: list_all_iff byte_in_def)

lemma tags_known:
  "set (map snd CreateTask_tags) \<subseteq> set tags_used" "set (map snd UpdateTask_tags) \<subseteq> set tags_used"
  "set (map snd TransitionTask_tags) \<subseteq> set tags_used" "set (map snd Register_tags) \<subseteq> set tags_used"
  "set (map snd Translate_tags) \<subseteq> set tags_used"
  by (auto simp: tags_used_def)

text \<open>
  C31. What validation lets through fits the columns of tasks, and the user names fit theirs; but the
  text of a translation has no bound, while its column has 255 characters, so there are requests
  that are accepted, translated and cannot be stored.
\<close>

theorem validated_requests_fit:
  assumes "validator_documented isemail web"
  shows "(\<forall>body. Struct web CreateTask_tags body = None \<longrightarrow>
      text_fits ''tasks'' ''title'' (body ''title'') \<and> text_fits ''tasks'' ''description'' (body ''description'')) \<and>
    (\<forall>body. Struct web UpdateTask_tags body = None \<longrightarrow>
      text_fits ''tasks'' ''title'' (body ''title'') \<and> text_fits ''tasks'' ''description'' (body ''description'')) \<and>
    (\<forall>body. Struct web TransitionTask_tags body = None \<longrightarrow> text_fits ''tasks'' ''status'' (body ''status'')) \<and>
    (\<forall>body. Struct web Register_tags body = None \<longrightarrow> text_fits ''users'' ''username'' (body ''username'')) \<and>
    (\<exists>body. Struct web Translate_tags body = None \<and> \<not> text_fits ''history'' ''original'' (body ''original''))"
proof -
  note accepts = tags_known [THEN Struct_accepts [OF assms]]
  have "Struct web Translate_tags (\<lambda>_. replicate 256 CHR ''a'') = None"
    unfolding accepts by (simp add: Translate_tags_def)
  moreover have "\<not> text_fits ''history'' ''original'' (replicate 256 CHR ''a'')"
    by (simp add: RuneCount_replicate)
  ultimately have "\<exists>body. Struct web Translate_tags body = None \<and> \<not> text_fits ''history'' ''original'' (body ''original'')"
    by blast
  then show ?thesis
    unfolding accepts using status_width by (intro conjI) (simp_all add: tags_defs)
qed

lemma validated_requests_fit_witness:
  "\<exists>body. Struct demo_validator Translate_tags body = None \<and> \<not> text_fits ''history'' ''original'' (body ''original'')"
  using validated_requests_fit [OF demo_validator_documented] by blast

end
