(* ===== verification/Spec2Isabelle.thy ===== *)
theory Spec2Isabelle
  imports App_Grpc Span_Balance Schema_Fit
begin

text \<open>
  A verification of the Go service under \<^verbatim>\<open>src/\<close>: users register and log in, keep tasks that move
  through a small status machine, and have texts translated, over four transports (REST, gRPC,
  RabbitMQ RPC, NATS RPC) on one PostgreSQL database.

  \<^bold>\<open>The program and its parts.\<close>
  A request enters through a controller (\<^verbatim>\<open>src/internal/controller\<close>), which authenticates it with the
  JWT manager (\<^verbatim>\<open>src/pkg/jwt\<close>), decodes and validates it and calls a use case (\<^verbatim>\<open>src/internal/usecase\<close>);
  the use case calls a repository (\<^verbatim>\<open>src/internal/repo\<close>), which builds SQL with squirrel and runs it with
  pgx. Use cases and repositories are wrapped in tracing decorators. Around this stand the servers and
  clients of the transports (\<^verbatim>\<open>src/pkg\<close>), the connection pool, the logger, and the application that
  opens, starts, stops and closes all of it (\<^verbatim>\<open>src/internal/app\<close>).

  \<^bold>\<open>How it is modelled.\<close>
  Effectful functions are state transformers on a \<open>world\<close> (database, clock, random source, log, spans;
  theory \<open>Go_Prelude\<close>), errors are values of \<open>go_error\<close> with Go's wrapping, a call that can panic has an
  \<open>outcome\<close>, 64-bit and 32-bit integers are words. Interfaces of the source are records of operations,
  so that decorators and implementations are interchangeable as in the code. Libraries are arguments:
  the database engine, golang-jwt, bcrypt, Echo and the validator, the JSON package, nats.go, the AMQP
  library, pgxpool, migrate. What is relied on of them is a named hypothesis or a locale with its
  documented laws, and each has an executable instance that discharges them.

  \<^bold>\<open>Theories.\<close>
  \<^item> \<open>Go_Prelude\<close>: errors, strings, world, spans; the relation \<open>span_sim\<close> (equal up to spans) with its rules.
  \<^item> \<open>Entity\<close> (\<^verbatim>\<open>src/internal/entity\<close>): records, sentinel errors, \<open>Transition\<close> and the status machine.
  \<^item> \<open>Sql\<close>, \<open>Mem_Db\<close>: statements, rows and constraints of the schema (\<^verbatim>\<open>src/migrations\<close>); the locale \<open>sql_db\<close> with
    the laws of an engine, and an executable engine that interprets it.
  \<^item> \<open>Task_Repo\<close>, \<open>User_Repo\<close>, \<open>Translation_Repo\<close> (\<^verbatim>\<open>src/internal/repo\<close>): implementations, decorators and
    contracts as locales, interpreted on the PostgreSQL implementations over any \<open>sql_db\<close>.
  \<^item> \<open>Jwt\<close>, \<open>Task_Usecase\<close>, \<open>User_Usecase\<close>, \<open>Translation_Usecase\<close>: the manager and the use cases with their
    decorators. \<open>Task_Spec\<close>: the abstract specification of the task service and the refinement.
  \<^item> \<open>Rest\<close>, \<open>Http_Body\<close>, \<open>Rest_Router\<close>: middleware, binding, handlers and routes of version 1, the body limit,
    the outer router. \<open>Grpc\<close>: interceptor, handlers, messages. \<open>Grpc_Service\<close> (\<^verbatim>\<open>src/docs/proto/v1/*_grpc.pb.go\<close>):
    the generated method names, handlers, service descriptions, unimplemented servers, which the controllers
    embed, and client stubs; the locale \<open>grpc_transport\<close> has the laws of the gRPC library between stub and
    handler and is interpreted on a table of the registered services. \<open>Rpc_Types\<close>, \<open>Amqp_Rpc\<close>, \<open>Nats_Rpc\<close>:
    the controllers of the two message transports.
  \<^item> \<open>Rmq_Connection\<close>, \<open>Rmq_Server\<close>, \<open>Rmq_Client\<close>, \<open>Nats_Transport\<close> (\<^verbatim>\<open>src/pkg/rabbitmq\<close>, \<^verbatim>\<open>src/pkg/nats\<close>): connecting
    with retries, the delivery loop, dispatch and reply, the table of pending calls with its concurrent
    callers as a step relation, the NATS call. The locale \<open>nats_headers\<close> is interpreted on the program's
    own carrier.
  \<^item> \<open>Lifecycle\<close>, \<open>Servers\<close>: goroutine, notify channel and shutdown as a step relation; constructors, options
    and shutdown results of the six servers and clients. The locales \<open>stoppable\<close> and \<open>reporting_server\<close>
    are interpreted on them.
  \<^item> \<open>Retry\<close>, \<open>Pg_Connect\<close>, \<open>Logger\<close>, \<open>App\<close>: the retry loop, the pool and the migrations, logging and tracing
    set-up, configuration, wiring and the run of the application.
  \<^item> \<open>Migrations\<close> (\<^verbatim>\<open>src/migrations\<close>): both directions of every migration, what they do to a catalogue, and the
    schema they end in. \<open>Api_Docs\<close> (\<^verbatim>\<open>src/docs/docs.go\<close>): the published operations and schemas, the JSON form of
    the answers, conformance of a document to a schema as an inductive predicate. The locale \<open>known_tasks\<close> is
    interpreted on the traced task service.
  \<^item> \<open>Api_Conform\<close>, \<open>Api_Requests\<close>, \<open>Schema_Fit\<close>: the routes, answers and validation tags against the description,
    and the validation tags against the widths of the columns.
  \<^item> \<open>Task_Props\<close>, \<open>Account_Props\<close>, \<open>Rest_Props\<close>, \<open>Grpc_Props\<close>, \<open>Rpc_Props\<close>, \<open>Transport_Props\<close>, \<open>App_Props\<close>,
    \<open>App_Grpc\<close>, \<open>Span_Balance\<close>: the properties that span components.

  \<^bold>\<open>What is shown.\<close>
  \<^item> Tasks: every request to the traced service over any database that obeys \<open>sql_db\<close> is a step of the
    abstract specification; users cannot touch each other's tasks; statuses follow the machine; what is
    created can be read; the page, order and count of a listing.
  \<^item> Accounts: registering, logging in and parsing the token round-trips; uniqueness; no enumeration of
    accounts; tokens are pinned to HMAC and expire.
  \<^item> Transports: authentication is exact on each of them and covers every route but the open ones; REST and
    gRPC agree; the RabbitMQ and NATS controllers are one service; a task created over REST is readable over
    RabbitMQ and through the generated gRPC client; every client stub reaches the controller's method of its name
    behind the interceptor and brings back its answer; bodies are bounded; what a remote caller gets over each message transport; replies are
    answered once and in order and are never mixed up between concurrent calls.
  \<^item> Data and documents: the migrations succeed, invert each other and declare exactly the constraints that are
    assumed of the tables; the repositories send only statements that fit that schema; the description lists the
    routes and marks the secured ones; every answer has a documented status and schema, with one exception;
    validation accepts what the published schemas say.
  \<^item> Operation: retry loops end after the configured attempts; the servers can always be shut down; the
    application starts and stops everything once and in order, or exits having started nothing.
  \<^item> Decorators change nothing but spans, and every operation ends the spans it starts (\<open>Span_Balance\<close>), unless a
    listing panics.

  \<^bold>\<open>Where the code does something else.\<close>
  Some theorems state what the code does where that is hardly meant: two interleaved transitions reopen a
  finished task; a listing reports success after a broken read, and panics on a huge limit; the RabbitMQ
  client loses a reply that comes before it has entered its call, panics on a duplicate one, and can hang
  in \<open>Shutdown\<close>; a listing answers an unknown status with 400, which is not documented; long texts and long
  passwords are accepted and then fail; the RabbitMQ server reports an encoding failure as success; the pool size is masked and
  not clamped; connecting with no attempts succeeds; the context of a logged error comes out as a
  formatting complaint.

  \<^bold>\<open>Bounds and schedules.\<close>
  No model needs fuel: loops over attempts count down a number, the delivery loops consume the list of what
  they select, and the concurrent parts are relations whose reachable states are all runs. Goroutines are
  interleaved at the points where another one can act between two effects (publish, enter, wait;
  deliver; send, close, exit). Time is a stream of readings; a timeout is a choice of the schedule.

  \<^bold>\<open>Not modelled.\<close>
  Of the generated messages (\<^verbatim>\<open>src/docs/proto/v1/*.pb.go\<close>) the reflection code and the raw descriptors, which only
  call the protobuf library; the messages are datatypes of \<open>Grpc\<close>, and matching on them stands for the accessors. The
  reflection service that the gRPC router registers is the library's. In the API description, examples and the descriptions of parameters. Vendored behaviour of libraries
  beyond the stated laws: Echo's routing of paths and its error handler, Prometheus, Swagger, zerolog's
  output, the OpenTelemetry SDK (span identity and propagation), the wire protocols. Strings are byte
  lists; lower-casing and trimming are ASCII. Tests, scripts and deployment files are left out.
\<close>

end
